(* ===== verification/Prelude.thy ===== *)
theory Prelude
  imports Complex_Main "HOL-Library.Sublist" "HOL-Library.Char_ord" "HOL-Library.List_Lexorder"
begin

text \<open>
  Shared vocabulary of the development.

  \<^item> Rust's fixed width unsigned integers are natural numbers together with their
    bounds; \<open>checked_add\<close> and \<open>sat_add\<close> are the checked and the saturating additions.
  \<^item> A \<open>BTreeMap\<close> is an association list with strictly increasing keys, a \<open>BTreeSet\<close> a
    strictly increasing list, so iteration order is the list order as in Rust.  A
    \<open>HashMap\<close> that is only accessed pointwise is a partial function.
  \<^item> \<open>finite_map_ops\<close> is the interface the components use for keyed stores, with its
    interpretation on the ordered association lists and on partial functions.
  \<^item> \<open>invariant_system\<close> is the interface of a labelled state machine with an invariant.
\<close>

named_theorems unit_defs \<open>unfolding rules of small operations\<close>
named_theorems inv_intros \<open>preservation lemmas of component invariants\<close>

section \<open>Bounded arithmetic\<close>

abbreviation u32_max :: nat where "u32_max \<equiv> 4294967295"
abbreviation u64_max :: nat where "u64_max \<equiv> 18446744073709551615"

definition checked_add :: "nat \<Rightarrow> nat \<Rightarrow> nat \<Rightarrow> nat option" where
  "checked_add mx a b = (if a + b \<le> mx then Some (a + b) else None)"

definition sat_add :: "nat \<Rightarrow> nat \<Rightarrow> nat \<Rightarrow> nat" where
  "sat_add mx a b = min mx (a + b)"

definition sat_mul :: "nat \<Rightarrow> nat \<Rightarrow> nat \<Rightarrow> nat" where
  "sat_mul mx a b = min mx (a * b)"

lemma checked_add_Some [simp]:
  "checked_add mx a b = Some c \<longleftrightarrow> c = a + b \<and> c \<le> mx"
  by (auto simp: checked_add_def)

lemma checked_add_None [simp]: "checked_add mx a b = None \<longleftrightarrow> mx < a + b"
  by (auto simp: checked_add_def)

lemma sat_add_le [simp]: "sat_add mx a b \<le> mx"
  by (simp add: sat_add_def)

lemma sat_add_mono: "a \<le> mx \<Longrightarrow> a \<le> sat_add mx a b"
  by (simp add: sat_add_def)

lemma sat_add_exact: "a + b \<le> mx \<Longrightarrow> sat_add mx a b = a + b"
  by (simp add: sat_add_def)

lemma sat_mul_le [simp]: "sat_mul mx a b \<le> mx"
  by (simp add: sat_mul_def)

section \<open>Ordered maps and sets\<close>

type_synonym ('k, 'v) btree_map = "('k \<times> 'v) list"

definition bt_inv :: "('k::linorder, 'v) btree_map \<Rightarrow> bool" where
  "bt_inv m \<longleftrightarrow> sorted_wrt (<) (map fst m)"

fun bt_insert :: "'k::linorder \<Rightarrow> 'v \<Rightarrow> ('k, 'v) btree_map \<Rightarrow> ('k, 'v) btree_map" where
  "bt_insert k v [] = [(k, v)]"
| "bt_insert k v ((k', v') # m) =
     (if k < k' then (k, v) # (k', v') # m
      else if k = k' then (k, v) # m
      else (k', v') # bt_insert k v m)"

definition bt_remove :: "'k \<Rightarrow> ('k, 'v) btree_map \<Rightarrow> ('k, 'v) btree_map" where
  "bt_remove k m = filter (\<lambda>(k', _). k' \<noteq> k) m"

abbreviation (input) bt_get :: "('k, 'v) btree_map \<Rightarrow> 'k \<Rightarrow> 'v option" where
  "bt_get \<equiv> map_of"

lemma bt_inv_Nil [simp]: "bt_inv []"
  by (simp add: bt_inv_def)

lemma bt_inv_Cons: "bt_inv ((k, v) # m) \<longleftrightarrow> (\<forall>k' \<in> fst ` set m. k < k') \<and> bt_inv m"
  by (auto simp: bt_inv_def)

lemma fst_set_bt_insert [simp]: "fst ` set (bt_insert k v m) = insert k (fst ` set m)"
  by (induction k v m rule: bt_insert.induct) auto

lemma bt_inv_insert [simp]: "bt_inv m \<Longrightarrow> bt_inv (bt_insert k v m)"
proof (induction k v m rule: bt_insert.induct)
  case (2 k v k' v' m)
  then show ?case
    by (cases "k < k'"; cases "k = k'") (auto simp: bt_inv_Cons ball_Un)
qed (simp add: bt_inv_Cons)

lemma bt_get_insert [simp]:
  "bt_inv m \<Longrightarrow> bt_get (bt_insert k v m) = (bt_get m)(k \<mapsto> v)"
proof (induction k v m rule: bt_insert.induct)
  case (2 k v k' v' m)
  then show ?case by (auto simp: bt_inv_Cons fun_upd_twist)
qed simp

lemma bt_inv_remove [simp]: "bt_inv m \<Longrightarrow> bt_inv (bt_remove k m)"
  by (induction m) (auto simp: bt_inv_Cons bt_remove_def)

lemma fst_set_bt_remove [simp]: "fst ` set (bt_remove k m) = fst ` set m - {k}"
  by (auto simp: bt_remove_def)

lemma bt_get_remove [simp]: "bt_get (bt_remove k m) = (bt_get m)(k := None)"
  by (induction m) (auto simp: bt_remove_def fun_eq_iff)

lemma dom_bt_get: "dom (bt_get m) = fst ` set m"
  by (simp add: dom_map_of_conv_image_fst)

lemma bt_get_None: "bt_get m k = None \<longleftrightarrow> k \<notin> fst ` set m"
  by (simp add: map_of_eq_None_iff)

lemma bt_inv_distinct: "bt_inv m \<Longrightarrow> distinct (map fst m)"
  by (induction m) (auto simp: bt_inv_def)

lemma bt_get_Some: "bt_inv m \<Longrightarrow> bt_get m k = Some v \<longleftrightarrow> (k, v) \<in> set m"
  by (simp add: bt_inv_distinct)

definition bs_inv :: "'a::linorder list \<Rightarrow> bool" where
  "bs_inv xs \<longleftrightarrow> sorted_wrt (<) xs"

fun bs_insert :: "'a::linorder \<Rightarrow> 'a list \<Rightarrow> 'a list" where
  "bs_insert x [] = [x]"
| "bs_insert x (y # ys) =
     (if x < y then x # y # ys else if x = y then y # ys else y # bs_insert x ys)"

definition bs_remove :: "'a \<Rightarrow> 'a list \<Rightarrow> 'a list" where
  "bs_remove x xs = filter (\<lambda>y. y \<noteq> x) xs"

lemma bs_inv_Nil [simp]: "bs_inv []"
  by (simp add: bs_inv_def)

lemma bs_inv_Cons: "bs_inv (y # ys) \<longleftrightarrow> (\<forall>x \<in> set ys. y < x) \<and> bs_inv ys"
  by (simp add: bs_inv_def)

lemma set_bs_insert [simp]: "set (bs_insert x xs) = insert x (set xs)"
  by (induction x xs rule: bs_insert.induct) auto

lemma bs_inv_insert [simp]: "bs_inv xs \<Longrightarrow> bs_inv (bs_insert x xs)"
  by (induction x xs rule: bs_insert.induct) (auto simp: bs_inv_Cons)

lemma set_bs_remove [simp]: "set (bs_remove x xs) = set xs - {x}"
  by (auto simp: bs_remove_def)

lemma bs_inv_remove [simp]: "bs_inv xs \<Longrightarrow> bs_inv (bs_remove x xs)"
  by (auto simp: bs_inv_def bs_remove_def sorted_wrt_filter)

section \<open>Iterators\<close>

text \<open>\<open>Iterator::position\<close> and removal by index as in \<open>VecDeque::remove\<close>.\<close>

fun position :: "('a \<Rightarrow> bool) \<Rightarrow> 'a list \<Rightarrow> nat option" where
  "position P [] = None"
| "position P (x # xs) = (if P x then Some 0 else map_option Suc (position P xs))"

definition remove_at :: "nat \<Rightarrow> 'a list \<Rightarrow> 'a list" where
  "remove_at i xs = take i xs @ drop (Suc i) xs"

lemma position_None [simp]: "position P xs = None \<longleftrightarrow> (\<forall>x \<in> set xs. \<not> P x)"
  by (induction xs) auto

lemma position_Some:
  "position P xs = Some i \<longleftrightarrow> i < length xs \<and> P (xs ! i) \<and> (\<forall>j < i. \<not> P (xs ! j))"
proof (induction xs arbitrary: i)
  case (Cons x xs)
  show ?case by (cases i) (auto simp: Cons.IH nth_Cons less_Suc_eq_0_disj split: nat.splits)
qed simp

lemma remove_at_split: "i < length xs \<Longrightarrow> remove_at i (xs) = take i xs @ drop (Suc i) xs
    \<and> xs = take i xs @ xs ! i # drop (Suc i) xs"
  by (simp add: remove_at_def id_take_nth_drop)

lemma length_remove_at [simp]: "i < length xs \<Longrightarrow> length (remove_at i xs) = length xs - 1"
  by (simp add: remove_at_def)

lemma set_remove_at: "set (remove_at i xs) \<subseteq> set xs"
  by (auto simp: remove_at_def dest: in_set_takeD in_set_dropD)

lemma find_SomeD: "find P xs = Some x \<Longrightarrow> P x \<and> x \<in> set xs"
  by (induction xs) (auto split: if_splits)

text \<open>Loops that accumulate a set, and loops that keep a predicate.\<close>

lemma fold_accumulates:
  assumes "\<And>x s. x \<in> set xs \<Longrightarrow> R (f x s) = R s \<union> g x"
  shows "R (fold f xs s) = R s \<union> (\<Union>x \<in> set xs. g x)"
  using assms by (induction xs arbitrary: s) auto

lemma fold_keeps:
  assumes "\<And>x s. x \<in> set xs \<Longrightarrow> P s \<Longrightarrow> P (f x s)" and "P s"
  shows "P (fold f xs s)"
  using assms by (induction xs arbitrary: s) auto

lemma fold_same:
  assumes "\<And>x s. x \<in> set xs \<Longrightarrow> p (f x s) = p s"
  shows "p (fold f xs s) = p s"
  using assms by (induction xs arbitrary: s) auto

section \<open>Interfaces\<close>

text \<open>
  A keyed store: what a lookup returns after an insertion or a removal, and that both
  keep the representation invariant.  Assembling a store from a list of bindings (later
  bindings win) is the client operation shared by the components.
\<close>

locale finite_map_ops =
  fixes empty_map :: 'm
    and get :: "'m \<Rightarrow> 'k \<Rightarrow> 'v option"
    and put :: "'k \<Rightarrow> 'v \<Rightarrow> 'm \<Rightarrow> 'm"
    and del :: "'k \<Rightarrow> 'm \<Rightarrow> 'm"
    and minv :: "'m \<Rightarrow> bool"
  assumes minv_empty: "minv empty_map"
    and get_empty: "get empty_map k = None"
    and minv_put: "minv m \<Longrightarrow> minv (put k v m)"
    and get_put: "minv m \<Longrightarrow> get (put k v m) = (get m)(k \<mapsto> v)"
    and minv_del: "minv m \<Longrightarrow> minv (del k m)"
    and get_del: "minv m \<Longrightarrow> get (del k m) = (get m)(k := None)"
begin

lemma minv_put_all: "minv m \<Longrightarrow> minv (fold (\<lambda>(k, v). put k v) kvs m)"
  by (induction kvs arbitrary: m) (auto simp: minv_put)

lemma get_put_all:
  "minv m \<Longrightarrow> get (fold (\<lambda>(k, v). put k v) kvs m) = get m ++ map_of (rev kvs)"
proof (induction kvs arbitrary: m)
  case (Cons kv kvs)
  then show ?case
    by (cases kv) (auto simp: minv_put get_put map_add_def fun_eq_iff split: option.splits)
qed simp

lemma get_del_all:
  "minv m \<Longrightarrow> get (fold del ks m) = (get m) |` (- set ks)"
proof (induction ks arbitrary: m)
  case (Cons k ks)
  then show ?case
    by (auto simp: minv_del get_del restrict_map_def fun_eq_iff)
qed (simp add: restrict_map_def)

lemma get_put_del: "minv m \<Longrightarrow> get (del k (put k v m)) = (get m)(k := None)"
  by (simp add: minv_put get_del get_put)

end

interpretation btmap: finite_map_ops "[]" bt_get bt_insert bt_remove bt_inv
  by unfold_locales auto

interpretation hmap: finite_map_ops Map.empty "\<lambda>m. m" "\<lambda>k v m. m(k \<mapsto> v)"
  "\<lambda>k m. m(k := None)" "\<lambda>_. True"
  by unfold_locales auto

text \<open>A state machine with an invariant: every state reachable by steps satisfies it.\<close>

locale invariant_system =
  fixes initial :: "'s \<Rightarrow> bool"
    and trans :: "'s \<Rightarrow> 's \<Rightarrow> bool"
    and sinv :: "'s \<Rightarrow> bool"
  assumes sinv_initial: "initial s \<Longrightarrow> sinv s"
    and sinv_trans: "sinv s \<Longrightarrow> trans s t \<Longrightarrow> sinv t"
begin

lemma sinv_steps: "trans\<^sup>*\<^sup>* s t \<Longrightarrow> sinv s \<Longrightarrow> sinv t"
  by (induction rule: rtranclp_induct) (auto intro: sinv_trans)

lemma sinv_reachable: "initial s \<Longrightarrow> trans\<^sup>*\<^sup>* s t \<Longrightarrow> sinv t"
  using sinv_steps sinv_initial by blast

end

end
