(* ===== verification/Units.thy ===== *)
theory Units
  imports Prelude
begin

text \<open>
  The unit lifecycle states of \<open>src/src/unit/mod.rs\<close> and their printed names.
\<close>

datatype unit_state =
  Inactive | Activating | Active | Deactivating | Failed | Maintenance

fun unit_state_display :: "unit_state \<Rightarrow> string" where
  "unit_state_display Inactive = ''inactive''"
| "unit_state_display Activating = ''activating''"
| "unit_state_display Active = ''active''"
| "unit_state_display Deactivating = ''deactivating''"
| "unit_state_display Failed = ''failed''"
| "unit_state_display Maintenance = ''maintenance''"

text \<open>A unit is settled when no operation on it is in flight.\<close>

definition settled :: "unit_state \<Rightarrow> bool" where
  "settled s \<longleftrightarrow> s \<notin> {Activating, Deactivating}"

lemma settled_iff [simp]:
  "settled Inactive" "settled Active" "settled Failed" "settled Maintenance"
  "\<not> settled Activating" "\<not> settled Deactivating"
  by (simp_all add: settled_def)

lemma unit_state_display_inj: "inj unit_state_display"
proof (rule injI)
  fix a b show "unit_state_display a = unit_state_display b \<Longrightarrow> a = b"
    by (cases a; cases b) simp_all
qed

end
