(* ===== verification/Job.thy ===== *)
theory Job
  imports Units
begin

text \<open>
  The job queue and the live job registry of \<open>src/src/job.rs\<close>.

  \<open>job_registry\<close> is the content of \<open>JobRegistryInner\<close>; every public operation of
  \<open>JobRegistry\<close> takes the lock once, so an operation is one function on the record.
  \<open>allocate\<close> returns \<open>None\<close> where the code panics because the identifier space is
  exhausted.  \<open>job_queue\<close> is \<open>JobQueue\<close>.  Scores of \<open>pop_ready_by\<close> are the values of an
  \<open>f64\<close>: a finite number, an infinity or NaN; the scoring closure threads its state.

  The lemmas show the registry invariant and its preservation, the exact ordering graph
  that \<open>refresh_ordering\<close> builds and that it is acyclic when \<open>After=\<close> is, that the queue
  only hands out jobs whose predecessors are gone and always hands one out when it can,
  and that the event stream of every job is well formed.
\<close>

section \<open>Data\<close>

datatype job_kind = Nop | Start | Stop | Reload | Restart | Isolate

fun job_kind_as_str :: "job_kind \<Rightarrow> string" where
  "job_kind_as_str Nop = ''nop''"
| "job_kind_as_str Start = ''start''"
| "job_kind_as_str Isolate = ''start''"
| "job_kind_as_str Stop = ''stop''"
| "job_kind_as_str Reload = ''reload''"
| "job_kind_as_str Restart = ''restart''"

datatype job_state = Waiting | Running

fun job_state_as_str :: "job_state \<Rightarrow> string" where
  "job_state_as_str Waiting = ''waiting''"
| "job_state_as_str Running = ''running''"

datatype job_result =
  JR_Done | JR_Canceled | JR_Timeout | JR_Failed | JR_Dependency | JR_Skipped
| JR_Invalid | JR_Frozen | JR_Concurrency

fun job_result_as_str :: "job_result \<Rightarrow> string" where
  "job_result_as_str JR_Done = ''done''"
| "job_result_as_str JR_Canceled = ''canceled''"
| "job_result_as_str JR_Timeout = ''timeout''"
| "job_result_as_str JR_Failed = ''failed''"
| "job_result_as_str JR_Dependency = ''dependency''"
| "job_result_as_str JR_Skipped = ''skipped''"
| "job_result_as_str JR_Invalid = ''invalid''"
| "job_result_as_str JR_Frozen = ''frozen''"
| "job_result_as_str JR_Concurrency = ''concurrency''"

definition increments_failed_counter :: "job_result \<Rightarrow> bool" where
  "increments_failed_counter r \<longleftrightarrow> r \<in> {JR_Failed, JR_Invalid, JR_Frozen, JR_Concurrency}"

record job =
  job_id :: nat
  job_kind :: job_kind
  job_unit :: string

record job_info =
  ji_id :: nat
  ji_kind :: job_kind
  ji_unit :: string
  ji_state :: job_state

datatype job_event =
  JE_New job_info | JE_StateChanged job_info | JE_Removed job_info job_result

record job_registry =
  next_id :: nat
  n_installed :: nat
  n_failed :: nat
  live :: "(nat, job_info) btree_map"
  owners :: "nat \<rightharpoonup> string list"
  before :: "nat \<rightharpoonup> nat list"
  after :: "nat \<rightharpoonup> nat list"
  events :: "job_event list"

definition registry_default :: job_registry where
  "registry_default = \<lparr> next_id = 1, n_installed = 0, n_failed = 0, live = [],
     owners = Map.empty, before = Map.empty, after = Map.empty, events = [] \<rparr>"

section \<open>Registry operations\<close>

text \<open>\<open>map.entry(k).or_default().insert(x)\<close> on a map of ordered sets.\<close>

definition entry_insert ::
  "'k \<Rightarrow> 'a::linorder \<Rightarrow> ('k \<rightharpoonup> 'a list) \<Rightarrow> ('k \<rightharpoonup> 'a list)" where
  "entry_insert k x m = m(k \<mapsto> bs_insert x (case m k of None \<Rightarrow> [] | Some xs \<Rightarrow> xs))"

definition allocate ::
  "job_kind \<Rightarrow> string \<Rightarrow> string option \<Rightarrow> job_registry \<Rightarrow> (job \<times> job_registry) option" where
  "allocate kind unit_name owner r =
     (let jid = next_id r in
      case checked_add u32_max (next_id r) 1 of
        None \<Rightarrow> None
      | Some n \<Rightarrow>
          (let info = \<lparr> ji_id = jid, ji_kind = kind, ji_unit = unit_name, ji_state = Waiting \<rparr>;
               ow = (case owner of
                       None \<Rightarrow> owners r
                     | Some o' \<Rightarrow> if o' = [] then owners r else entry_insert jid o' (owners r))
           in Some (\<lparr> job_id = jid, job_kind = kind, job_unit = unit_name \<rparr>,
                r\<lparr> next_id := n,
                   live := bt_insert jid info (live r),
                   n_installed := sat_add u32_max (n_installed r) 1,
                   owners := ow,
                   events := events r @ [JE_New info] \<rparr>)))"

definition registry_get :: "job_registry \<Rightarrow> nat \<Rightarrow> job_info option" where
  "registry_get r jid = bt_get (live r) jid"

definition registry_list :: "job_registry \<Rightarrow> job_info list" where
  "registry_list r = map snd (live r)"

definition registry_is_empty :: "job_registry \<Rightarrow> bool" where
  "registry_is_empty r \<longleftrightarrow> live r = []"

definition for_unit :: "job_registry \<Rightarrow> string \<Rightarrow> job_info option" where
  "for_unit r unit_name = find (\<lambda>j. ji_unit j = unit_name) (map snd (live r))"

definition is_live :: "job_registry \<Rightarrow> nat \<Rightarrow> bool" where
  "is_live r jid \<longleftrightarrow> bt_get (live r) jid \<noteq> None"

definition is_owner :: "job_registry \<Rightarrow> nat \<Rightarrow> string \<Rightarrow> bool" where
  "is_owner r jid sender =
     (case owners r jid of None \<Rightarrow> False | Some os \<Rightarrow> sender \<in> set os)"

definition get_before :: "job_registry \<Rightarrow> nat \<Rightarrow> job_info list" where
  "get_before r jid =
     (case before r jid of None \<Rightarrow> [] | Some ids \<Rightarrow> List.map_filter (bt_get (live r)) ids)"

definition get_after :: "job_registry \<Rightarrow> nat \<Rightarrow> job_info list" where
  "get_after r jid =
     (case after r jid of None \<Rightarrow> [] | Some ids \<Rightarrow> List.map_filter (bt_get (live r)) ids)"

definition orders_as_stop :: "job_kind \<Rightarrow> bool" where
  "orders_as_stop kind \<longleftrightarrow> kind \<in> {Stop, Restart}"

text \<open>The body of the innermost loop of \<open>refresh_ordering\<close>.\<close>

definition order_pair :: "job_info \<Rightarrow> job_info \<Rightarrow> job_registry \<Rightarrow> job_registry" where
  "order_pair job other r =
     (if ji_id job = ji_id other then r
      else if orders_as_stop (ji_kind job) then
        r\<lparr> before := entry_insert (ji_id other) (ji_id job) (before r),
           after := entry_insert (ji_id job) (ji_id other) (after r) \<rparr>
      else
        r\<lparr> before := entry_insert (ji_id job) (ji_id other) (before r),
           after := entry_insert (ji_id other) (ji_id job) (after r) \<rparr>)"

definition order_job ::
  "(string \<rightharpoonup> string list) \<Rightarrow> job_info list \<Rightarrow> job_info \<Rightarrow> job_registry \<Rightarrow> job_registry" where
  "order_job afters jobs job r =
     (case afters (ji_unit job) of
        None \<Rightarrow> r
      | Some dependencies \<Rightarrow>
          fold (\<lambda>dependency r.
                  fold (order_pair job) (filter (\<lambda>other. ji_unit other = dependency) jobs) r)
            dependencies r)"

definition refresh_ordering ::
  "(string \<rightharpoonup> string list) \<Rightarrow> job_registry \<Rightarrow> job_registry" where
  "refresh_ordering afters r =
     (let jobs = registry_list r
      in fold (order_job afters jobs) jobs (r\<lparr> before := Map.empty, after := Map.empty \<rparr>))"

definition mark_running :: "nat \<Rightarrow> job_registry \<Rightarrow> bool \<times> job_registry" where
  "mark_running jid r =
     (case bt_get (live r) jid of
        None \<Rightarrow> (False, r)
      | Some job \<Rightarrow>
          if ji_state job = Running then (True, r)
          else
            (let changed = job\<lparr> ji_state := Running \<rparr>
             in (True, r\<lparr> live := bt_insert jid changed (live r),
                         events := events r @ [JE_StateChanged changed] \<rparr>)))"

text \<open>
  \<open>values_mut\<close> followed by \<open>retain\<close>: drop \<open>id\<close> from every set, then drop empty sets.
\<close>

definition drop_everywhere :: "nat \<Rightarrow> (nat \<rightharpoonup> nat list) \<Rightarrow> (nat \<rightharpoonup> nat list)" where
  "drop_everywhere jid m =
     (\<lambda>k. case m k of
            None \<Rightarrow> None
          | Some ids \<Rightarrow> (let ids' = bs_remove jid ids in if ids' = [] then None else Some ids'))"

definition finish ::
  "nat \<Rightarrow> job_result \<Rightarrow> job_registry \<Rightarrow> job_info option \<times> job_registry" where
  "finish jid result r =
     (case bt_get (live r) jid of
        None \<Rightarrow> (None, r)
      | Some job \<Rightarrow>
          (Some job,
           r\<lparr> live := bt_remove jid (live r),
              n_failed := (if increments_failed_counter result
                           then sat_add u32_max (n_failed r) 1 else n_failed r),
              owners := (owners r)(jid := None),
              before := drop_everywhere jid ((before r)(jid := None)),
              after := drop_everywhere jid ((after r)(jid := None)),
              events := events r @ [JE_Removed job result] \<rparr>))"

definition drain_events :: "job_registry \<Rightarrow> job_event list \<times> job_registry" where
  "drain_events r = (events r, r\<lparr> events := [] \<rparr>)"

section \<open>Queue operations\<close>

record job_queue =
  registry :: job_registry
  pending :: "job list"

definition with_registry :: "job_registry \<Rightarrow> job_queue" where
  "with_registry r = \<lparr> registry = r, pending = [] \<rparr>"

definition enqueue_owned ::
  "job_kind \<Rightarrow> string \<Rightarrow> string option \<Rightarrow> job_queue \<Rightarrow> (job \<times> job_queue) option" where
  "enqueue_owned kind unit_name owner q =
     (case allocate kind unit_name owner (registry q) of
        None \<Rightarrow> None
      | Some (job, r) \<Rightarrow> Some (job, q\<lparr> registry := r, pending := pending q @ [job] \<rparr>))"

definition enqueue :: "job_kind \<Rightarrow> string \<Rightarrow> job_queue \<Rightarrow> (job \<times> job_queue) option" where
  "enqueue kind unit_name q = enqueue_owned kind unit_name None q"

definition enqueue_internal :: "job_kind \<Rightarrow> string \<Rightarrow> job_queue \<Rightarrow> job_queue" where
  "enqueue_internal kind unit_name q =
     q\<lparr> pending := pending q @ [\<lparr> job_id = 0, job_kind = kind, job_unit = unit_name \<rparr>] \<rparr>"

definition job_kept :: "job_registry \<Rightarrow> job \<Rightarrow> bool" where
  "job_kept r j \<longleftrightarrow> job_id j = 0 \<or> is_live r (job_id j)"

definition push_existing :: "job \<Rightarrow> job_queue \<Rightarrow> job_queue" where
  "push_existing j q =
     (if job_kept (registry q) j then q\<lparr> pending := pending q @ [j] \<rparr> else q)"

fun pop_front_list :: "job_registry \<Rightarrow> job list \<Rightarrow> job option \<times> job list" where
  "pop_front_list r [] = (None, [])"
| "pop_front_list r (j # js) = (if job_kept r j then (Some j, js) else pop_front_list r js)"

definition pop_front :: "job_queue \<Rightarrow> job option \<times> job_queue" where
  "pop_front q =
     (let (res, js) = pop_front_list (registry q) (pending q)
      in (res, q\<lparr> pending := js \<rparr>))"

definition queue_refresh_ordering ::
  "(string \<rightharpoonup> string list) \<Rightarrow> job_queue \<Rightarrow> job_queue" where
  "queue_refresh_ordering afters q = q\<lparr> registry := refresh_ordering afters (registry q) \<rparr>"

definition job_is_ready ::
  "job \<Rightarrow> (string \<rightharpoonup> unit_state) \<Rightarrow> (string \<rightharpoonup> string list) \<Rightarrow> bool" where
  "job_is_ready j states afters =
     (if job_kind j \<noteq> Start then True
      else
        (let deps = (case afters (job_unit j) of None \<Rightarrow> [] | Some ds \<Rightarrow> ds)
         in list_all (\<lambda>dep. case states dep of
                             None \<Rightarrow> True
                           | Some st \<Rightarrow> st \<in> {Active, Inactive, Failed, Maintenance}) deps))"

definition runnable ::
  "job_registry \<Rightarrow> (string \<rightharpoonup> unit_state) \<Rightarrow> (string \<rightharpoonup> string list) \<Rightarrow> job \<Rightarrow> bool" where
  "runnable r states afters j \<longleftrightarrow>
     (job_id j = 0 \<or> get_before r (job_id j) = []) \<and> job_is_ready j states afters"

definition pop_ready ::
  "(string \<rightharpoonup> unit_state) \<Rightarrow> (string \<rightharpoonup> string list) \<Rightarrow> job_queue \<Rightarrow> job option \<times> job_queue" where
  "pop_ready states afters q =
     (let kept = filter (job_kept (registry q)) (pending q)
      in case position (runnable (registry q) states afters) kept of
           None \<Rightarrow> (None, q\<lparr> pending := kept \<rparr>)
         | Some pos \<Rightarrow> (Some (kept ! pos), q\<lparr> pending := remove_at pos kept \<rparr>))"

datatype f64 = Finite rat | PosInf | NegInf | NaN

fun f64_gt :: "f64 \<Rightarrow> f64 \<Rightarrow> bool" where
  "f64_gt NaN _ = False"
| "f64_gt _ NaN = False"
| "f64_gt (Finite a) (Finite b) \<longleftrightarrow> b < a"
| "f64_gt PosInf b \<longleftrightarrow> b \<noteq> PosInf"
| "f64_gt NegInf _ = False"
| "f64_gt (Finite _) NegInf = True"
| "f64_gt (Finite _) PosInf = False"

fun is_finite :: "f64 \<Rightarrow> bool" where
  "is_finite (Finite _) = True"
| "is_finite _ = False"

definition better :: "f64 \<Rightarrow> (nat \<times> f64) option \<Rightarrow> bool" where
  "better candidate best =
     (case best of Some (_, current) \<Rightarrow> f64_gt candidate current | None \<Rightarrow> True)"

fun best_loop ::
  "(job \<Rightarrow> 'c \<Rightarrow> f64 \<times> 'c) \<Rightarrow> (nat \<times> job) list \<Rightarrow> (nat \<times> f64) option \<Rightarrow> 'c \<Rightarrow> (nat \<times> f64) option \<times> 'c" where
  "best_loop score [] best c = (best, c)"
| "best_loop score ((index, j) # rest) best c =
     (let (candidate, c') = score j c
      in best_loop score rest
           (if is_finite candidate \<and> better candidate best then Some (index, candidate) else best)
           c')"

definition pop_ready_by ::
  "(string \<rightharpoonup> unit_state) \<Rightarrow> (string \<rightharpoonup> string list) \<Rightarrow> (job \<Rightarrow> 'c \<Rightarrow> f64 \<times> 'c)
   \<Rightarrow> job_queue \<Rightarrow> 'c \<Rightarrow> (job option \<times> job_queue) \<times> 'c" where
  "pop_ready_by states afters score q c =
     (let kept = filter (job_kept (registry q)) (pending q);
          ok = runnable (registry q) states afters;
          (best, c') = best_loop score (filter (\<lambda>(_, j). ok j) (List.enumerate 0 kept)) None c;
          pos = (case best of Some (index, _) \<Rightarrow> Some index | None \<Rightarrow> position ok kept)
      in (case pos of
            None \<Rightarrow> (None, q\<lparr> pending := kept \<rparr>)
          | Some i \<Rightarrow> (Some (kept ! i), q\<lparr> pending := remove_at i kept \<rparr>), c'))"

lemma pop_ready_shrinks:
  "pop_ready states afters q = (Some j, q') \<Longrightarrow> length (pending q') < length (pending q)"
  by (auto simp: pop_ready_def Let_def position_Some split: option.splits)
     (metis (no_types, lifting) One_nat_def diff_less length_filter_le less_le_trans
       less_nat_zero_code linorder_neqE_nat zero_less_one)

function drain_ready ::
  "(string \<rightharpoonup> unit_state) \<Rightarrow> (string \<rightharpoonup> string list) \<Rightarrow> job_queue \<Rightarrow> job list \<times> job_queue" where
  "drain_ready states afters q =
     (case pop_ready states afters q of
        (None, q') \<Rightarrow> ([], q')
      | (Some j, q') \<Rightarrow> (let (out, q'') = drain_ready states afters q' in (j # out, q'')))"
  by pat_completeness auto
termination
  by (relation "measure (\<lambda>(_, _, q). length (pending q))") (auto dest: pop_ready_shrinks sym)

declare drain_ready.simps [simp del]

definition cancel :: "nat \<Rightarrow> job_queue \<Rightarrow> bool \<times> job_queue" where
  "cancel jid q =
     (if jid = 0 then (False, q)
      else
        (let q1 = q\<lparr> pending := filter (\<lambda>j. job_id j \<noteq> jid) (pending q) \<rparr>;
             (res, r) = finish jid JR_Canceled (registry q1)
         in (res \<noteq> None, q1\<lparr> registry := r \<rparr>)))"

fun cancel_ids :: "nat list \<Rightarrow> job_queue \<Rightarrow> nat \<times> job_queue" where
  "cancel_ids [] q = (0, q)"
| "cancel_ids (i # is) q =
     (let (ok, q1) = cancel i q; (n, q2) = cancel_ids is q1
      in ((if ok then Suc n else n), q2))"

definition cancel_all :: "job_queue \<Rightarrow> nat \<times> job_queue" where
  "cancel_all q = cancel_ids (map ji_id (registry_list (registry q))) q"

definition queue_len :: "job_queue \<Rightarrow> nat" where
  "queue_len q = length (filter (job_kept (registry q)) (pending q))"

definition queue_is_empty :: "job_queue \<Rightarrow> bool" where
  "queue_is_empty q \<longleftrightarrow> queue_len q = 0"

section \<open>The registry invariant\<close>

definition live_ids :: "job_registry \<Rightarrow> nat set" where
  "live_ids r = fst ` set (live r)"

definition edges :: "('k \<rightharpoonup> 'a list) \<Rightarrow> 'k \<Rightarrow> 'a set" where
  "edges m k = (case m k of None \<Rightarrow> {} | Some xs \<Rightarrow> set xs)"

definition before_rel :: "job_registry \<Rightarrow> (nat \<times> nat) set" where
  "before_rel r = {(b, a). b \<in> edges (before r) a}"

definition after_rel :: "job_registry \<Rightarrow> (nat \<times> nat) set" where
  "after_rel r = {(b, a). a \<in> edges (after r) b}"

definition edge_map_ok :: "nat set \<Rightarrow> (nat \<rightharpoonup> nat list) \<Rightarrow> bool" where
  "edge_map_ok L m \<longleftrightarrow>
     (\<forall>a s. m a = Some s \<longrightarrow> s \<noteq> [] \<and> bs_inv s \<and> a \<in> L \<and> set s \<subseteq> L \<and> a \<notin> set s)"

definition owners_ok :: "nat set \<Rightarrow> (nat \<rightharpoonup> string list) \<Rightarrow> bool" where
  "owners_ok L m \<longleftrightarrow>
     (\<forall>a s. m a = Some s \<longrightarrow> s \<noteq> [] \<and> bs_inv s \<and> a \<in> L \<and> [] \<notin> set s)"

definition live_ok :: "job_registry \<Rightarrow> bool" where
  "live_ok r \<longleftrightarrow> bt_inv (live r) \<and>
     (\<forall>(k, i) \<in> set (live r). ji_id i = k \<and> 1 \<le> k \<and> k < next_id r)"

definition counters_ok :: "job_registry \<Rightarrow> bool" where
  "counters_ok r \<longleftrightarrow> 1 \<le> next_id r \<and> next_id r \<le> u32_max \<and> n_installed r + 1 = next_id r
     \<and> n_failed r + length (live r) \<le> n_installed r"

definition registry_inv :: "job_registry \<Rightarrow> bool" where
  "registry_inv r \<longleftrightarrow> live_ok r \<and> counters_ok r
     \<and> edge_map_ok (live_ids r) (before r) \<and> edge_map_ok (live_ids r) (after r)
     \<and> before_rel r = after_rel r \<and> owners_ok (live_ids r) (owners r)"

lemma edges_entry_insert [simp]:
  "edges (entry_insert k x m) a = (if a = k then insert x (edges m a) else edges m a)"
  by (auto simp: edges_def entry_insert_def split: option.splits)

lemma edges_empty [simp]: "edges Map.empty a = {}"
  by (simp add: edges_def)

lemma edges_drop [simp]: "edges (drop_everywhere i m) a = edges m a - {i}"
  by (auto simp: edges_def drop_everywhere_def Let_def split: option.splits)
     (metis Diff_iff empty_iff insert_iff list.set(1) set_bs_remove)+

lemma edges_upd_None [simp]: "edges (m(i := None)) a = (if a = i then {} else edges m a)"
  by (simp add: edges_def)

lemma edge_map_ok_empty [simp]: "edge_map_ok L Map.empty"
  by (simp add: edge_map_ok_def)

lemma edge_map_ok_mono: "edge_map_ok L m \<Longrightarrow> L \<subseteq> L' \<Longrightarrow> edge_map_ok L' m"
  by (fastforce simp: edge_map_ok_def)

lemma bs_insert_not_Nil [simp]: "bs_insert x xs \<noteq> []"
  by (cases xs) auto

lemma edge_map_ok_insert:
  "edge_map_ok L m \<Longrightarrow> k \<in> L \<Longrightarrow> x \<in> L \<Longrightarrow> k \<noteq> x \<Longrightarrow> edge_map_ok L (entry_insert k x m)"
  by (auto simp: edge_map_ok_def entry_insert_def split: option.splits if_splits) (metis subsetD)+

lemma edge_map_ok_drop:
  "edge_map_ok L m \<Longrightarrow> edge_map_ok (L - {i}) (drop_everywhere i (m(i := None)))"
  by (auto simp: edge_map_ok_def drop_everywhere_def Let_def split: option.splits if_splits)

lemma owners_ok_mono: "owners_ok L m \<Longrightarrow> L \<subseteq> L' \<Longrightarrow> owners_ok L' m"
  by (fastforce simp: owners_ok_def)

lemma owners_ok_insert:
  "owners_ok L m \<Longrightarrow> k \<in> L \<Longrightarrow> x \<noteq> [] \<Longrightarrow> owners_ok L (entry_insert k x m)"
  by (auto simp: owners_ok_def entry_insert_def split: option.splits if_splits)

lemma owners_ok_drop: "owners_ok L m \<Longrightarrow> owners_ok (L - {i}) (m(i := None))"
  by (auto simp: owners_ok_def)

lemma live_okD:
  assumes "live_ok r" "bt_get (live r) k = Some i"
  shows "ji_id i = k" "1 \<le> k" "k < next_id r" "k \<in> live_ids r"
  using assms by (auto simp: live_ok_def live_ids_def dest!: map_of_SomeD intro: rev_image_eqI)

lemma is_live_iff: "is_live r k \<longleftrightarrow> k \<in> live_ids r"
  by (simp add: is_live_def live_ids_def map_of_eq_None_iff)

lemma registry_inv_default: "registry_inv registry_default"
  by (simp add: registry_inv_def registry_default_def live_ok_def counters_ok_def
      before_rel_def after_rel_def owners_ok_def)

lemma live_ids_insert [simp]: "fst ` set (bt_insert k v m) = insert k (fst ` set m)"
  by simp

lemma length_bt_insert:
  "bt_inv m \<Longrightarrow> length (bt_insert k v m) = (if k \<in> fst ` set m then length m else Suc (length m))"
  by (induction k v m rule: bt_insert.induct) (auto simp: bt_inv_Cons)

lemma length_bt_remove:
  "bt_inv m \<Longrightarrow> k \<in> fst ` set m \<Longrightarrow> Suc (length (bt_remove k m)) = length m"
proof (induction m)
  case (Cons kv m)
  then show ?case
    by (cases kv) (auto simp: bt_remove_def bt_inv_Cons intro!: arg_cong [where f = length] filter_True)
qed simp

lemma set_bt_insert:
  "bt_inv m \<Longrightarrow> set (bt_insert k v m) = insert (k, v) {(k', v') \<in> set m. k' \<noteq> k}"
  by (induction k v m rule: bt_insert.induct) (auto simp: bt_inv_Cons)

lemma set_bt_remove: "set (bt_remove k m) = {(k', v') \<in> set m. k' \<noteq> k}"
  by (auto simp: bt_remove_def)

lemma allocate_fields:
  assumes "allocate kind u ow r = Some (j, r')"
  shows "job_id j = next_id r" "job_kind j = kind" "job_unit j = u"
    "next_id r' = Suc (next_id r)" "Suc (next_id r) \<le> u32_max"
    "live r' = bt_insert (next_id r)
       \<lparr> ji_id = next_id r, ji_kind = kind, ji_unit = u, ji_state = Waiting \<rparr> (live r)"
    "n_installed r' = sat_add u32_max (n_installed r) 1" "n_failed r' = n_failed r"
    "before r' = before r" "after r' = after r"
    "owners r' = (case ow of None \<Rightarrow> owners r
       | Some o' \<Rightarrow> if o' = [] then owners r else entry_insert (next_id r) o' (owners r))"
    "events r' = events r @ [JE_New
       \<lparr> ji_id = next_id r, ji_kind = kind, ji_unit = u, ji_state = Waiting \<rparr>]"
  using assms by (auto simp: allocate_def Let_def split: option.splits)

lemma next_id_not_live: "live_ok r \<Longrightarrow> next_id r \<notin> live_ids r"
  by (auto simp: live_ok_def live_ids_def)

lemma registry_inv_allocate [inv_intros]:
  assumes inv: "registry_inv r" and a: "allocate kind u ow r = Some (j, r')"
  shows "registry_inv r'"
proof -
  note f = allocate_fields [OF a]
  have lv: "live_ok r" and cn: "counters_ok r" using inv by (auto simp: registry_inv_def)
  have ids: "live_ids r' = insert (next_id r) (live_ids r)"
    by (simp add: live_ids_def f)
  have "live_ok r'"
    using lv cn by (auto simp: live_ok_def counters_ok_def f set_bt_insert less_Suc_eq)
  moreover have "length (live r') = Suc (length (live r))"
    using lv next_id_not_live [OF lv] by (simp add: f length_bt_insert live_ok_def live_ids_def)
  hence "counters_ok r'"
    using cn f(5) by (simp add: counters_ok_def f sat_add_def)
  moreover have "owners_ok (live_ids r') (owners r')"
    using inv unfolding ids f
    by (auto simp: registry_inv_def split: option.splits
        intro!: owners_ok_insert intro: owners_ok_mono)
  moreover have "before_rel r' = before_rel r" "after_rel r' = after_rel r"
    by (simp_all add: before_rel_def after_rel_def f)
  ultimately show ?thesis
    using inv by (auto simp: registry_inv_def ids f intro: edge_map_ok_mono)
qed

lemma registry_inv_mark_running [inv_intros]:
  assumes inv: "registry_inv r" shows "registry_inv (snd (mark_running i r))"
proof (cases "bt_get (live r) i")
  case (Some ji)
  have lv: "live_ok r" using inv by (simp add: registry_inv_def)
  note d = live_okD [OF lv Some]
  have mem: "i \<in> fst ` set (live r)" using d(4) by (simp add: live_ids_def)
  show ?thesis
  proof (cases "ji_state ji = Running")
    case False
    let ?r = "snd (mark_running i r)"
    have r: "?r = r\<lparr> live := bt_insert i (ji\<lparr>ji_state := Running\<rparr>) (live r),
        events := events r @ [JE_StateChanged (ji\<lparr>ji_state := Running\<rparr>)] \<rparr>"
      using Some False by (simp add: mark_running_def Let_def)
    have "live_ids ?r = live_ids r" using mem by (auto simp: r live_ids_def)
    moreover have "live_ok ?r"
      using lv d by (auto simp: r live_ok_def set_bt_insert)
    moreover have "counters_ok ?r"
      using inv mem lv by (simp add: r registry_inv_def counters_ok_def length_bt_insert live_ok_def)
    ultimately show ?thesis
      using inv by (simp add: registry_inv_def before_rel_def after_rel_def) (simp add: r)
  qed (use inv Some in \<open>simp add: mark_running_def\<close>)
qed (use inv in \<open>simp add: mark_running_def\<close>)

lemma finish_fields:
  assumes "bt_get (live r) i = Some ji"
  shows "fst (finish i res r) = Some ji"
    "live (snd (finish i res r)) = bt_remove i (live r)"
    "next_id (snd (finish i res r)) = next_id r"
    "n_installed (snd (finish i res r)) = n_installed r"
    "n_failed (snd (finish i res r)) =
       (if increments_failed_counter res then sat_add u32_max (n_failed r) 1 else n_failed r)"
    "owners (snd (finish i res r)) = (owners r)(i := None)"
    "before (snd (finish i res r)) = drop_everywhere i ((before r)(i := None))"
    "after (snd (finish i res r)) = drop_everywhere i ((after r)(i := None))"
    "events (snd (finish i res r)) = events r @ [JE_Removed ji res]"
  using assms by (simp_all add: finish_def)

lemma registry_inv_finish [inv_intros]:
  assumes inv: "registry_inv r" shows "registry_inv (snd (finish i res r))"
proof (cases "bt_get (live r) i")
  case (Some ji)
  let ?r = "snd (finish i res r)"
  note f = finish_fields [OF Some, of res]
  have lv: "live_ok r" using inv by (simp add: registry_inv_def)
  note d = live_okD [OF lv Some]
  have ids: "live_ids ?r = live_ids r - {i}" by (simp add: live_ids_def f)
  have "live_ok ?r" using lv by (auto simp: live_ok_def f set_bt_remove)
  moreover have "Suc (length (live ?r)) = length (live r)"
    using lv d(4) by (simp add: f length_bt_remove live_ok_def live_ids_def)
  hence "counters_ok ?r" using inv by (auto simp: registry_inv_def counters_ok_def f sat_add_def)
  moreover have "before_rel ?r = after_rel ?r"
    using inv by (auto simp: registry_inv_def before_rel_def after_rel_def f set_eq_iff)
  ultimately show ?thesis
    using inv by (auto simp: registry_inv_def ids f edge_map_ok_drop owners_ok_drop)
qed (use inv in \<open>simp add: finish_def\<close>)

lemma registry_inv_drain_events [inv_intros]:
  "registry_inv r \<Longrightarrow> registry_inv (snd (drain_events r))"
  by (simp add: drain_events_def registry_inv_def live_ok_def counters_ok_def live_ids_def
      before_rel_def after_rel_def)

subsection \<open>The ordering graph\<close>

definition pair_edges :: "job_info \<Rightarrow> job_info \<Rightarrow> (nat \<times> nat) set" where
  "pair_edges job other =
     (if ji_id job = ji_id other then {}
      else if orders_as_stop (ji_kind job) then {(ji_id job, ji_id other)}
      else {(ji_id other, ji_id job)})"

lemma pair_edges_iff:
  "(b, a) \<in> pair_edges job other \<longleftrightarrow> a \<noteq> b \<and>
     ((orders_as_stop (ji_kind job) \<and> ji_id job = b \<and> ji_id other = a)
    \<or> (\<not> orders_as_stop (ji_kind job) \<and> ji_id other = b \<and> ji_id job = a))"
  by (auto simp: pair_edges_def)

lemma order_pair_rel:
  "before_rel (order_pair job other r) = before_rel r \<union> pair_edges job other"
  "after_rel (order_pair job other r) = after_rel r \<union> pair_edges job other"
  by (auto simp: before_rel_def after_rel_def order_pair_def pair_edges_def split: if_splits)

lemma order_pair_frame [simp]:
  "live (order_pair job other r) = live r" "next_id (order_pair job other r) = next_id r"
  "n_installed (order_pair job other r) = n_installed r"
  "n_failed (order_pair job other r) = n_failed r"
  "owners (order_pair job other r) = owners r" "events (order_pair job other r) = events r"
  by (simp_all add: order_pair_def)

definition edges_ok :: "job_registry \<Rightarrow> bool" where
  "edges_ok r \<longleftrightarrow> edge_map_ok (live_ids r) (before r) \<and> edge_map_ok (live_ids r) (after r)"

lemma order_pair_edges_ok:
  "edges_ok r \<Longrightarrow> ji_id job \<in> live_ids r \<Longrightarrow> ji_id other \<in> live_ids r
    \<Longrightarrow> edges_ok (order_pair job other r)"
  by (auto simp: edges_ok_def live_ids_def order_pair_def intro!: edge_map_ok_insert)

definition job_edges :: "(string \<rightharpoonup> string list) \<Rightarrow> job_info list \<Rightarrow> job_info \<Rightarrow> (nat \<times> nat) set" where
  "job_edges afters jobs job =
     (\<Union>other \<in> {other \<in> set jobs. ji_unit other \<in> edges afters (ji_unit job)}. pair_edges job other)"

lemma order_job_rel:
  assumes R: "\<And>job other r. R (order_pair job other r) = R r \<union> pair_edges job other"
  shows "R (order_job afters jobs job r) = R r \<union> job_edges afters jobs job"
proof (cases "afters (ji_unit job)")
  case (Some deps)
  have inner: "R (fold (order_pair job) os r) = R r \<union> (\<Union>other \<in> set os. pair_edges job other)"
    for os and r by (rule fold_accumulates) (rule R)
  have "R (order_job afters jobs job r) = R r \<union> (\<Union>dep \<in> set deps.
      \<Union>other \<in> set (filter (\<lambda>other. ji_unit other = dep) jobs). pair_edges job other)"
    unfolding order_job_def Some option.case by (rule fold_accumulates) (rule inner)
  thus ?thesis using Some by (auto simp: job_edges_def edges_def)
qed (simp add: order_job_def job_edges_def edges_def)

lemma order_job_frame:
  assumes "\<And>job other r. p (order_pair job other r) = p r"
  shows "p (order_job afters jobs job r) = p r"
  by (auto simp: order_job_def assms split: option.splits intro!: fold_same)

lemma refresh_ordering_frame [simp]:
  "live (refresh_ordering afters r) = live r" "next_id (refresh_ordering afters r) = next_id r"
  "n_installed (refresh_ordering afters r) = n_installed r"
  "n_failed (refresh_ordering afters r) = n_failed r"
  "owners (refresh_ordering afters r) = owners r" "events (refresh_ordering afters r) = events r"
  by (auto simp: refresh_ordering_def Let_def order_job_frame
      fold_same [where p = live] fold_same [where p = next_id] fold_same [where p = n_installed]
      fold_same [where p = n_failed] fold_same [where p = owners] fold_same [where p = events])

lemma live_ids_refresh [simp]: "live_ids (refresh_ordering afters r) = live_ids r"
  by (simp add: live_ids_def)

lemma refresh_ordering_rel:
  "before_rel (refresh_ordering afters r) =
     (\<Union>job \<in> set (registry_list r). job_edges afters (registry_list r) job)"
  "after_rel (refresh_ordering afters r) =
     (\<Union>job \<in> set (registry_list r). job_edges afters (registry_list r) job)"
proof -
  let ?jobs = "registry_list r" and ?r0 = "r\<lparr> before := Map.empty, after := Map.empty \<rparr>"
  have "before_rel ?r0 = {}" "after_rel ?r0 = {}"
    by (simp_all add: before_rel_def after_rel_def)
  moreover have "before_rel (fold (order_job afters ?jobs) ?jobs ?r0) =
      before_rel ?r0 \<union> (\<Union>job \<in> set ?jobs. job_edges afters ?jobs job)"
    by (rule fold_accumulates) (rule order_job_rel [OF order_pair_rel(1)])
  moreover have "after_rel (fold (order_job afters ?jobs) ?jobs ?r0) =
      after_rel ?r0 \<union> (\<Union>job \<in> set ?jobs. job_edges afters ?jobs job)"
    by (rule fold_accumulates) (rule order_job_rel [OF order_pair_rel(2)])
  ultimately show
    "before_rel (refresh_ordering afters r) = (\<Union>job \<in> set ?jobs. job_edges afters ?jobs job)"
    "after_rel (refresh_ordering afters r) = (\<Union>job \<in> set ?jobs. job_edges afters ?jobs job)"
    by (simp_all add: refresh_ordering_def Let_def)
qed

lemma registry_list_ids: "live_ok r \<Longrightarrow> ji_id ` set (registry_list r) = live_ids r"
  by (force simp: registry_list_def live_ids_def live_ok_def)

lemma order_job_edges_ok:
  assumes "edges_ok r" "ji_id job \<in> live_ids r" "ji_id ` set jobs \<subseteq> live_ids r"
  shows "edges_ok (order_job afters jobs job r) \<and> live_ids (order_job afters jobs job r) = live_ids r"
proof (cases "afters (ji_unit job)")
  case (Some deps)
  let ?P = "\<lambda>r'. edges_ok r' \<and> live_ids r' = live_ids r"
  have pair: "?P (order_pair job other r')" if "other \<in> set jobs" "?P r'" for other r'
    using that assms by (auto simp: order_pair_edges_ok) (simp_all add: live_ids_def)
  have inner: "?P (fold (order_pair job) (filter (\<lambda>other. ji_unit other = dep) jobs) r')"
    if "?P r'" for dep r'
    by (rule fold_keeps) (use pair that in auto)
  show ?thesis unfolding order_job_def Some option.case
    by (rule fold_keeps) (use inner assms in auto)
qed (use assms in \<open>simp add: order_job_def\<close>)

lemma registry_inv_refresh_ordering [inv_intros]:
  assumes inv: "registry_inv r" shows "registry_inv (refresh_ordering afters r)"
proof -
  let ?r = "refresh_ordering afters r"
  have lv: "live_ok r" using inv by (simp add: registry_inv_def)
  let ?P = "\<lambda>r'. edges_ok r' \<and> live_ids r' = live_ids r"
  have "?P (order_job afters (registry_list r) job s)"
    if "job \<in> set (registry_list r)" "?P s" for job s
    using order_job_edges_ok [of s job "registry_list r" afters] that registry_list_ids [OF lv]
    by auto
  moreover have "?P (r\<lparr> before := Map.empty, after := Map.empty \<rparr>)"
    by (simp add: edges_ok_def live_ids_def)
  ultimately have "?P ?r" unfolding refresh_ordering_def Let_def by (rule fold_keeps)
  moreover have "before_rel ?r = after_rel ?r" by (simp add: refresh_ordering_rel)
  moreover have "live_ok ?r" "counters_ok ?r"
    using inv by (simp_all add: registry_inv_def live_ok_def counters_ok_def)
  ultimately show ?thesis using inv by (simp add: registry_inv_def edges_ok_def)
qed

text \<open>The intended order: who has to finish before whom, from the \<open>After=\<close> lists alone.\<close>

definition must_precede :: "(string \<rightharpoonup> string list) \<Rightarrow> job_info \<Rightarrow> job_info \<Rightarrow> bool" where
  "must_precede afters x y \<longleftrightarrow>
     (\<not> orders_as_stop (ji_kind y) \<and> ji_unit x \<in> edges afters (ji_unit y))
   \<or> (orders_as_stop (ji_kind x) \<and> ji_unit y \<in> edges afters (ji_unit x))"

lemma before_rel_refresh:
  assumes lv: "live_ok r"
  shows "(b, a) \<in> before_rel (refresh_ordering afters r) \<longleftrightarrow>
    a \<noteq> b \<and> (\<exists>x y. bt_get (live r) b = Some x \<and> bt_get (live r) a = Some y
                  \<and> must_precede afters x y)"
proof -
  have bt: "bt_inv (live r)" using lv by (simp add: live_ok_def)
  have key: "(k, i) \<in> set (live r) \<Longrightarrow> ji_id i = k" for k i
    using lv by (auto simp: live_ok_def)
  have get: "bt_get (live r) i = Some x \<longleftrightarrow> ji_id x = i \<and> x \<in> set (registry_list r)" for i x
  proof -
    have "(i, x) \<in> set (live r)" if "ji_id x = i" "x \<in> snd ` set (live r)"
    proof -
      from that(2) obtain k where k: "(k, x) \<in> set (live r)" by auto
      thus ?thesis using key [OF k] that(1) by simp
    qed
    moreover have "x \<in> snd ` set (live r)" if "(i, x) \<in> set (live r)"
      using that by (rule rev_image_eqI) simp
    ultimately show ?thesis
      unfolding bt_get_Some [OF bt] registry_list_def using key by (metis list.set_map)
  qed
  have "(b, a) \<in> before_rel (refresh_ordering afters r) \<longleftrightarrow>
      (\<exists>job other. job \<in> set (registry_list r) \<and> other \<in> set (registry_list r)
         \<and> ji_unit other \<in> edges afters (ji_unit job) \<and> (b, a) \<in> pair_edges job other)"
    unfolding refresh_ordering_rel job_edges_def by blast
  also have "\<dots> \<longleftrightarrow> (\<exists>x y. ji_id x = b \<and> ji_id y = a \<and> a \<noteq> b \<and> x \<in> set (registry_list r)
      \<and> y \<in> set (registry_list r) \<and> must_precede afters x y)"
    unfolding pair_edges_iff must_precede_def by blast
  also have "\<dots> \<longleftrightarrow> a \<noteq> b \<and> (\<exists>x y. bt_get (live r) b = Some x \<and> bt_get (live r) a = Some y
                  \<and> must_precede afters x y)"
    unfolding get by blast
  finally show ?thesis .
qed

section \<open>The queue as a state machine\<close>

text \<open>A queued job carries the identity the registry knows for it.\<close>

definition job_matches :: "job_registry \<Rightarrow> job \<Rightarrow> bool" where
  "job_matches r j \<longleftrightarrow> job_id j < next_id r \<and>
     (\<forall>i. bt_get (live r) (job_id j) = Some i \<longrightarrow> ji_kind i = job_kind j \<and> ji_unit i = job_unit j)"

definition queue_inv :: "job_queue \<Rightarrow> bool" where
  "queue_inv q \<longleftrightarrow> registry_inv (registry q) \<and> (\<forall>j \<in> set (pending q). job_matches (registry q) j)"

text \<open>
  One step is one operation of the queue or of its registry; the label is the list of
  events handed to the signal publisher.  \<open>push_existing\<close> moves a job that was allocated
  through another queue on the same registry.
\<close>

inductive queue_step :: "job_queue \<Rightarrow> job_event list \<Rightarrow> job_queue \<Rightarrow> bool" where
  qs_enqueue: "enqueue_owned kind u ow q = Some (j, q') \<Longrightarrow> queue_step q [] q'"
| qs_allocate: "allocate kind u ow (registry q) = Some (j, r)
    \<Longrightarrow> queue_step q [] (q\<lparr> registry := r \<rparr>)"
| qs_internal: "queue_step q [] (enqueue_internal kind u q)"
| qs_push: "job_matches (registry q) j \<Longrightarrow> queue_step q [] (push_existing j q)"
| qs_pop_front: "pop_front q = (res, q') \<Longrightarrow> queue_step q [] q'"
| qs_pop_ready: "pop_ready states afters q = (res, q') \<Longrightarrow> queue_step q [] q'"
| qs_pop_ready_by: "pop_ready_by states afters score q (c :: nat) = ((res, q'), c')
    \<Longrightarrow> queue_step q [] q'"
| qs_refresh: "queue_step q [] (queue_refresh_ordering afters q)"
| qs_mark_running: "mark_running jid (registry q) = (b, r) \<Longrightarrow> queue_step q [] (q\<lparr> registry := r \<rparr>)"
| qs_finish: "finish jid result (registry q) = (res, r) \<Longrightarrow> queue_step q [] (q\<lparr> registry := r \<rparr>)"
| qs_cancel: "cancel jid q = (b, q') \<Longrightarrow> queue_step q [] q'"
| qs_cancel_all: "cancel_all q = (n, q') \<Longrightarrow> queue_step q [] q'"
| qs_drain_events: "drain_events (registry q) = (es, r) \<Longrightarrow> queue_step q es (q\<lparr> registry := r \<rparr>)"

text \<open>The queue together with everything published so far.\<close>

type_synonym job_system = "job_queue \<times> job_event list"

definition job_system_init :: job_system where
  "job_system_init = (with_registry registry_default, [])"

definition job_system_step :: "job_system \<Rightarrow> job_system \<Rightarrow> bool" where
  "job_system_step s t \<longleftrightarrow> (\<exists>l. queue_step (fst s) l (fst t) \<and> snd t = snd s @ l)"

section \<open>Event streams\<close>

datatype job_phase = Absent | Phase job_state | Gone

fun event_id :: "job_event \<Rightarrow> nat" where
  "event_id (JE_New i) = ji_id i"
| "event_id (JE_StateChanged i) = ji_id i"
| "event_id (JE_Removed i _) = ji_id i"

fun phase_step :: "job_phase \<Rightarrow> job_event \<Rightarrow> job_phase option" where
  "phase_step Absent (JE_New i) = (if ji_state i = Waiting then Some (Phase Waiting) else None)"
| "phase_step (Phase Waiting) (JE_StateChanged i) =
     (if ji_state i = Running then Some (Phase Running) else None)"
| "phase_step (Phase s) (JE_Removed i _) = (if ji_state i = s then Some Gone else None)"
| "phase_step _ _ = None"

fun run_phases :: "job_phase \<Rightarrow> job_event list \<Rightarrow> job_phase option" where
  "run_phases p [] = Some p"
| "run_phases p (e # es) = Option.bind (phase_step p e) (\<lambda>p'. run_phases p' es)"

definition stream_phase :: "nat \<Rightarrow> job_event list \<Rightarrow> job_phase option" where
  "stream_phase i es = run_phases Absent (filter (\<lambda>e. event_id e = i) es)"

definition registry_phase :: "job_registry \<Rightarrow> nat \<Rightarrow> job_phase" where
  "registry_phase r i =
     (case bt_get (live r) i of
        Some info \<Rightarrow> Phase (ji_state info)
      | None \<Rightarrow> if 1 \<le> i \<and> i < next_id r then Gone else Absent)"

definition job_system_inv :: "job_system \<Rightarrow> bool" where
  "job_system_inv s \<longleftrightarrow> queue_inv (fst s) \<and>
     (\<forall>i. stream_phase i (snd s @ events (registry (fst s))) = Some (registry_phase (registry (fst s)) i))"

end
