(* ===== verification/JobSched.thy ===== *)
theory JobSched
  imports Job
begin

text \<open>
  Properties of the job queue as a whole: the invariant of every reachable queue, the
  event stream of every job, which job the schedulers hand out, and that the queue
  makes progress when \<open>After=\<close> has no cycles.
\<close>

section \<open>Invariant preservation\<close>

definition identity_kept :: "job_registry \<Rightarrow> job_registry \<Rightarrow> bool" where
  "identity_kept r r' \<longleftrightarrow> next_id r \<le> next_id r' \<and>
     (\<forall>k i'. k < next_id r \<longrightarrow> bt_get (live r') k = Some i' \<longrightarrow>
        (\<exists>i. bt_get (live r) k = Some i \<and> ji_kind i = ji_kind i' \<and> ji_unit i = ji_unit i'))"

lemma job_matches_kept: "identity_kept r r' \<Longrightarrow> job_matches r j \<Longrightarrow> job_matches r' j"
  unfolding identity_kept_def job_matches_def by fastforce

lemma identity_kept_refl [simp]: "identity_kept r r"
  by (simp add: identity_kept_def)

lemma registry_inv_bt [simp]: "registry_inv r \<Longrightarrow> bt_inv (live r)"
  by (simp add: registry_inv_def live_ok_def)

lemma identity_kept_allocate:
  "registry_inv r \<Longrightarrow> allocate kind u ow r = Some (j, r') \<Longrightarrow> identity_kept r r'"
  by (auto simp: identity_kept_def allocate_fields split: if_splits)

lemma identity_kept_mark_running:
  "registry_inv r \<Longrightarrow> identity_kept r (snd (mark_running i r))"
  by (auto simp: identity_kept_def mark_running_def Let_def split: option.splits if_splits)

lemma identity_kept_finish: "identity_kept r (snd (finish i res r))"
  by (auto simp: identity_kept_def finish_def split: option.splits if_splits)

lemma identity_kept_refresh: "identity_kept r (refresh_ordering afters r)"
  by (simp add: identity_kept_def)

lemma identity_kept_drain: "identity_kept r (snd (drain_events r))"
  by (simp add: identity_kept_def drain_events_def)

lemma queue_inv_registry:
  assumes "queue_inv q" "registry_inv r'" "identity_kept (registry q) r'"
    "\<And>j. j \<in> set (pending q') \<Longrightarrow> j \<in> set (pending q) \<or> job_matches r' j"
    "registry q' = r'"
  shows "queue_inv q'"
  using assms job_matches_kept unfolding queue_inv_def by blast

lemma queue_inv_subset:
  assumes "queue_inv q" "registry q' = registry q" "set (pending q') \<subseteq> set (pending q)"
  shows "queue_inv q'"
  using assms by (auto simp: queue_inv_def)

lemma pop_front_list_set: "pop_front_list r js = (res, js') \<Longrightarrow> set js' \<subseteq> set js"
  by (induction js arbitrary: res js') (auto split: if_splits)

lemma pop_subset:
  "registry (snd (pop_front q)) = registry q"
  "set (pending (snd (pop_front q))) \<subseteq> set (pending q)"
  "registry (snd (pop_ready states afters q)) = registry q"
  "set (pending (snd (pop_ready states afters q))) \<subseteq> set (pending q)"
  "registry (snd (fst (pop_ready_by states afters score q c))) = registry q"
  "set (pending (snd (fst (pop_ready_by states afters score q c)))) \<subseteq> set (pending q)"
  by (auto simp: pop_front_def pop_ready_def pop_ready_by_def Let_def
      dest: set_remove_at [THEN subsetD] split: option.splits prod.splits)
     (auto dest!: pop_front_list_set)

lemma queue_inv_enqueue_owned:
  assumes "queue_inv q" "enqueue_owned kind u ow q = Some (j, q')"
  shows "queue_inv q'"
proof -
  obtain r where a: "allocate kind u ow (registry q) = Some (j, r)"
    and q': "q' = q\<lparr> registry := r, pending := pending q @ [j] \<rparr>"
    using assms(2) by (auto simp: enqueue_owned_def split: option.splits)
  have inv: "registry_inv (registry q)" using assms(1) by (simp add: queue_inv_def)
  note f = allocate_fields [OF a]
  have "job_matches r j" using inv by (simp add: job_matches_def f)
  thus ?thesis
    using queue_inv_registry [OF assms(1) registry_inv_allocate [OF inv a]
        identity_kept_allocate [OF inv a], of q']
    by (auto simp: q')
qed

lemma queue_inv_cancel:
  assumes "queue_inv q" shows "queue_inv (snd (cancel i q))"
proof -
  have inv: "registry_inv (registry q)" using assms by (simp add: queue_inv_def)
  show ?thesis
    using queue_inv_registry [OF assms registry_inv_finish [OF inv] identity_kept_finish,
        of "snd (cancel i q)" i JR_Canceled] assms
    by (auto simp: cancel_def Let_def split: prod.splits)
qed

lemma queue_inv_cancel_ids: "queue_inv q \<Longrightarrow> queue_inv (snd (cancel_ids is q))"
  by (induction "is" q rule: cancel_ids.induct)
     (auto simp: Let_def split: prod.splits dest: queue_inv_cancel, metis queue_inv_cancel snd_conv)

lemma queue_inv_set_registry:
  assumes "queue_inv q" "registry_inv r'" "identity_kept (registry q) r'"
  shows "queue_inv (q\<lparr> registry := r' \<rparr>)"
  using queue_inv_registry [OF assms, of "q\<lparr> registry := r' \<rparr>"] by simp

lemma queue_inv_step:
  assumes "queue_inv q" "queue_step q l q'" shows "queue_inv q'"
proof -
  have r: "registry_inv (registry q)" using assms(1) by (simp add: queue_inv_def)
  note set_r = queue_inv_set_registry [OF assms(1)]
  show ?thesis using assms(2,1)
  proof cases
    case (qs_enqueue kind u ow j)
    thus ?thesis using queue_inv_enqueue_owned assms(1) by blast
  next
    case (qs_allocate kind u ow j r')
    thus ?thesis using set_r registry_inv_allocate identity_kept_allocate r by simp
  next
    case (qs_internal kind u)
    thus ?thesis using assms(1) r
      by (auto simp: queue_inv_def enqueue_internal_def job_matches_def registry_inv_def
          counters_ok_def dest: live_okD(2))
  next
    case (qs_push j)
    thus ?thesis using assms(1) by (auto simp: queue_inv_def push_existing_def)
  next
    case (qs_pop_front res)
    thus ?thesis using queue_inv_subset [OF assms(1)] pop_subset(1,2) [of q] by simp
  next
    case (qs_pop_ready states afters res)
    thus ?thesis
      using queue_inv_subset [OF assms(1)] pop_subset(3,4) [of states afters q] by simp
  next
    case (qs_pop_ready_by states afters score c res c')
    thus ?thesis
      using queue_inv_subset [OF assms(1)] pop_subset(5,6) [of states afters score q c] by simp
  next
    case (qs_refresh afters)
    thus ?thesis using set_r registry_inv_refresh_ordering [OF r] identity_kept_refresh
      by (simp add: queue_refresh_ordering_def)
  next
    case (qs_mark_running i b r')
    thus ?thesis
      using set_r registry_inv_mark_running [OF r, of i] identity_kept_mark_running [OF r, of i]
      by simp
  next
    case (qs_finish i result res r')
    thus ?thesis
      using set_r registry_inv_finish [OF r, of i result] identity_kept_finish [of _ i result]
      by (metis snd_conv)
  next
    case (qs_cancel i b)
    thus ?thesis using queue_inv_cancel [OF assms(1), of i] by simp
  next
    case (qs_cancel_all n)
    thus ?thesis using queue_inv_cancel_ids [OF assms(1)] by (metis cancel_all_def snd_conv)
  next
    case (qs_drain_events r')
    thus ?thesis
      using set_r registry_inv_drain_events [OF r] identity_kept_drain [of "registry q"] by simp
  qed
qed

section \<open>Event streams\<close>

definition trace_ok :: "job_event list \<Rightarrow> job_registry \<Rightarrow> bool" where
  "trace_ok h r \<longleftrightarrow> (\<forall>i. stream_phase i (h @ events r) = Some (registry_phase r i))"

lemma run_phases_snoc: "run_phases p (es @ [e]) = Option.bind (run_phases p es) (\<lambda>p'. phase_step p' e)"
  by (induction es arbitrary: p) (auto split: Option.bind_split)

lemma stream_phase_snoc:
  "stream_phase i (es @ [e]) =
     (if event_id e = i then Option.bind (stream_phase i es) (\<lambda>p. phase_step p e)
      else stream_phase i es)"
  by (simp add: stream_phase_def run_phases_snoc)

lemma trace_ok_event:
  assumes "trace_ok h r" "events r' = events r @ [e]"
    "phase_step (registry_phase r (event_id e)) e = Some (registry_phase r' (event_id e))"
    "\<And>i. i \<noteq> event_id e \<Longrightarrow> registry_phase r' i = registry_phase r i"
  shows "trace_ok h r'"
  unfolding trace_ok_def
proof
  fix i
  have es: "h @ events r' = (h @ events r) @ [e]" using assms(2) by simp
  show "stream_phase i (h @ events r') = Some (registry_phase r' i)"
    unfolding es using assms(1,3) assms(4) [of i]
    by (auto simp: stream_phase_snoc trace_ok_def simp del: append_assoc)
qed

lemma registry_phase_cong:
  "live r' = live r \<Longrightarrow> next_id r' = next_id r \<Longrightarrow> registry_phase r' = registry_phase r"
  by (rule ext) (auto simp: registry_phase_def split: option.splits)

lemma trace_ok_same:
  "trace_ok h r \<Longrightarrow> events r' = events r \<Longrightarrow> live r' = live r \<Longrightarrow> next_id r' = next_id r
    \<Longrightarrow> trace_ok h r'"
  using registry_phase_cong [of r' r] by (simp add: trace_ok_def)

lemma trace_ok_allocate:
  assumes inv: "registry_inv r" and t: "trace_ok h r" and a: "allocate kind u ow r = Some (j, r')"
  shows "trace_ok h r'"
proof -
  note f = allocate_fields [OF a]
  have "bt_get (live r) (next_id r) = None"
    using next_id_not_live inv by (simp add: registry_inv_def live_ids_def map_of_eq_None_iff)
  moreover have "1 \<le> next_id r" using inv by (simp add: registry_inv_def counters_ok_def)
  ultimately show ?thesis
    by (intro trace_ok_event [OF t f(12)]) (use inv in \<open>auto simp: f registry_phase_def\<close>)
qed

lemma trace_ok_mark_running:
  assumes inv: "registry_inv r" and t: "trace_ok h r"
  shows "trace_ok h (snd (mark_running i r))"
proof (cases "bt_get (live r) i")
  case (Some ji)
  have id: "ji_id ji = i" using inv Some by (auto simp: registry_inv_def dest: live_okD(1))
  show ?thesis
  proof (cases "ji_state ji")
    case Waiting
    show ?thesis
      by (rule trace_ok_event [OF t, where e = "JE_StateChanged (ji\<lparr> ji_state := Running \<rparr>)"])
         (use inv Some Waiting id in \<open>auto simp: mark_running_def Let_def registry_phase_def\<close>)
  qed (use t Some in \<open>simp add: mark_running_def\<close>)
qed (use t in \<open>simp add: mark_running_def\<close>)

lemma trace_ok_finish:
  assumes inv: "registry_inv r" and t: "trace_ok h r"
  shows "trace_ok h (snd (finish i res r))"
proof (cases "bt_get (live r) i")
  case (Some ji)
  have d: "ji_id ji = i" "1 \<le> i" "i < next_id r"
    using inv Some by (auto simp: registry_inv_def dest: live_okD)
  show ?thesis
    by (rule trace_ok_event [OF t finish_fields(9) [OF Some]])
       (use Some d in \<open>auto simp: finish_fields [OF Some] registry_phase_def\<close>)
qed (use t in \<open>simp add: finish_def\<close>)

lemma trace_ok_cancel:
  "registry_inv (registry q) \<Longrightarrow> trace_ok h (registry q) \<Longrightarrow> trace_ok h (registry (snd (cancel i q)))"
  using trace_ok_finish [of "registry q" h i JR_Canceled]
  by (auto simp: cancel_def Let_def split: prod.splits)

lemma trace_ok_cancel_ids:
  "queue_inv q \<Longrightarrow> trace_ok h (registry q) \<Longrightarrow> trace_ok h (registry (snd (cancel_ids is q)))"
proof (induction "is" arbitrary: q)
  case (Cons i "is")
  have "trace_ok h (registry (snd (cancel i q)))"
    using Cons.prems trace_ok_cancel by (simp add: queue_inv_def)
  thus ?case
    using Cons.IH [OF queue_inv_cancel [OF Cons.prems(1), of i]]
    by (cases "cancel i q"; cases "cancel_ids is (snd (cancel i q))") simp
qed simp

lemma trace_ok_step:
  assumes "queue_step q l q'" "queue_inv q" "trace_ok h (registry q)"
  shows "trace_ok (h @ l) (registry q')"
proof -
  have r: "registry_inv (registry q)" using assms(2) by (simp add: queue_inv_def)
  note t = assms(3)
  show ?thesis using assms(1)
  proof cases
    case (qs_enqueue kind u ow j)
    thus ?thesis using trace_ok_allocate [OF r t]
      by (auto simp: enqueue_owned_def split: option.splits)
  next
    case (qs_allocate kind u ow j r')
    thus ?thesis using trace_ok_allocate [OF r t] by simp
  next
    case (qs_push j)
    thus ?thesis using t by (simp add: push_existing_def)
  next
    case (qs_pop_front res)
    thus ?thesis using t pop_subset(1) [of q] by simp
  next
    case (qs_pop_ready states afters res)
    thus ?thesis using t pop_subset(3) [of states afters q] by simp
  next
    case (qs_pop_ready_by states afters score c res c')
    thus ?thesis using t pop_subset(5) [of states afters score q c] by simp
  next
    case (qs_refresh afters)
    thus ?thesis using trace_ok_same [OF t] by (simp add: queue_refresh_ordering_def)
  next
    case (qs_mark_running i b r')
    thus ?thesis using trace_ok_mark_running [OF r t, of i] by simp
  next
    case (qs_finish i result res r')
    thus ?thesis using trace_ok_finish [OF r t, of i result] by simp
  next
    case (qs_cancel i b)
    thus ?thesis using trace_ok_cancel [OF r t, of i] by simp
  next
    case (qs_cancel_all n)
    thus ?thesis using trace_ok_cancel_ids [OF assms(2) t] by (metis append_Nil2 cancel_all_def snd_conv)
  next
    case (qs_drain_events r')
    thus ?thesis using t registry_phase_cong [of r' "registry q"]
      by (auto simp: drain_events_def trace_ok_def)
  qed (use t in \<open>simp add: enqueue_internal_def\<close>)
qed

lemma job_system_inv_alt:
  "job_system_inv s \<longleftrightarrow> queue_inv (fst s) \<and> trace_ok (snd s) (registry (fst s))"
  by (simp add: job_system_inv_def trace_ok_def)

interpretation jobsys: invariant_system "\<lambda>s. s = job_system_init" job_system_step job_system_inv
proof (unfold_locales, goal_cases)
  case (1 s)
  have "stream_phase i [] = Some (registry_phase registry_default i)" for i
    by (simp add: stream_phase_def registry_phase_def registry_default_def)
  thus ?case using 1 registry_inv_default
    by (simp add: job_system_inv_def job_system_init_def with_registry_def queue_inv_def
        registry_default_def)
next
  case (2 s t)
  thus ?case unfolding job_system_inv_alt job_system_step_def
    using queue_inv_step trace_ok_step by metis
qed

section \<open>Which job is handed out\<close>

lemma map_filter_ids:
  assumes "live_ok r"
  shows "ji_id ` set (List.map_filter (bt_get (live r)) ids) = set ids \<inter> live_ids r"
  using live_okD(1) [OF assms]
  by (force simp: map_filter_def live_ids_def dom_map_of_conv_image_fst [symmetric] image_iff)

lemma edge_map_ok_edges: "edge_map_ok L m \<Longrightarrow> b \<in> edges m a \<Longrightarrow> a \<in> L \<and> b \<in> L \<and> a \<noteq> b"
  by (fastforce simp: edge_map_ok_def edges_def split: option.splits)

lemma registry_invD:
  assumes "registry_inv r"
  shows "live_ok r" "edge_map_ok (live_ids r) (before r)" "edge_map_ok (live_ids r) (after r)"
    "before_rel r = after_rel r"
  using assms by (simp_all add: registry_inv_def)

lemma before_rel_live:
  "registry_inv r \<Longrightarrow> (b, a) \<in> before_rel r \<Longrightarrow> a \<in> live_ids r \<and> b \<in> live_ids r \<and> a \<noteq> b"
  using edge_map_ok_edges [OF registry_invD(2)] by (simp add: before_rel_def)

lemma lookup_edges:
  assumes "live_ok r" "edge_map_ok (live_ids r) m"
  shows "ji_id ` set (case m a of None \<Rightarrow> [] | Some ids \<Rightarrow> List.map_filter (bt_get (live r)) ids)
    = edges m a"
proof (cases "m a")
  case (Some ids)
  have "set ids \<subseteq> live_ids r" using assms(2) Some by (auto simp: edge_map_ok_def)
  thus ?thesis using map_filter_ids [OF assms(1), of ids] Some by (auto simp: edges_def)
qed (simp add: edges_def)

lemma get_before_ids:
  "registry_inv r \<Longrightarrow> ji_id ` set (get_before r a) = {b. (b, a) \<in> before_rel r}"
  using lookup_edges [OF registry_invD(1,2)] by (simp add: get_before_def before_rel_def)

lemma get_after_ids:
  "registry_inv r \<Longrightarrow> ji_id ` set (get_after r b) = {a. (b, a) \<in> before_rel r}"
  using lookup_edges [OF registry_invD(1,3)] registry_invD(4) [of r]
  by (simp add: get_after_def after_rel_def)

lemma get_before_empty_iff:
  "registry_inv r \<Longrightarrow> get_before r a = [] \<longleftrightarrow> (\<forall>b. (b, a) \<notin> before_rel r)"
  using get_before_ids [of r a] by (metis (no_types, lifting) empty_Collect_eq image_is_empty set_empty)

definition kept_jobs :: "job_queue \<Rightarrow> job list" where
  "kept_jobs q = filter (job_kept (registry q)) (pending q)"

lemma pop_ready_cases:
  obtains (none) "pop_ready states afters q = (None, q\<lparr> pending := kept_jobs q \<rparr>)"
      "\<forall>j \<in> set (kept_jobs q). \<not> runnable (registry q) states afters j"
  | (some) xs j ys where "kept_jobs q = xs @ j # ys"
      "pop_ready states afters q = (Some j, q\<lparr> pending := xs @ ys \<rparr>)"
      "runnable (registry q) states afters j"
      "\<forall>x \<in> set xs. \<not> runnable (registry q) states afters x"
proof (cases "position (runnable (registry q) states afters) (kept_jobs q)")
  case None
  hence "pop_ready states afters q = (None, q\<lparr> pending := kept_jobs q \<rparr>)"
    by (simp add: pop_ready_def kept_jobs_def Let_def del: position_None)
  thus ?thesis using none None by simp
next
  case (Some i)
  let ?ks = "kept_jobs q"
  have i: "i < length ?ks" "runnable (registry q) states afters (?ks ! i)"
    "\<forall>k < i. \<not> runnable (registry q) states afters (?ks ! k)"
    using Some by (simp_all add: position_Some)
  have "?ks = take i ?ks @ ?ks ! i # drop (Suc i) ?ks" using i(1) by (simp add: id_take_nth_drop)
  moreover have "pop_ready states afters q =
      (Some (?ks ! i), q\<lparr> pending := take i ?ks @ drop (Suc i) ?ks \<rparr>)"
    using Some by (simp add: pop_ready_def kept_jobs_def remove_at_def Let_def)
  moreover have "\<forall>x \<in> set (take i ?ks). \<not> runnable (registry q) states afters x"
    using i(1,3) by (auto simp: in_set_conv_nth)
  ultimately show ?thesis using some i(2) by blast
qed

lemma drain_ready_filter:
  "drain_ready states afters q =
     (filter (runnable (registry q) states afters) (kept_jobs q),
      q\<lparr> pending := filter (\<lambda>j. \<not> runnable (registry q) states afters j) (kept_jobs q) \<rparr>)"
proof (induction states afters q rule: drain_ready.induct)
  case (1 states afters q)
  show ?case
  proof (cases rule: pop_ready_cases [of states afters q])
    case none
    thus ?thesis by (simp add: drain_ready.simps [of _ _ q] filter_empty_conv filter_id_conv)
  next
    case (some xs j ys)
    let ?q = "q\<lparr> pending := xs @ ys \<rparr>"
    have "\<forall>x \<in> set (kept_jobs q). job_kept (registry q) x" by (simp add: kept_jobs_def)
    hence "\<forall>x \<in> set (xs @ ys). job_kept (registry q) x" using some(1) by auto
    hence kept: "kept_jobs ?q = xs @ ys" by (simp add: kept_jobs_def filter_id_conv)
    show ?thesis
      using 1 [OF some(2) [symmetric] refl] some(1,3,4) kept
      by (simp add: drain_ready.simps [of _ _ q] some(2) filter_empty_conv)
  qed
qed

lemma cancel_registry:
  "i \<noteq> 0 \<Longrightarrow> registry (snd (cancel i q)) = snd (finish i JR_Canceled (registry q))"
  "i \<noteq> 0 \<Longrightarrow> fst (cancel i q) \<longleftrightarrow> is_live (registry q) i"
  "i \<noteq> 0 \<Longrightarrow> pending (snd (cancel i q)) = filter (\<lambda>j. job_id j \<noteq> i) (pending q)"
  by (simp_all add: cancel_def Let_def case_prod_unfold finish_def is_live_def split: option.split)

lemma finish_live: "live (snd (finish i res r)) = bt_remove i (live r)"
proof (cases "bt_get (live r) i")
  case None
  hence "bt_remove i (live r) = live r"
    by (force simp: bt_remove_def map_of_eq_None_iff filter_id_conv)
  thus ?thesis using None by (simp add: finish_def)
qed (simp add: finish_def)

lemma cancel_ids_effect:
  assumes "0 \<notin> set is" "distinct is" "set is \<subseteq> live_ids (registry q)"
  shows "fst (cancel_ids is q) = length is
    \<and> live (registry (snd (cancel_ids is q))) = filter (\<lambda>(k, _). k \<notin> set is) (live (registry q))
    \<and> pending (snd (cancel_ids is q)) = filter (\<lambda>j. job_id j \<notin> set is) (pending q)"
  using assms
proof (induction "is" arbitrary: q)
  case (Cons i "is")
  let ?q = "snd (cancel i q)"
  have i: "i \<noteq> 0" "is_live (registry q) i" using Cons.prems by (auto simp: is_live_iff)
  have sub: "set is \<subseteq> live_ids (registry ?q)"
    using Cons.prems i(1) by (auto simp: cancel_registry live_ids_def finish_live)
  have "cancel_ids (i # is) q = (Suc (fst (cancel_ids is ?q)), snd (cancel_ids is ?q))"
    using cancel_registry(2) [OF i(1), of q] i(2)
    by (cases "cancel i q"; cases "cancel_ids is ?q") simp
  thus ?case
    using Cons.IH [OF _ _ sub] Cons.prems i(1)
    by (auto simp: cancel_registry finish_live bt_remove_def case_prod_unfold conj_commute
        intro!: filter_cong)
qed (simp add: case_prod_unfold)

text \<open>The scores the scheduler sees, in the order it asks for them.\<close>

fun scored :: "(job \<Rightarrow> 'c \<Rightarrow> f64 \<times> 'c) \<Rightarrow> (nat \<times> job) list \<Rightarrow> 'c \<Rightarrow> (nat \<times> f64) list" where
  "scored score [] c = []"
| "scored score ((i, j) # rest) c =
     (i, fst (score j c)) # scored score rest (snd (score j c))"

definition pick :: "(nat \<times> f64) \<Rightarrow> (nat \<times> f64) option \<Rightarrow> (nat \<times> f64) option" where
  "pick x best = (if is_finite (snd x) \<and> better (snd x) best then Some x else best)"

lemma best_loop_fold:
  "fst (best_loop score cands best c) = fold pick (scored score cands c) best"
  by (induction score cands best c rule: best_loop.induct)
     (auto simp: Let_def pick_def split: prod.splits)

lemma map_fst_scored [simp]: "map fst (scored score cands c) = map fst cands"
  by (induction score cands c rule: scored.induct) auto

lemma is_finite_iff: "is_finite x \<longleftrightarrow> (\<exists>v. x = Finite v)"
  by (cases x) auto

definition is_best :: "(nat \<times> f64) list \<Rightarrow> (nat \<times> f64) option \<Rightarrow> bool" where
  "is_best sc best =
     (case best of
        None \<Rightarrow> \<forall>(i, x) \<in> set sc. \<not> is_finite x
      | Some (i, x) \<Rightarrow> (\<exists>v. x = Finite v \<and> (i, x) \<in> set sc
          \<and> (\<forall>k w. (k, Finite w) \<in> set sc \<longrightarrow> w \<le> v \<and> (k < i \<longrightarrow> w < v))))"

lemma is_best_pick:
  assumes "is_best sc best" "\<forall>k \<in> fst ` set sc. k < fst x"
  shows "is_best (sc @ [x]) (pick x best)"
proof (cases "snd x")
  case (Finite v)
  show ?thesis
  proof (cases best)
    case None
    thus ?thesis using assms Finite
      by (cases x) (fastforce simp: is_best_def pick_def better_def)
  next
    case (Some b)
    obtain i u where b: "b = (i, Finite u)" "(i, Finite u) \<in> set sc"
      and mx: "\<And>k w. (k, Finite w) \<in> set sc \<Longrightarrow> w \<le> u \<and> (k < i \<longrightarrow> w < u)"
      using assms(1) Some by (auto simp: is_best_def)
    have i: "i < fst x" using assms(2) b(2) by force
    show ?thesis
    proof (cases "u < v")
      case True
      have "w \<le> v \<and> (k < fst x \<longrightarrow> w < v)" if "(k, Finite w) \<in> set (sc @ [x])" for k w
        using that True mx [of k w] Finite by (cases x) auto
      thus ?thesis using True Some b(1) Finite
        by (cases x) (auto simp: is_best_def pick_def better_def)
    next
      case False
      have "w \<le> u \<and> (k < i \<longrightarrow> w < u)" if "(k, Finite w) \<in> set (sc @ [x])" for k w
        using that False mx [of k w] Finite i by (cases x) auto
      thus ?thesis using False Some b Finite
        by (cases x) (auto simp: is_best_def pick_def better_def)
    qed
  qed
qed (use assms in \<open>cases x; auto simp: is_best_def pick_def split: option.splits\<close>)+

lemma is_best_fold:
  "sorted_wrt (<) (map fst sc) \<Longrightarrow> is_best sc (fold pick sc None)"
proof (induction sc rule: rev_induct)
  case (snoc x sc)
  thus ?case using is_best_pick [of sc "fold pick sc None" x] by (simp add: sorted_wrt_append)
qed (simp add: is_best_def)

section \<open>Acyclic orderings\<close>

lemma must_precede_wf:
  assumes fin: "finite U" and R: "R = {(d, u). d \<in> edges afters u \<and> d \<in> U \<and> u \<in> U}"
    and ac: "acyclic R"
  shows "wf {(x, y). must_precede afters x y \<and> ji_unit x \<in> U \<and> ji_unit y \<in> U}"
proof -
  have "R \<subseteq> U \<times> U" using R by auto
  hence "finite R" using fin by (simp add: finite_subset)
  hence wf: "wf R" "wf (R\<inverse>)" using ac by (simp_all add: finite_acyclic_wf finite_acyclic_wf_converse)
  let ?m = "\<lambda>j. if orders_as_stop (ji_kind j) then (0 :: nat, ji_unit j, []) else (1, [], ji_unit j)"
  have "{(x, y). must_precede afters x y \<and> ji_unit x \<in> U \<and> ji_unit y \<in> U}
      \<subseteq> inv_image (less_than <*lex*> (R\<inverse>) <*lex*> R) ?m"
    by (auto simp: must_precede_def R)
  moreover have "wf (inv_image (less_than <*lex*> (R\<inverse>) <*lex*> R) ?m)"
    using wf by (intro wf_inv_image wf_lex_prod wf_less_than)
  ultimately show ?thesis by (rule wf_subset [rotated])
qed

lemma refresh_ordering_acyclic_aux:
  assumes lv: "live_ok r" and ac: "acyclic {(d, u). d \<in> edges afters u}"
  shows "wf (before_rel (refresh_ordering afters r))"
proof -
  let ?U = "ji_unit ` set (registry_list r)"
  let ?R = "{(d, u). d \<in> edges afters u \<and> d \<in> ?U \<and> u \<in> ?U}"
  let ?J = "\<lambda>i. the (bt_get (live r) i)"
  have "acyclic ?R" using ac by (rule acyclic_subset) auto
  hence wf: "wf {(x, y). must_precede afters x y \<and> ji_unit x \<in> ?U \<and> ji_unit y \<in> ?U}"
    by (intro must_precede_wf [OF _ refl]) simp
  have "bt_get (live r) i = Some x \<Longrightarrow> ji_unit x \<in> ?U" for i x
    by (force simp: registry_list_def dest: map_of_SomeD)
  hence "before_rel (refresh_ordering afters r) \<subseteq>
      inv_image {(x, y). must_precede afters x y \<and> ji_unit x \<in> ?U \<and> ji_unit y \<in> ?U} ?J"
    by (auto simp: before_rel_refresh [OF lv])
  thus ?thesis by (rule wf_subset [OF wf_inv_image [OF wf]])
qed

lemma job_kept_refresh [simp]: "job_kept (refresh_ordering afters r) = job_kept r"
  by (simp add: fun_eq_iff job_kept_def is_live_iff)

lemma sorted_indices: "sorted_wrt (<) (map fst (filter P (List.enumerate n xs)))"
proof -
  have "sorted_wrt (\<lambda>x y. fst x < fst y) (List.enumerate n xs)"
    by (induction xs arbitrary: n) (auto simp: in_set_enumerate_eq)
  thus ?thesis by (simp add: sorted_wrt_map sorted_wrt_filter)
qed

lemma job_is_ready_settled:
  "(\<And>d s. states d = Some s \<Longrightarrow> settled s) \<Longrightarrow> job_is_ready j states afters"
  unfolding job_is_ready_def Let_def list_all_iff
  by (auto split: option.splits) (metis settled_iff(5,6) unit_state.exhaust)

lemma pop_ready_progress_aux:
  assumes q: "queue_inv q" and wf: "wf (before_rel (registry q))"
    and st: "\<And>d s. states d = Some s \<Longrightarrow> settled s"
    and pend: "live_ids (registry q) \<subseteq> job_id ` set (pending q)" and ne: "kept_jobs q \<noteq> []"
  shows "\<exists>j \<in> set (kept_jobs q). runnable (registry q) states afters j"
proof (cases "\<exists>j \<in> set (kept_jobs q). job_id j = 0")
  case True
  thus ?thesis using job_is_ready_settled [OF st] by (auto simp: runnable_def)
next
  case False
  have r: "registry_inv (registry q)" using q by (simp add: queue_inv_def)
  obtain j0 where "j0 \<in> set (kept_jobs q)" using ne by (cases "kept_jobs q") auto
  hence "job_id j0 \<in> live_ids (registry q)"
    using False by (auto simp: kept_jobs_def job_kept_def is_live_iff)
  with wf obtain a where a: "a \<in> live_ids (registry q)"
    and min: "\<And>b. (b, a) \<in> before_rel (registry q) \<Longrightarrow> b \<notin> live_ids (registry q)"
    unfolding wf_eq_minimal by blast
  have "b \<in> live_ids (registry q)" if "(b, a) \<in> before_rel (registry q)" for b
    using before_rel_live [OF r that] by simp
  hence "get_before (registry q) a = []" using min get_before_empty_iff [OF r] by blast
  moreover obtain j where j: "j \<in> set (pending q)" "job_id j = a" using a pend by auto
  ultimately have "runnable (registry q) states afters j"
    using job_is_ready_settled [OF st] by (simp add: runnable_def)
  moreover have "j \<in> set (kept_jobs q)"
    using j a by (simp add: kept_jobs_def job_kept_def is_live_iff)
  ultimately show ?thesis by blast
qed

lemma run_phases_Absent: "run_phases p es = Some Absent \<Longrightarrow> p = Absent \<and> es = []"
proof (induction es arbitrary: p)
  case (Cons e es)
  then obtain p' where p': "phase_step p e = Some p'" "run_phases p' es = Some Absent"
    by (auto split: Option.bind_splits)
  hence "p' = Absent" using Cons.IH by blast
  thus ?case using p'(1) by (cases "(p, e)" rule: phase_step.cases) (auto split: if_splits)
qed simp

lemma pop_ready_by_shape:
  fixes q :: job_queue and states :: "string \<rightharpoonup> unit_state" and afters :: "string \<rightharpoonup> string list"
    and score :: "job \<Rightarrow> 'c \<Rightarrow> f64 \<times> 'c" and c :: 'c
  defines "kept \<equiv> kept_jobs q" and "ok \<equiv> runnable (registry q) states afters"
  defines "best \<equiv> fold pick (scored score (filter (\<lambda>(_, j). ok j) (List.enumerate 0 kept)) c) None"
  shows "fst (pop_ready_by states afters score q c) =
    (case (case best of Some (index, _) \<Rightarrow> Some index | None \<Rightarrow> position ok kept) of
       None \<Rightarrow> (None, q\<lparr> pending := kept \<rparr>)
     | Some i \<Rightarrow> (Some (kept ! i), q\<lparr> pending := remove_at i kept \<rparr>))"
  unfolding best_def best_loop_fold [symmetric] ok_def kept_def
  by (auto simp: pop_ready_by_def kept_jobs_def Let_def case_prod_unfold split: option.splits)

section \<open>Properties\<close>

text \<open>A queue with two start jobs, the second ordered after the first.\<close>

definition demo_queue :: job_queue where
  "demo_queue =
     snd (the (enqueue_owned Start ''app'' (Some '':1.7'')
       (snd (the (enqueue Start ''db'' (with_registry registry_default))))))"

definition demo_afters :: "string \<rightharpoonup> string list" where
  "demo_afters = [''app'' \<mapsto> [''db'']]"

lemma demo_queue_eq:
  "demo_queue = \<lparr> registry = \<lparr> next_id = 3, n_installed = 2, n_failed = 0,
      live = [(1, \<lparr> ji_id = 1, ji_kind = Start, ji_unit = ''db'', ji_state = Waiting \<rparr>),
              (2, \<lparr> ji_id = 2, ji_kind = Start, ji_unit = ''app'', ji_state = Waiting \<rparr>)],
      owners = [2 \<mapsto> ['':1.7'']], before = Map.empty, after = Map.empty,
      events = [JE_New \<lparr> ji_id = 1, ji_kind = Start, ji_unit = ''db'', ji_state = Waiting \<rparr>,
                JE_New \<lparr> ji_id = 2, ji_kind = Start, ji_unit = ''app'', ji_state = Waiting \<rparr>] \<rparr>,
    pending = [\<lparr> job_id = 1, job_kind = Start, job_unit = ''db'' \<rparr>,
               \<lparr> job_id = 2, job_kind = Start, job_unit = ''app'' \<rparr>] \<rparr>"
  by (simp add: demo_queue_def enqueue_def enqueue_owned_def allocate_def with_registry_def
      registry_default_def checked_add_def sat_add_def entry_insert_def Let_def numeral_2_eq_2)

lemma demo_reachable: "job_system_step\<^sup>*\<^sup>* job_system_init (demo_queue, [])"
proof -
  let ?q0 = "with_registry registry_default"
  obtain j1 q1 where e1: "enqueue_owned Start ''db'' None ?q0 = Some (j1, q1)"
    by (simp add: enqueue_owned_def allocate_def with_registry_def registry_default_def
        checked_add_def Let_def)
  obtain j2 where e2: "enqueue_owned Start ''app'' (Some '':1.7'') q1 = Some (j2, demo_queue)"
  proof -
    have "enqueue_owned Start ''app'' (Some '':1.7'') q1 \<noteq> None"
      using e1 by (auto simp: enqueue_owned_def allocate_def with_registry_def
          registry_default_def checked_add_def Let_def)
    thus ?thesis using that e1 by (auto simp: demo_queue_def enqueue_def)
  qed
  have "job_system_step job_system_init (q1, [])"
    using qs_enqueue [OF e1] by (auto simp: job_system_step_def job_system_init_def)
  moreover have "job_system_step (q1, []) (demo_queue, [])"
    using qs_enqueue [OF e2] by (auto simp: job_system_step_def)
  ultimately show ?thesis by (meson converse_rtranclp_into_rtranclp rtranclp.rtrancl_refl)
qed

lemma demo_queue_inv: "queue_inv demo_queue"
  using jobsys.sinv_reachable [OF refl demo_reachable] by (simp add: job_system_inv_alt)

lemma demo_registry_inv: "registry_inv (registry demo_queue)"
  using demo_queue_inv by (simp add: queue_inv_def)

lemma demo_afters_acyclic: "acyclic {(d, u). d \<in> edges demo_afters u}"
proof -
  have "{(d, u). d \<in> edges demo_afters u} = {(''db'', ''app'')}"
    by (auto simp: edges_def demo_afters_def split: if_splits)
  thus ?thesis by (simp add: acyclic_insert wf_acyclic)
qed

text \<open>
  C2: In every state the queue and its registry can reach by any sequence of operations,
  the registry invariant holds.  The live table is ordered by identifier and stores each job
  under its own identifier below the next one; the installed counter is exactly the number of
  identifiers given out and bounds failed plus live jobs; \<open>before\<close> and \<open>after\<close> are converse
  relations over live jobs without self edges and without empty sets; owners belong to live
  jobs; and every queued job carries the kind and unit the registry knows.
\<close>

theorem job_queue_invariant:
  "job_system_step\<^sup>*\<^sup>* job_system_init (q, h) \<Longrightarrow> queue_inv q"
  using jobsys.sinv_reachable [OF refl, of "(q, h)"] by (simp add: job_system_inv_alt)

theorem job_queue_invariant_witness: "queue_inv demo_queue \<and> pending demo_queue \<noteq> []"
  using job_queue_invariant [OF demo_reachable] by (simp add: demo_queue_eq)

text \<open>
  C5: The published and still queued events of each job identifier always form a complete
  lifecycle prefix (New while waiting, then at most one StateChanged to running, then at most
  one Removed carrying the state the job had), and the phase they reach is exactly what the
  registry holds for that identifier.
\<close>

theorem job_event_streams:
  "job_system_step\<^sup>*\<^sup>* job_system_init (q, h)
    \<Longrightarrow> stream_phase i (h @ events (registry q)) = Some (registry_phase (registry q) i)"
  using jobsys.sinv_reachable [OF refl, of "(q, h)"] by (simp add: job_system_inv_def)

theorem job_event_streams_witness:
  "stream_phase 1 ([] @ events (registry demo_queue)) = Some (Phase Waiting)"
  using job_event_streams [OF demo_reachable, of 1] by (simp add: registry_phase_def demo_queue_eq)

text \<open>
  C8: Job identifiers are never reused: when \<open>allocate\<close> succeeds in a reachable state, no event
  published or queued so far mentions the identifier it returns, and it only fails (panics)
  when all 32-bit identifiers are used up.
\<close>

theorem job_ids_never_reused:
  assumes "job_system_step\<^sup>*\<^sup>* job_system_init (q, h)"
  shows "(\<forall>j r'. allocate kind u ow (registry q) = Some (j, r')
            \<longrightarrow> (\<forall>e \<in> set (h @ events (registry q)). event_id e \<noteq> job_id j))
       \<and> (allocate kind u ow (registry q) = None \<longleftrightarrow> next_id (registry q) = u32_max)"
proof -
  have inv: "queue_inv q" and tr: "trace_ok h (registry q)"
    using jobsys.sinv_reachable [OF refl assms] by (simp_all add: job_system_inv_alt)
  have "live_ok (registry q)" "counters_ok (registry q)"
    using inv by (auto simp: queue_inv_def registry_inv_def)
  moreover from this have "registry_phase (registry q) (next_id (registry q)) = Absent"
    using next_id_not_live by (auto simp: registry_phase_def live_ids_def map_of_eq_None_iff split: option.splits dest: map_of_SomeD)
  hence "filter (\<lambda>e. event_id e = next_id (registry q)) (h @ events (registry q)) = []"
    using tr run_phases_Absent unfolding trace_ok_def stream_phase_def by metis
  ultimately show ?thesis
    by (auto simp: allocate_fields(1) filter_empty_conv counters_ok_def)
       (auto simp: allocate_def Let_def split: option.splits)
qed

theorem job_ids_never_reused_witness:
  "\<exists>j r'. allocate Start ''x'' None (registry demo_queue) = Some (j, r')
     \<and> (\<forall>e \<in> set ([] @ events (registry demo_queue)). event_id e \<noteq> job_id j)"
proof -
  have "allocate Start ''x'' None (registry demo_queue) \<noteq> None"
    using job_ids_never_reused [OF demo_reachable, of Start "''x''" None]
    by (simp add: demo_queue_eq)
  thus ?thesis using job_ids_never_reused [OF demo_reachable, of Start "''x''" None] by fastforce
qed

text \<open>
  C4: After \<open>refresh_ordering\<close> the jobs reported by \<open>get_before\<close> are exactly the other live
  jobs that have to finish first according to \<open>After=\<close>: for a job that does not stop its unit
  the jobs of the units it is ordered after, and conversely a stop or restart job comes before
  the jobs of the units its own unit is ordered after.  \<open>get_after\<close> is the converse relation.
\<close>

theorem refresh_ordering_exact:
  assumes "registry_inv r"
  shows "(b \<in> ji_id ` set (get_before (refresh_ordering afters r) a) \<longleftrightarrow>
        a \<noteq> b \<and> (\<exists>x y. registry_get r b = Some x \<and> registry_get r a = Some y
                      \<and> must_precede afters x y))
    \<and> (a \<in> ji_id ` set (get_after (refresh_ordering afters r) b) \<longleftrightarrow>
        b \<in> ji_id ` set (get_before (refresh_ordering afters r) a))"
  using get_before_ids [OF registry_inv_refresh_ordering [OF assms]]
    get_after_ids [OF registry_inv_refresh_ordering [OF assms]]
    before_rel_refresh [OF registry_invD(1) [OF assms]]
  by (simp add: registry_get_def)

theorem refresh_ordering_exact_witness:
  "1 \<in> ji_id ` set (get_before (refresh_ordering demo_afters (registry demo_queue)) 2)
   \<and> 2 \<in> ji_id ` set (get_after (refresh_ordering demo_afters (registry demo_queue)) 1)
   \<and> 2 \<notin> ji_id ` set (get_before (refresh_ordering demo_afters (registry demo_queue)) 1)"
proof -
  have "(\<exists>x y. registry_get (registry demo_queue) 1 = Some x \<and> registry_get (registry demo_queue) 2 = Some y
      \<and> must_precede demo_afters x y)"
    "\<not> (\<exists>x y. registry_get (registry demo_queue) 2 = Some x \<and> registry_get (registry demo_queue) 1 = Some y
      \<and> must_precede demo_afters x y)"
    by (simp_all add: registry_get_def demo_queue_eq must_precede_def orders_as_stop_def edges_def
        demo_afters_def)
  thus ?thesis
    using refresh_ordering_exact [OF demo_registry_inv, of 1 demo_afters 2]
      refresh_ordering_exact [OF demo_registry_inv, of 2 demo_afters 1] by simp
qed

text \<open>
  C6: If the \<open>After=\<close> relation between units has no cycle, the job ordering graph has none,
  whatever mixture of start, stop, restart, reload and isolate jobs is live.
\<close>

theorem refresh_ordering_acyclic:
  assumes "registry_inv r" "acyclic {(d, u). d \<in> edges afters u}"
  shows "acyclic {(b, a). b \<in> ji_id ` set (get_before (refresh_ordering afters r) a)}"
  using refresh_ordering_acyclic_aux [OF registry_invD(1) [OF assms(1)] assms(2)]
    get_before_ids [OF registry_inv_refresh_ordering [OF assms(1)]]
  by (simp add: wf_acyclic)

theorem refresh_ordering_acyclic_witness:
  "acyclic {(b, a). b \<in> ji_id ` set
      (get_before (refresh_ordering demo_afters (registry demo_queue)) a)}"
  using refresh_ordering_acyclic [OF demo_registry_inv demo_afters_acyclic] .

text \<open>
  C6: A job handed out by \<open>pop_ready\<close> is queued and live (or an internal step), has no live
  predecessor left, and every unit it is ordered after is settled when it is a start job.
  It is the first such job in queue order; the remaining live queue keeps its order and the
  registry is untouched.
\<close>

theorem pop_ready_safe:
  assumes "pop_ready states afters q = (Some j, q')"
  shows "\<exists>xs ys. kept_jobs q = xs @ j # ys \<and> q' = q\<lparr> pending := xs @ ys \<rparr>
     \<and> (job_id j \<noteq> 0 \<longrightarrow> is_live (registry q) (job_id j) \<and> get_before (registry q) (job_id j) = [])
     \<and> (job_kind j = Start \<longrightarrow>
          (\<forall>d \<in> edges afters (job_unit j). \<forall>s. states d = Some s \<longrightarrow> settled s))
     \<and> (\<forall>x \<in> set xs. \<not> runnable (registry q) states afters x)"
  using assms
proof (cases rule: pop_ready_cases [of states afters q])
  case (some xs k ys)
  have k: "k = j" "q' = q\<lparr> pending := xs @ ys \<rparr>" using some(2) assms by auto
  have "job_kept (registry q) j"
    using some(1) k(1) by (metis filter_set in_set_conv_decomp kept_jobs_def mem_Collect_eq Set.filter_eq)
  moreover have "\<forall>d \<in> edges afters (job_unit j). \<forall>s. states d = Some s \<longrightarrow> settled s"
    if "job_kind j = Start"
    using some(3) that k(1)
    by (fastforce simp: runnable_def job_is_ready_def Let_def list_all_iff edges_def
        split: option.splits)
  moreover have "job_id j = 0 \<or> get_before (registry q) (job_id j) = []"
    using some(3) k(1) by (simp add: runnable_def)
  ultimately show ?thesis using some k
    by (intro exI [of _ xs] exI [of _ ys]) (auto simp: job_kept_def)
qed auto

theorem pop_ready_safe_witness:
  "\<exists>xs ys. kept_jobs (queue_refresh_ordering demo_afters demo_queue)
      = xs @ \<lparr> job_id = 1, job_kind = Start, job_unit = ''db'' \<rparr> # ys
    \<and> get_before (registry (queue_refresh_ordering demo_afters demo_queue)) 1 = []"
proof -
  let ?q = "queue_refresh_ordering demo_afters demo_queue"
  have "pop_ready Map.empty demo_afters ?q =
      (Some \<lparr> job_id = 1, job_kind = Start, job_unit = ''db'' \<rparr>, ?q\<lparr> pending :=
        [\<lparr> job_id = 2, job_kind = Start, job_unit = ''app'' \<rparr>] \<rparr>)"
    by (simp add: pop_ready_def Let_def job_kept_def is_live_def runnable_def job_is_ready_def
        queue_refresh_ordering_def demo_queue_eq refresh_ordering_def registry_list_def
        order_job_def order_pair_def orders_as_stop_def demo_afters_def entry_insert_def
        get_before_def remove_at_def)
  from pop_ready_safe [OF this] show ?thesis by auto
qed

text \<open>
  C3: The queue makes progress.  When \<open>After=\<close> has no cycle, every live job is still queued
  and no unit is in transition, a queue with any live or internal job hands one out right
  after the ordering was refreshed.
\<close>

theorem pop_ready_progress:
  assumes "queue_inv q" "acyclic {(d, u). d \<in> edges afters u}"
    and "live_ids (registry q) \<subseteq> job_id ` set (pending q)"
    and "\<And>d s. states d = Some s \<Longrightarrow> settled s"
    and "\<not> queue_is_empty q"
  shows "\<exists>j q'. pop_ready states afters (queue_refresh_ordering afters q) = (Some j, q')"
proof -
  let ?q = "queue_refresh_ordering afters q"
  have q: "queue_inv ?q" using queue_inv_step [OF assms(1) qs_refresh] .
  have "wf (before_rel (registry ?q))"
    using refresh_ordering_acyclic_aux [OF _ assms(2)] assms(1)
    by (simp add: queue_refresh_ordering_def queue_inv_def registry_inv_def)
  moreover have "live_ids (registry ?q) \<subseteq> job_id ` set (pending ?q)"
    using assms(3) by (simp add: queue_refresh_ordering_def)
  moreover have "kept_jobs ?q \<noteq> []"
    using assms(5) by (simp add: kept_jobs_def queue_is_empty_def queue_len_def
        queue_refresh_ordering_def)
  ultimately have "\<exists>j \<in> set (kept_jobs ?q). runnable (registry ?q) states afters j"
    by (intro pop_ready_progress_aux [OF q]) (use assms(4) in auto)
  thus ?thesis by (cases rule: pop_ready_cases [of states afters ?q]) auto
qed

theorem pop_ready_progress_witness:
  "\<exists>j q'. pop_ready [''db'' \<mapsto> Inactive] demo_afters (queue_refresh_ordering demo_afters demo_queue)
     = (Some j, q')"
proof (rule pop_ready_progress [OF demo_queue_inv demo_afters_acyclic])
  show "live_ids (registry demo_queue) \<subseteq> job_id ` set (pending demo_queue)"
    by (simp add: live_ids_def demo_queue_eq)
  show "settled s" if "[''db'' \<mapsto> Inactive] d = Some s" for d s
    using that by (auto split: if_splits)
  show "\<not> queue_is_empty demo_queue"
    by (simp add: queue_is_empty_def queue_len_def job_kept_def is_live_def demo_queue_eq)
qed

text \<open>
  C8: \<open>pop_ready_by\<close> returns nothing exactly when no live job is runnable.  Otherwise the job it
  returns is runnable, and it is the first one with the largest finite score among the runnable
  jobs; only when no runnable job has a finite score is it the first runnable one, as
  \<open>pop_ready\<close> would choose.
\<close>

theorem pop_ready_by_best:
  assumes "pop_ready_by states afters score q c = ((res, q'), c')"
  defines "ok \<equiv> runnable (registry q) states afters"
  defines "sc \<equiv> scored score (filter (\<lambda>(_, j). ok j) (List.enumerate 0 (kept_jobs q))) c"
  shows "case res of
      None \<Rightarrow> (\<forall>j \<in> set (kept_jobs q). \<not> ok j)
    | Some j \<Rightarrow> (\<exists>i < length (kept_jobs q). j = kept_jobs q ! i \<and> ok j
        \<and> pending q' = remove_at i (kept_jobs q)
        \<and> ((\<exists>v. (i, Finite v) \<in> set sc
                \<and> (\<forall>k w. (k, Finite w) \<in> set sc \<longrightarrow> w \<le> v \<and> (k < i \<longrightarrow> w < v)))
          \<or> ((\<forall>(k, x) \<in> set sc. \<not> is_finite x) \<and> position ok (kept_jobs q) = Some i)))"
proof -
  let ?ks = "kept_jobs q" and ?best = "fold pick sc None"
  let ?cands = "filter (\<lambda>(_, j). ok j) (List.enumerate 0 ?ks)"
  have sorted: "sorted_wrt (<) (map fst ?cands)"
    by (rule sorted_indices)
  have best: "is_best sc ?best" unfolding sc_def by (rule is_best_fold) (simp add: sorted)
  have idx: "i < length ?ks \<and> ok (?ks ! i)" if "(i, x) \<in> set sc" for i x
  proof -
    have "i \<in> set (map fst sc)" using that by force
    thus ?thesis by (auto simp: sc_def in_set_enumerate_eq)
  qed
  have shape: "(res, q') = (case (case ?best of Some (index, _) \<Rightarrow> Some index | None \<Rightarrow> position ok ?ks) of
       None \<Rightarrow> (None, q\<lparr> pending := ?ks \<rparr>)
     | Some i \<Rightarrow> (Some (?ks ! i), q\<lparr> pending := remove_at i ?ks \<rparr>))"
    using pop_ready_by_shape [of states afters score q c] unfolding assms(1) ok_def sc_def by simp
  show ?thesis
  proof (cases ?best)
    case None
    show ?thesis
    proof (cases "position ok ?ks")
      case (Some i)
      hence "i < length ?ks" "ok (?ks ! i)" by (simp_all add: position_Some)
      moreover have "\<forall>(k, x) \<in> set sc. \<not> is_finite x" using best None by (simp add: is_best_def)
      moreover have "res = Some (?ks ! i)" "pending q' = remove_at i ?ks"
        using shape None Some by simp_all
      ultimately show ?thesis using Some by auto
    next
      case no: None
      hence "res = None" using shape None by (simp del: position_None)
      thus ?thesis using no by simp
    qed
  next
    case (Some b)
    then obtain i v where b: "?best = Some (i, Finite v)" "(i, Finite v) \<in> set sc"
      "\<forall>k w. (k, Finite w) \<in> set sc \<longrightarrow> w \<le> v \<and> (k < i \<longrightarrow> w < v)"
      using best by (auto simp: is_best_def)
    thus ?thesis using shape idx [OF b(2)] by auto
  qed
qed

theorem pop_ready_by_best_witness:
  "fst (fst (pop_ready_by Map.empty Map.empty
      (\<lambda>j n. (Finite (of_nat (job_id j)), Suc n)) demo_queue (0 :: nat)))
    = Some \<lparr> job_id = 2, job_kind = Start, job_unit = ''app'' \<rparr>
   \<and> \<lparr> job_id = 2, job_kind = Start, job_unit = ''app'' \<rparr> \<in> set (kept_jobs demo_queue)"
proof -
  let ?score = "\<lambda>j n. (Finite (of_nat (job_id j)), Suc n)"
  let ?p = "pop_ready_by Map.empty Map.empty ?score demo_queue (0 :: nat)"
  have p: "?p = ((Some \<lparr> job_id = 2, job_kind = Start, job_unit = ''app'' \<rparr>,
      demo_queue\<lparr> pending := [\<lparr> job_id = 1, job_kind = Start, job_unit = ''db'' \<rparr>] \<rparr>), 2)"
    by (simp add: pop_ready_by_def Let_def demo_queue_eq job_kept_def is_live_def runnable_def
        get_before_def job_is_ready_def better_def remove_at_def)
  from pop_ready_by_best [OF p] show ?thesis unfolding p by (auto intro: nth_mem)
qed

text \<open>
  Draining the ready jobs terminates and returns exactly the runnable live jobs in queue
  order; what stays queued is exactly the live jobs that are not runnable, in order.
\<close>

theorem drain_ready_exact:
  "drain_ready states afters q =
     (filter (runnable (registry q) states afters) (kept_jobs q),
      q\<lparr> pending := filter (\<lambda>j. \<not> runnable (registry q) states afters j) (kept_jobs q) \<rparr>)"
  by (rule drain_ready_filter)

text \<open>
  \<open>cancel_all\<close> cancels every live job: it reports their number, empties the registry, and
  leaves nothing in the queue that could still run except internal steps.
\<close>

theorem cancel_all_empties:
  assumes "queue_inv q" "cancel_all q = (n, q')"
  shows "n = length (registry_list (registry q)) \<and> registry_is_empty (registry q')
    \<and> kept_jobs q' = filter (\<lambda>j. job_id j = 0) (pending q)"
proof -
  let ?is = "map ji_id (registry_list (registry q))"
  have lv: "live_ok (registry q)" using assms(1) by (simp add: queue_inv_def registry_inv_def)
  have "?is = map fst (live (registry q))"
    using lv by (auto simp: registry_list_def live_ok_def)
  moreover have "distinct (map fst (live (registry q)))"
    using lv by (intro bt_inv_distinct) (simp add: live_ok_def)
  moreover have "0 \<notin> live_ids (registry q)" using lv by (auto simp: live_ok_def live_ids_def)
  moreover have ids: "set ?is = live_ids (registry q)"
    using registry_list_ids [OF lv] by simp
  ultimately have eff: "n = length ?is"
    "live (registry q') = filter (\<lambda>(k, _). k \<notin> live_ids (registry q)) (live (registry q))"
    "pending q' = filter (\<lambda>j. job_id j \<notin> live_ids (registry q)) (pending q)"
    using cancel_ids_effect [of ?is q] assms(2) by (auto simp: cancel_all_def)
  have empty: "live (registry q') = []"
    using eff(2) by (auto simp: filter_empty_conv live_ids_def intro: rev_image_eqI)
  have "kept_jobs q' = filter (\<lambda>j. job_id j = 0) (pending q)"
    unfolding kept_jobs_def eff(3) filter_filter using empty \<open>0 \<notin> live_ids (registry q)\<close>
    by (intro filter_cong) (auto simp: job_kept_def is_live_def)
  thus ?thesis using eff(1) empty by (simp add: registry_is_empty_def)
qed

theorem cancel_all_empties_witness:
  "fst (cancel_all demo_queue) = 2 \<and> registry_is_empty (registry (snd (cancel_all demo_queue)))"
  using cancel_all_empties [OF demo_queue_inv, of "fst (cancel_all demo_queue)"
      "snd (cancel_all demo_queue)"]
  by (simp add: registry_list_def demo_queue_eq)



end
