(* ===== verification/RustStr.thy ===== *)
theory RustStr
  imports Prelude
begin

text \<open>
  The parts of Rust's \<open>str\<close> and integer parsing the program uses.  A \<open>str\<close> is a list of
  characters of the range U+0000 to U+00FF; on that range \<open>is_whitespace\<close> and the ASCII
  predicates below are exact.  Byte offsets of the code are character offsets here.
\<close>

section \<open>Characters\<close>

definition is_ws :: "char \<Rightarrow> bool" where
  "is_ws c \<longleftrightarrow> (of_char c :: nat) \<in> {9, 10, 11, 12, 13, 32, 133, 160}"

definition is_ascii_ws :: "char \<Rightarrow> bool" where
  "is_ascii_ws c \<longleftrightarrow> (of_char c :: nat) \<in> {9, 10, 12, 13, 32}"

definition is_digit :: "char \<Rightarrow> bool" where
  "is_digit c \<longleftrightarrow> 48 \<le> (of_char c :: nat) \<and> (of_char c :: nat) \<le> 57"

definition is_upper :: "char \<Rightarrow> bool" where
  "is_upper c \<longleftrightarrow> 65 \<le> (of_char c :: nat) \<and> (of_char c :: nat) \<le> 90"

definition is_lower :: "char \<Rightarrow> bool" where
  "is_lower c \<longleftrightarrow> 97 \<le> (of_char c :: nat) \<and> (of_char c :: nat) \<le> 122"

definition is_ascii_alpha :: "char \<Rightarrow> bool" where
  "is_ascii_alpha c \<longleftrightarrow> is_upper c \<or> is_lower c"

definition is_ascii_alnum :: "char \<Rightarrow> bool" where
  "is_ascii_alnum c \<longleftrightarrow> is_ascii_alpha c \<or> is_digit c"

text \<open>\<open>char::is_alphabetic\<close> on U+0000 to U+00FF.\<close>

definition is_alphabetic :: "char \<Rightarrow> bool" where
  "is_alphabetic c \<longleftrightarrow> is_ascii_alpha c
     \<or> (let n = (of_char c :: nat) in
          n \<in> {170, 181, 186} \<or> 192 \<le> n \<and> n \<noteq> 215 \<and> n \<noteq> 247)"

definition to_lower :: "char \<Rightarrow> char" where
  "to_lower c = (if is_upper c then char_of ((of_char c :: nat) + 32) else c)"

definition to_upper :: "char \<Rightarrow> char" where
  "to_upper c = (if is_lower c then char_of ((of_char c :: nat) - 32) else c)"

definition to_ascii_lowercase :: "string \<Rightarrow> string" where
  "to_ascii_lowercase s = map to_lower s"

definition to_ascii_uppercase :: "string \<Rightarrow> string" where
  "to_ascii_uppercase s = map to_upper s"

definition eq_ignore_ascii_case :: "string \<Rightarrow> string \<Rightarrow> bool" where
  "eq_ignore_ascii_case a b \<longleftrightarrow> to_ascii_lowercase a = to_ascii_lowercase b"

section \<open>Slices\<close>

definition trim_start :: "string \<Rightarrow> string" where
  "trim_start s = dropWhile is_ws s"

definition trim_end :: "string \<Rightarrow> string" where
  "trim_end s = rev (dropWhile is_ws (rev s))"

definition trim :: "string \<Rightarrow> string" where
  "trim s = trim_end (trim_start s)"

definition starts_with :: "string \<Rightarrow> string \<Rightarrow> bool" where
  "starts_with s p \<longleftrightarrow> take (length p) s = p"

definition ends_with :: "string \<Rightarrow> string \<Rightarrow> bool" where
  "ends_with s p \<longleftrightarrow> take (length p) (rev s) = rev p"

definition strip_prefix :: "string \<Rightarrow> string \<Rightarrow> string option" where
  "strip_prefix s p = (if starts_with s p then Some (drop (length p) s) else None)"

definition strip_suffix :: "string \<Rightarrow> string \<Rightarrow> string option" where
  "strip_suffix s p =
     (if ends_with s p then Some (take (length s - length p) s) else None)"

definition str_find :: "char \<Rightarrow> string \<Rightarrow> nat option" where
  "str_find c s = position (\<lambda>x. x = c) s"

definition split_once :: "char \<Rightarrow> string \<Rightarrow> (string \<times> string) option" where
  "split_once c s =
     (case str_find c s of None \<Rightarrow> None | Some i \<Rightarrow> Some (take i s, drop (Suc i) s))"

fun split_on :: "(char \<Rightarrow> bool) \<Rightarrow> string \<Rightarrow> string list" where
  "split_on P [] = [[]]"
| "split_on P (c # s) =
     (if P c then [] # split_on P s
      else case split_on P s of [] \<Rightarrow> [[c]] | w # ws \<Rightarrow> (c # w) # ws)"

definition split_whitespace :: "string \<Rightarrow> string list" where
  "split_whitespace s = filter (\<lambda>w. w \<noteq> []) (split_on is_ws s)"

text \<open>\<open>str::lines\<close>: a final newline ends the last line, and a carriage return before a newline
  belongs to the line ending.\<close>

definition chomp_cr :: "string \<Rightarrow> string" where
  "chomp_cr s = (case strip_suffix s [CHR 0x0D] of None \<Rightarrow> s | Some t \<Rightarrow> t)"

fun str_lines_aux :: "string list \<Rightarrow> string list" where
  "str_lines_aux [] = []"
| "str_lines_aux [l] = (if l = [] then [] else [l])"
| "str_lines_aux (l # ls) = chomp_cr l # str_lines_aux ls"

definition str_lines :: "string \<Rightarrow> string list" where
  "str_lines s = str_lines_aux (split_on (\<lambda>c. c = CHR 0x0A) s)"

definition str_replace :: "char \<Rightarrow> string \<Rightarrow> string \<Rightarrow> string" where
  "str_replace c r s = concat (map (\<lambda>x. if x = c then r else [x]) s)"

section \<open>Numbers\<close>

definition digit_val :: "char \<Rightarrow> nat" where
  "digit_val c = (of_char c :: nat) - 48"

text \<open>\<open>from_str_radix\<close>'s loop: every digit is accumulated with an overflow check.\<close>

fun parse_digits :: "nat \<Rightarrow> nat \<Rightarrow> string \<Rightarrow> nat option" where
  "parse_digits mx acc [] = Some acc"
| "parse_digits mx acc (c # s) =
     (if is_digit c \<and> 10 * acc + digit_val c \<le> mx
      then parse_digits mx (10 * acc + digit_val c) s else None)"

definition parse_uint :: "nat \<Rightarrow> string \<Rightarrow> nat option" where
  "parse_uint mx s =
     (case s of
        [] \<Rightarrow> None
      | c # t \<Rightarrow> if c = CHR ''+'' then (if t = [] then None else parse_digits mx 0 t)
                 else parse_digits mx 0 s)"

definition parse_int :: "nat \<Rightarrow> string \<Rightarrow> int option" where
  "parse_int mx s =
     (case s of
        [] \<Rightarrow> None
      | c # t \<Rightarrow>
          if c = CHR ''-'' then
            (if t = [] then None else map_option (\<lambda>n. - int n) (parse_digits (Suc mx) 0 t))
          else map_option int (parse_uint mx s))"

fun show_nat :: "nat \<Rightarrow> string" where
  "show_nat n = (if n < 10 then [char_of (n + 48)] else show_nat (n div 10) @ [char_of (n mod 10 + 48)])"

declare show_nat.simps [simp del]

abbreviation parse_u64 :: "string \<Rightarrow> nat option" where "parse_u64 \<equiv> parse_uint u64_max"
abbreviation parse_u32 :: "string \<Rightarrow> nat option" where "parse_u32 \<equiv> parse_uint u32_max"
abbreviation parse_i32 :: "string \<Rightarrow> int option" where "parse_i32 \<equiv> parse_int 2147483647"

section \<open>Lemmas\<close>

lemma starts_with_append [simp]: "starts_with (p @ s) p"
  by (simp add: starts_with_def)

lemma starts_with_prefix: "starts_with s p \<longleftrightarrow> prefix p s"
  by (auto simp: starts_with_def prefix_def) (metis append_take_drop_id)

lemma ends_with_suffix: "ends_with s p \<longleftrightarrow> suffix p s"
  using starts_with_prefix [of "rev s" "rev p"]
  by (simp add: ends_with_def starts_with_def suffix_to_prefix)

lemma strip_prefix_Some: "strip_prefix s p = Some t \<longleftrightarrow> s = p @ t"
  by (auto simp: strip_prefix_def starts_with_prefix prefix_def)

lemma strip_suffix_Some: "strip_suffix s p = Some t \<longleftrightarrow> s = t @ p"
  by (auto simp: strip_suffix_def ends_with_suffix suffix_def)

lemma split_once_Some:
  "split_once c s = Some (a, b) \<longleftrightarrow> s = a @ c # b \<and> c \<notin> set a"
proof
  assume "split_once c s = Some (a, b)"
  then obtain i where i: "position (\<lambda>x. x = c) s = Some i" "a = take i s" "b = drop (Suc i) s"
    by (auto simp: split_once_def str_find_def split: option.splits)
  hence "i < length s" "s ! i = c" "\<forall>j < i. s ! j \<noteq> c" by (auto simp: position_Some)
  thus "s = a @ c # b \<and> c \<notin> set a"
    using i id_take_nth_drop [of i s] by (auto simp: in_set_conv_nth)
next
  assume r: "s = a @ c # b \<and> c \<notin> set a"
  hence "position (\<lambda>x. x = c) s = Some (length a)"
    by (auto simp: position_Some nth_append in_set_conv_nth)
  thus "split_once c s = Some (a, b)" using r by (simp add: split_once_def str_find_def)
qed

lemma split_once_None: "split_once c s = None \<longleftrightarrow> c \<notin> set s"
  by (auto simp: split_once_def str_find_def position_Some split: option.splits)

lemma trim_id:
  assumes "s = [] \<or> (\<not> is_ws (hd s) \<and> \<not> is_ws (last s))"
  shows "trim s = s"
proof (cases s rule: rev_cases)
  case (snoc ys y)
  hence y: "\<not> is_ws y" using assms by simp
  have "dropWhile is_ws s = s" using assms by (auto simp: dropWhile_eq_self_iff)
  thus ?thesis using snoc y by (simp add: trim_def trim_end_def trim_start_def)
qed (simp add: trim_def trim_end_def trim_start_def)

lemma trim_ends: "trim s = [] \<or> (\<not> is_ws (hd (trim s)) \<and> \<not> is_ws (last (trim s)))"
proof (cases "trim s = []")
  case False
  let ?u = "dropWhile is_ws s"
  have t: "trim s = rev (dropWhile is_ws (rev ?u))"
    by (simp add: trim_def trim_end_def trim_start_def)
  have ne: "dropWhile is_ws (rev ?u) \<noteq> []" using False t by auto
  have "\<not> is_ws (last (trim s))"
    unfolding t using hd_dropWhile [OF ne] by (simp add: last_rev)
  moreover have "suffix (dropWhile is_ws (rev ?u)) (rev ?u)" by (rule suffix_dropWhile)
  hence p: "prefix (trim s) ?u" unfolding t by (simp add: suffix_to_prefix)
  have "?u \<noteq> []" using p False by (metis prefix_Nil)
  hence "\<not> is_ws (hd ?u)" by (rule hd_dropWhile)
  moreover have "hd (trim s) = hd ?u" using p False by (auto simp: prefix_def)
  ultimately show ?thesis by simp
qed simp

lemma trim_idem [simp]: "trim (trim s) = trim s"
  using trim_ends by (rule trim_id)

lemma split_on_not_Nil [simp]: "split_on P s \<noteq> []"
  by (induction P s rule: split_on.induct) (auto split: list.splits)

lemma split_on_free: "\<forall>c \<in> set s. \<not> P c \<Longrightarrow> split_on P s = [s]"
  by (induction s) auto

lemma split_on_append: "\<forall>c \<in> set s. \<not> P c \<Longrightarrow> P d \<Longrightarrow> split_on P (s @ d # t) = s # split_on P t"
  by (induction s) auto

lemma split_on_words: "w \<in> set (split_on P s) \<Longrightarrow> c \<in> set w \<Longrightarrow> \<not> P c"
  by (induction P s arbitrary: w rule: split_on.induct) (fastforce split: list.splits if_splits)+

lemma split_whitespace_words:
  "w \<in> set (split_whitespace s) \<Longrightarrow> w \<noteq> [] \<and> (\<forall>c \<in> set w. \<not> is_ws c)"
  by (auto simp: split_whitespace_def dest: split_on_words)

fun join_words :: "string list \<Rightarrow> string" where
  "join_words [] = []"
| "join_words [w] = w"
| "join_words (w # ws) = w @ CHR '' '' # join_words ws"

lemma is_ws_space [simp]: "is_ws (CHR '' '')"
  by (simp add: is_ws_def)

lemma split_whitespace_join:
  "\<forall>w \<in> set ws. w \<noteq> [] \<and> (\<forall>c \<in> set w. \<not> is_ws c) \<Longrightarrow> split_whitespace (join_words ws) = ws"
  by (induction ws rule: join_words.induct)
     (auto simp: split_whitespace_def split_on_free split_on_append)

subsection \<open>Decimal numbers\<close>

lemma is_digit_char_of: "d < 10 \<Longrightarrow> is_digit (char_of (d + 48)) \<and> digit_val (char_of (d + 48)) = d"
  by (simp add: is_digit_def digit_val_def of_char_of)

lemma parse_digits_bound: "parse_digits mx acc s = Some n \<Longrightarrow> acc \<le> mx \<Longrightarrow> n \<le> mx"
  by (induction mx acc s rule: parse_digits.induct) (auto split: if_splits)

lemma parse_uint_bound: "parse_uint mx s = Some n \<Longrightarrow> n \<le> mx"
  by (auto simp: parse_uint_def dest: parse_digits_bound split: list.splits if_splits)

lemma parse_digits_append:
  "parse_digits mx acc (s @ t) = Option.bind (parse_digits mx acc s) (\<lambda>a. parse_digits mx a t)"
  by (induction mx acc s rule: parse_digits.induct) auto

lemma show_nat_parse: "n \<le> mx \<Longrightarrow> parse_digits mx 0 (show_nat n) = Some n"
proof (induction n rule: show_nat.induct)
  case (1 n)
  show ?case
  proof (cases "n < 10")
    case True
    thus ?thesis using 1 is_digit_char_of [of n] by (simp add: show_nat.simps [of n])
  next
    case False
    thus ?thesis using 1 is_digit_char_of [of "n mod 10"]
      by (simp add: show_nat.simps [of n] parse_digits_append)
  qed
qed

lemma show_nat_digits: "show_nat n \<noteq> [] \<and> (\<forall>c \<in> set (show_nat n). is_digit c)"
proof (induction n rule: show_nat.induct)
  case (1 n)
  thus ?case
    using is_digit_char_of [of n] is_digit_char_of [of "n mod 10"]
    by (cases "n < 10") (simp_all add: show_nat.simps [of n])
qed

lemma not_digit_plus: "\<not> is_digit (CHR ''+'')"
  by (simp add: is_digit_def)

lemma parse_uint_show [simp]: "n \<le> mx \<Longrightarrow> parse_uint mx (show_nat n) = Some n"
proof -
  assume n: "n \<le> mx"
  obtain c t where ct: "show_nat n = c # t" using show_nat_digits [of n] by (cases "show_nat n") auto
  have "c \<noteq> CHR ''+''" using show_nat_digits [of n] ct not_digit_plus by auto
  thus ?thesis using show_nat_parse [OF n] ct by (simp add: parse_uint_def)
qed

lemma show_nat_inj: "show_nat a = show_nat b \<Longrightarrow> a = b"
  by (metis max.cobounded1 max.cobounded2 option.inject show_nat_parse)

end
