(* ===== verification/Duration.thy ===== *)
theory Duration
  imports RustStr
begin

text \<open>
  Duration strings, \<open>src/src/unit/duration.rs\<close>.  A \<open>Duration\<close> is its number of microseconds.

  The code multiplies in \<open>f64\<close> and truncates.  A nonnegative \<open>f64\<close> is a fraction of natural
  numbers here and every operation rounds to 53 significant bits, ties to even.  The exponent is
  not bounded: a value beyond the \<open>f64\<close> range saturates the cast to \<open>u64\<close> either way, and one
  below it is truncated to zero either way.
\<close>

section \<open>Rounding to 53 bits\<close>

fun bitlen :: "nat \<Rightarrow> nat" where
  "bitlen n = (if n = 0 then 0 else Suc (bitlen (n div 2)))"

declare bitlen.simps [simp del]

definition round_half_even :: "nat \<Rightarrow> nat \<Rightarrow> nat" where
  "round_half_even n d =
     (let q = n div d; r = n mod d
      in if 2 * r < d then q else if d < 2 * r then Suc q else if even q then q else Suc q)"

text \<open>Multiply a fraction by a power of two given by an integer exponent.\<close>

definition scale2 :: "int \<Rightarrow> nat \<times> nat \<Rightarrow> nat \<times> nat" where
  "scale2 s x = (if 0 \<le> s then (fst x * 2 ^ nat s, snd x) else (fst x, snd x * 2 ^ nat (- s)))"

definition round53 :: "nat \<times> nat \<Rightarrow> nat \<times> nat" where
  "round53 x =
     (if fst x = 0 then (0, 1)
      else
        (let s0 = 53 + int (bitlen (snd x)) - int (bitlen (fst x));
             y = scale2 s0 x;
             s = (if 2 ^ 53 * snd y \<le> fst y then s0 - 1 else s0);
             z = scale2 s x
         in scale2 (- s) (round_half_even (fst z) (snd z), 1)))"

definition f64_as_u64 :: "nat \<times> nat \<Rightarrow> nat" where
  "f64_as_u64 x = min u64_max (fst x div snd x)"

section \<open>The parser\<close>

text \<open>\<open>str::parse::<f64>\<close> on a string of digits and dots.\<close>

definition parse_f64 :: "string \<Rightarrow> (nat \<times> nat) option" where
  "parse_f64 s =
     (let (a, b) = (case split_once (CHR ''.'') s of None \<Rightarrow> (s, []) | Some ab \<Rightarrow> ab)
      in if a @ b = [] \<or> \<not> list_all is_digit (a @ b) then None
         else Some (round53 (foldl (\<lambda>n c. 10 * n + digit_val c) 0 (a @ b), 10 ^ length b)))"

definition duration_units :: "(string \<times> nat) list" where
  "duration_units =
     [(''usec'', 1), (''us'', 1), (''msec'', 1000), (''ms'', 1000),
      (''minutes'', 60000000), (''minute'', 60000000),
      (''months'', 2592000000000), (''month'', 2592000000000),
      (''years'', 31536000000000), (''year'', 31536000000000),
      (''weeks'', 604800000000), (''week'', 604800000000),
      (''days'', 86400000000), (''day'', 86400000000),
      (''hours'', 3600000000), (''hour'', 3600000000),
      (''min'', 60000000), (''sec'', 1000000), (''hr'', 3600000000), (''h'', 3600000000),
      (''d'', 86400000000), (''w'', 604800000000), (''s'', 1000000), (''m'', 60000000)]"

fun suffix_loop :: "(string \<times> nat) list \<Rightarrow> string \<Rightarrow> nat \<times> nat" where
  "suffix_loop [] s = (1000000, 0)"
| "suffix_loop ((suf, factor) # rest) s =
     (if starts_with (to_ascii_lowercase s) suf
         \<and> (length suf < length s \<longrightarrow> \<not> is_alphabetic (s ! length suf))
      then (factor, length suf) else suffix_loop rest s)"

definition parse_unit_suffix :: "string \<Rightarrow> nat \<times> nat" where
  "parse_unit_suffix s = suffix_loop duration_units s"

definition numeric :: "char \<Rightarrow> bool" where
  "numeric c \<longleftrightarrow> is_digit c \<or> c = CHR ''.''"

lemma trim_start_length: "length (trim_start s) \<le> length s"
  by (simp add: trim_start_def length_dropWhile_le)

function duration_loop :: "nat \<Rightarrow> string \<Rightarrow> nat option" where
  "duration_loop total_us remaining =
     (let r = trim_start remaining
      in if r = [] then Some total_us
         else
           (let num = takeWhile numeric r
            in if num = [] then None
               else
                 (case parse_f64 num of
                    None \<Rightarrow> None
                  | Some x \<Rightarrow>
                      (let r1 = trim_start (drop (length num) r);
                           (unit_us, unit_len) = parse_unit_suffix r1;
                           chunk = f64_as_u64 (round53 (fst x * unit_us, snd x))
                       in duration_loop (sat_add u64_max total_us chunk) (drop unit_len r1)))))"
  by pat_completeness auto
termination
proof (relation "measure (\<lambda>(_, r). length r)", goal_cases)
  case (2 total_us remaining r num x r1 z unit_us unit_len chunk)
  have "length r1 \<le> length (drop (length num) r)"
    using 2 trim_start_length [of "drop (length num) r"] by simp
  moreover have "0 < length num" using 2 by simp
  moreover have "0 < length r" using 2 by simp
  moreover have "length num \<le> length r" using 2 by (simp add: length_takeWhile_le)
  moreover have "length r \<le> length remaining" using 2 trim_start_length [of remaining] by simp
  ultimately have "length (drop unit_len r1) < length remaining" unfolding length_drop by linarith
  thus ?case by simp
qed simp

declare duration_loop.simps [simp del]

definition parse_duration :: "string \<Rightarrow> nat option" where
  "parse_duration s =
     (let s = trim s
      in if s = [] \<or> s = ''infinity'' then None else duration_loop 0 s)"

section \<open>Exactness\<close>

lemma bitlen_bounds: "0 < n \<Longrightarrow> 2 ^ (bitlen n - 1) \<le> n \<and> n < 2 ^ bitlen n \<and> 0 < bitlen n"
proof (induction n rule: bitlen.induct)
  case (1 n)
  show ?case
  proof (cases "n div 2 = 0")
    case True
    hence "n = 1" using 1 by simp
    thus ?thesis by (simp add: bitlen.simps [of "Suc 0"] bitlen.simps [of 0])
  next
    case False
    hence IH: "2 ^ (bitlen (n div 2) - 1) \<le> n div 2" "n div 2 < 2 ^ bitlen (n div 2)"
      "0 < bitlen (n div 2)" using 1 by auto
    have e: "bitlen n = Suc (bitlen (n div 2))" using 1 by (simp add: bitlen.simps [of n])
    have "(2 :: nat) ^ bitlen (n div 2) = 2 * 2 ^ (bitlen (n div 2) - 1)"
      using IH(3) by (simp flip: power_Suc)
    thus ?thesis unfolding e using IH by simp linarith
  qed
qed

lemma bitlen_shift: "0 < n \<Longrightarrow> bitlen (n * 2 ^ k) = bitlen n + k"
proof (induction k)
  case (Suc k)
  have "n * 2 ^ Suc k div 2 = n * 2 ^ k" "n * 2 ^ Suc k \<noteq> 0" using Suc.prems by simp_all
  hence "bitlen (n * 2 ^ Suc k) = Suc (bitlen (n * 2 ^ k))"
    using bitlen.simps [of "n * 2 ^ Suc k"] by simp
  thus ?case using Suc by simp
qed simp

lemma round_half_even_exact: "0 < d \<Longrightarrow> round_half_even (q * d) d = q"
  by (simp add: round_half_even_def Let_def)

lemma scale2_int: "scale2 (int s) x = (fst x * 2 ^ s, snd x)"
  by (simp add: scale2_def)

lemma round53_exact:
  assumes "0 < p" "p < 2 ^ 53"
  shows "\<exists>t. round53 (p * 2 ^ k, 2 ^ k) = (p * 2 ^ t, 2 ^ t)"
proof -
  note b = bitlen_bounds [OF assms(1)]
  have le: "bitlen p \<le> 53"
  proof (rule ccontr)
    assume "\<not> bitlen p \<le> 53"
    hence "(2 :: nat) ^ 53 \<le> 2 ^ (bitlen p - 1)" by (intro power_increasing) auto
    thus False using b assms(2) by linarith
  qed
  define t where "t = 53 - bitlen p"
  have b1: "bitlen (2 ^ k) = Suc k" using bitlen_shift [of 1 k] by (simp add: bitlen.simps [of "Suc 0"] bitlen.simps [of 0])
  have s0: "53 + int (bitlen (2 ^ k)) - int (bitlen (p * 2 ^ k)) = int (Suc t)"
    using le bitlen_shift [OF assms(1), of k] b1 by (simp add: t_def)
  have "(2 :: nat) ^ 53 = 2 ^ (bitlen p - 1) * 2 ^ Suc t"
    using le b by (simp add: t_def flip: power_add)
  also have "\<dots> \<le> p * 2 ^ Suc t" using b by (intro mult_le_mono1) simp
  finally have big: "2 ^ 53 * 2 ^ k \<le> p * 2 ^ k * 2 ^ Suc t" by simp
  have d: "int (Suc t) - 1 = int t" "1 - int (Suc t) = - int t" by simp_all
  have "round53 (p * 2 ^ k, 2 ^ k) =
      scale2 (- int t) (round_half_even (p * 2 ^ k * 2 ^ t) (2 ^ k), 1)"
    using assms(1) big unfolding round53_def fst_conv snd_conv s0 Let_def scale2_int
    by (simp add: scale2_int d del: of_nat_Suc)
  also have "p * 2 ^ k * 2 ^ t = p * 2 ^ t * 2 ^ k" by simp
  hence "round_half_even (p * 2 ^ k * 2 ^ t) (2 ^ k) = p * 2 ^ t"
    by (metis round_half_even_exact zero_less_numeral zero_less_power)
  finally show ?thesis by (intro exI [of _ t]) (simp add: scale2_def)
qed

lemma f64_as_u64_exact:
  assumes "0 < p" "p < 2 ^ 53"
  shows "f64_as_u64 (round53 (p * 2 ^ k, 2 ^ k)) = p"
proof -
  obtain t where "round53 (p * 2 ^ k, 2 ^ k) = (p * 2 ^ t, 2 ^ t)" using round53_exact [OF assms] by blast
  thus ?thesis using assms(2) by (simp add: f64_as_u64_def)
qed

text \<open>A whole number times a unit is exact as long as the product has at most 53 bits.\<close>

lemma chunk_exact:
  assumes "n * u < 2 ^ 53" "0 < u"
  shows "f64_as_u64 (round53 (fst (round53 (n, 1)) * u, snd (round53 (n, 1)))) = n * u"
proof (cases "n = 0")
  case False
  have "n * 1 \<le> n * u" using assms(2) by (intro mult_le_mono2) simp
  hence "n < 2 ^ 53" using assms(1) by linarith
  hence n: "0 < n" "n < 2 ^ 53" using False by auto
  obtain t where "round53 (n * 2 ^ 0, 2 ^ 0) = (n * 2 ^ t, 2 ^ t)" using round53_exact [OF n] by blast
  thus ?thesis using f64_as_u64_exact [of "n * u" t] assms n(1) by (simp add: ac_simps)
qed (simp add: round53_def f64_as_u64_def)

section \<open>Whole numbers with a unit\<close>

lemma duration_units_self:
  "list_all (\<lambda>(suf, u). parse_unit_suffix suf = (u, length suf) \<and> 0 < u \<and> suf \<noteq> []
     \<and> list_all (\<lambda>c. \<not> is_ws c \<and> \<not> numeric c) suf) duration_units"
  by (simp add: parse_unit_suffix_def duration_units_def starts_with_def to_ascii_lowercase_def
      to_lower_def is_upper_def is_alphabetic_def is_ascii_alpha_def is_lower_def is_ws_def
      numeric_def is_digit_def)

lemma parse_digits_foldl:
  "parse_digits mx acc s = Some v \<Longrightarrow> foldl (\<lambda>n c. 10 * n + digit_val c) acc s = v"
  by (induction mx acc s rule: parse_digits.induct) (auto split: if_splits)

lemma digit_facts: "is_digit c \<Longrightarrow> \<not> is_ws c \<and> c \<noteq> CHR ''.'' \<and> numeric c \<and> c \<noteq> CHR ''i''"
  by (auto simp: is_digit_def is_ws_def numeric_def)

lemma parse_f64_show: "parse_f64 (show_nat n) = Some (round53 (n, 1))"
proof -
  have "CHR ''.'' \<notin> set (show_nat n)" using show_nat_digits [of n] digit_facts by blast
  hence "split_once (CHR ''.'') (show_nat n) = None" by (simp add: split_once_None)
  moreover have "foldl (\<lambda>n c. 10 * n + digit_val c) 0 (show_nat n) = n"
    using parse_digits_foldl [OF show_nat_parse [of n n]] by simp
  ultimately show ?thesis
    using show_nat_digits [of n] by (simp add: parse_f64_def list_all_iff)
qed

definition unit_ok :: "string \<Rightarrow> nat \<Rightarrow> bool" where
  "unit_ok suf u \<longleftrightarrow> (suf, u) \<in> set duration_units \<or> (suf = [] \<and> u = 1000000)"

lemma unit_ok_facts:
  assumes "unit_ok suf u"
  shows "parse_unit_suffix suf = (u, length suf)" "0 < u"
    "\<forall>c \<in> set suf. \<not> is_ws c \<and> \<not> numeric c"
proof -
  have "parse_unit_suffix [] = (1000000, 0)"
    by (simp add: parse_unit_suffix_def duration_units_def starts_with_def to_ascii_lowercase_def)
  thus "parse_unit_suffix suf = (u, length suf)" "0 < u" "\<forall>c \<in> set suf. \<not> is_ws c \<and> \<not> numeric c"
    using assms duration_units_self by (auto simp: unit_ok_def list_all_iff)
qed

lemma trim_no_ws: "\<forall>c \<in> set s. \<not> is_ws c \<Longrightarrow> trim s = s \<and> trim_start s = s"
  by (cases s) (auto simp: trim_start_def intro!: trim_id split: if_splits)

lemma duration_loop_Nil: "duration_loop t [] = Some t"
  by (simp add: duration_loop.simps trim_start_def)

lemma duration_loop_one:
  assumes u: "unit_ok suf u" and b: "n * u < 2 ^ 53"
  shows "duration_loop 0 (show_nat n @ suf) = Some (n * u)"
proof -
  let ?s = "show_nat n @ suf"
  note f = unit_ok_facts [OF u]
  have d: "\<forall>c \<in> set (show_nat n). \<not> is_ws c \<and> numeric c"
    using show_nat_digits [of n] digit_facts by blast
  hence ts: "trim_start ?s = ?s" using f(3) by (intro trim_no_ws [THEN conjunct2]) auto
  have tw: "takeWhile numeric ?s = show_nat n"
    using d f(3) by (cases suf) (simp_all add: takeWhile_append2)
  have "trim_start suf = suf" using f(3) by (intro trim_no_ws [THEN conjunct2]) auto
  thus ?thesis
    using show_nat_digits [of n] chunk_exact [OF b f(2)] b
    by (simp add: duration_loop.simps [of 0 ?s] ts tw parse_f64_show f(1) Let_def
        duration_loop_Nil sat_add_def)
qed

text \<open>
  A whole number followed by any unit name of the table (or by nothing, which means
  seconds) parses to exactly that many microseconds, as long as the product stays below two to
  the 53, where the code's floating point arithmetic is exact.
\<close>

theorem parse_duration_exact:
  assumes "unit_ok suf u" "n * u < 2 ^ 53"
  shows "parse_duration (show_nat n @ suf) = Some (n * u)"
proof -
  let ?s = "show_nat n @ suf"
  have "\<forall>c \<in> set ?s. \<not> is_ws c"
    using show_nat_digits [of n] digit_facts unit_ok_facts(3) [OF assms(1)] by auto
  hence "trim ?s = ?s" by (rule trim_no_ws [THEN conjunct1])
  moreover have "?s \<noteq> ''infinity''"
    using show_nat_digits [of n] digit_facts by (cases "show_nat n") auto
  ultimately show ?thesis
    using duration_loop_one [OF assms] show_nat_digits [of n] by (simp add: parse_duration_def)
qed

theorem parse_duration_exact_witness: "parse_duration ''1001ms'' = Some 1001000"
proof -
  have "show_nat 1001 = ''1001''" by (simp add: show_nat.simps char_of_eq_iff)
  moreover have "unit_ok ''ms'' 1000" unfolding unit_ok_def duration_units_def
    by (intro disjI1) (simp only: list.set insert_iff prod.inject simp_thms)
  ultimately show ?thesis using parse_duration_exact [of "''ms''" 1000 1001] by simp
qed

lemmas char_defs = is_ws_def numeric_def is_digit_def is_upper_def is_lower_def
  is_ascii_alpha_def is_alphabetic_def

lemma decimal_parts:
  "trim ''1.001s'' = ''1.001s''" "trim_start ''1.001s'' = ''1.001s''" "trim_start ''s'' = ''s''"
  "takeWhile numeric ''1.001s'' = ''1.001''"
  by (simp_all add: trim_def trim_start_def trim_end_def char_defs)

lemma decimal_f64: "parse_f64 ''1.001'' = Some (4508103226997866, 4503599627370496)"
proof -
  have "parse_f64 ''1.001'' = Some (round53 (1001, 1000))"
    by (simp add: parse_f64_def split_once_def str_find_def digit_val_def char_defs)
  also have "round53 (1001, 1000) = (4508103226997866, 4503599627370496)"
    by (simp add: round53_def bitlen.simps scale2_def round_half_even_def Let_def)
  finally show ?thesis .
qed

lemma decimal_chunk:
  "f64_as_u64 (round53 (4508103226997866 * 1000000, 4503599627370496)) = 1000999"
  by (simp add: f64_as_u64_def round53_def bitlen.simps scale2_def round_half_even_def Let_def)

lemma suffix_s: "parse_unit_suffix ''s'' = (1000000, 1)"
  by (simp add: parse_unit_suffix_def duration_units_def starts_with_def to_ascii_lowercase_def
      to_lower_def char_defs)

text \<open>
  The truncating conversion loses a microsecond on some decimal inputs: one millisecond more
  than a second, written as a decimal number of seconds, parses to 1000999 microseconds.
\<close>

theorem parse_duration_truncates: "parse_duration ''1.001s'' = Some 1000999"
  unfolding parse_duration_def Let_def decimal_parts
  by (simp add: duration_loop.simps [of 0] Let_def decimal_parts decimal_f64 suffix_s
      decimal_chunk [simplified] duration_loop_Nil sat_add_def del: takeWhile.simps)

end
