(* ===== verification/UnitSection.thy ===== *)
theory UnitSection
  imports Duration
begin

text \<open>
  The \<open>[Unit]\<close> section, \<open>src/src/unit/section_unit.rs\<close>, and the condition lists of
  \<open>src/src/unit/condition.rs\<close>.  The probe of a single condition against the running system
  (\<open>test_condition\<close>) is the argument \<open>probe\<close> of the evaluators.

  The lemmas show that every dependency list is determined by the entries of its own key alone,
  and what a condition list with a trigger group means.
\<close>

section \<open>Conditions\<close>

datatype condition_kind =
  PathExists | PathExistsGlob | PathIsDirectory | PathIsSymbolicLink | PathIsMountPoint
| PathIsReadWrite | PathIsEncrypted | DirectoryNotEmpty | Virtualization | Host
| KernelCommandLine | KernelVersion | Credential | Environment | Security | Capability
| ACPower | NeedsUpdate | FirstBoot | Architecture | Firmware | Version | Memory | CPUs
| CPUFeature | Unknown string

definition kind_names :: "(string \<times> condition_kind) list" where
  "kind_names =
     [(''PathExists'', PathExists), (''PathExistsGlob'', PathExistsGlob),
      (''PathIsDirectory'', PathIsDirectory), (''PathIsSymbolicLink'', PathIsSymbolicLink),
      (''PathIsMountPoint'', PathIsMountPoint), (''PathIsReadWrite'', PathIsReadWrite),
      (''PathIsEncrypted'', PathIsEncrypted), (''DirectoryNotEmpty'', DirectoryNotEmpty),
      (''Virtualization'', Virtualization), (''Host'', Host),
      (''KernelCommandLine'', KernelCommandLine), (''KernelVersion'', KernelVersion),
      (''Credential'', Credential), (''Environment'', Environment), (''Security'', Security),
      (''Capability'', Capability), (''ACPower'', ACPower), (''NeedsUpdate'', NeedsUpdate),
      (''FirstBoot'', FirstBoot), (''Architecture'', Architecture), (''Firmware'', Firmware),
      (''Version'', Version), (''Memory'', Memory), (''CPUs'', CPUs), (''CPUFeature'', CPUFeature)]"

definition from_key :: "string \<Rightarrow> condition_kind" where
  "from_key key =
     (let stripped = (case strip_prefix key ''Condition'' of
                        Some s \<Rightarrow> s
                      | None \<Rightarrow> (case strip_prefix key ''Assert'' of Some s \<Rightarrow> s | None \<Rightarrow> key))
      in case map_of kind_names stripped of Some k \<Rightarrow> k | None \<Rightarrow> Unknown stripped)"

record condition =
  cond_kind :: condition_kind
  negate :: bool
  trigger :: bool
  cond_value :: string
  is_assert :: bool

definition is_key :: "string \<Rightarrow> bool" where
  "is_key key \<longleftrightarrow> starts_with key ''Condition'' \<or> starts_with key ''Assert''"

text \<open>The prefix loop of \<open>Condition::parse\<close>: every \<open>!\<close> toggles, every \<open>|\<close> sets.\<close>

fun parse_flags :: "bool \<Rightarrow> bool \<Rightarrow> string \<Rightarrow> bool \<times> bool \<times> string" where
  "parse_flags neg trg [] = (neg, trg, [])"
| "parse_flags neg trg (c # s) =
     (if c = CHR ''!'' then parse_flags (\<not> neg) trg s
      else if c = CHR ''|'' then parse_flags neg True s
      else (neg, trg, c # s))"

definition condition_parse :: "string \<Rightarrow> string \<Rightarrow> condition" where
  "condition_parse key raw_value =
     (let (neg, trg, rest) = parse_flags False False raw_value
      in \<lparr> cond_kind = from_key key, negate = neg, trigger = trg, cond_value = rest,
           is_assert = starts_with key ''Assert'' \<rparr>)"

definition evaluate :: "(condition \<Rightarrow> bool) \<Rightarrow> condition \<Rightarrow> bool" where
  "evaluate probe cond = (let result = probe cond in if negate cond then \<not> result else result)"

fun evaluate_loop :: "(condition \<Rightarrow> bool) \<Rightarrow> condition list \<Rightarrow> bool \<Rightarrow> bool \<Rightarrow> bool" where
  "evaluate_loop probe [] has_trigger trigger_passed = (\<not> has_trigger \<or> trigger_passed)"
| "evaluate_loop probe (c # cs) has_trigger trigger_passed =
     (let passed = evaluate probe c
      in if trigger c then evaluate_loop probe cs True (trigger_passed \<or> passed)
         else if \<not> passed then False
         else evaluate_loop probe cs has_trigger trigger_passed)"

definition evaluate_list :: "(condition \<Rightarrow> bool) \<Rightarrow> condition list \<Rightarrow> bool" where
  "evaluate_list probe conditions = evaluate_loop probe conditions False False"

lemma evaluate_loop_iff:
  "evaluate_loop probe cs ht tp \<longleftrightarrow>
     (\<forall>c \<in> set cs. \<not> trigger c \<longrightarrow> evaluate probe c)
   \<and> ((\<not> ht \<and> (\<forall>c \<in> set cs. \<not> trigger c)) \<or> tp \<or> (\<exists>c \<in> set cs. trigger c \<and> evaluate probe c))"
  by (induction probe cs ht tp rule: evaluate_loop.induct) (auto simp: Let_def)

text \<open>
  A condition list holds exactly when every condition outside the trigger group holds and,
  if there are trigger conditions, at least one of them holds; a condition marked for negation
  holds when its probe fails.  The order of the list does not matter.
\<close>

theorem evaluate_list_meaning:
  "evaluate_list probe cs \<longleftrightarrow>
     (\<forall>c \<in> set cs. \<not> trigger c \<longrightarrow> (probe c \<noteq> negate c))
   \<and> ((\<exists>c \<in> set cs. trigger c) \<longrightarrow> (\<exists>c \<in> set cs. trigger c \<and> (probe c \<noteq> negate c)))"
  by (auto simp: evaluate_list_def evaluate_loop_iff evaluate_def Let_def)

text \<open>Printing a condition the way a unit file writes it, and reading it back.\<close>

definition show_flags :: "condition \<Rightarrow> string" where
  "show_flags c = (if trigger c then ''|'' else []) @ (if negate c then ''!'' else []) @ cond_value c"

lemma parse_flags_plain:
  "(s = [] \<or> hd s \<notin> {CHR ''!'', CHR ''|''}) \<Longrightarrow> parse_flags n t s = (n, t, s)"
  by (cases s) auto

lemma parse_flags_show:
  "(cond_value c = [] \<or> hd (cond_value c) \<notin> {CHR ''!'', CHR ''|''})
    \<Longrightarrow> parse_flags False False (show_flags c) = (negate c, trigger c, cond_value c)"
  by (auto simp: show_flags_def parse_flags_plain)

section \<open>The section\<close>

datatype unit_action =
  UA_None | Reboot | RebootForce | RebootImmediate | Poweroff | PoweroffForce
| PoweroffImmediate | Exit | ExitForce | SoftReboot | SoftRebootForce | Halt | KExec

definition unit_action_parse :: "string \<Rightarrow> unit_action" where
  "unit_action_parse s =
     (if s = ''reboot'' then Reboot
      else if s = ''reboot-force'' then RebootForce
      else if s = ''reboot-immediate'' then RebootImmediate
      else if s = ''poweroff'' then Poweroff
      else if s = ''poweroff-force'' then PoweroffForce
      else if s = ''poweroff-immediate'' then PoweroffImmediate
      else if s = ''exit'' then Exit
      else if s = ''exit-force'' then ExitForce
      else if s = ''soft-reboot'' then SoftReboot
      else if s = ''soft-reboot-force'' then SoftRebootForce
      else if s = ''halt'' then Halt
      else if s = ''kexec'' then KExec
      else UA_None)"

datatype collect_mode = CM_Inactive | CM_InactiveOrFailed

definition collect_mode_parse :: "string \<Rightarrow> collect_mode" where
  "collect_mode_parse s = (if s = ''inactive-or-failed'' then CM_InactiveOrFailed else CM_Inactive)"

definition unit_parse_bool :: "string \<Rightarrow> bool" where
  "unit_parse_bool s \<longleftrightarrow> to_ascii_lowercase s \<in> {''yes'', ''true'', ''1'', ''on''}"

definition split_units :: "string \<Rightarrow> string list" where
  "split_units s = split_whitespace s"

definition apply_list :: "string \<Rightarrow> string list \<Rightarrow> string list" where
  "apply_list value xs = (if value = [] then [] else xs @ split_units value)"

record unit_section =
  description :: "string"
  documentation :: "string list"
  wants :: "string list"
  requires :: "string list"
  requisite :: "string list"
  binds_to :: "string list"
  part_of :: "string list"
  upholds :: "string list"
  conflicts :: "string list"
  unit_before :: "string list"
  unit_after :: "string list"
  on_failure :: "string list"
  on_success :: "string list"
  propagates_reload_to :: "string list"
  reload_propagated_from :: "string list"
  propagates_stop_to :: "string list"
  stop_propagated_from :: "string list"
  joins_namespace_of :: "string list"
  requires_mounts_for :: "string list"
  wants_mounts_for :: "string list"
  default_dependencies :: "bool"
  ignore_on_isolate :: "bool"
  stop_when_unneeded :: "bool"
  refuse_manual_start :: "bool"
  refuse_manual_stop :: "bool"
  allow_isolate :: "bool"
  collect_mode_of :: "collect_mode"
  survive_final_kill_signal :: "bool"
  on_success_job_mode :: "string"
  on_failure_job_mode :: "string"
  failure_action :: "unit_action"
  success_action :: "unit_action"
  failure_action_exit_status :: "int option"
  success_action_exit_status :: "int option"
  job_timeout_sec :: "nat option"
  job_running_timeout_sec :: "nat option"
  job_timeout_action :: "unit_action"
  job_timeout_reboot_argument :: "string"
  start_limit_interval_sec :: "nat option"
  start_limit_burst :: "nat option"
  start_limit_action :: "unit_action"
  reboot_argument :: "string"
  conditions :: "condition list"
  asserts :: "condition list"
  source_path :: "string"

definition unit_section_default :: unit_section where
  "unit_section_default = \<lparr>
     description = [],
     documentation = [],
     wants = [],
     requires = [],
     requisite = [],
     binds_to = [],
     part_of = [],
     upholds = [],
     conflicts = [],
     unit_before = [],
     unit_after = [],
     on_failure = [],
     on_success = [],
     propagates_reload_to = [],
     reload_propagated_from = [],
     propagates_stop_to = [],
     stop_propagated_from = [],
     joins_namespace_of = [],
     requires_mounts_for = [],
     wants_mounts_for = [],
     default_dependencies = False,
     ignore_on_isolate = False,
     stop_when_unneeded = False,
     refuse_manual_start = False,
     refuse_manual_stop = False,
     allow_isolate = False,
     collect_mode_of = CM_Inactive,
     survive_final_kill_signal = False,
     on_success_job_mode = [],
     on_failure_job_mode = [],
     failure_action = UA_None,
     success_action = UA_None,
     failure_action_exit_status = None,
     success_action_exit_status = None,
     job_timeout_sec = None,
     job_running_timeout_sec = None,
     job_timeout_action = UA_None,
     job_timeout_reboot_argument = [],
     start_limit_interval_sec = None,
     start_limit_burst = None,
     start_limit_action = UA_None,
     reboot_argument = [],
     conditions = [],
     asserts = [],
     source_path = [] \<rparr>"

definition unit_section_apply :: "string \<Rightarrow> string \<Rightarrow> unit_section \<Rightarrow> unit_section" where
  "unit_section_apply key value u =
     (if key = ''Description'' then u\<lparr> description := value \<rparr>
      else if key = ''Documentation'' then u\<lparr> documentation := apply_list value (documentation u) \<rparr>
      else if key = ''Wants'' then u\<lparr> wants := apply_list value (wants u) \<rparr>
      else if key = ''Requires'' then u\<lparr> requires := apply_list value (requires u) \<rparr>
      else if key = ''Requisite'' then u\<lparr> requisite := apply_list value (requisite u) \<rparr>
      else if key = ''BindsTo'' then u\<lparr> binds_to := apply_list value (binds_to u) \<rparr>
      else if key = ''PartOf'' then u\<lparr> part_of := apply_list value (part_of u) \<rparr>
      else if key = ''Upholds'' then u\<lparr> upholds := apply_list value (upholds u) \<rparr>
      else if key = ''Conflicts'' then u\<lparr> conflicts := apply_list value (conflicts u) \<rparr>
      else if key = ''Before'' then u\<lparr> unit_before := apply_list value (unit_before u) \<rparr>
      else if key = ''After'' then u\<lparr> unit_after := apply_list value (unit_after u) \<rparr>
      else if key = ''OnFailure'' then u\<lparr> on_failure := apply_list value (on_failure u) \<rparr>
      else if key = ''OnSuccess'' then u\<lparr> on_success := apply_list value (on_success u) \<rparr>
      else if key = ''PropagatesReloadTo'' then u\<lparr> propagates_reload_to := apply_list value (propagates_reload_to u) \<rparr>
      else if key = ''ReloadPropagatedFrom'' then u\<lparr> reload_propagated_from := apply_list value (reload_propagated_from u) \<rparr>
      else if key = ''PropagatesStopTo'' then u\<lparr> propagates_stop_to := apply_list value (propagates_stop_to u) \<rparr>
      else if key = ''StopPropagatedFrom'' then u\<lparr> stop_propagated_from := apply_list value (stop_propagated_from u) \<rparr>
      else if key = ''JoinsNamespaceOf'' then u\<lparr> joins_namespace_of := apply_list value (joins_namespace_of u) \<rparr>
      else if key = ''RequiresMountsFor'' then u\<lparr> requires_mounts_for := apply_list value (requires_mounts_for u) \<rparr>
      else if key = ''WantsMountsFor'' then u\<lparr> wants_mounts_for := apply_list value (wants_mounts_for u) \<rparr>
      else if key = ''DefaultDependencies'' then u\<lparr> default_dependencies := unit_parse_bool value \<rparr>
      else if key = ''IgnoreOnIsolate'' then u\<lparr> ignore_on_isolate := unit_parse_bool value \<rparr>
      else if key = ''StopWhenUnneeded'' then u\<lparr> stop_when_unneeded := unit_parse_bool value \<rparr>
      else if key = ''RefuseManualStart'' then u\<lparr> refuse_manual_start := unit_parse_bool value \<rparr>
      else if key = ''RefuseManualStop'' then u\<lparr> refuse_manual_stop := unit_parse_bool value \<rparr>
      else if key = ''AllowIsolate'' then u\<lparr> allow_isolate := unit_parse_bool value \<rparr>
      else if key = ''CollectMode'' then u\<lparr> collect_mode_of := collect_mode_parse value \<rparr>
      else if key = ''SurviveFinalKillSignal'' then u\<lparr> survive_final_kill_signal := unit_parse_bool value \<rparr>
      else if key = ''OnSuccessJobMode'' then u\<lparr> on_success_job_mode := value \<rparr>
      else if key = ''OnFailureJobMode'' then u\<lparr> on_failure_job_mode := value \<rparr>
      else if key = ''OnFailureIsolate'' then u\<lparr> on_failure_job_mode := ''isolate'' \<rparr>
      else if key = ''FailureAction'' then u\<lparr> failure_action := unit_action_parse value \<rparr>
      else if key = ''SuccessAction'' then u\<lparr> success_action := unit_action_parse value \<rparr>
      else if key = ''FailureActionExitStatus'' then u\<lparr> failure_action_exit_status := parse_i32 value \<rparr>
      else if key = ''SuccessActionExitStatus'' then u\<lparr> success_action_exit_status := parse_i32 value \<rparr>
      else if key = ''JobTimeoutSec'' then u\<lparr> job_timeout_sec := parse_duration value \<rparr>
      else if key = ''JobRunningTimeoutSec'' then u\<lparr> job_running_timeout_sec := parse_duration value \<rparr>
      else if key = ''JobTimeoutAction'' then u\<lparr> job_timeout_action := unit_action_parse value \<rparr>
      else if key = ''JobTimeoutRebootArgument'' then u\<lparr> job_timeout_reboot_argument := value \<rparr>
      else if key = ''StartLimitIntervalSec'' then u\<lparr> start_limit_interval_sec := parse_duration value \<rparr>
      else if key = ''StartLimitBurst'' then u\<lparr> start_limit_burst := parse_u32 value \<rparr>
      else if key = ''StartLimitAction'' then u\<lparr> start_limit_action := unit_action_parse value \<rparr>
      else if key = ''RebootArgument'' then u\<lparr> reboot_argument := value \<rparr>
      else if key = ''SourcePath'' then u\<lparr> source_path := value \<rparr>
      else if is_key key then
        (if value = [] then
           (if starts_with key ''Assert'' then u\<lparr> asserts := [] \<rparr> else u\<lparr> conditions := [] \<rparr>)
         else
           (let cond = condition_parse key value
            in if is_assert cond then u\<lparr> asserts := asserts u @ [cond] \<rparr>
               else u\<lparr> conditions := conditions u @ [cond] \<rparr>))
      else u)"

text \<open>Applying all entries of a section, in file order.\<close>

definition unit_section_apply_all :: "(string \<times> string) list \<Rightarrow> unit_section \<Rightarrow> unit_section" where
  "unit_section_apply_all entries u = fold (\<lambda>(key, value). unit_section_apply key value) entries u"

text \<open>The dependency lists with their keys.\<close>

definition list_fields :: "(string \<times> (unit_section \<Rightarrow> string list)) list" where
  "list_fields =
     [(''Documentation'', documentation),
      (''Wants'', wants),
      (''Requires'', requires),
      (''Requisite'', requisite),
      (''BindsTo'', binds_to),
      (''PartOf'', part_of),
      (''Upholds'', upholds),
      (''Conflicts'', conflicts),
      (''Before'', unit_before),
      (''After'', unit_after),
      (''OnFailure'', on_failure),
      (''OnSuccess'', on_success),
      (''PropagatesReloadTo'', propagates_reload_to),
      (''ReloadPropagatedFrom'', reload_propagated_from),
      (''PropagatesStopTo'', propagates_stop_to),
      (''StopPropagatedFrom'', stop_propagated_from),
      (''JoinsNamespaceOf'', joins_namespace_of),
      (''RequiresMountsFor'', requires_mounts_for),
      (''WantsMountsFor'', wants_mounts_for)]"

definition values_of :: "string \<Rightarrow> (string \<times> string) list \<Rightarrow> string list" where
  "values_of k entries = map snd (filter (\<lambda>(key, _). key = k) entries)"

lemma list_field_frame:
  "list_all (\<lambda>(k, f). key \<noteq> k \<longrightarrow> f (unit_section_apply key value u) = f u) list_fields"
  by (simp add: list_fields_def unit_section_apply_def Let_def)

lemma list_field_own:
  "list_all (\<lambda>(k, f). f (unit_section_apply k value u) = apply_list value (f u)) list_fields"
  by (simp add: list_fields_def unit_section_apply_def)

lemma list_field_step:
  assumes "(k, f) \<in> set list_fields"
  shows "f (unit_section_apply key value u) = (if key = k then apply_list value (f u) else f u)"
  using assms list_field_frame [of key "value" u] list_field_own [of "value" u]
  by (auto simp: list_all_iff)

lemma fold_apply_list:
  "[] \<notin> set vs \<Longrightarrow> fold apply_list vs xs = xs @ concat (map split_units vs)"
  by (induction vs arbitrary: xs) (auto simp: apply_list_def)

lemma fold_apply_list_reset: "fold apply_list (vs @ [] # ws) xs = fold apply_list ws []"
  by (simp add: apply_list_def)

lemma list_field_fold:
  assumes "(k, f) \<in> set list_fields"
  shows "f (unit_section_apply_all entries u) = fold apply_list (values_of k entries) (f u)"
proof (induction entries arbitrary: u)
  case (Cons e es)
  thus ?case using list_field_step [OF assms]
    by (cases e) (simp add: unit_section_apply_all_def values_of_def)
qed (simp add: unit_section_apply_all_def values_of_def)

text \<open>
  Each dependency list of a section is determined by the entries of its own key alone: the
  names of all its values in file order, where an empty value discards everything before it.
  No other key of the section, known or unknown, changes the list.
\<close>

theorem dependency_lists_independent:
  assumes "(k, f) \<in> set list_fields"
  shows "f (unit_section_apply_all entries u) = fold apply_list (values_of k entries) (f u)
    \<and> (\<forall>vs ws. values_of k entries = vs @ [] # ws \<and> [] \<notin> set ws
         \<longrightarrow> f (unit_section_apply_all entries u) = concat (map split_units ws))"
  using list_field_fold [OF assms] fold_apply_list fold_apply_list_reset by fastforce

theorem dependency_lists_independent_witness:
  "wants (unit_section_apply_all [(''Wants'', ''a.service''), (''After'', ''x''), (''Wants'', []),
       (''Wants'', ''b.service c.service'')] unit_section_default) = [''b.service'', ''c.service'']"
proof -
  let ?es = "[(''Wants'', ''a.service''), (''After'', ''x''), (''Wants'', []),
       (''Wants'', ''b.service c.service'')]"
  have "(''Wants'', wants) \<in> set list_fields" by (simp add: list_fields_def)
  from dependency_lists_independent [OF this, of ?es unit_section_default]
  have "wants (unit_section_apply_all ?es unit_section_default)
      = fold apply_list (values_of ''Wants'' ?es) (wants unit_section_default)" by (rule conjunct1)
  also have "\<dots> = [''b.service'', ''c.service'']"
    by (simp add: values_of_def apply_list_def split_units_def split_whitespace_def is_ws_def)
  finally show ?thesis .
qed

text \<open>
  A condition line written with its prefixes is read back exactly: the kind from the key,
  negation and trigger flags, the value and whether it is an assertion.
\<close>

theorem condition_parse_show:
  assumes "cond_value c = [] \<or> hd (cond_value c) \<notin> {CHR ''!'', CHR ''|''}"
    and "map_of kind_names kn = Some (cond_kind c)"
  shows "condition_parse ((if is_assert c then ''Assert'' else ''Condition'') @ kn) (show_flags c) = c"
proof -
  have "from_key (''Condition'' @ kn) = cond_kind c" "from_key (''Assert'' @ kn) = cond_kind c"
    using assms(2) by (simp_all add: from_key_def strip_prefix_def starts_with_def)
  moreover have "\<not> starts_with (''Condition'' @ kn) ''Assert''" "starts_with (''Assert'' @ kn) ''Assert''"
    by (simp_all add: starts_with_def)
  ultimately show ?thesis
    using parse_flags_show [OF assms(1)] by (cases c) (auto simp: condition_parse_def)
qed

theorem condition_parse_show_witness:
  "condition_parse ''ConditionPathExists'' ''|!/etc/x'' =
     \<lparr> cond_kind = PathExists, negate = True, trigger = True, cond_value = ''/etc/x'', is_assert = False \<rparr>"
  using condition_parse_show [of "\<lparr> cond_kind = PathExists, negate = True, trigger = True,
      cond_value = ''/etc/x'', is_assert = False \<rparr>" "''PathExists''"]
  by (simp add: kind_names_def show_flags_def)

theorem evaluate_list_meaning_witness:
  "evaluate_list (\<lambda>c. cond_value c = ''a'')
     [condition_parse ''ConditionHost'' ''|b'', condition_parse ''ConditionHost'' ''|!c'']"
  using evaluate_list_meaning [of "\<lambda>c. cond_value c = ''a''"
      "[condition_parse ''ConditionHost'' ''|b'', condition_parse ''ConditionHost'' ''|!c'']"]
  by (simp add: condition_parse_def)

end
