(* ===== verification/Deps.thy ===== *)
theory Deps
  imports UnitSection Units
begin

text \<open>
  The dependency resolver, \<open>src/src/deps.rs\<close>.

  \<open>known\<close> is the unit registry, \<open>load\<close> the closure that loads a unit file by name (files do not
  change while a start order is computed, so it is a function of the name).  \<open>resolve\<close> recurses
  along unit files it has not seen, so it carries fuel: the result \<open>None\<close> means the fuel ran
  out, \<open>Some (Inl e)\<close> is the error return and \<open>Some (Inr st)\<close> the resolver after the call.  One
  unit of fuel per unit that can be reached is always enough.

  The lemmas characterise the result completely: which units are in the order, in which order,
  which edges are dropped and when the call fails.
\<close>

section \<open>The resolver\<close>

record dep_unit =
  du_section :: unit_section
  du_state :: unit_state

record resolver =
  extra :: "string \<rightharpoonup> unit_section"
  visited :: "string set"
  on_stack :: "string set"
  broken :: "(string \<times> string) set"
  order :: "string list"

datatype deps_error = Required_Not_Loaded string

type_synonym 's outcome = "(deps_error + 's) option"

text \<open>A loop whose body may return early with an error or run out of fuel.\<close>

fun try_each :: "('a \<Rightarrow> 's \<Rightarrow> 's outcome) \<Rightarrow> 'a list \<Rightarrow> 's \<Rightarrow> 's outcome" where
  "try_each f [] s = Some (Inr s)"
| "try_each f (x # xs) s =
     (case f x s of
        None \<Rightarrow> None
      | Some (Inl e) \<Rightarrow> Some (Inl e)
      | Some (Inr s') \<Rightarrow> try_each f xs s')"

definition and_then :: "'s outcome \<Rightarrow> ('s \<Rightarrow> 's outcome) \<Rightarrow> 's outcome" where
  "and_then r k =
     (case r of None \<Rightarrow> None | Some (Inl e) \<Rightarrow> Some (Inl e) | Some (Inr s) \<Rightarrow> k s)"

definition deps_for ::
  "string \<Rightarrow> (string \<rightharpoonup> dep_unit) \<Rightarrow> (string \<rightharpoonup> unit_section) \<Rightarrow> string list \<times> string list \<times> string list" where
  "deps_for name known ext =
     (case (case known name of Some d \<Rightarrow> Some (du_section d) | None \<Rightarrow> ext name) of
        Some u \<Rightarrow> (wants u, requires u, unit_after u)
      | None \<Rightarrow> ([], [], []))"

definition is_loaded :: "(string \<rightharpoonup> dep_unit) \<Rightarrow> string \<Rightarrow> resolver \<Rightarrow> bool" where
  "is_loaded known name st \<longleftrightarrow> known name \<noteq> None \<or> extra st name \<noteq> None"

definition ensure_loaded ::
  "(string \<rightharpoonup> dep_unit) \<Rightarrow> (string \<Rightarrow> unit_section option) \<Rightarrow> string \<Rightarrow> bool \<Rightarrow> resolver \<Rightarrow> deps_error + resolver" where
  "ensure_loaded known load name required st =
     (if is_loaded known name st then Inr st
      else case load name of
             Some u \<Rightarrow> Inr (st\<lparr> extra := (extra st)(name \<mapsto> u) \<rparr>)
           | None \<Rightarrow> if required then Inl (Required_Not_Loaded name) else Inr st)"

definition report_cycle :: "string \<Rightarrow> string option \<Rightarrow> resolver \<Rightarrow> resolver" where
  "report_cycle name from st =
     (let from = (case from of Some f \<Rightarrow> f | None \<Rightarrow> name)
      in st\<lparr> broken := insert (from, name) (broken st) \<rparr>)"

primrec resolve ::
  "nat \<Rightarrow> (string \<rightharpoonup> dep_unit) \<Rightarrow> (string \<Rightarrow> unit_section option) \<Rightarrow> string \<Rightarrow> string option
   \<Rightarrow> resolver \<Rightarrow> resolver outcome" where
  "resolve 0 known load name from st = None"
| "resolve (Suc fuel) known load name from st =
     (if name \<in> visited st then Some (Inr st)
      else if name \<in> on_stack st then Some (Inr (report_cycle name from st))
      else
        (let (wnts, reqs, _) = deps_for name known (extra st)
         in and_then
              (and_then
                (try_each (\<lambda>dep st. case ensure_loaded known load dep True st of
                                      Inl e \<Rightarrow> Some (Inl e)
                                    | Inr st' \<Rightarrow> resolve fuel known load dep (Some name) st')
                  reqs (st\<lparr> on_stack := insert name (on_stack st) \<rparr>))
                (try_each (\<lambda>dep st. case ensure_loaded known load dep False st of
                                      Inl e \<Rightarrow> Some (Inr st)
                                    | Inr st' \<Rightarrow> if is_loaded known dep st'
                                                then resolve fuel known load dep (Some name) st'
                                                else Some (Inr st'))
                  wnts))
              (\<lambda>st. Some (Inr (st\<lparr> on_stack := on_stack st - {name},
                                   visited := insert name (visited st),
                                   order := order st @ [name] \<rparr>)))))"

definition resolver_new :: resolver where
  "resolver_new = \<lparr> extra = Map.empty, visited = {}, on_stack = {}, broken = {}, order = [] \<rparr>"

definition resolve_start_order ::
  "nat \<Rightarrow> string \<Rightarrow> (string \<rightharpoonup> dep_unit) \<Rightarrow> (string \<Rightarrow> unit_section option)
   \<Rightarrow> (deps_error + string list) option" where
  "resolve_start_order fuel target known load =
     (case resolve fuel known load target None resolver_new of
        None \<Rightarrow> None
      | Some (Inl e) \<Rightarrow> Some (Inl e)
      | Some (Inr st) \<Rightarrow> Some (Inr (order st)))"

section \<open>The dependency graph\<close>

text \<open>The section a name stands for: the registry's, else the file's.\<close>

definition section_of ::
  "(string \<rightharpoonup> dep_unit) \<Rightarrow> (string \<Rightarrow> unit_section option) \<Rightarrow> string \<Rightarrow> unit_section option" where
  "section_of known load n = (case known n of Some d \<Rightarrow> Some (du_section d) | None \<Rightarrow> load n)"

text \<open>An edge from a unit to a dependency that is pulled in.\<close>

definition dep_edge ::
  "(string \<rightharpoonup> dep_unit) \<Rightarrow> (string \<Rightarrow> unit_section option) \<Rightarrow> (string \<times> string) set" where
  "dep_edge known load =
     {(n, d). \<exists>u. section_of known load n = Some u
                \<and> (d \<in> set (requires u) \<or> (d \<in> set (wants u) \<and> section_of known load d \<noteq> None))}"

text \<open>A unit with a required dependency that cannot be loaded.\<close>

definition missing_requirement ::
  "(string \<rightharpoonup> dep_unit) \<Rightarrow> (string \<Rightarrow> unit_section option) \<Rightarrow> string \<Rightarrow> string \<Rightarrow> bool" where
  "missing_requirement known load n d \<longleftrightarrow>
     (\<exists>u. section_of known load n = Some u \<and> d \<in> set (requires u) \<and> section_of known load d = None)"

section \<open>Loops\<close>

lemma try_each_Inr:
  assumes "try_each f xs s = Some (Inr s')" "P s"
    and step: "\<And>x s t. x \<in> set xs \<Longrightarrow> P s \<Longrightarrow> f x s = Some (Inr t)
      \<Longrightarrow> P t \<and> Q x t \<and> (\<forall>y. Q y s \<longrightarrow> Q y t)"
  shows "P s' \<and> (\<forall>x \<in> set xs. Q x s') \<and> (\<forall>y. Q y s \<longrightarrow> Q y s')"
  using assms
proof (induction xs arbitrary: s)
  case (Cons x xs)
  then obtain t where t: "f x s = Some (Inr t)" "try_each f xs t = Some (Inr s')"
    by (auto split: option.splits sum.splits)
  have s: "P t \<and> Q x t \<and> (\<forall>y. Q y s \<longrightarrow> Q y t)" using Cons.prems(3) [of x s t] Cons.prems(2) t(1) by simp
  have "P s' \<and> (\<forall>x \<in> set xs. Q x s') \<and> (\<forall>y. Q y t \<longrightarrow> Q y s')"
    by (rule Cons.IH [OF t(2)]) (use s Cons.prems(3) in auto)
  thus ?case using s by auto
qed simp

lemma try_each_Inl:
  assumes "try_each f xs s = Some (Inl e)" "P s"
    and step: "\<And>x s t. x \<in> set xs \<Longrightarrow> P s \<Longrightarrow> f x s = Some (Inr t) \<Longrightarrow> P t"
  shows "\<exists>x \<in> set xs. \<exists>t. P t \<and> f x t = Some (Inl e)"
  using assms
proof (induction xs arbitrary: s)
  case (Cons x xs)
  show ?case
  proof (cases "f x s = Some (Inl e)")
    case False
    then obtain t where t: "f x s = Some (Inr t)" "try_each f xs t = Some (Inl e)"
      using Cons.prems(1) by (auto split: option.splits sum.splits)
    have "\<exists>x \<in> set xs. \<exists>t. P t \<and> f x t = Some (Inl e)"
      by (rule Cons.IH [OF t(2)]) (use t(1) Cons.prems in auto)
    thus ?thesis by auto
  qed (use Cons.prems in auto)
qed simp

lemma try_each_not_None:
  assumes "P s"
    and "\<And>x s t. x \<in> set xs \<Longrightarrow> P s \<Longrightarrow> f x s = Some (Inr t) \<Longrightarrow> P t"
    and "\<And>x s. x \<in> set xs \<Longrightarrow> P s \<Longrightarrow> f x s \<noteq> None"
  shows "try_each f xs s \<noteq> None"
  using assms
proof (induction xs arbitrary: s)
  case (Cons x xs)
  obtain r where r: "f x s = Some r" using Cons.prems(1,3) by fastforce
  show ?case
  proof (cases r)
    case (Inr t)
    have "P t" using Cons.prems(2) [of x s t] Cons.prems(1) r Inr by simp
    hence "try_each f xs t \<noteq> None"
    proof (rule Cons.IH)
      show "P t" if "x \<in> set xs" "P s" "f x s = Some (Inr t)" for x s t
        using Cons.prems(2) [of x s t] that by simp
      show "f x s \<noteq> None" if "x \<in> set xs" "P s" for x s
        using Cons.prems(3) [of x s] that by simp
    qed
    thus ?thesis using r Inr by simp
  qed (simp add: r)
qed simp

lemma and_then_Inr: "and_then r k = Some (Inr s) \<longleftrightarrow> (\<exists>t. r = Some (Inr t) \<and> k t = Some (Inr s))"
  by (auto simp: and_then_def split: option.splits sum.splits)

lemma and_then_Inl:
  "and_then r k = Some (Inl e) \<longleftrightarrow> r = Some (Inl e) \<or> (\<exists>t. r = Some (Inr t) \<and> k t = Some (Inl e))"
  by (auto simp: and_then_def split: option.splits sum.splits)

lemma and_then_None:
  "and_then r k = None \<longleftrightarrow> r = None \<or> (\<exists>t. r = Some (Inr t) \<and> k t = None)"
  by (auto simp: and_then_def split: option.splits sum.splits)

section \<open>The search invariant\<close>

definition precedes :: "'a list \<Rightarrow> 'a \<Rightarrow> 'a \<Rightarrow> bool" where
  "precedes xs a b \<longleftrightarrow> (\<exists>us vs. xs = us @ b # vs \<and> a \<in> set us)"

definition node_done ::
  "(string \<rightharpoonup> dep_unit) \<Rightarrow> (string \<Rightarrow> unit_section option) \<Rightarrow> resolver \<Rightarrow> string \<Rightarrow> bool" where
  "node_done known load st n \<longleftrightarrow>
     (\<forall>d. \<not> missing_requirement known load n d)
   \<and> (\<forall>d. (n, d) \<in> dep_edge known load \<longrightarrow>
          d \<in> visited st \<union> on_stack st \<and> (precedes (order st) d n \<or> (n, d) \<in> broken st))"

definition st_ok ::
  "(string \<rightharpoonup> dep_unit) \<Rightarrow> (string \<Rightarrow> unit_section option) \<Rightarrow> resolver \<Rightarrow> bool" where
  "st_ok known load st \<longleftrightarrow>
     (\<forall>n u. extra st n = Some u \<longrightarrow> known n = None \<and> load n = Some u)
   \<and> set (order st) = visited st \<and> distinct (order st) \<and> visited st \<inter> on_stack st = {}
   \<and> (\<forall>n \<in> visited st. node_done known load st n)
   \<and> (\<forall>(n, d) \<in> broken st. (n, d) \<in> dep_edge known load \<and> (d, n) \<in> (dep_edge known load)\<^sup>*)"

text \<open>How a call may change the resolver.\<close>

definition extends :: "resolver \<Rightarrow> resolver \<Rightarrow> bool" where
  "extends st st' \<longleftrightarrow> on_stack st' = on_stack st \<and> visited st \<subseteq> visited st'
     \<and> prefix (order st) (order st') \<and> broken st \<subseteq> broken st' \<and> extra st \<subseteq>\<^sub>m extra st'"

lemma extends_refl [simp]: "extends st st"
  by (simp add: extends_def)

lemma extends_trans: "extends a b \<Longrightarrow> extends b c \<Longrightarrow> extends a c"
  unfolding extends_def by (auto intro: map_le_trans prefix_order.trans)

lemma precedes_mono: "precedes xs a b \<Longrightarrow> prefix xs ys \<Longrightarrow> precedes ys a b"
  by (fastforce simp: precedes_def prefix_def)

lemma precedes_snoc: "a \<in> set xs \<Longrightarrow> precedes (xs @ [b]) a b"
  by (auto simp: precedes_def)

definition loaded_in :: "(string \<rightharpoonup> dep_unit) \<Rightarrow> resolver \<Rightarrow> string \<Rightarrow> bool" where
  "loaded_in known st n \<longleftrightarrow> is_loaded known n st"

lemma is_loaded_extends: "extends a b \<Longrightarrow> is_loaded known n a \<Longrightarrow> is_loaded known n b"
  by (fastforce simp: is_loaded_def extends_def map_le_def dom_def)

lemma is_loaded_section: "st_ok known load st \<Longrightarrow> is_loaded known n st \<Longrightarrow> section_of known load n \<noteq> None"
  by (auto simp: st_ok_def is_loaded_def section_of_def split: option.splits)

lemma deps_for_loaded:
  assumes "st_ok known load st" "is_loaded known n st" "section_of known load n = Some u"
  shows "deps_for n known (extra st) = (wants u, requires u, unit_after u)"
  using assms by (auto simp: deps_for_def section_of_def is_loaded_def st_ok_def split: option.splits)

lemma node_done_mono:
  "node_done known load st n \<Longrightarrow> visited st \<union> on_stack st \<subseteq> visited st' \<union> on_stack st'
   \<Longrightarrow> prefix (order st) (order st') \<Longrightarrow> broken st \<subseteq> broken st' \<Longrightarrow> node_done known load st' n"
  unfolding node_done_def by (blast intro: precedes_mono)

text \<open>The contract of one call of \<open>resolve\<close>.\<close>

definition call_pre ::
  "(string \<rightharpoonup> dep_unit) \<Rightarrow> (string \<Rightarrow> unit_section option) \<Rightarrow> string \<Rightarrow> string option \<Rightarrow> resolver \<Rightarrow> bool" where
  "call_pre known load name from st \<longleftrightarrow> st_ok known load st \<and> is_loaded known name st
     \<and> (case from of
          None \<Rightarrow> on_stack st = {}
        | Some f \<Rightarrow> (f, name) \<in> dep_edge known load
                  \<and> (\<forall>s \<in> on_stack st. (s, f) \<in> (dep_edge known load)\<^sup>*))"

definition grows ::
  "(string \<times> string) set \<Rightarrow> string \<Rightarrow> resolver \<Rightarrow> resolver \<Rightarrow> bool" where
  "grows E name st st' \<longleftrightarrow> extends st st' \<and> visited st' \<subseteq> visited st \<union> {n. (name, n) \<in> E\<^sup>*}"

definition edge_settled :: "string \<Rightarrow> string \<Rightarrow> resolver \<Rightarrow> bool" where
  "edge_settled f d st \<longleftrightarrow> d \<in> visited st \<union> on_stack st \<and> (d \<in> visited st \<or> (f, d) \<in> broken st)"

definition call_post ::
  "(string \<rightharpoonup> dep_unit) \<Rightarrow> (string \<Rightarrow> unit_section option) \<Rightarrow> string \<Rightarrow> string option \<Rightarrow> resolver
   \<Rightarrow> resolver \<Rightarrow> bool" where
  "call_post known load name from st st' \<longleftrightarrow>
     st_ok known load st' \<and> grows (dep_edge known load) name st st'
   \<and> (case from of None \<Rightarrow> name \<in> visited st' | Some f \<Rightarrow> edge_settled f name st')
   \<and> (name \<notin> visited st \<union> on_stack st \<longrightarrow> (\<exists>xs. order st' = order st @ xs @ [name]))"

lemma edge_settled_extends: "extends a b \<Longrightarrow> edge_settled f d a \<Longrightarrow> edge_settled f d b"
  by (auto simp: edge_settled_def extends_def)

lemma grows_trans: "grows E n a b \<Longrightarrow> grows E n b c \<Longrightarrow> grows E n a c"
  unfolding grows_def using extends_trans by blast

lemma grows_refl [simp]: "grows E n a a"
  by (simp add: grows_def)

lemma grows_edge: "grows E d a b \<Longrightarrow> (n, d) \<in> E \<Longrightarrow> grows E n a b"
  unfolding grows_def by (blast intro: converse_rtrancl_into_rtrancl)

lemma ensure_loaded_Inr:
  assumes "ensure_loaded known load d req st = Inr st'" "st_ok known load st"
  shows "st_ok known load st' \<and> extends st st' \<and> visited st' = visited st
    \<and> (is_loaded known d st' \<longleftrightarrow> section_of known load d \<noteq> None)
    \<and> (req \<longrightarrow> section_of known load d \<noteq> None)"
proof (cases "is_loaded known d st")
  case True
  thus ?thesis using assms is_loaded_section by (auto simp: ensure_loaded_def)
next
  case False
  hence kn: "known d = None" "extra st d = None" by (simp_all add: is_loaded_def)
  show ?thesis
  proof (cases "load d")
    case None
    thus ?thesis using assms False kn
      by (auto simp: ensure_loaded_def section_of_def split: if_splits)
  next
    case (Some u)
    have st': "st' = st\<lparr> extra := (extra st)(d \<mapsto> u) \<rparr>"
      using assms(1) False Some by (simp add: ensure_loaded_def)
    have "st_ok known load st'"
      using assms(2) kn Some unfolding st' st_ok_def node_done_def by simp
    thus ?thesis
      using kn Some by (auto simp: st' extends_def map_le_def is_loaded_def section_of_def)
  qed
qed

lemma ensure_loaded_Inl:
  "ensure_loaded known load d req st = Inl e \<Longrightarrow>
     e = Required_Not_Loaded d \<and> section_of known load d = None \<and> req"
  by (auto simp: ensure_loaded_def is_loaded_def section_of_def split: if_splits option.splits)

lemma st_ok_push:
  assumes "st_ok known load st" "n \<notin> visited st"
  shows "st_ok known load (st\<lparr> on_stack := insert n (on_stack st) \<rparr>)"
  using assms by (auto simp: st_ok_def node_done_def)

lemma st_ok_cycle:
  assumes "st_ok known load st" "(f, n) \<in> dep_edge known load" "(n, f) \<in> (dep_edge known load)\<^sup>*"
  shows "st_ok known load (report_cycle n (Some f) st)"
  using assms by (auto simp: st_ok_def node_done_def report_cycle_def)

lemma st_ok_pop:
  assumes ok: "st_ok known load st" and n: "n \<in> on_stack st"
    and req: "\<And>d. \<not> missing_requirement known load n d"
    and ed: "\<And>d. (n, d) \<in> dep_edge known load \<Longrightarrow> edge_settled n d st"
  shows "st_ok known load (st\<lparr> on_stack := on_stack st - {n}, visited := insert n (visited st),
    order := order st @ [n] \<rparr>)" (is "st_ok _ _ ?st")
proof -
  have nv: "n \<notin> visited st" using ok n by (auto simp: st_ok_def)
  have "node_done known load ?st m" if "m \<in> visited st" for m
    by (rule node_done_mono [where st = st]) (use ok that n in \<open>auto simp: st_ok_def\<close>)
  moreover have "node_done known load ?st n"
    unfolding node_done_def
  proof (intro conjI allI impI req)
    fix d assume d: "(n, d) \<in> dep_edge known load"
    show "d \<in> visited ?st \<union> on_stack ?st" using ed [OF d] by (auto simp: edge_settled_def)
    show "precedes (order ?st) d n \<or> (n, d) \<in> broken ?st"
      using ed [OF d] ok by (auto simp: edge_settled_def st_ok_def intro!: precedes_snoc)
  qed
  ultimately show ?thesis using ok nv by (auto simp: st_ok_def)
qed

section \<open>Partial correctness\<close>

text \<open>The state of the loops over the dependencies of \<open>name\<close>.\<close>

definition loop_ok ::
  "(string \<rightharpoonup> dep_unit) \<Rightarrow> (string \<Rightarrow> unit_section option) \<Rightarrow> string \<Rightarrow> resolver \<Rightarrow> resolver \<Rightarrow> bool" where
  "loop_ok known load name st1 t \<longleftrightarrow>
     st_ok known load t \<and> grows (dep_edge known load) name st1 t
   \<and> (\<forall>s \<in> on_stack st1. (s, name) \<in> (dep_edge known load)\<^sup>*)"

lemma loop_ok_ensure:
  assumes "loop_ok known load name st1 t" "ensure_loaded known load d req t = Inr t'"
  shows "loop_ok known load name st1 t' \<and> extends t t'
    \<and> (is_loaded known d t' \<longleftrightarrow> section_of known load d \<noteq> None)
    \<and> (req \<longrightarrow> section_of known load d \<noteq> None)"
proof -
  note e = ensure_loaded_Inr [OF assms(2)]
  have "grows (dep_edge known load) name t t'"
    using e assms(1) by (simp add: grows_def loop_ok_def)
  thus ?thesis using e assms(1) grows_trans unfolding loop_ok_def by blast
qed

lemma loop_ok_pre:
  assumes "loop_ok known load name st1 t" "(name, d) \<in> dep_edge known load" "is_loaded known d t"
  shows "call_pre known load d (Some name) t"
  using assms by (auto simp: loop_ok_def call_pre_def grows_def extends_def)

lemma loop_ok_post:
  assumes "loop_ok known load name st1 t" "(name, d) \<in> dep_edge known load"
    "call_post known load d (Some name) t t'"
  shows "loop_ok known load name st1 t' \<and> edge_settled name d t' \<and> extends t t'"
  using assms grows_trans grows_edge unfolding loop_ok_def call_post_def
  by (metis (no_types, lifting) grows_def option.simps(5))

definition require_step where
  "require_step fuel known load name = (\<lambda>dep st. case ensure_loaded known load dep True st of
      Inl e \<Rightarrow> Some (Inl e) | Inr st' \<Rightarrow> resolve fuel known load dep (Some name) st')"

definition want_step where
  "want_step fuel known load name = (\<lambda>dep st. case ensure_loaded known load dep False st of
      Inl e \<Rightarrow> Some (Inr st)
    | Inr st' \<Rightarrow> if is_loaded known dep st' then resolve fuel known load dep (Some name) st'
                 else Some (Inr st'))"

definition pop_node :: "string \<Rightarrow> resolver \<Rightarrow> resolver" where
  "pop_node name st = st\<lparr> on_stack := on_stack st - {name},
     visited := insert name (visited st), order := order st @ [name] \<rparr>"

lemma resolve_unfold:
  assumes "name \<notin> visited st" "name \<notin> on_stack st"
    and "deps_for name known (extra st) = (ws, rs, as)"
  shows "resolve (Suc fuel) known load name from st =
    and_then (and_then (try_each (require_step fuel known load name) rs
        (st\<lparr> on_stack := insert name (on_stack st) \<rparr>))
      (try_each (want_step fuel known load name) ws)) (\<lambda>st. Some (Inr (pop_node name st)))"
  using assms by (simp add: require_step_def want_step_def pop_node_def)

text \<open>What the induction hypothesis provides for the calls inside the loops.\<close>

definition calls_ok where
  "calls_ok fuel known load \<longleftrightarrow> (\<forall>name from st st'. call_pre known load name from st
     \<longrightarrow> resolve fuel known load name from st = Some (Inr st') \<longrightarrow> call_post known load name from st st')"

lemma require_step_Inr:
  assumes "calls_ok fuel known load" "loop_ok known load name st1 t"
    and "section_of known load name = Some u" "d \<in> set (requires u)"
    and "require_step fuel known load name d t = Some (Inr t')"
  shows "loop_ok known load name st1 t' \<and> (edge_settled name d t' \<and> section_of known load d \<noteq> None)
    \<and> extends t t'"
proof -
  obtain t1 where t1: "ensure_loaded known load d True t = Inr t1"
    "resolve fuel known load d (Some name) t1 = Some (Inr t')"
    using assms(5) by (auto simp: require_step_def split: sum.splits)
  note e = loop_ok_ensure [OF assms(2) t1(1)]
  have ed: "(name, d) \<in> dep_edge known load" using assms(3,4) by (auto simp: dep_edge_def)
  have "call_post known load d (Some name) t1 t'"
    using assms(1) t1(2) loop_ok_pre [of known load name st1 t1 d] e ed by (auto simp: calls_ok_def)
  thus ?thesis using loop_ok_post e ed extends_trans by blast
qed

lemma want_step_Inr:
  assumes "calls_ok fuel known load" "loop_ok known load name st1 t"
    and "section_of known load name = Some u" "d \<in> set (wants u)"
    and "want_step fuel known load name d t = Some (Inr t')"
  shows "loop_ok known load name st1 t'
    \<and> (section_of known load d \<noteq> None \<longrightarrow> edge_settled name d t') \<and> extends t t'"
proof -
  obtain t1 where t1: "ensure_loaded known load d False t = Inr t1"
    using ensure_loaded_Inl by (cases "ensure_loaded known load d False t") blast+
  note e = loop_ok_ensure [OF assms(2) t1(1)]
  show ?thesis
  proof (cases "section_of known load d = None")
    case True
    thus ?thesis using e assms(5) t1 by (auto simp: want_step_def)
  next
    case False
    have ed: "(name, d) \<in> dep_edge known load" using assms(3,4) False by (auto simp: dep_edge_def)
    have "call_post known load d (Some name) t1 t'"
      using assms(1,5) t1 loop_ok_pre [of known load name st1 t1 d] e ed False
      by (auto simp: calls_ok_def want_step_def)
    thus ?thesis using loop_ok_post e ed extends_trans by blast
  qed
qed

lemma call_pre_push:
  assumes "call_pre known load name from st" "name \<notin> visited st"
  shows "loop_ok known load name (st\<lparr> on_stack := insert name (on_stack st) \<rparr>)
    (st\<lparr> on_stack := insert name (on_stack st) \<rparr>)"
proof -
  have "(s, name) \<in> (dep_edge known load)\<^sup>*" if "s \<in> on_stack st" for s
    using assms(1) that
    by (cases "from") (auto simp: call_pre_def intro: rtrancl_into_rtrancl)
  thus ?thesis using assms st_ok_push by (auto simp: loop_ok_def call_pre_def)
qed

lemma loops_Inr:
  assumes c: "calls_ok fuel known load" and l: "loop_ok known load name st1 st1"
    and u: "section_of known load name = Some u"
    and r: "try_each (require_step fuel known load name) (requires u) st1 = Some (Inr st2)"
    and w: "try_each (want_step fuel known load name) (wants u) st2 = Some (Inr st3)"
  shows "loop_ok known load name st1 st3
    \<and> (\<forall>d. (name, d) \<in> dep_edge known load \<longrightarrow> edge_settled name d st3)
    \<and> (\<forall>d. \<not> missing_requirement known load name d)"
proof -
  let ?P = "loop_ok known load name st1"
  let ?Q = "\<lambda>d t. edge_settled name d t \<and> section_of known load d \<noteq> None"
  let ?Q' = "\<lambda>d t. section_of known load d \<noteq> None \<longrightarrow> edge_settled name d t"
  have s2: "?P st2 \<and> (\<forall>d \<in> set (requires u). ?Q d st2) \<and> (\<forall>d. ?Q d st1 \<longrightarrow> ?Q d st2)"
    by (rule try_each_Inr [where P = ?P and Q = ?Q, OF r l])
       (use require_step_Inr [OF c _ u] edge_settled_extends in blast)
  have s3: "?P st3 \<and> (\<forall>d \<in> set (wants u). ?Q' d st3) \<and> (\<forall>d. ?Q' d st2 \<longrightarrow> ?Q' d st3)"
    by (rule try_each_Inr [where P = ?P and Q = ?Q', OF w])
       (use s2 want_step_Inr [OF c _ u] edge_settled_extends in blast)+
  show ?thesis using s2 s3 u by (auto simp: dep_edge_def missing_requirement_def)
qed

lemma pop_node_post:
  assumes pre: "call_pre known load name from st" and new: "name \<notin> visited st" "name \<notin> on_stack st"
    and l: "loop_ok known load name (st\<lparr> on_stack := insert name (on_stack st) \<rparr>) st3"
    and e: "\<forall>d. (name, d) \<in> dep_edge known load \<longrightarrow> edge_settled name d st3"
    and m: "\<forall>d. \<not> missing_requirement known load name d"
  shows "call_post known load name from st (pop_node name st3)"
proof -
  have ok: "st_ok known load st3" and ext: "on_stack st3 = insert name (on_stack st)"
    "visited st \<subseteq> visited st3" "prefix (order st) (order st3)" "broken st \<subseteq> broken st3"
    "extra st \<subseteq>\<^sub>m extra st3" "visited st3 \<subseteq> visited st \<union> {n. (name, n) \<in> (dep_edge known load)\<^sup>*}"
    using l by (auto simp: loop_ok_def grows_def extends_def)
  have "st_ok known load (pop_node name st3)"
    unfolding pop_node_def by (rule st_ok_pop [OF ok]) (use ext e m in auto)
  moreover have "grows (dep_edge known load) name st (pop_node name st3)"
    using ext new by (auto simp: grows_def extends_def pop_node_def prefix_def)
  moreover have "\<exists>xs. order (pop_node name st3) = order st @ xs @ [name]"
    using ext(3) by (auto simp: pop_node_def prefix_def)
  ultimately show ?thesis
    by (auto simp: call_post_def edge_settled_def pop_node_def split: option.splits)
qed

lemma resolve_calls_ok: "calls_ok fuel known load"
proof (induction fuel)
  case 0
  show ?case by (simp add: calls_ok_def)
next
  case (Suc fuel)
  show ?case unfolding calls_ok_def
  proof (intro allI impI)
    fix name "from" st st'
    assume pre: "call_pre known load name from st"
      and res: "resolve (Suc fuel) known load name from st = Some (Inr st')"
    have ok: "st_ok known load st" using pre by (simp add: call_pre_def)
    consider (vis) "name \<in> visited st" | (stk) "name \<notin> visited st" "name \<in> on_stack st"
      | (new) "name \<notin> visited st" "name \<notin> on_stack st" by blast
    thus "call_post known load name from st st'"
    proof cases
      case vis
      thus ?thesis using res ok by (auto simp: call_post_def edge_settled_def split: option.splits)
    next
      case stk
      obtain f where f: "from = Some f" "(f, name) \<in> dep_edge known load"
        "(name, f) \<in> (dep_edge known load)\<^sup>*"
        using pre stk by (auto simp: call_pre_def split: option.splits)
      have "st' = report_cycle name (Some f) st" using res stk f(1) by simp
      thus ?thesis using st_ok_cycle [OF ok f(2,3)] stk f(1)
        by (auto simp: call_post_def edge_settled_def report_cycle_def grows_def extends_def)
    next
      case new
      have ld: "is_loaded known name st" using pre by (simp add: call_pre_def)
      obtain u where u: "section_of known load name = Some u"
        using is_loaded_section [OF ok ld] by blast
      let ?st1 = "st\<lparr> on_stack := insert name (on_stack st) \<rparr>"
      obtain st2 st3 where s:
        "try_each (require_step fuel known load name) (requires u) ?st1 = Some (Inr st2)"
        "try_each (want_step fuel known load name) (wants u) st2 = Some (Inr st3)"
        "st' = pop_node name st3"
        using res resolve_unfold [OF new deps_for_loaded [OF ok ld u]]
        by (auto simp: and_then_Inr simp del: resolve.simps)
      note l = loops_Inr [OF Suc call_pre_push [OF pre new(1)] u s(1,2)]
      show ?thesis unfolding s(3) by (rule pop_node_post [OF pre new]) (use l in auto)
    qed
  qed
qed

section \<open>Errors\<close>

definition calls_err where
  "calls_err fuel known load \<longleftrightarrow> (\<forall>name from st e. call_pre known load name from st
     \<longrightarrow> resolve fuel known load name from st = Some (Inl e)
     \<longrightarrow> (\<exists>n d. (name, n) \<in> (dep_edge known load)\<^sup>* \<and> missing_requirement known load n d
              \<and> e = Required_Not_Loaded d))"

lemma loops_keep:
  assumes "section_of known load name = Some u"
  shows "d \<in> set (requires u) \<Longrightarrow> loop_ok known load name st1 t
      \<Longrightarrow> require_step fuel known load name d t = Some (Inr t') \<Longrightarrow> loop_ok known load name st1 t'"
    and "d \<in> set (wants u) \<Longrightarrow> loop_ok known load name st1 t
      \<Longrightarrow> want_step fuel known load name d t = Some (Inr t') \<Longrightarrow> loop_ok known load name st1 t'"
  using require_step_Inr [OF resolve_calls_ok _ assms] want_step_Inr [OF resolve_calls_ok _ assms]
  by blast+

lemma require_step_Inl:
  assumes c: "calls_err fuel known load" and l: "loop_ok known load name st1 t"
    and u: "section_of known load name = Some u" and d: "d \<in> set (requires u)"
    and e: "require_step fuel known load name d t = Some (Inl e)"
  shows "\<exists>n d. (name, n) \<in> (dep_edge known load)\<^sup>* \<and> missing_requirement known load n d
    \<and> e = Required_Not_Loaded d"
proof (cases "ensure_loaded known load d True t")
  case (Inl e')
  hence "missing_requirement known load name d" "e = Required_Not_Loaded d"
    using ensure_loaded_Inl [OF Inl] e u d by (auto simp: require_step_def missing_requirement_def)
  thus ?thesis by blast
next
  case (Inr t1)
  have ed: "(name, d) \<in> dep_edge known load" using u d by (auto simp: dep_edge_def)
  have "call_pre known load d (Some name) t1"
    using loop_ok_pre loop_ok_ensure [OF l Inr] ed by blast
  thus ?thesis using c e Inr ed
    by (auto simp: calls_err_def require_step_def) (meson converse_rtrancl_into_rtrancl)
qed

lemma want_step_Inl:
  assumes c: "calls_err fuel known load" and l: "loop_ok known load name st1 t"
    and u: "section_of known load name = Some u" and d: "d \<in> set (wants u)"
    and e: "want_step fuel known load name d t = Some (Inl e)"
  shows "\<exists>n d. (name, n) \<in> (dep_edge known load)\<^sup>* \<and> missing_requirement known load n d
    \<and> e = Required_Not_Loaded d"
proof (cases "ensure_loaded known load d False t")
  case (Inr t1)
  hence ld: "is_loaded known d t1" and rs: "resolve fuel known load d (Some name) t1 = Some (Inl e)"
    using e by (auto simp: want_step_def split: if_splits)
  have ed: "(name, d) \<in> dep_edge known load"
    using u d ld loop_ok_ensure [OF l Inr] by (auto simp: dep_edge_def)
  have "call_pre known load d (Some name) t1"
    using loop_ok_pre loop_ok_ensure [OF l Inr] ed ld by blast
  thus ?thesis using c rs ed
    by (auto simp: calls_err_def) (meson converse_rtrancl_into_rtrancl)
qed (use e in \<open>simp add: want_step_def\<close>)

lemma resolve_calls_err: "calls_err fuel known load"
proof (induction fuel)
  case 0
  show ?case by (simp add: calls_err_def)
next
  case (Suc fuel)
  show ?case unfolding calls_err_def
  proof (intro allI impI)
    fix name "from" st e
    assume pre: "call_pre known load name from st"
      and res: "resolve (Suc fuel) known load name from st = Some (Inl e)"
    have ok: "st_ok known load st" and ld: "is_loaded known name st"
      using pre by (simp_all add: call_pre_def)
    have new: "name \<notin> visited st" "name \<notin> on_stack st" using res by (auto split: if_splits)
    obtain u where u: "section_of known load name = Some u"
      using is_loaded_section [OF ok ld] by blast
    let ?st1 = "st\<lparr> on_stack := insert name (on_stack st) \<rparr>"
    let ?P = "loop_ok known load name ?st1"
    have P1: "?P ?st1" by (rule call_pre_push [OF pre new(1)])
    from res resolve_unfold [OF new deps_for_loaded [OF ok ld u]]
    consider (req) "try_each (require_step fuel known load name) (requires u) ?st1 = Some (Inl e)"
      | (want) st2 where "try_each (require_step fuel known load name) (requires u) ?st1 = Some (Inr st2)"
          "try_each (want_step fuel known load name) (wants u) st2 = Some (Inl e)"
      by (auto simp: and_then_Inl and_then_Inr simp del: resolve.simps)
    thus "\<exists>n d. (name, n) \<in> (dep_edge known load)\<^sup>* \<and> missing_requirement known load n d
        \<and> e = Required_Not_Loaded d"
    proof cases
      case req
      obtain d t where "d \<in> set (requires u)" "?P t"
        "require_step fuel known load name d t = Some (Inl e)"
        using try_each_Inl [where P = ?P, OF req P1] loops_keep(1) [OF u] by blast
      thus ?thesis using require_step_Inl [OF Suc _ u] by blast
    next
      case want
      have P2: "?P st2"
        using try_each_Inr [where P = ?P and Q = "\<lambda>_ _. True", OF want(1) P1] loops_keep(1) [OF u]
        by blast
      obtain d t where "d \<in> set (wants u)" "?P t"
        "want_step fuel known load name d t = Some (Inl e)"
        using try_each_Inl [where P = ?P, OF want(2) P2] loops_keep(2) [OF u] by blast
      thus ?thesis using want_step_Inl [OF Suc _ u] by blast
    qed
  qed
qed

section \<open>Enough fuel\<close>

definition calls_return where
  "calls_return fuel known load U \<longleftrightarrow> (\<forall>name from st. call_pre known load name from st
     \<longrightarrow> name \<in> U \<longrightarrow> card (U - on_stack st) < fuel \<longrightarrow> resolve fuel known load name from st \<noteq> None)"

lemma steps_return:
  assumes c: "calls_return fuel known load U" and cl: "dep_edge known load `` U \<subseteq> U"
    and n: "name \<in> U" and l: "loop_ok known load name st1 t"
    and u: "section_of known load name = Some u" and f: "card (U - on_stack st1) < fuel"
  shows "d \<in> set (requires u) \<Longrightarrow> require_step fuel known load name d t \<noteq> None"
    and "d \<in> set (wants u) \<Longrightarrow> want_step fuel known load name d t \<noteq> None"
proof -
  have call: "resolve fuel known load d (Some name) t' \<noteq> None"
    if "loop_ok known load name st1 t'" "is_loaded known d t'" "(name, d) \<in> dep_edge known load" for t' d
  proof -
    have "on_stack t' = on_stack st1" using that(1) by (simp add: loop_ok_def grows_def extends_def)
    moreover have "d \<in> U" using that(3) cl n by blast
    ultimately show ?thesis using c f loop_ok_pre [OF that(1,3,2)] by (auto simp: calls_return_def)
  qed
  note e = loop_ok_ensure [OF l]
  show "require_step fuel known load name d t \<noteq> None" if "d \<in> set (requires u)"
  proof (cases "ensure_loaded known load d True t")
    case (Inr t1)
    moreover have "(name, d) \<in> dep_edge known load" using u that by (auto simp: dep_edge_def)
    ultimately show ?thesis using call [of t1 d] e [OF Inr] by (simp add: require_step_def)
  qed (simp add: require_step_def)
  show "want_step fuel known load name d t \<noteq> None" if "d \<in> set (wants u)"
  proof (cases "ensure_loaded known load d False t")
    case (Inr t1)
    have "(name, d) \<in> dep_edge known load" if "is_loaded known d t1"
      using u \<open>d \<in> set (wants u)\<close> e [OF Inr] that by (auto simp: dep_edge_def)
    thus ?thesis using call [of t1 d] e [OF Inr] Inr by (simp add: want_step_def)
  qed (simp add: want_step_def)
qed

lemma resolve_calls_return:
  assumes fin: "finite U" and cl: "dep_edge known load `` U \<subseteq> U"
  shows "calls_return fuel known load U"
proof (induction fuel)
  case 0
  show ?case by (simp add: calls_return_def)
next
  case (Suc fuel)
  show ?case unfolding calls_return_def
  proof (intro allI impI)
    fix name "from" st
    assume pre: "call_pre known load name from st" and n: "name \<in> U"
      and f: "card (U - on_stack st) < Suc fuel"
    have ok: "st_ok known load st" and ld: "is_loaded known name st"
      using pre by (simp_all add: call_pre_def)
    show "resolve (Suc fuel) known load name from st \<noteq> None"
    proof (cases "name \<in> visited st \<or> name \<in> on_stack st")
      case False
      hence new: "name \<notin> visited st" "name \<notin> on_stack st" by auto
      obtain u where u: "section_of known load name = Some u"
        using is_loaded_section [OF ok ld] by blast
      let ?st1 = "st\<lparr> on_stack := insert name (on_stack st) \<rparr>"
      let ?P = "loop_ok known load name ?st1"
      have P1: "?P ?st1" by (rule call_pre_push [OF pre new(1)])
      have "U - on_stack ?st1 = (U - on_stack st) - {name}" by auto
      moreover have "card ((U - on_stack st) - {name}) < card (U - on_stack st)"
        by (rule card_Diff1_less) (use fin n new(2) in auto)
      ultimately have "card (U - on_stack ?st1) < fuel" using f by simp
      note ret = steps_return [OF Suc cl n _ u this]
      have r: "try_each (require_step fuel known load name) (requires u) ?st1 \<noteq> None"
        by (rule try_each_not_None [where P = ?P, OF P1]) (use loops_keep(1) [OF u] ret(1) in blast)+
      have "try_each (want_step fuel known load name) (wants u) st2 \<noteq> None"
        if "try_each (require_step fuel known load name) (requires u) ?st1 = Some (Inr st2)" for st2
      proof -
        have "?P st2"
          using try_each_Inr [where P = ?P and Q = "\<lambda>_ _. True", OF that P1] loops_keep(1) [OF u] by blast
        thus ?thesis
          by (rule try_each_not_None [where P = ?P]) (use loops_keep(2) [OF u] ret(2) in blast)+
      qed
      thus ?thesis using r resolve_unfold [OF new deps_for_loaded [OF ok ld u]]
        by (auto simp: and_then_None simp del: resolve.simps)
    qed auto
  qed
qed

section \<open>Properties\<close>

lemma call_pre_new:
  "known target \<noteq> None \<Longrightarrow> call_pre known load target None resolver_new"
  by (auto simp: call_pre_def st_ok_def resolver_new_def is_loaded_def)

lemma resolve_start_order_Inr:
  assumes "known target \<noteq> None" "resolve_start_order fuel target known load = Some (Inr seq)"
  obtains st where "call_post known load target None resolver_new st" "order st = seq"
proof -
  obtain st where st: "resolve fuel known load target None resolver_new = Some (Inr st)" "order st = seq"
    using assms(2) by (auto simp: resolve_start_order_def split: option.splits sum.splits)
  have "call_post known load target None resolver_new st"
    using resolve_calls_ok [of fuel known load] call_pre_new [of known target load, OF assms(1)] st(1)
    unfolding calls_ok_def by blast
  thus thesis using that st(2) by blast
qed

lemma visited_closed:
  assumes "st_ok known load st" "on_stack st = {}" "n \<in> visited st" "(n, m) \<in> (dep_edge known load)\<^sup>*"
  shows "m \<in> visited st"
  using assms(4,3)
proof (induction rule: rtrancl_induct)
  case (step y z)
  thus ?case using assms(1,2) by (fastforce simp: st_ok_def node_done_def)
qed simp

text \<open>
  Resolving the start order of a loaded target terminates: fuel for one more call than there
  are units reachable from the target is enough, cycles included.
\<close>

theorem resolve_terminates:
  assumes "known target \<noteq> None" "finite ((dep_edge known load)\<^sup>* `` {target})"
    and "card ((dep_edge known load)\<^sup>* `` {target}) < fuel"
  shows "resolve_start_order fuel target known load \<noteq> None"
proof -
  let ?U = "(dep_edge known load)\<^sup>* `` {target}"
  have "dep_edge known load `` ?U \<subseteq> ?U" by (auto intro: rtrancl_into_rtrancl)
  from resolve_calls_return [OF assms(2) this, of fuel] call_pre_new [of known target load, OF assms(1)] assms(3)
  have "resolve fuel known load target None resolver_new \<noteq> None"
    by (auto simp: calls_return_def resolver_new_def)
  thus ?thesis by (auto simp: resolve_start_order_def split: option.splits sum.splits)
qed

text \<open>
  C21: The start order of a loaded target contains every unit reachable through \<open>Requires=\<close> and
  loadable \<open>Wants=\<close> dependencies exactly once and nothing else, and ends with the target.  Each
  dependency comes before the unit that needs it, unless the dependency itself depends back on
  that unit, that is, only an edge on a cycle is ever dropped.
\<close>

theorem resolve_start_order_correct:
  assumes "known target \<noteq> None" "resolve_start_order fuel target known load = Some (Inr seq)"
  shows "distinct seq \<and> set seq = (dep_edge known load)\<^sup>* `` {target} \<and> last seq = target
    \<and> (\<forall>n d. n \<in> set seq \<and> (n, d) \<in> dep_edge known load
          \<longrightarrow> precedes seq d n \<or> (d, n) \<in> (dep_edge known load)\<^sup>*)"
proof -
  obtain st where post: "call_post known load target None resolver_new st" and o: "order st = seq"
    using resolve_start_order_Inr [OF assms] .
  have ok: "st_ok known load st" and t: "target \<in> visited st"
    and gr: "grows (dep_edge known load) target resolver_new st"
    using post by (auto simp: call_post_def)
  have stk: "on_stack st = {}" using gr by (simp add: grows_def extends_def resolver_new_def)
  have "visited st = (dep_edge known load)\<^sup>* `` {target}"
    using gr visited_closed [OF ok stk t] by (auto simp: grows_def resolver_new_def)
  moreover have "last seq = target"
    using post o by (auto simp: call_post_def resolver_new_def)
  moreover have "precedes seq d n \<or> (d, n) \<in> (dep_edge known load)\<^sup>*"
    if "n \<in> set seq" "(n, d) \<in> dep_edge known load" for n d
  proof -
    have "node_done known load st n" using ok that(1) o unfolding st_ok_def by blast
    hence "precedes seq d n \<or> (n, d) \<in> broken st"
      using that(2) o unfolding node_done_def by blast
    moreover have "(d, n) \<in> (dep_edge known load)\<^sup>*" if "(n, d) \<in> broken st"
      using ok that unfolding st_ok_def by blast
    ultimately show ?thesis by blast
  qed
  ultimately show ?thesis using ok o by (auto simp: st_ok_def)
qed

text \<open>
  C22: The resolver reports an error exactly when some unit reachable from the target has a
  \<open>Requires=\<close> dependency that cannot be loaded; a missing \<open>Wants=\<close> dependency or a cycle never
  makes it fail, and the name in the error is such a missing requirement.
\<close>

theorem resolve_error_iff:
  assumes "known target \<noteq> None" "resolve_start_order fuel target known load = Some res"
  shows "((\<exists>e. res = Inl e) \<longleftrightarrow>
      (\<exists>n d. (target, n) \<in> (dep_edge known load)\<^sup>* \<and> missing_requirement known load n d))
    \<and> (\<forall>d. res = Inl (Required_Not_Loaded d) \<longrightarrow>
      (\<exists>n. (target, n) \<in> (dep_edge known load)\<^sup>* \<and> missing_requirement known load n d))"
proof (cases res)
  case (Inl e)
  hence "resolve fuel known load target None resolver_new = Some (Inl e)"
    using assms(2) by (auto simp: resolve_start_order_def split: option.splits sum.splits)
  then obtain n d where "(target, n) \<in> (dep_edge known load)\<^sup>*" "missing_requirement known load n d"
    "e = Required_Not_Loaded d"
    using resolve_calls_err [of fuel known load] call_pre_new [of known target load, OF assms(1)] unfolding calls_err_def by blast
  thus ?thesis using Inl by auto
next
  case (Inr seq)
  obtain st where post: "call_post known load target None resolver_new st"
    using resolve_start_order_Inr assms Inr by metis
  have ok: "st_ok known load st" and t: "target \<in> visited st" and stk: "on_stack st = {}"
    using post by (auto simp: call_post_def grows_def extends_def resolver_new_def)
  have "\<not> missing_requirement known load n d" if "(target, n) \<in> (dep_edge known load)\<^sup>*" for n d
    using visited_closed [OF ok stk t that] ok by (auto simp: st_ok_def node_done_def)
  thus ?thesis using Inr by auto
qed

text \<open>Two loaded units that want each other, one of which also requires a unit file.\<close>

definition demo_unit :: "string list \<Rightarrow> string list \<Rightarrow> unit_section" where
  "demo_unit ws rs = unit_section_default\<lparr> wants := ws, requires := rs \<rparr>"

definition demo_known :: "string \<rightharpoonup> dep_unit" where
  "demo_known = [''a'' \<mapsto> \<lparr> du_section = demo_unit [''b''] [''c''], du_state = Inactive \<rparr>,
                 ''b'' \<mapsto> \<lparr> du_section = demo_unit [''a'', ''gone''] [], du_state = Inactive \<rparr>]"

definition demo_load :: "string \<Rightarrow> unit_section option" where
  "demo_load = [''c'' \<mapsto> demo_unit [] []]"

lemma demo_edges: "dep_edge demo_known demo_load = {(''a'', ''b''), (''a'', ''c''), (''b'', ''a'')}"
  by (auto simp: dep_edge_def section_of_def demo_known_def demo_load_def demo_unit_def
      unit_section_default_def split: if_splits)

lemma demo_reach: "(dep_edge demo_known demo_load)\<^sup>* `` {''a''} = {''a'', ''b'', ''c''}"
proof -
  have "(dep_edge demo_known demo_load)\<^sup>* `` {''a''} \<subseteq> {''a'', ''b'', ''c''}"
  proof
    fix x assume "x \<in> (dep_edge demo_known demo_load)\<^sup>* `` {''a''}"
    hence "(''a'', x) \<in> (dep_edge demo_known demo_load)\<^sup>*" by simp
    thus "x \<in> {''a'', ''b'', ''c''}" by (induction rule: rtrancl_induct) (auto simp: demo_edges)
  qed
  moreover have "(''a'', ''b'') \<in> (dep_edge demo_known demo_load)\<^sup>*"
    "(''a'', ''c'') \<in> (dep_edge demo_known demo_load)\<^sup>*" by (auto simp: demo_edges)
  ultimately show ?thesis by auto
qed

lemma demo_order: "resolve_start_order 4 ''a'' demo_known demo_load = Some (Inr [''c'', ''b'', ''a''])"
  by (simp add: resolve_start_order_def resolver_new_def deps_for_def demo_known_def demo_load_def
      demo_unit_def unit_section_default_def and_then_def ensure_loaded_def is_loaded_def
      report_cycle_def eval_nat_numeral)

theorem resolve_terminates_witness:
  "resolve_start_order 4 ''a'' demo_known demo_load \<noteq> None"
  by (rule resolve_terminates) (simp_all add: demo_reach, simp add: demo_known_def)

theorem resolve_start_order_correct_witness:
  "precedes [''c'', ''b'', ''a''] ''c'' ''a'' \<and> set [''c'', ''b'', ''a''] = (dep_edge demo_known demo_load)\<^sup>* `` {''a''}"
proof -
  have k: "demo_known ''a'' \<noteq> None" by (simp add: demo_known_def)
  have "(''c'', ''a'') \<notin> (dep_edge demo_known demo_load)\<^sup>*"
  proof
    assume "(''c'', ''a'') \<in> (dep_edge demo_known demo_load)\<^sup>*"
    thus False by (rule converse_rtranclE) (auto simp: demo_edges)
  qed
  thus ?thesis using resolve_start_order_correct [OF k demo_order] by (auto simp: demo_edges)
qed

theorem resolve_error_iff_witness:
  "\<exists>d. resolve_start_order 4 ''a'' demo_known (\<lambda>_. None) = Some (Inl (Required_Not_Loaded d))
     \<and> (\<exists>n. (''a'', n) \<in> (dep_edge demo_known (\<lambda>_. None))\<^sup>*
           \<and> missing_requirement demo_known (\<lambda>_. None) n d)"
proof -
  have k: "demo_known ''a'' \<noteq> None" by (simp add: demo_known_def)
  have r: "resolve_start_order 4 ''a'' demo_known (\<lambda>_. None) = Some (Inl (Required_Not_Loaded ''c''))"
    by (simp add: resolve_start_order_def resolver_new_def deps_for_def demo_known_def
        demo_unit_def unit_section_default_def and_then_def ensure_loaded_def is_loaded_def
        eval_nat_numeral)
  show ?thesis using resolve_error_iff [OF k r] r by blast
qed

end
