(* ===== verification/ExecCommand.thy ===== *)
theory ExecCommand
  imports RustStr "HOL-Library.Word"
begin

unbundle bit_operations_syntax

text \<open>
  Exec command lines (\<open>ExecCommand\<close> in \<open>src/src/unit/section_service.rs\<close>) and the
  expansion of environment variables in their arguments (\<open>src/src/service.rs\<close>).  The prefix
  flags are the eight bits of \<open>ExecFlags\<close>.

  The lemmas show which flag combinations a parsed command can carry, that quoting is undone by
  the splitters, and what the two expansion forms produce.
\<close>

section \<open>Flags\<close>

type_synonym exec_flags = "8 word"

definition IGNORE_FAILURE :: exec_flags where "IGNORE_FAILURE = 1"
definition FULL_PRIVILEGES :: exec_flags where "FULL_PRIVILEGES = 2"
definition NO_SETUID :: exec_flags where "NO_SETUID = 4"
definition ARGV0_SEPARATE :: exec_flags where "ARGV0_SEPARATE = 8"
definition NO_ENV_EXPAND :: exec_flags where "NO_ENV_EXPAND = 16"
definition VIA_SHELL :: exec_flags where "VIA_SHELL = 32"

lemmas flag_defs = IGNORE_FAILURE_def FULL_PRIVILEGES_def NO_SETUID_def ARGV0_SEPARATE_def
  NO_ENV_EXPAND_def VIA_SHELL_def

definition contains :: "exec_flags \<Rightarrow> exec_flags \<Rightarrow> bool" where
  "contains w f \<longleftrightarrow> w AND f = f"

definition intersects :: "exec_flags \<Rightarrow> exec_flags \<Rightarrow> bool" where
  "intersects w f \<longleftrightarrow> w AND f \<noteq> 0"

definition remove_flag :: "exec_flags \<Rightarrow> exec_flags \<Rightarrow> exec_flags" where
  "remove_flag w f = w AND NOT f"

section \<open>Command lines\<close>

record exec_command =
  cmd_path :: string
  cmd_argv :: "string list"
  cmd_flags :: exec_flags

text \<open>The character loop of \<open>split_argv\<close>: quote states, current word, finished words.\<close>

fun split_argv_loop :: "bool \<Rightarrow> bool \<Rightarrow> string \<Rightarrow> string list \<Rightarrow> string \<Rightarrow> string list" where
  "split_argv_loop sq dq cur args [] = (if cur \<noteq> [] then args @ [cur] else args)"
| "split_argv_loop sq dq cur args (c # s) =
     (if c = CHR 0x27 \<and> \<not> dq then split_argv_loop (\<not> sq) dq cur args s
      else if c = CHR 0x22 \<and> \<not> sq then split_argv_loop sq (\<not> dq) cur args s
      else if c = CHR 0x5C \<and> (dq \<or> \<not> sq) then
        (case s of
           [] \<Rightarrow> split_argv_loop sq dq cur args []
         | n # s' \<Rightarrow> split_argv_loop sq dq (cur @ [n]) args s')
      else if (c = CHR '' '' \<or> c = CHR 0x09) \<and> \<not> sq \<and> \<not> dq then
        (if cur \<noteq> [] then split_argv_loop sq dq [] (args @ [cur]) s
         else split_argv_loop sq dq cur args s)
      else split_argv_loop sq dq (cur @ [c]) args s)"

definition split_argv :: "string \<Rightarrow> string list" where
  "split_argv s = split_argv_loop False False [] [] s"

text \<open>The prefix loop of \<open>ExecCommand::parse\<close>.\<close>

fun exec_prefix :: "exec_flags \<Rightarrow> bool \<Rightarrow> string \<Rightarrow> exec_flags \<times> string" where
  "exec_prefix flags ambient [] = (flags, [])"
| "exec_prefix flags ambient (p # rest) =
     (if p = CHR ''-'' \<and> \<not> contains flags IGNORE_FAILURE
        then exec_prefix (flags OR IGNORE_FAILURE) ambient rest
      else if p = CHR ''@'' \<and> \<not> contains flags ARGV0_SEPARATE
        then exec_prefix (flags OR ARGV0_SEPARATE) ambient rest
      else if p = CHR '':'' \<and> \<not> contains flags NO_ENV_EXPAND
        then exec_prefix (flags OR NO_ENV_EXPAND) ambient rest
      else if p = CHR ''|'' \<and> \<not> contains flags VIA_SHELL
        then exec_prefix (flags OR VIA_SHELL) ambient rest
      else if p = CHR ''+'' \<and> \<not> ambient \<and> \<not> intersects flags (FULL_PRIVILEGES OR NO_SETUID)
        then exec_prefix (flags OR FULL_PRIVILEGES) ambient rest
      else if p = CHR ''!'' \<and> \<not> ambient \<and> \<not> intersects flags (FULL_PRIVILEGES OR NO_SETUID)
        then exec_prefix (flags OR NO_SETUID) ambient rest
      else if p = CHR ''!'' \<and> \<not> ambient \<and> \<not> contains flags FULL_PRIVILEGES
        then exec_prefix (remove_flag flags NO_SETUID) True rest
      else (flags, p # rest))"

definition exec_command_parse :: "string \<Rightarrow> exec_command option" where
  "exec_command_parse raw =
     (if raw = [] then None
      else case split_argv (trim_start raw) of
        [] \<Rightarrow> None
      | first # words \<Rightarrow>
          (let (flags, executable) = exec_prefix 0 False first
           in if contains flags VIA_SHELL then
                Some \<lparr> cmd_path = ''/bin/sh'',
                       cmd_argv = (if contains flags ARGV0_SEPARATE then ''-sh'' else ''sh'')
                                  # (if executable \<noteq> [] then [executable] else []) @ words,
                       cmd_flags = flags \<rparr>
              else if executable = [] then None
              else if contains flags ARGV0_SEPARATE then
                (if words = [] then None
                 else Some \<lparr> cmd_path = executable, cmd_argv = words, cmd_flags = flags \<rparr>)
              else Some \<lparr> cmd_path = executable, cmd_argv = executable # words,
                          cmd_flags = flags \<rparr>))"

section \<open>Environment expansion\<close>

definition environment_value :: "string list \<Rightarrow> string \<Rightarrow> string option" where
  "environment_value env name =
     (case List.map_filter (\<lambda>entry. case split_once (CHR ''='') entry of
                                Some (key, val) \<Rightarrow> if key = name then Some val else None
                              | None \<Rightarrow> None) (rev env) of
        [] \<Rightarrow> None
      | v # _ \<Rightarrow> Some v)"

definition valid_environment_name :: "string \<Rightarrow> bool" where
  "valid_environment_name name =
     (case name of
        [] \<Rightarrow> False
      | f # rest \<Rightarrow> (f = CHR ''_'' \<or> is_ascii_alpha f)
                    \<and> list_all (\<lambda>c. c = CHR ''_'' \<or> is_ascii_alnum c) rest)"

fun env_words_loop ::
  "bool \<Rightarrow> bool \<Rightarrow> bool \<Rightarrow> string \<Rightarrow> string list \<Rightarrow> string \<Rightarrow> string list" where
  "env_words_loop sq dq started cur ws [] = (if started then ws @ [cur] else ws)"
| "env_words_loop sq dq started cur ws (c # s) =
     (if c = CHR 0x27 \<and> \<not> dq then env_words_loop (\<not> sq) dq True cur ws s
      else if c = CHR 0x22 \<and> \<not> sq then env_words_loop sq (\<not> dq) True cur ws s
      else if c = CHR 0x5C \<and> \<not> sq then
        (case s of
           [] \<Rightarrow> env_words_loop sq dq started cur ws []
         | n # s' \<Rightarrow> env_words_loop sq dq True (cur @ [n]) ws s')
      else if c \<in> {CHR '' '', CHR 0x09, CHR 0x0A, CHR 0x0D} \<and> \<not> sq \<and> \<not> dq then
        (if started then env_words_loop sq dq False [] (ws @ [cur]) s
         else env_words_loop sq dq started cur ws s)
      else env_words_loop sq dq True (cur @ [c]) ws s)"

definition split_environment_words :: "string \<Rightarrow> string list" where
  "split_environment_words v = env_words_loop False False False [] [] v"

function expand_braced_environment :: "string \<Rightarrow> string list \<Rightarrow> string" where
  "expand_braced_environment [] env = []"
| "expand_braced_environment (c # s) env =
     (if c = CHR ''$'' \<and> s \<noteq> [] \<and> hd s = CHR ''{'' then
        (case str_find (CHR ''}'') (tl s) of
           Some n \<Rightarrow>
             (let name = take n (tl s)
              in if valid_environment_name name then
                   (case environment_value env name of Some v \<Rightarrow> v | None \<Rightarrow> [])
                   @ expand_braced_environment (drop (Suc n) (tl s)) env
                 else c # expand_braced_environment s env)
         | None \<Rightarrow> c # expand_braced_environment s env)
      else c # expand_braced_environment s env)"
  by pat_completeness auto
termination
  by (relation "measure (\<lambda>(s, _). length s)") auto

fun expand_exec_arguments :: "string list \<Rightarrow> string list \<Rightarrow> bool \<Rightarrow> string list" where
  "expand_exec_arguments arguments env True = arguments"
| "expand_exec_arguments [] env False = []"
| "expand_exec_arguments (a # as) env False =
     (case strip_prefix a ''$'' of
        Some name \<Rightarrow>
          (if valid_environment_name name then
             (case environment_value env name of
                Some v \<Rightarrow> split_environment_words v | None \<Rightarrow> [])
             @ expand_exec_arguments as env False
           else expand_braced_environment a env # expand_exec_arguments as env False)
      | None \<Rightarrow> expand_braced_environment a env # expand_exec_arguments as env False)"

section \<open>Flags of a parsed command\<close>

lemma contains_bit: "contains w (push_bit n 1) \<longleftrightarrow> bit w n" if "n < 8"
  using that by (auto simp: contains_def bit_eq_iff [where 'a = "8 word"] bit_simps)

lemma flag_bits: "IGNORE_FAILURE = push_bit 0 1" "FULL_PRIVILEGES = push_bit 1 1" "NO_SETUID = push_bit 2 1"
  "ARGV0_SEPARATE = push_bit 3 1" "NO_ENV_EXPAND = push_bit 4 1" "VIA_SHELL = push_bit 5 1"
  by (simp_all add: flag_defs push_bit_eq_mult)

lemma contains_bits:
  "contains w IGNORE_FAILURE \<longleftrightarrow> bit w 0" "contains w FULL_PRIVILEGES \<longleftrightarrow> bit w 1"
  "contains w NO_SETUID \<longleftrightarrow> bit w 2" "contains w ARGV0_SEPARATE \<longleftrightarrow> bit w 3"
  "contains w NO_ENV_EXPAND \<longleftrightarrow> bit w 4" "contains w VIA_SHELL \<longleftrightarrow> bit w 5"
  unfolding flag_bits by (rule contains_bit, simp)+

lemma intersects_bit: "intersects w (push_bit a 1 OR push_bit b 1) \<longleftrightarrow> bit w a \<or> bit w b" if "a < 8" "b < 8"
  using that by (auto simp: intersects_def bit_eq_iff [where 'a = "8 word"] bit_simps)

lemma set_bit_iff: "bit (w OR push_bit k 1 :: exec_flags) n \<longleftrightarrow> bit w n \<or> n = k" if "k < 8"
  using that by (auto simp: bit_simps)

lemma remove_bit_iff: "bit (remove_flag w (push_bit k 1)) n \<longleftrightarrow> bit w n \<and> n \<noteq> k"
  by (auto simp: remove_flag_def bit_simps dest: bit_imp_le_length)

lemma exclusive_bits: "intersects w (FULL_PRIVILEGES OR NO_SETUID) \<longleftrightarrow> bit w 1 \<or> bit w 2"
  unfolding flag_bits by (rule intersects_bit) simp_all

lemma set_flag_bits:
  "bit (w OR IGNORE_FAILURE) n \<longleftrightarrow> bit w n \<or> n = 0" "bit (w OR FULL_PRIVILEGES) n \<longleftrightarrow> bit w n \<or> n = 1"
  "bit (w OR NO_SETUID) n \<longleftrightarrow> bit w n \<or> n = 2" "bit (w OR ARGV0_SEPARATE) n \<longleftrightarrow> bit w n \<or> n = 3"
  "bit (w OR NO_ENV_EXPAND) n \<longleftrightarrow> bit w n \<or> n = 4" "bit (w OR VIA_SHELL) n \<longleftrightarrow> bit w n \<or> n = 5"
  unfolding flag_bits by (rule set_bit_iff, simp)+

lemma remove_setuid_bit: "bit (remove_flag w NO_SETUID) n \<longleftrightarrow> bit w n \<and> n \<noteq> 2"
  unfolding flag_bits by (rule remove_bit_iff)

lemmas flag_ops = contains_bits exclusive_bits set_flag_bits remove_setuid_bit


text \<open>A flag word whose two privilege flags exclude each other.\<close>

definition flags_ok :: "exec_flags \<Rightarrow> bool" where
  "flags_ok w \<longleftrightarrow> \<not> (contains w FULL_PRIVILEGES \<and> contains w NO_SETUID)"

text \<open>
  The prefix loop: the flags it returns, and that it consumes exactly the prefix characters.
\<close>

lemma exec_prefix_ok:
  "flags_ok w \<Longrightarrow> flags_ok (fst (exec_prefix w amb s))"
  by (induction w amb s rule: exec_prefix.induct) (auto simp: flags_ok_def flag_ops)

lemma exec_prefix_consumes:
  "\<exists>p. s = p @ snd (exec_prefix w amb s) \<and> set p \<subseteq> set ''-@:|+!''"
proof (induction w amb s rule: exec_prefix.induct)
  case (2 w amb p rest)
  show ?case
  proof (cases "snd (exec_prefix w amb (p # rest)) = p # rest")
    case False
    hence "p \<in> set ''-@:|+!''" "\<exists>w' amb'. snd (exec_prefix w amb (p # rest)) = snd (exec_prefix w' amb' rest)
        \<and> (\<exists>q. rest = q @ snd (exec_prefix w' amb' rest) \<and> set q \<subseteq> set ''-@:|+!'')"
      using 2 by (auto split: if_splits)
    then obtain q where "rest = q @ snd (exec_prefix w amb (p # rest))" "set q \<subseteq> set ''-@:|+!''" by metis
    thus ?thesis using \<open>p \<in> set _\<close> by (intro exI [of _ "p # q"]) simp
  qed (auto intro: exI [of _ "[]"])
qed simp

lemma split_argv_loop_words:
  "[] \<notin> set args \<Longrightarrow> [] \<notin> set (split_argv_loop sq dq cur args s)"
proof (induction sq dq cur args s rule: split_argv_loop.induct)
  case (2 sq dq cur args c s)
  thus ?case by (cases s) auto
qed auto

lemma split_argv_words: "[] \<notin> set (split_argv s)"
  by (simp add: split_argv_def split_argv_loop_words)

lemma exec_command_parse_words:
  "exec_command_parse raw = Some cmd \<Longrightarrow> cmd_path cmd \<noteq> [] \<and> cmd_argv cmd \<noteq> []"
  by (auto simp: exec_command_parse_def split: if_splits list.splits prod.splits)

lemma flags_ok_0: "flags_ok 0"
  by (simp add: flags_ok_def contains_def flag_defs)

text \<open>
  A command line that parses always names an executable and has a first argument, and none of
  its words is empty.  It never asks both for full privileges and for keeping the credentials,
  whatever prefixes it carries; unless a prefix says otherwise the first argument is the
  executable.
\<close>

theorem exec_command_parse_ok:
  assumes "exec_command_parse raw = Some cmd"
  shows "cmd_path cmd \<noteq> [] \<and> cmd_argv cmd \<noteq> [] \<and> [] \<notin> set (cmd_argv cmd)
    \<and> \<not> (contains (cmd_flags cmd) FULL_PRIVILEGES \<and> contains (cmd_flags cmd) NO_SETUID)
    \<and> (\<not> contains (cmd_flags cmd) VIA_SHELL \<and> \<not> contains (cmd_flags cmd) ARGV0_SEPARATE
         \<longrightarrow> hd (cmd_argv cmd) = cmd_path cmd)
    \<and> (contains (cmd_flags cmd) VIA_SHELL \<longrightarrow> cmd_path cmd = ''/bin/sh'')"
proof -
  obtain w ws where ws: "split_argv (trim_start raw) = w # ws"
    using assms by (auto simp: exec_command_parse_def split: if_splits list.splits)
  obtain fl ex where fe: "exec_prefix 0 False w = (fl, ex)" by (cases "exec_prefix 0 False w")
  have "flags_ok fl" using exec_prefix_ok [OF flags_ok_0, of False w] fe by simp
  moreover have "[] \<notin> set ws" using split_argv_words [of "trim_start raw"] ws by simp
  ultimately show ?thesis using assms ws fe
    by (auto simp: exec_command_parse_def flags_ok_def split: if_splits)
qed

theorem exec_command_parse_ok_witness:
  "exec_command_parse ''-/bin/a b'' = Some \<lparr> cmd_path = ''/bin/a'', cmd_argv = [''/bin/a'', ''b''], cmd_flags = 1 \<rparr>
   \<and> hd [''/bin/a'', ''b''] = ''/bin/a''"
proof -
  have "split_argv (trim_start ''-/bin/a b'') = [''-/bin/a'', ''b'']"
    by (simp add: split_argv_def trim_start_def is_ws_def)
  moreover have "exec_prefix 0 False ''-/bin/a'' = (1, ''/bin/a'')"
    by (simp add: contains_def flag_defs)
  ultimately have "exec_command_parse ''-/bin/a b''
      = Some \<lparr> cmd_path = ''/bin/a'', cmd_argv = [''/bin/a'', ''b''], cmd_flags = 1 \<rparr>"
    by (simp add: exec_command_parse_def contains_def flag_defs)
  from exec_command_parse_ok [OF this] this show ?thesis by (simp add: contains_def flag_defs)
qed

section \<open>Quoting\<close>

text \<open>A word in double quotes, with backslashes before quotes and backslashes.\<close>

fun escape :: "string \<Rightarrow> string" where
  "escape [] = []"
| "escape (c # s) = (if c = CHR 0x22 \<or> c = CHR 0x5C then [CHR 0x5C, c] else [c]) @ escape s"

definition quote_arg :: "string \<Rightarrow> string" where
  "quote_arg w = [CHR 0x22] @ escape w @ [CHR 0x22]"

lemma argv_loop_escaped:
  "split_argv_loop False True cur args (escape w @ CHR 0x22 # s) = split_argv_loop False False (cur @ w) args s"
  by (induction w arbitrary: cur) auto

lemma argv_loop_quoted:
  "split_argv_loop False False cur args (quote_arg w @ s) = split_argv_loop False False (cur @ w) args s"
  by (simp add: quote_arg_def argv_loop_escaped)

lemma env_loop_escaped:
  "env_words_loop False True True cur args (escape w @ CHR 0x22 # s) = env_words_loop False False True (cur @ w) args s"
  by (induction w arbitrary: cur) auto

lemma env_loop_quoted:
  "env_words_loop False False st cur args (quote_arg w @ s) = env_words_loop False False True (cur @ w) args s"
  by (simp add: quote_arg_def env_loop_escaped)

lemma argv_loop_join:
  "split_argv_loop False False [] args (join_words (map quote_arg ws)) = args @ filter (\<lambda>w. w \<noteq> []) ws"
proof (induction ws arbitrary: args)
  case (Cons w ws)
  show ?case
  proof (cases ws)
    case Nil
    thus ?thesis using argv_loop_quoted [of "[]" args w "[]"] by simp
  next
    case (Cons v vs)
    hence "join_words (map quote_arg (w # ws)) = quote_arg w @ CHR '' '' # join_words (map quote_arg ws)" by simp
    thus ?thesis using Cons.IH argv_loop_quoted [of "[]" args w]
      by (simp only: append_Nil split_argv_loop.simps) simp
  qed
qed simp

lemma env_loop_join:
  "env_words_loop False False False [] args (join_words (map quote_arg ws)) = args @ ws"
proof (induction ws arbitrary: args)
  case (Cons w ws)
  show ?case
  proof (cases ws)
    case Nil
    thus ?thesis using env_loop_quoted [of False "[]" args w "[]"] by simp
  next
    case (Cons v vs)
    hence "join_words (map quote_arg (w # ws)) = quote_arg w @ CHR '' '' # join_words (map quote_arg ws)" by simp
    thus ?thesis using Cons.IH env_loop_quoted [of False "[]" args w]
      by (simp only: append_Nil env_words_loop.simps) simp
  qed
qed simp

text \<open>
  Quoting is undone by both splitters.  The words of an environment value are recovered
  exactly, whatever characters they contain; the words of a command line too, except that a
  quoted empty argument is dropped.
\<close>

theorem quoting_round_trip:
  "split_environment_words (join_words (map quote_arg ws)) = ws
   \<and> split_argv (join_words (map quote_arg ws)) = filter (\<lambda>w. w \<noteq> []) ws"
  by (simp add: split_environment_words_def split_argv_def env_loop_join argv_loop_join)

section \<open>Expansion\<close>

lemma environment_value_last:
  "CHR ''='' \<notin> set n \<Longrightarrow> environment_value (env @ [n @ CHR ''='' # v]) n = Some v"
  using split_once_Some [of "CHR ''=''" "n @ CHR ''='' # v" n v]
  by (simp add: environment_value_def map_filter_simps)

lemma valid_name_chars:
  "valid_environment_name n \<Longrightarrow> c \<in> set n \<Longrightarrow> c = CHR ''_'' \<or> is_ascii_alnum c"
  by (auto simp: valid_environment_name_def is_ascii_alnum_def list_all_iff split: list.splits)

lemma valid_name_plain:
  "valid_environment_name n \<Longrightarrow> c \<in> {CHR ''='', CHR ''}''} \<Longrightarrow> c \<notin> set n"
  using valid_name_chars [of n c]
  by (auto simp: is_ascii_alnum_def is_ascii_alpha_def is_digit_def is_upper_def is_lower_def)

lemma str_find_first: "c \<notin> set a \<Longrightarrow> str_find c (a @ c # b) = Some (length a)"
  by (induction a) (auto simp: str_find_def)

lemma expand_append:
  "expand_exec_arguments (xs @ ys) env False = expand_exec_arguments xs env False @ expand_exec_arguments ys env False"
  by (induction xs) (auto split: option.splits)

lemma expand_braced_plain:
  "CHR ''$'' \<notin> set a \<Longrightarrow> expand_braced_environment (a @ s) env = a @ expand_braced_environment s env"
  by (induction a) auto

text \<open>
  A standalone variable in a command expands to the words of its last assignment, no more and
  no fewer, with the arguments around it expanded on their own; inside an argument the braced form
  is replaced by the value itself, unsplit.  An expansion that is switched off changes nothing.
\<close>

theorem variable_expansion:
  assumes "valid_environment_name n" and "v = join_words (map quote_arg ws)"
  shows "expand_exec_arguments (xs @ (''$'' @ n) # ys) (env @ [n @ ''='' @ v]) False
      = expand_exec_arguments xs (env @ [n @ ''='' @ v]) False @ ws
        @ expand_exec_arguments ys (env @ [n @ ''='' @ v]) False
    \<and> (CHR ''$'' \<notin> set a \<longrightarrow>
         expand_braced_environment (a @ ''${'' @ n @ ''}'' @ b) (env @ [n @ ''='' @ u])
           = a @ u @ expand_braced_environment b (env @ [n @ ''='' @ u]))
    \<and> expand_exec_arguments xs env True = xs"
proof -
  have ev: "environment_value (env @ [n @ CHR ''='' # w]) n = Some w" for w
    using valid_name_plain [OF assms(1)] by (simp add: environment_value_last)
  have "strip_prefix (''$'' @ n) ''$'' = Some n" by (simp add: strip_prefix_Some)
  moreover have "split_environment_words v = ws"
    using assms(2) by (simp add: split_environment_words_def env_loop_join)
  ultimately have "expand_exec_arguments (xs @ (''$'' @ n) # ys) (env @ [n @ ''='' @ v]) False
      = expand_exec_arguments xs (env @ [n @ ''='' @ v]) False @ ws
        @ expand_exec_arguments ys (env @ [n @ ''='' @ v]) False"
    using assms(1) ev by (simp add: expand_append)
  moreover have "str_find (CHR ''}'') (n @ CHR ''}'' # b) = Some (length n)"
    using valid_name_plain [OF assms(1)] by (simp add: str_find_first)
  hence "expand_braced_environment (''${'' @ n @ ''}'' @ b) (env @ [n @ ''='' @ u])
      = u @ expand_braced_environment b (env @ [n @ ''='' @ u])"
    using assms(1) ev by simp
  ultimately show ?thesis using expand_braced_plain by simp
qed

theorem variable_expansion_witness:
  "expand_exec_arguments [''$OPTS'', ''x''] [''OPTS='' @ join_words (map quote_arg [''-v'', ''a b''])] False
     = [''-v'', ''a b'', ''x'']"
proof -
  have "valid_environment_name ''OPTS''"
    by (simp add: valid_environment_name_def is_ascii_alpha_def is_ascii_alnum_def is_upper_def)
  from variable_expansion [where xs = "[]" and ys = "[''x'']" and env = "[]" and ws = "[''-v'', ''a b'']",
      OF this refl, THEN conjunct1]
  have "expand_exec_arguments [''$OPTS'', ''x''] [''OPTS='' @ join_words (map quote_arg [''-v'', ''a b''])] False
     = [''-v'', ''a b''] @ expand_exec_arguments [''x''] [''OPTS='' @ join_words (map quote_arg [''-v'', ''a b''])] False"
    by (simp only: append_Nil append_Cons expand_exec_arguments.simps(2))
  moreover have "expand_exec_arguments [''x''] e False = [''x'']" for e
    by (simp add: strip_prefix_def starts_with_def)
  ultimately show ?thesis by (simp only: append_Cons append_Nil)
qed

end
