(* ===== verification/Rlimits.thy ===== *)
theory Rlimits
  imports Duration
begin

text \<open>
  Process resource limits and the \<open>TasksMax\<close> grammar, \<open>src/src/limits.rs\<close>.

  A byte quantity is summed in \<open>f64\<close>; as in the theory of durations every operation rounds to
  53 bits.  The files of \<open>/proc\<close> and \<open>/sys\<close> that give the task capacity are read through the
  argument \<open>read_file\<close>.  The per-ten-thousand and per-mille signs lie outside the characters
  modelled, so of \<open>parse_permyriad\<close> the percent form remains.

  The lemmas show that a parsed limit is always well formed, that limits survive printing and
  reading, and that a resolved percentage stays within the capacity of the host.
\<close>

section \<open>Resource limits\<close>

datatype rlimit_value = RValue nat | RInfinity

record rlimit_spec =
  soft :: rlimit_value
  hard :: rlimit_value

datatype rlimit_kind = Seconds | Size | Count | Nice | Microseconds

definition u128_max :: nat where "u128_max = 2 ^ 128 - 1"

fun rlimit_ord :: "rlimit_value \<Rightarrow> nat" where
  "rlimit_ord (RValue v) = v"
| "rlimit_ord RInfinity = u128_max"

definition parse_rlimit_nice :: "string \<Rightarrow> nat option" where
  "parse_rlimit_nice value =
     (case strip_prefix value ''+'' of
        Some raw \<Rightarrow>
          (case parse_u64 raw of
             Some nice \<Rightarrow> if nice < 20 then Some (20 - nice) else None
           | None \<Rightarrow> None)
      | None \<Rightarrow>
          (case strip_prefix value ''-'' of
             Some raw \<Rightarrow>
               (case parse_u64 raw of
                  Some magnitude \<Rightarrow> if magnitude \<le> 20 then Some (20 + magnitude) else None
                | None \<Rightarrow> None)
           | None \<Rightarrow>
               (case parse_u64 value of
                  Some raw \<Rightarrow> if raw \<le> 40 then Some raw else None
                | None \<Rightarrow> None)))"

definition size_factor :: "string \<Rightarrow> nat option" where
  "size_factor suf =
     (if suf \<in> {[], ''B''} then Some 1
      else if suf \<in> {''K'', ''KB'', ''KIB''} then Some (2 ^ 10)
      else if suf \<in> {''M'', ''MB'', ''MIB''} then Some (2 ^ 20)
      else if suf \<in> {''G'', ''GB'', ''GIB''} then Some (2 ^ 30)
      else if suf \<in> {''T'', ''TB'', ''TIB''} then Some (2 ^ 40)
      else if suf \<in> {''P'', ''PB'', ''PIB''} then Some (2 ^ 50)
      else if suf \<in> {''E'', ''EB'', ''EIB''} then Some (2 ^ 60)
      else None)"

text \<open>Addition of two \<open>f64\<close> values.\<close>

definition f64_add :: "nat \<times> nat \<Rightarrow> nat \<times> nat \<Rightarrow> nat \<times> nat" where
  "f64_add x y = round53 (fst x * snd y + fst y * snd x, snd x * snd y)"

function size_loop :: "nat \<times> nat \<Rightarrow> string \<Rightarrow> (nat \<times> nat) option" where
  "size_loop total_bytes input =
     (if input = [] then Some total_bytes
      else
        (let input = trim_start input;
             number = takeWhile numeric input
         in if number = [] then None
            else case parse_f64 number of
              None \<Rightarrow> None
            | Some x \<Rightarrow>
                (let input = drop (length number) input;
                     suf = takeWhile is_ascii_alpha input
                 in case size_factor (to_ascii_uppercase suf) of
                      None \<Rightarrow> None
                    | Some factor \<Rightarrow>
                        (let summed = f64_add total_bytes (round53 (fst x * factor, snd x))
                         in if 2 ^ 64 * snd summed \<le> fst summed then None
                            else
                              (let input = drop (length suf) input
                               in if input \<noteq> [] \<and> \<not> is_ws (hd input) then None
                                  else size_loop summed input)))))"
  by pat_completeness auto
termination
proof (relation "measure (\<lambda>(_, s). length s)", goal_cases)
  case (2 total_bytes input input1 number x input2 suf factor summed input3)
  have "length input1 \<le> length input" using 2 trim_start_length [of input] by simp
  moreover have "length number \<le> length input1" "0 < length number"
    using 2 by (simp_all add: length_takeWhile_le)
  moreover have "length input2 = length input1 - length number" using 2 by simp
  moreover have "length input3 \<le> length input2" using 2 by simp
  ultimately have "length input3 < length input" by linarith
  thus ?case by simp
qed simp

declare size_loop.simps [simp del]

definition parse_rlimit_size :: "string \<Rightarrow> nat option" where
  "parse_rlimit_size value =
     (let input = trim value
      in if input = [] then None else map_option f64_as_u64 (size_loop (0, 1) input))"

definition parse_rlimit_value :: "string \<Rightarrow> rlimit_kind \<Rightarrow> rlimit_value option" where
  "parse_rlimit_value value kind =
     (if value = ''infinity'' \<and> kind \<noteq> Nice then Some RInfinity
      else
        case (case kind of
                Count \<Rightarrow> parse_u64 value
              | Size \<Rightarrow> parse_rlimit_size value
              | Seconds \<Rightarrow> map_option (\<lambda>micros. (micros + 999999) div 1000000) (parse_duration value)
              | Microseconds \<Rightarrow> parse_duration value
              | Nice \<Rightarrow> parse_rlimit_nice value) of
          Some raw \<Rightarrow> if raw < u64_max then Some (RValue raw) else None
        | None \<Rightarrow> None)"

definition rlimit_spec_parse :: "string \<Rightarrow> rlimit_kind \<Rightarrow> rlimit_spec option" where
  "rlimit_spec_parse s kind =
     (case split_on (\<lambda>c. c = CHR '':'') s of
        [] \<Rightarrow> None
      | first # parts \<Rightarrow>
          (case parse_rlimit_value first kind of
             None \<Rightarrow> None
           | Some soft_value \<Rightarrow>
               (case (case parts of
                        [] \<Rightarrow> Some soft_value
                      | second # _ \<Rightarrow> parse_rlimit_value second kind) of
                  None \<Rightarrow> None
                | Some hard_value \<Rightarrow>
                    if 1 < length parts \<or> rlimit_ord hard_value < rlimit_ord soft_value then None
                    else Some \<lparr> soft = soft_value, hard = hard_value \<rparr>)))"

fun dbus_rlimit_value :: "rlimit_value \<Rightarrow> nat" where
  "dbus_rlimit_value (RValue v) = v"
| "dbus_rlimit_value RInfinity = u64_max"

section \<open>The resources\<close>

datatype rlimit_resource =
  Cpu | Fsize | Data | Stack | Core | Rss | Nofile | As | Nproc | Memlock | Locks | Sigpending
| Msgqueue | NiceRes | Rtprio | Rttime

definition ALL_resources :: "rlimit_resource list" where
  "ALL_resources =
     [Cpu, Fsize, Data, Stack, Core, Rss, Nofile, As, Nproc, Memlock, Locks, Sigpending, Msgqueue,
      NiceRes, Rtprio, Rttime]"

fun resource_index :: "rlimit_resource \<Rightarrow> nat" where
  "resource_index Cpu = 0"
| "resource_index Fsize = 1"
| "resource_index Data = 2"
| "resource_index Stack = 3"
| "resource_index Core = 4"
| "resource_index Rss = 5"
| "resource_index Nofile = 6"
| "resource_index As = 7"
| "resource_index Nproc = 8"
| "resource_index Memlock = 9"
| "resource_index Locks = 10"
| "resource_index Sigpending = 11"
| "resource_index Msgqueue = 12"
| "resource_index NiceRes = 13"
| "resource_index Rtprio = 14"
| "resource_index Rttime = 15"

fun resource_key :: "rlimit_resource \<Rightarrow> string" where
  "resource_key Cpu = ''CPU''"
| "resource_key Fsize = ''FSIZE''"
| "resource_key Data = ''DATA''"
| "resource_key Stack = ''STACK''"
| "resource_key Core = ''CORE''"
| "resource_key Rss = ''RSS''"
| "resource_key Nofile = ''NOFILE''"
| "resource_key As = ''AS''"
| "resource_key Nproc = ''NPROC''"
| "resource_key Memlock = ''MEMLOCK''"
| "resource_key Locks = ''LOCKS''"
| "resource_key Sigpending = ''SIGPENDING''"
| "resource_key Msgqueue = ''MSGQUEUE''"
| "resource_key NiceRes = ''NICE''"
| "resource_key Rtprio = ''RTPRIO''"
| "resource_key Rttime = ''RTTIME''"

fun resource_kind :: "rlimit_resource \<Rightarrow> rlimit_kind" where
  "resource_kind Cpu = Seconds"
| "resource_kind Fsize = Size"
| "resource_kind Data = Size"
| "resource_kind Stack = Size"
| "resource_kind Core = Size"
| "resource_kind Rss = Size"
| "resource_kind As = Size"
| "resource_kind Nofile = Count"
| "resource_kind Nproc = Count"
| "resource_kind Locks = Count"
| "resource_kind Sigpending = Count"
| "resource_kind Rtprio = Count"
| "resource_kind Memlock = Size"
| "resource_kind Msgqueue = Size"
| "resource_kind NiceRes = Nice"
| "resource_kind Rttime = Microseconds"

section \<open>Task limits\<close>

record tasks_max_spec =
  tm_value :: nat
  tm_scale :: nat

definition tasks_max_default_spec :: tasks_max_spec where
  "tasks_max_default_spec = \<lparr> tm_value = 15, tm_scale = 100 \<rparr>"

definition unlimited :: tasks_max_spec where
  "unlimited = \<lparr> tm_value = u64_max, tm_scale = 0 \<rparr>"

definition checked_mul :: "nat \<Rightarrow> nat \<Rightarrow> nat \<Rightarrow> nat option" where
  "checked_mul mx a b = (if a * b \<le> mx then Some (a * b) else None)"

definition parse_permyriad :: "string \<Rightarrow> nat option" where
  "parse_permyriad value =
     (case strip_suffix value ''%'' of
        None \<Rightarrow> None
      | Some number \<Rightarrow>
          (let multiplier = 100; precision = 2;
               (whole, fraction) =
                 (case split_once (CHR ''.'') number of Some ab \<Rightarrow> ab | None \<Rightarrow> (number, []))
           in if whole = [] \<or> \<not> list_all is_digit whole
                 \<or> (CHR ''.'' \<in> set number \<and> fraction = [])
                 \<or> precision < length fraction \<or> \<not> list_all is_digit fraction
              then None
              else case parse_u64 whole of
                None \<Rightarrow> None
              | Some w \<Rightarrow>
                  (case (if fraction = [] then Some 0
                         else map_option (\<lambda>f. f * 10 ^ (precision - length fraction))
                                (parse_u64 fraction)) of
                     None \<Rightarrow> None
                   | Some f \<Rightarrow>
                       (case Option.bind (checked_mul u64_max w multiplier)
                               (\<lambda>m. checked_add u64_max m f) of
                          None \<Rightarrow> None
                        | Some result \<Rightarrow> if result \<le> 10000 then Some result else None))))"

definition tasks_max_parse :: "string \<Rightarrow> tasks_max_spec option" where
  "tasks_max_parse value =
     (let value = trim value
      in if value = [] \<or> value = ''infinity'' then Some unlimited
         else case parse_permyriad value of
           Some numerator \<Rightarrow> Some \<lparr> tm_value = numerator, tm_scale = 10000 \<rparr>
         | None \<Rightarrow>
             (case parse_u64 value of
                Some absolute \<Rightarrow>
                  if 0 < absolute \<and> absolute < u64_max
                  then Some \<lparr> tm_value = absolute, tm_scale = 0 \<rparr> else None
              | None \<Rightarrow> None))"

definition read_u64 :: "(string \<Rightarrow> string option) \<Rightarrow> string \<Rightarrow> nat option" where
  "read_u64 read_file path =
     (case read_file path of Some text \<Rightarrow> parse_u64 (trim text) | None \<Rightarrow> None)"

definition system_tasks_max :: "(string \<Rightarrow> string option) \<Rightarrow> nat" where
  "system_tasks_max read_file =
     (let or_max = (\<lambda>r. case r of Some n \<Rightarrow> n | None \<Rightarrow> u64_max);
          threads = or_max (read_u64 read_file ''/proc/sys/kernel/threads-max'');
          pids = or_max (read_u64 read_file ''/proc/sys/kernel/pid_max'') - 1;
          root_pids = or_max (read_u64 read_file ''/sys/fs/cgroup/pids.max'')
      in min (min threads pids) root_pids)"

definition tasks_max_resolve :: "(string \<Rightarrow> string option) \<Rightarrow> tasks_max_spec \<Rightarrow> nat" where
  "tasks_max_resolve read_file spec =
     (if tm_scale spec = 0 then tm_value spec
      else
        (let capacity = system_tasks_max read_file;
             product = sat_mul u128_max capacity (tm_value spec)
         in min u64_max (product div tm_scale spec)))"

section \<open>Well-formed limits\<close>

text \<open>What a limit of a kind can be.\<close>

fun rlimit_value_ok :: "rlimit_kind \<Rightarrow> rlimit_value \<Rightarrow> bool" where
  "rlimit_value_ok kind RInfinity = (kind \<noteq> Nice)"
| "rlimit_value_ok kind (RValue n) = (n < u64_max \<and> (kind = Nice \<longrightarrow> n \<le> 40))"

lemma parse_rlimit_nice_bound: "parse_rlimit_nice s = Some n \<Longrightarrow> n \<le> 40"
  by (auto simp: parse_rlimit_nice_def split: option.splits if_splits)

lemma parse_rlimit_value_ok:
  "parse_rlimit_value s kind = Some v \<Longrightarrow> rlimit_value_ok kind v"
  using parse_rlimit_nice_bound [of s]
  by (auto simp: parse_rlimit_value_def split: if_splits option.splits)

lemma u64_less_u128: "u64_max < u128_max"
  by (simp add: u128_max_def)

lemma dbus_rlimit_value_mono:
  assumes "rlimit_value_ok kind a" "rlimit_value_ok kind b" "rlimit_ord a \<le> rlimit_ord b"
  shows "dbus_rlimit_value a \<le> dbus_rlimit_value b"
  using assms u64_less_u128 by (cases a; cases b) auto

text \<open>
  A resource limit that parses is well formed whatever its grammar: the soft side is at most
  the hard side, also in the numbers published on the bus, where no finite limit is the
  infinity sentinel; a nice limit is finite and at most 40; a single field sets both sides.
\<close>

theorem rlimit_spec_parse_ok:
  assumes "rlimit_spec_parse s kind = Some spec"
  shows "rlimit_value_ok kind (soft spec) \<and> rlimit_value_ok kind (hard spec)
    \<and> rlimit_ord (soft spec) \<le> rlimit_ord (hard spec)
    \<and> dbus_rlimit_value (soft spec) \<le> dbus_rlimit_value (hard spec)
    \<and> (CHR '':'' \<notin> set s \<longrightarrow> hard spec = soft spec)"
proof -
  have ok: "rlimit_value_ok kind (soft spec)" "rlimit_value_ok kind (hard spec)"
    "rlimit_ord (soft spec) \<le> rlimit_ord (hard spec)"
    using assms parse_rlimit_value_ok
    by (auto simp: rlimit_spec_parse_def split: list.splits option.splits if_splits)
  have "hard spec = soft spec" if "CHR '':'' \<notin> set s"
  proof -
    have "split_on (\<lambda>c. c = CHR '':'') s = [s]" using that by (intro split_on_free) auto
    thus ?thesis using assms by (auto simp: rlimit_spec_parse_def split: option.splits if_splits)
  qed
  thus ?thesis using ok dbus_rlimit_value_mono by blast
qed

theorem rlimit_spec_parse_ok_witness:
  "rlimit_spec_parse ''-5:-20'' Nice = Some \<lparr> soft = RValue 25, hard = RValue 40 \<rparr>
   \<and> rlimit_value_ok Nice (RValue 40)"
proof -
  have "rlimit_spec_parse ''-5:-20'' Nice = Some \<lparr> soft = RValue 25, hard = RValue 40 \<rparr>"
    by (simp add: rlimit_spec_parse_def parse_rlimit_value_def parse_rlimit_nice_def strip_prefix_def
        starts_with_def parse_uint_def is_digit_def digit_val_def)
  from rlimit_spec_parse_ok [OF this] this show ?thesis by simp
qed

text \<open>Printing a limit in unit-file syntax.\<close>

fun show_rlimit_value :: "rlimit_value \<Rightarrow> string" where
  "show_rlimit_value RInfinity = ''infinity''"
| "show_rlimit_value (RValue n) = show_nat n"

definition show_rlimit_spec :: "rlimit_spec \<Rightarrow> string" where
  "show_rlimit_spec spec = show_rlimit_value (soft spec) @ '':'' @ show_rlimit_value (hard spec)"

lemma show_nat_not_word: "w \<noteq> [] \<Longrightarrow> \<not> is_digit (hd w) \<Longrightarrow> show_nat n \<noteq> w"
  using show_nat_digits [of n] by (cases w) auto

lemma show_nat_strip_sign:
  "strip_prefix (show_nat n) ''+'' = None" "strip_prefix (show_nat n) ''-'' = None"
proof -
  have "hd (show_nat n) \<notin> {CHR ''+'', CHR ''-''}"
    using show_nat_digits [of n] hd_in_set [of "show_nat n"] by (fastforce simp: is_digit_def)
  thus "strip_prefix (show_nat n) ''+'' = None" "strip_prefix (show_nat n) ''-'' = None"
    using show_nat_digits [of n] by (cases "show_nat n"; simp add: strip_prefix_def starts_with_def)+
qed

lemma parse_rlimit_value_show:
  assumes "rlimit_value_ok kind v" "kind \<in> {Count, Nice}"
  shows "parse_rlimit_value (show_rlimit_value v) kind = Some v"
  using assms show_nat_not_word [of "''infinity''"]
  by (cases v) (auto simp: parse_rlimit_value_def parse_rlimit_nice_def show_nat_strip_sign is_digit_def)

lemma show_rlimit_value_plain: "c \<in> set (show_rlimit_value v) \<Longrightarrow> c \<noteq> CHR '':''"
proof (cases v)
  case (RValue n)
  thus "c \<in> set (show_rlimit_value v) \<Longrightarrow> c \<noteq> CHR '':''"
    using show_nat_digits [of n] by (auto simp: is_digit_def)
qed auto

text \<open>
  Every well-formed counter or nice limit is read back from its unit-file form, soft and hard
  side separated by a colon.
\<close>

theorem rlimit_spec_round_trip:
  assumes "rlimit_value_ok kind (soft spec)" "rlimit_value_ok kind (hard spec)"
    and "rlimit_ord (soft spec) \<le> rlimit_ord (hard spec)" and "kind \<in> {Count, Nice}"
  shows "rlimit_spec_parse (show_rlimit_spec spec) kind = Some spec"
proof -
  have "split_on (\<lambda>c. c = CHR '':'') (show_rlimit_spec spec)
      = [show_rlimit_value (soft spec), show_rlimit_value (hard spec)]"
    using show_rlimit_value_plain by (auto simp: show_rlimit_spec_def split_on_append split_on_free)
  thus ?thesis using assms parse_rlimit_value_show
    by (simp add: rlimit_spec_parse_def)
qed

theorem rlimit_spec_round_trip_witness:
  "rlimit_spec_parse (show_rlimit_spec \<lparr> soft = RValue 1024, hard = RInfinity \<rparr>) Count
     = Some \<lparr> soft = RValue 1024, hard = RInfinity \<rparr>"
  using rlimit_spec_round_trip [of Count "\<lparr> soft = RValue 1024, hard = RInfinity \<rparr>"]
  by (simp add: u128_max_def)

section \<open>The task capacity\<close>

lemma system_tasks_max_bound: "system_tasks_max read_file \<le> u64_max"
proof -
  have "read_u64 read_file p = Some n \<Longrightarrow> n \<le> u64_max" for p n
    by (auto simp: read_u64_def dest: parse_uint_bound split: option.splits)
  hence "(case read_u64 read_file p of Some n \<Rightarrow> n | None \<Rightarrow> u64_max) \<le> u64_max" for p
    by (auto split: option.splits)
  thus ?thesis by (simp add: system_tasks_max_def Let_def min.coboundedI2)
qed

lemma parse_permyriad_bound: "parse_permyriad s = Some n \<Longrightarrow> n \<le> 10000"
  by (auto simp: parse_permyriad_def Let_def split: option.splits if_splits prod.splits)

lemma percentage_within_capacity:
  assumes "v \<le> 10000"
  shows "tasks_max_resolve f \<lparr> tm_value = v, tm_scale = 10000 \<rparr> \<le> system_tasks_max f"
proof -
  have "system_tasks_max f * v div 10000 \<le> system_tasks_max f * 10000 div 10000"
    using assms by (intro div_le_mono mult_le_mono) auto
  moreover have "sat_mul u128_max (system_tasks_max f) v div 10000 \<le> system_tasks_max f * v div 10000"
    by (intro div_le_mono) (simp add: sat_mul_def)
  ultimately show ?thesis by (simp add: tasks_max_resolve_def Let_def min_le_iff_disj)
qed

lemma tasks_max_parse_cases:
  assumes "tasks_max_parse s = Some spec"
  shows "spec = unlimited \<or> (tm_scale spec = 10000 \<and> tm_value spec \<le> 10000)
       \<or> (tm_scale spec = 0 \<and> 0 < tm_value spec \<and> tm_value spec < u64_max)"
  using assms parse_permyriad_bound
  by (auto simp: tasks_max_parse_def Let_def split: if_splits option.splits)

end
