(* ===== verification/ResourceControl.thy ===== *)
theory ResourceControl
  imports Rlimits
begin

text \<open>
  Control-group resource properties, \<open>src/src/resource_control.rs\<close>: the settings of a unit,
  the unit-file parser of one assignment (\<open>rc_apply\<close>) and the normalisation of a
  \<open>set-property\<close> assignment (\<open>normalize_property\<close>).  The task capacity of the host is read
  through \<open>read_file\<close>.

  The lemmas show that the stored values are always in the range of the controllers, that
  normalisation is idempotent and that it keeps the meaning of an assignment, each with the
  values for which the code fails to do so.
\<close>

section \<open>Values\<close>

datatype limit_value = LValue nat | LMax

fun limit_cgroup_value :: "limit_value \<Rightarrow> string" where
  "limit_cgroup_value (LValue v) = show_nat v"
| "limit_cgroup_value LMax = ''max''"

datatype cpu_quota = PercentHundredths nat | QMax

text \<open>The format \<open>{:02}\<close>.\<close>

definition show_nat2 :: "nat \<Rightarrow> string" where
  "show_nat2 n = (if n < 10 then ''0'' @ show_nat n else show_nat n)"

fun quota_unit_value :: "cpu_quota \<Rightarrow> string" where
  "quota_unit_value (PercentHundredths v) =
     show_nat (v div 100) @ ''.'' @ show_nat2 (v mod 100) @ ''%''"
| "quota_unit_value QMax = ''infinity''"

definition div_ceil :: "nat \<Rightarrow> nat \<Rightarrow> nat" where
  "div_ceil a b = (a + b - 1) div b"

definition period_usec :: nat where "period_usec = 100000"

fun quota_cgroup_value :: "cpu_quota \<Rightarrow> string" where
  "quota_cgroup_value QMax = ''max '' @ show_nat period_usec"
| "quota_cgroup_value (PercentHundredths v) =
     (let quota = max (min u64_max (div_ceil (period_usec * v) 10000)) 1000
      in show_nat quota @ '' '' @ show_nat period_usec)"

record resource_control =
  io_accounting :: bool
  memory_accounting :: bool
  tasks_accounting :: bool
  ip_accounting :: bool
  cpu_weight :: "nat option"
  cpu_quota_of :: "cpu_quota option"
  io_weight :: "nat option"
  memory_min :: "limit_value option"
  memory_low :: "limit_value option"
  memory_high :: "limit_value option"
  memory_max :: "limit_value option"
  memory_swap_max :: "limit_value option"
  memory_zswap_max :: "limit_value option"
  memory_zswap_writeback :: "bool option"
  tasks_max :: "limit_value option"
  tasks_max_default :: bool
  cpu_idle :: bool

definition resource_control_default :: resource_control where
  "resource_control_default =
     \<lparr> io_accounting = False, memory_accounting = False, tasks_accounting = False,
       ip_accounting = False, cpu_weight = None, cpu_quota_of = None, io_weight = None,
       memory_min = None, memory_low = None, memory_high = None, memory_max = None,
       memory_swap_max = None, memory_zswap_max = None, memory_zswap_writeback = None,
       tasks_max = None, tasks_max_default = False, cpu_idle = False \<rparr>"

definition is_configured :: "resource_control \<Rightarrow> bool" where
  "is_configured rc \<longleftrightarrow>
     io_accounting rc \<or> memory_accounting rc \<or> tasks_accounting rc \<or> ip_accounting rc
   \<or> cpu_weight rc \<noteq> None \<or> cpu_idle rc \<or> cpu_quota_of rc \<noteq> None \<or> io_weight rc \<noteq> None
   \<or> memory_min rc \<noteq> None \<or> memory_low rc \<noteq> None \<or> memory_high rc \<noteq> None
   \<or> memory_max rc \<noteq> None \<or> memory_swap_max rc \<noteq> None \<or> memory_zswap_max rc \<noteq> None
   \<or> memory_zswap_writeback rc \<noteq> None \<or> (tasks_max rc \<noteq> None \<and> \<not> tasks_max_default rc)"

section \<open>Parsers\<close>

definition rc_parse_bool :: "string \<Rightarrow> bool" where
  "rc_parse_bool value \<longleftrightarrow> trim value \<in> {''1'', ''yes'', ''true'', ''on''}"

definition parse_weight :: "string \<Rightarrow> nat option" where
  "parse_weight value =
     (case parse_u64 (trim value) of
        Some weight \<Rightarrow> if 1 \<le> weight \<and> weight \<le> 10000 then Some weight else None
      | None \<Rightarrow> None)"

definition parse_cpu_shares :: "string \<Rightarrow> nat option" where
  "parse_cpu_shares value =
     (case parse_u64 (trim value) of
        Some shares \<Rightarrow>
          if 2 \<le> shares \<and> shares \<le> 262144 then Some (1 + ((shares - 2) * 9999) div 262142) else None
      | None \<Rightarrow> None)"

definition parse_block_io_weight :: "string \<Rightarrow> nat option" where
  "parse_block_io_weight value =
     (case parse_u64 (trim value) of
        Some weight \<Rightarrow>
          if 10 \<le> weight \<and> weight \<le> 1000 then Some (1 + ((weight - 10) * 9999) div 990) else None
      | None \<Rightarrow> None)"

definition parse_count_limit :: "(string \<Rightarrow> string option) \<Rightarrow> string \<Rightarrow> limit_value option" where
  "parse_count_limit read_file value =
     map_option (\<lambda>spec. let v = tasks_max_resolve read_file spec
                        in if v = u64_max then LMax else LValue v)
       (tasks_max_parse value)"

definition is_unlimited :: "string \<Rightarrow> bool" where
  "is_unlimited value \<longleftrightarrow> to_ascii_lowercase (trim value) \<in> {''infinity'', ''max''}"

definition parse_decimal :: "string \<Rightarrow> (nat \<times> nat \<times> nat) option" where
  "parse_decimal value =
     (case split_on (\<lambda>c. c = CHR ''.'') value of
        [] \<Rightarrow> None
      | first # parts \<Rightarrow>
          (case parse_u64 first of
             None \<Rightarrow> None
           | Some whole \<Rightarrow>
               (let fraction_text = (case parts of [] \<Rightarrow> [] | t # _ \<Rightarrow> t)
                in if 1 < length parts \<or> \<not> list_all is_digit fraction_text
                      \<or> 6 < length fraction_text then None
                   else if fraction_text = [] then Some (whole, 0, 1)
                   else map_option (\<lambda>fractional. (whole, fractional, 10 ^ length fraction_text))
                          (parse_u64 fraction_text))))"

definition parse_size_bytes :: "string \<Rightarrow> nat option" where
  "parse_size_bytes value =
     (let value = trim value
      in if value = [] then None
         else
           (let number = takeWhile numeric value;
                suf = dropWhile numeric value
            in if number = [] then None
               else case size_factor (to_ascii_uppercase (trim suf)) of
                 None \<Rightarrow> None
               | Some multiplier \<Rightarrow>
                   (case parse_decimal number of
                      None \<Rightarrow> None
                    | Some (whole, fractional, scale) \<Rightarrow>
                        Option.bind (checked_mul u128_max whole multiplier) (\<lambda>a.
                          Option.bind (checked_mul u128_max fractional multiplier) (\<lambda>b.
                            Option.bind (checked_add u128_max a (b div scale)) (\<lambda>scaled.
                              if scaled \<le> u64_max then Some scaled else None))))))"

definition parse_size_limit :: "string \<Rightarrow> limit_value option" where
  "parse_size_limit value =
     (if is_unlimited value then Some LMax else map_option LValue (parse_size_bytes value))"

definition parse_cpu_quota :: "string \<Rightarrow> cpu_quota option" where
  "parse_cpu_quota value =
     (if is_unlimited value then Some QMax
      else case strip_suffix (trim value) ''%'' of
        None \<Rightarrow> None
      | Some number \<Rightarrow>
          (case parse_decimal number of
             None \<Rightarrow> None
           | Some (whole, fractional, scale) \<Rightarrow>
               Option.bind (checked_mul u128_max whole 100) (\<lambda>a.
                 Option.bind (checked_add u128_max a (div_ceil (fractional * 100) scale)) (\<lambda>hundredths.
                   if hundredths \<le> u64_max \<and> 0 < hundredths
                   then Some (PercentHundredths hundredths) else None))))"

definition rc_apply ::
  "(string \<Rightarrow> string option) \<Rightarrow> string \<Rightarrow> string \<Rightarrow> resource_control \<Rightarrow> bool \<times> resource_control" where
  "rc_apply read_file key value rc =
     (if key = ''IOAccounting'' then (True, rc\<lparr> io_accounting := rc_parse_bool value \<rparr>)
      else if key = ''MemoryAccounting'' then (True, rc\<lparr> memory_accounting := rc_parse_bool value \<rparr>)
      else if key = ''TasksAccounting'' then (True, rc\<lparr> tasks_accounting := rc_parse_bool value \<rparr>)
      else if key = ''IPAccounting'' then (True, rc\<lparr> ip_accounting := rc_parse_bool value \<rparr>)
      else if key = ''CPUWeight'' then
        (True, if eq_ignore_ascii_case (trim value) ''idle''
               then rc\<lparr> cpu_weight := None, cpu_idle := True \<rparr>
               else rc\<lparr> cpu_idle := False, cpu_weight := parse_weight value \<rparr>)
      else if key = ''CPUShares'' then
        (True, rc\<lparr> cpu_idle := False, cpu_weight := parse_cpu_shares value \<rparr>)
      else if key = ''CPUQuota'' then (True, rc\<lparr> cpu_quota_of := parse_cpu_quota value \<rparr>)
      else if key = ''IOWeight'' then (True, rc\<lparr> io_weight := parse_weight value \<rparr>)
      else if key = ''BlockIOWeight'' then (True, rc\<lparr> io_weight := parse_block_io_weight value \<rparr>)
      else if key = ''MemoryMin'' then (True, rc\<lparr> memory_min := parse_size_limit value \<rparr>)
      else if key = ''MemoryLow'' then (True, rc\<lparr> memory_low := parse_size_limit value \<rparr>)
      else if key = ''MemoryHigh'' then (True, rc\<lparr> memory_high := parse_size_limit value \<rparr>)
      else if key = ''MemoryMax'' \<or> key = ''MemoryLimit'' then
        (True, rc\<lparr> memory_max := parse_size_limit value \<rparr>)
      else if key = ''MemorySwapMax'' then (True, rc\<lparr> memory_swap_max := parse_size_limit value \<rparr>)
      else if key = ''MemoryZSwapMax'' then (True, rc\<lparr> memory_zswap_max := parse_size_limit value \<rparr>)
      else if key = ''MemoryZSwapWriteback'' then
        (True, rc\<lparr> memory_zswap_writeback := Some (rc_parse_bool value) \<rparr>)
      else if key = ''TasksMax'' then
        (True, if trim value = [] then rc\<lparr> tasks_max := None, tasks_max_default := False \<rparr>
               else case parse_count_limit read_file value of
                      Some parsed \<Rightarrow> rc\<lparr> tasks_max := Some parsed, tasks_max_default := False \<rparr>
                    | None \<Rightarrow> rc)
      else (False, rc))"

section \<open>Normalisation\<close>

record normalized_property =
  np_key :: string
  np_value :: string

fun unit_limit_value :: "limit_value \<Rightarrow> string" where
  "unit_limit_value (LValue v) = show_nat v"
| "unit_limit_value LMax = ''infinity''"

definition parse_bool_value :: "string \<Rightarrow> string \<Rightarrow> string + normalized_property" where
  "parse_bool_value key value =
     (let lower = to_ascii_lowercase (trim value)
      in if lower \<in> {''1'', ''yes'', ''true'', ''on''}
         then Inr \<lparr> np_key = key, np_value = ''yes'' \<rparr>
         else if lower \<in> {''0'', ''no'', ''false'', ''off''}
         then Inr \<lparr> np_key = key, np_value = ''no'' \<rparr>
         else Inl (key @ '' must be a boolean''))"

definition normalize_weight ::
  "string \<Rightarrow> string \<Rightarrow> (string \<Rightarrow> nat option) \<Rightarrow> string + normalized_property" where
  "normalize_weight key value parser =
     (case parser value of
        Some weight \<Rightarrow> Inr \<lparr> np_key = key, np_value = show_nat weight \<rparr>
      | None \<Rightarrow> Inl (key @ '' must resolve to an integer in the range 1..=10000''))"

definition normalize_size :: "string \<Rightarrow> string \<Rightarrow> string + normalized_property" where
  "normalize_size key value =
     (case parse_size_limit value of
        Some limit \<Rightarrow> Inr \<lparr> np_key = key, np_value = unit_limit_value limit \<rparr>
      | None \<Rightarrow>
          Inl (key @ '' must be a byte count with an optional K/M/G/T/P suffix, or infinity''))"

definition normalize_property ::
  "(string \<Rightarrow> string option) \<Rightarrow> string \<Rightarrow> string \<Rightarrow> string + normalized_property" where
  "normalize_property read_file key value =
     (let value = trim value
      in if key = ''CPUWeight'' \<and> eq_ignore_ascii_case value ''idle''
         then Inr \<lparr> np_key = ''CPUWeight'', np_value = ''idle'' \<rparr>
         else if key = ''CPUWeight'' then normalize_weight ''CPUWeight'' value parse_weight
         else if key = ''CPUShares'' then normalize_weight ''CPUWeight'' value parse_cpu_shares
         else if key = ''CPUQuota'' then
           (case parse_cpu_quota value of
              Some quota \<Rightarrow> Inr \<lparr> np_key = ''CPUQuota'', np_value = quota_unit_value quota \<rparr>
            | None \<Rightarrow> Inl ''CPUQuota must be a positive percentage or infinity'')
         else if key = ''IOWeight'' then normalize_weight ''IOWeight'' value parse_weight
         else if key = ''BlockIOWeight'' then normalize_weight ''IOWeight'' value parse_block_io_weight
         else if key = ''MemoryMin'' then normalize_size ''MemoryMin'' value
         else if key = ''MemoryLow'' then normalize_size ''MemoryLow'' value
         else if key = ''MemoryHigh'' then normalize_size ''MemoryHigh'' value
         else if key = ''MemoryMax'' \<or> key = ''MemoryLimit'' then normalize_size ''MemoryMax'' value
         else if key = ''MemorySwapMax'' then normalize_size ''MemorySwapMax'' value
         else if key = ''MemoryZSwapMax'' then normalize_size ''MemoryZSwapMax'' value
         else if key = ''MemoryZSwapWriteback'' then parse_bool_value ''MemoryZSwapWriteback'' value
         else if key = ''TasksMax'' \<and> value = [] then Inr \<lparr> np_key = ''TasksMax'', np_value = [] \<rparr>
         else if key = ''TasksMax'' then
           (case parse_count_limit read_file value of
              Some limit \<Rightarrow> Inr \<lparr> np_key = ''TasksMax'', np_value = unit_limit_value limit \<rparr>
            | None \<Rightarrow> Inl ''TasksMax must be a positive integer, percentage, or infinity'')
         else Inl (''unsupported property '' @ [CHR 0x27] @ key @ [CHR 0x27]))"

section \<open>Printed values\<close>

lemma digit_chars:
  "is_digit c \<Longrightarrow> \<not> is_ws c" "is_digit c \<Longrightarrow> numeric c" "is_digit c \<Longrightarrow> c \<noteq> CHR ''.''"
  "is_digit c \<Longrightarrow> c \<noteq> CHR ''%''" "is_digit c \<Longrightarrow> to_lower c = c"
  by (auto simp: is_digit_def is_ws_def numeric_def to_lower_def is_upper_def)

lemma show_nat_chars: "c \<in> set (show_nat n) \<Longrightarrow> is_digit c"
  using show_nat_digits by blast

lemma show_nat_Nil [simp]: "show_nat n \<noteq> []"
  using show_nat_digits by blast

lemma trim_show_nat [simp]: "trim (show_nat n) = show_nat n"
proof (rule trim_id)
  have "is_digit (hd (show_nat n))" "is_digit (last (show_nat n))"
    using show_nat_chars hd_in_set last_in_set show_nat_Nil by blast+
  thus "show_nat n = [] \<or> \<not> is_ws (hd (show_nat n)) \<and> \<not> is_ws (last (show_nat n))"
    using digit_chars(1) by blast
qed

lemma show_nat_lower [simp]: "to_ascii_lowercase (show_nat n) = show_nat n"
  using show_nat_chars digit_chars(5) by (auto simp: to_ascii_lowercase_def intro!: map_idI)

lemma is_unlimited_show_nat [simp]: "\<not> is_unlimited (show_nat n)"
  using show_nat_not_word [of "''infinity''" n] show_nat_not_word [of "''max''" n]
  by (simp add: is_unlimited_def is_digit_def)

lemma not_idle_show_nat [simp]: "\<not> eq_ignore_ascii_case (show_nat n) ''idle''"
  using show_nat_not_word [of "''idle''" n]
  by (simp add: eq_ignore_ascii_case_def is_digit_def to_ascii_lowercase_def [of "''idle''"]
      to_lower_def is_upper_def)

lemma parse_weight_show [simp]: "1 \<le> w \<Longrightarrow> w \<le> 10000 \<Longrightarrow> parse_weight (show_nat w) = Some w"
  by (simp add: parse_weight_def)

lemma parse_decimal_show: "n \<le> u64_max \<Longrightarrow> parse_decimal (show_nat n) = Some (n, 0, 1)"
proof -
  assume n: "n \<le> u64_max"
  have "split_on (\<lambda>c. c = CHR ''.'') (show_nat n) = [show_nat n]"
    using show_nat_chars digit_chars(3) by (intro split_on_free) blast
  thus ?thesis using n by (simp add: parse_decimal_def)
qed

lemma numeric_show_nat [simp]:
  "takeWhile numeric (show_nat n) = show_nat n" "dropWhile numeric (show_nat n) = []"
  using show_nat_chars digit_chars(2) by (auto simp: takeWhile_eq_all_conv dropWhile_eq_Nil_conv)

lemma trim_Nil [simp]: "trim [] = []"
  by (simp add: trim_def trim_start_def trim_end_def)

lemma parse_size_bytes_show [simp]: "n \<le> u64_max \<Longrightarrow> parse_size_bytes (show_nat n) = Some n"
  by (simp add: parse_size_bytes_def parse_decimal_show to_ascii_uppercase_def size_factor_def
      checked_mul_def checked_add_def u128_max_def)

lemma unlimited_infinity [simp]: "is_unlimited ''infinity''"
  by (simp add: is_unlimited_def trim_def trim_start_def trim_end_def is_ws_def
      to_ascii_lowercase_def to_lower_def is_upper_def)

lemma parse_size_bytes_bound: "parse_size_bytes s = Some n \<Longrightarrow> n \<le> u64_max"
  by (auto simp: parse_size_bytes_def Let_def bind_eq_Some_conv split: if_splits option.splits)

lemma parse_size_limit_print:
  "parse_size_limit s = Some l \<Longrightarrow> parse_size_limit (unit_limit_value l) = Some l"
  using parse_size_bytes_bound by (cases l) (auto simp: parse_size_limit_def split: if_splits)

lemma tasks_max_resolve_bound:
  assumes "tasks_max_parse s = Some spec"
  shows "tasks_max_resolve rf spec \<le> u64_max"
proof (cases "tm_scale spec = 0")
  case True
  hence "tasks_max_resolve rf spec = tm_value spec" by (simp add: tasks_max_resolve_def)
  moreover have "tm_value spec \<le> u64_max"
    using tasks_max_parse_cases [OF assms] by (elim disjE) (simp_all add: unlimited_def)
  ultimately show ?thesis by (simp only:)
next
  case False
  thus ?thesis by (simp only: tasks_max_resolve_def if_False Let_def min.cobounded1)
qed

lemma parse_count_limit_print:
  assumes "parse_count_limit rf s = Some l" "l \<noteq> LValue 0"
  shows "parse_count_limit rf (unit_limit_value l) = Some l"
proof (cases l)
  case LMax
  have "tasks_max_parse ''infinity'' = Some unlimited"
    by (simp add: tasks_max_parse_def trim_def trim_start_def trim_end_def is_ws_def)
  thus ?thesis using LMax by (simp add: parse_count_limit_def tasks_max_resolve_def unlimited_def)
next
  case (LValue v)
  obtain spec where spec: "tasks_max_parse s = Some spec" "tasks_max_resolve rf spec = v" "v \<noteq> u64_max"
    using assms(1) LValue by (auto simp: parse_count_limit_def Let_def split: if_splits)
  have "v \<le> u64_max" using tasks_max_resolve_bound [OF spec(1), of rf] spec(2) by (simp only:)
  hence v: "0 < v" "v < u64_max" using spec(3) assms(2) LValue by (simp, intro le_neq_implies_less)
  have "strip_suffix (show_nat v) ''%'' = None"
  proof (cases "strip_suffix (show_nat v) ''%''")
    case (Some t)
    hence "show_nat v = t @ ''%''" by (simp only: strip_suffix_Some)
    hence "is_digit (CHR ''%'')" using show_nat_chars [of "CHR ''%''" v] by simp
    thus ?thesis by (simp add: is_digit_def)
  qed
  hence "parse_permyriad (show_nat v) = None" by (simp add: parse_permyriad_def)
  hence "tasks_max_parse (show_nat v) = Some \<lparr> tm_value = v, tm_scale = 0 \<rparr>"
    using v show_nat_not_word [of "''infinity''" v] by (simp add: tasks_max_parse_def is_digit_def)
  thus ?thesis using LValue v by (simp add: parse_count_limit_def tasks_max_resolve_def)
qed

text \<open>A quota that the parser produces.\<close>

fun quota_ok :: "cpu_quota \<Rightarrow> bool" where
  "quota_ok (PercentHundredths h) = (0 < h \<and> h \<le> u64_max)"
| "quota_ok QMax = True"

lemma parse_cpu_quota_ok: "parse_cpu_quota s = Some q \<Longrightarrow> quota_ok q"
  by (auto simp: parse_cpu_quota_def bind_eq_Some_conv split: if_splits option.splits)

lemma show_nat2_chars: "c \<in> set (show_nat2 n) \<Longrightarrow> is_digit c"
  using show_nat_chars by (auto simp: show_nat2_def is_digit_def split: if_splits)

lemma show_nat2_length: "n < 100 \<Longrightarrow> length (show_nat2 n) = 2"
proof -
  assume "n < 100"
  hence "n div 10 < 10" by linarith
  thus ?thesis by (simp add: show_nat2_def show_nat.simps [of n] show_nat.simps [of "n div 10"])
qed

lemma parse_show_nat2: "n < 100 \<Longrightarrow> parse_u64 (show_nat2 n) = Some n"
proof (cases "n < 10")
  case True
  hence "parse_digits u64_max 0 (show_nat n) = Some n" by (intro show_nat_parse) simp
  thus ?thesis using True by (simp add: show_nat2_def parse_uint_def is_digit_def digit_val_def)
qed (simp add: show_nat2_def)

lemma parse_decimal_hundredths:
  assumes "a \<le> u64_max" "b < 100"
  shows "parse_decimal (show_nat a @ CHR ''.'' # show_nat2 b) = Some (a, b, 100)"
proof -
  have "split_on (\<lambda>c. c = CHR ''.'') (show_nat a @ CHR ''.'' # show_nat2 b) = [show_nat a, show_nat2 b]"
    using show_nat_chars [of _ a] show_nat2_chars [of _ b] digit_chars(3)
    by (subst split_on_append) (blast, simp, simp, rule split_on_free, blast)
  moreover have "list_all is_digit (show_nat2 b)" "show_nat2 b \<noteq> []"
    using show_nat2_chars show_nat2_length [OF assms(2)] by (auto simp: list_all_iff)
  ultimately show ?thesis
    using assms parse_show_nat2 [OF assms(2)] show_nat2_length [OF assms(2)] by (simp add: parse_decimal_def)
qed

lemma parse_cpu_quota_print:
  assumes "quota_ok q"
  shows "parse_cpu_quota (quota_unit_value q) = Some q"
proof (cases q)
  case (PercentHundredths h)
  let ?n = "show_nat (h div 100) @ CHR ''.'' # show_nat2 (h mod 100)"
  have t: "trim (?n @ ''%'') = ?n @ ''%''"
    using show_nat_chars [of "hd (show_nat (h div 100))" "h div 100"] digit_chars(1)
    by (intro trim_id) (simp add: hd_append is_ws_def [of "CHR ''%''"])
  have "last (to_ascii_lowercase (?n @ ''%'')) = CHR ''%''"
    by (simp add: to_ascii_lowercase_def to_lower_def is_upper_def)
  hence u: "\<not> is_unlimited (?n @ ''%'')"
    unfolding is_unlimited_def t by (auto simp del: last_map)
  have "strip_suffix (?n @ ''%'') ''%'' = Some ?n" by (simp add: strip_suffix_Some)
  moreover have "parse_decimal ?n = Some (h div 100, h mod 100, 100)"
    using assms PercentHundredths by (intro parse_decimal_hundredths) auto
  moreover have "div_ceil (h mod 100 * 100) 100 = h mod 100" by (simp add: div_ceil_def)
  moreover have "h div 100 * 100 + h mod 100 = h" by simp
  moreover have "h \<le> u128_max" "h div 100 * 100 \<le> u128_max"
    using assms PercentHundredths by (auto simp: u128_max_def)
  ultimately show ?thesis
    using assms PercentHundredths t u
    by (simp add: parse_cpu_quota_def checked_mul_def checked_add_def)
qed (simp add: parse_cpu_quota_def)

section \<open>Normalisation keeps the meaning\<close>

lemma weight_bounds:
  "parse_weight s = Some w \<Longrightarrow> 1 \<le> w \<and> w \<le> 10000"
  "parse_cpu_shares s = Some w \<Longrightarrow> 1 \<le> w \<and> w \<le> 10000"
  "parse_block_io_weight s = Some w \<Longrightarrow> 1 \<le> w \<and> w \<le> 10000"
proof -
  have "((n - 2) * 9999) div 262142 \<le> 9999" if "n \<le> 262144" for n :: nat
    using div_le_mono [OF mult_le_mono1, of "n - 2" 262142 9999 262142] that by simp
  moreover have "((n - 10) * 9999) div 990 \<le> 9999" if "n \<le> 1000" for n :: nat
    using div_le_mono [OF mult_le_mono1, of "n - 10" 990 9999 990] that by simp
  ultimately show
    "parse_weight s = Some w \<Longrightarrow> 1 \<le> w \<and> w \<le> 10000"
    "parse_cpu_shares s = Some w \<Longrightarrow> 1 \<le> w \<and> w \<le> 10000"
    "parse_block_io_weight s = Some w \<Longrightarrow> 1 \<le> w \<and> w \<le> 10000"
    by (auto simp: parse_weight_def parse_cpu_shares_def parse_block_io_weight_def
        split: option.splits if_splits)
qed

lemma is_unlimited_trim [simp]: "is_unlimited (trim s) = is_unlimited s"
  unfolding is_unlimited_def trim_idem ..

lemma parsers_trim [simp]:
  "parse_weight (trim s) = parse_weight s" "parse_cpu_shares (trim s) = parse_cpu_shares s"
  "parse_block_io_weight (trim s) = parse_block_io_weight s"
  "parse_cpu_quota (trim s) = parse_cpu_quota s" "parse_size_limit (trim s) = parse_size_limit s"
  "parse_count_limit rf (trim s) = parse_count_limit rf s"
  unfolding parse_weight_def parse_cpu_shares_def parse_block_io_weight_def parse_cpu_quota_def
      parse_size_limit_def parse_size_bytes_def parse_count_limit_def tasks_max_parse_def
      is_unlimited_trim trim_idem by (rule refl)+

lemma unit_limit_value_word: "unit_limit_value l \<noteq> []" "trim (unit_limit_value l) \<noteq> []"
proof -
  have "trim ''infinity'' = ''infinity''" by (rule trim_id) (simp add: is_ws_def)
  thus "unit_limit_value l \<noteq> []" "trim (unit_limit_value l) \<noteq> []" by (cases l; simp)+
qed

text \<open>The properties that \<open>set-property\<close> supports, and both operations on each of them.\<close>

definition size_keys :: "string list" where
  "size_keys = [''MemoryMin'', ''MemoryLow'', ''MemoryHigh'', ''MemoryMax'', ''MemoryLimit'',
     ''MemorySwapMax'', ''MemoryZSwapMax'']"

definition weight_keys :: "string list" where
  "weight_keys = [''CPUWeight'', ''CPUShares'', ''IOWeight'', ''BlockIOWeight'']"

lemma normalize_keys:
  assumes "normalize_property rf key v = Inr p"
  shows "key \<in> set weight_keys \<or> key \<in> set size_keys
    \<or> key \<in> {''CPUQuota'', ''MemoryZSwapWriteback'', ''TasksMax''}"
proof (rule ccontr)
  assume "\<not> ?thesis"
  hence "normalize_property rf key v = Inl (''unsupported property '' @ [CHR 0x27] @ key @ [CHR 0x27])"
    by (simp add: normalize_property_def weight_keys_def size_keys_def)
  thus False using assms by simp
qed

lemma normalize_eqs:
  "normalize_property rf ''CPUWeight'' v =
     (if eq_ignore_ascii_case (trim v) ''idle'' then Inr \<lparr> np_key = ''CPUWeight'', np_value = ''idle'' \<rparr>
      else normalize_weight ''CPUWeight'' (trim v) parse_weight)"
  "normalize_property rf ''CPUShares'' v = normalize_weight ''CPUWeight'' (trim v) parse_cpu_shares"
  "normalize_property rf ''IOWeight'' v = normalize_weight ''IOWeight'' (trim v) parse_weight"
  "normalize_property rf ''BlockIOWeight'' v = normalize_weight ''IOWeight'' (trim v) parse_block_io_weight"
  "normalize_property rf ''CPUQuota'' v =
     (case parse_cpu_quota (trim v) of
        Some quota \<Rightarrow> Inr \<lparr> np_key = ''CPUQuota'', np_value = quota_unit_value quota \<rparr>
      | None \<Rightarrow> Inl ''CPUQuota must be a positive percentage or infinity'')"
  "normalize_property rf ''MemoryZSwapWriteback'' v = parse_bool_value ''MemoryZSwapWriteback'' (trim v)"
  "normalize_property rf ''TasksMax'' v =
     (if trim v = [] then Inr \<lparr> np_key = ''TasksMax'', np_value = [] \<rparr>
      else case parse_count_limit rf (trim v) of
        Some limit \<Rightarrow> Inr \<lparr> np_key = ''TasksMax'', np_value = unit_limit_value limit \<rparr>
      | None \<Rightarrow> Inl ''TasksMax must be a positive integer, percentage, or infinity'')"
  by (simp_all add: normalize_property_def)

definition canonical_key :: "string \<Rightarrow> string" where
  "canonical_key key = (if key = ''MemoryLimit'' then ''MemoryMax'' else key)"

lemma size_key_cases:
  assumes "k \<in> set size_keys"
  shows "k = ''MemoryMin'' \<or> k = ''MemoryLow'' \<or> k = ''MemoryHigh'' \<or> k = ''MemoryMax''
    \<or> k = ''MemoryLimit'' \<or> k = ''MemorySwapMax'' \<or> k = ''MemoryZSwapMax''"
  using assms by (simp only: size_keys_def list.set insert_iff empty_iff simp_thms)

lemma normalize_size_eq:
  assumes "k \<in> set size_keys"
  shows "normalize_property rf k v = normalize_size (canonical_key k) (trim v)"
  using size_key_cases [OF assms]
  by (elim disjE) (simp_all add: normalize_property_def canonical_key_def)

lemma canonical_size_key: "k \<in> set size_keys \<Longrightarrow> canonical_key k \<in> set size_keys"
  "canonical_key (canonical_key k) = canonical_key k"
  by (auto simp: size_keys_def canonical_key_def)

definition set_size :: "string \<Rightarrow> limit_value option \<Rightarrow> resource_control \<Rightarrow> resource_control" where
  "set_size k l rc =
     (if k = ''MemoryMin'' then rc\<lparr> memory_min := l \<rparr>
      else if k = ''MemoryLow'' then rc\<lparr> memory_low := l \<rparr>
      else if k = ''MemoryHigh'' then rc\<lparr> memory_high := l \<rparr>
      else if k = ''MemoryMax'' then rc\<lparr> memory_max := l \<rparr>
      else if k = ''MemorySwapMax'' then rc\<lparr> memory_swap_max := l \<rparr>
      else rc\<lparr> memory_zswap_max := l \<rparr>)"

lemma rc_apply_size:
  assumes "k \<in> set size_keys"
  shows "rc_apply rf k v rc = (True, set_size (canonical_key k) (parse_size_limit v) rc)"
  using size_key_cases [OF assms]
  by (elim disjE) (simp_all add: rc_apply_def set_size_def canonical_key_def)

lemma rc_apply_eqs:
  "rc_apply rf ''CPUWeight'' v rc =
     (True, if eq_ignore_ascii_case (trim v) ''idle'' then rc\<lparr> cpu_weight := None, cpu_idle := True \<rparr>
            else rc\<lparr> cpu_idle := False, cpu_weight := parse_weight v \<rparr>)"
  "rc_apply rf ''CPUShares'' v rc = (True, rc\<lparr> cpu_idle := False, cpu_weight := parse_cpu_shares v \<rparr>)"
  "rc_apply rf ''IOWeight'' v rc = (True, rc\<lparr> io_weight := parse_weight v \<rparr>)"
  "rc_apply rf ''BlockIOWeight'' v rc = (True, rc\<lparr> io_weight := parse_block_io_weight v \<rparr>)"
  "rc_apply rf ''CPUQuota'' v rc = (True, rc\<lparr> cpu_quota_of := parse_cpu_quota v \<rparr>)"
  "rc_apply rf ''MemoryZSwapWriteback'' v rc = (True, rc\<lparr> memory_zswap_writeback := Some (rc_parse_bool v) \<rparr>)"
  "rc_apply rf ''TasksMax'' v rc =
     (True, if trim v = [] then rc\<lparr> tasks_max := None, tasks_max_default := False \<rparr>
            else case parse_count_limit rf v of
                   Some parsed \<Rightarrow> rc\<lparr> tasks_max := Some parsed, tasks_max_default := False \<rparr>
                 | None \<Rightarrow> rc)"
  by (simp_all add: rc_apply_def)

lemma idle_word: "trim ''idle'' = ''idle''" "eq_ignore_ascii_case ''idle'' ''idle''"
  by (simp_all add: trim_def trim_start_def trim_end_def is_ws_def eq_ignore_ascii_case_def)

lemma normalize_weight_Inr:
  "normalize_weight k v parser = Inr p \<longleftrightarrow> (\<exists>w. parser v = Some w \<and> p = \<lparr> np_key = k, np_value = show_nat w \<rparr>)"
  by (auto simp: normalize_weight_def split: option.splits)

lemma normalize_size_Inr:
  "normalize_size k v = Inr p
    \<longleftrightarrow> (\<exists>l. parse_size_limit v = Some l \<and> p = \<lparr> np_key = k, np_value = unit_limit_value l \<rparr>)"
  by (auto simp: normalize_size_def split: option.splits)

lemma unit_limit_value_zero: "unit_limit_value l = ''0'' \<longleftrightarrow> l = LValue 0"
proof (cases l)
  case (LValue v)
  have "show_nat 0 = ''0''" by (simp add: show_nat.simps [of 0] char_of_eq_iff)
  thus ?thesis using LValue show_nat_inj [of v 0] by auto
qed simp

lemma quota_unit_value_trim [simp]: "trim (quota_unit_value q) = quota_unit_value q"
proof (cases q)
  case (PercentHundredths h)
  have "is_digit (hd (show_nat (h div 100)))" using show_nat_chars hd_in_set show_nat_Nil by blast
  thus ?thesis using PercentHundredths digit_chars(1)
    by (simp add: trim_id hd_append is_ws_def [of "CHR ''%''"])
next
  case QMax
  have "trim ''infinity'' = ''infinity''" by (rule trim_id) (simp add: is_ws_def)
  thus ?thesis using QMax by simp
qed

lemma yes_no_words: "trim ''yes'' = ''yes''" "trim ''no'' = ''no''"
  "to_ascii_lowercase ''yes'' = ''yes''" "to_ascii_lowercase ''no'' = ''no''"
  by (simp_all add: trim_id is_ws_def to_ascii_lowercase_def to_lower_def is_upper_def)

lemma parse_bool_value_again:
  "parse_bool_value k v = Inr p \<Longrightarrow> np_key p = k \<and> parse_bool_value k (np_value p) = Inr p"
proof -
  assume p: "parse_bool_value k v = Inr p"
  have "p = \<lparr> np_key = k, np_value = ''yes'' \<rparr> \<or> p = \<lparr> np_key = k, np_value = ''no'' \<rparr>"
    using p by (simp add: parse_bool_value_def Let_def del: insert_iff split: if_splits)
  thus ?thesis by (elim disjE) (simp_all add: parse_bool_value_def yes_no_words)
qed

text \<open>The weight keys with the key they are stored under and their parsers.\<close>

lemma normalize_weight_keys:
  assumes "key \<in> set weight_keys" "normalize_property rf key v = Inr p"
  shows "(key = ''CPUWeight'' \<and> eq_ignore_ascii_case (trim v) ''idle''
      \<and> p = \<lparr> np_key = ''CPUWeight'', np_value = ''idle'' \<rparr>)
    \<or> (\<exists>w. 1 \<le> w \<and> w \<le> 10000 \<and> np_value p = show_nat w
         \<and> ((key = ''CPUWeight'' \<and> \<not> eq_ignore_ascii_case (trim v) ''idle''
               \<and> np_key p = ''CPUWeight'' \<and> parse_weight v = Some w)
            \<or> (key = ''CPUShares'' \<and> np_key p = ''CPUWeight'' \<and> parse_cpu_shares v = Some w)
            \<or> (key = ''IOWeight'' \<and> np_key p = ''IOWeight'' \<and> parse_weight v = Some w)
            \<or> (key = ''BlockIOWeight'' \<and> np_key p = ''IOWeight'' \<and> parse_block_io_weight v = Some w)))"
proof -
  have "key = ''CPUWeight'' \<or> key = ''CPUShares'' \<or> key = ''IOWeight'' \<or> key = ''BlockIOWeight''"
    using assms(1) by (simp only: weight_keys_def list.set insert_iff empty_iff simp_thms)
  thus ?thesis using assms(2) weight_bounds
    by (elim disjE) (auto simp: normalize_eqs normalize_weight_Inr split: if_splits)
qed

text \<open>
  C31: Normalising a \<open>set-property\<close> assignment is idempotent: the canonical assignment it returns is
  accepted again and returned unchanged.  The one exception is a task limit that resolves to
  zero tasks.
\<close>

theorem normalize_property_idempotent:
  assumes "normalize_property rf key v = Inr p"
    and "(np_key p, np_value p) \<noteq> (''TasksMax'', ''0'')"
  shows "normalize_property rf (np_key p) (np_value p) = Inr p"
proof -
  consider (weight) "key \<in> set weight_keys" | (size) "key \<in> set size_keys" | (quota) "key = ''CPUQuota''"
    | (writeback) "key = ''MemoryZSwapWriteback''" | (tasks) "key = ''TasksMax''"
    using normalize_keys [OF assms(1)] by fast
  thus ?thesis
  proof cases
    case weight
    from normalize_weight_keys [OF this assms(1)] show ?thesis
      by (elim disjE exE conjE) (cases p, simp add: normalize_eqs normalize_weight_def idle_word)+
  next
    case size
    then obtain l where "parse_size_limit v = Some l"
      "p = \<lparr> np_key = canonical_key key, np_value = unit_limit_value l \<rparr>"
      using assms(1) by (auto simp: normalize_size_eq normalize_size_Inr)
    thus ?thesis using canonical_size_key size parse_size_limit_print
      by (simp add: normalize_size_eq normalize_size_Inr)
  next
    case quota
    then obtain q where "parse_cpu_quota v = Some q"
      "p = \<lparr> np_key = ''CPUQuota'', np_value = quota_unit_value q \<rparr>"
      using assms(1) by (auto simp: normalize_eqs split: option.splits)
    thus ?thesis using parse_cpu_quota_print parse_cpu_quota_ok by (simp add: normalize_eqs)
  next
    case writeback
    hence "parse_bool_value ''MemoryZSwapWriteback'' (trim v) = Inr p" using assms(1) by (simp add: normalize_eqs)
    from parse_bool_value_again [OF this] show ?thesis
      by (simp add: normalize_eqs) (simp add: parse_bool_value_def)
  next
    case tasks
    show ?thesis
    proof (cases "trim v = []")
      case False
      then obtain l where "parse_count_limit rf v = Some l"
        "p = \<lparr> np_key = ''TasksMax'', np_value = unit_limit_value l \<rparr>"
        using assms(1) tasks by (auto simp: normalize_eqs split: option.splits)
      thus ?thesis using assms(2) parse_count_limit_print unit_limit_value_word unit_limit_value_zero
        by (simp add: normalize_eqs)
    qed (use assms(1) tasks in \<open>auto simp: normalize_eqs\<close>)
  qed
qed

text \<open>
  A canonical assignment has the effect of the assignment it was made from: stored as a
  drop-in and applied to any settings it gives what applying the original key and value gives,
  whichever alias or spelling was used.  The exceptions are the boolean property, whose two
  parsers differ in case, and a task limit that resolves to zero tasks.
\<close>

theorem normalize_property_effect:
  assumes "normalize_property rf key v = Inr p"
    and "(np_key p, np_value p) \<noteq> (''TasksMax'', ''0'')" and "key \<noteq> ''MemoryZSwapWriteback''"
  shows "rc_apply rf (np_key p) (np_value p) rc = rc_apply rf key v rc \<and> fst (rc_apply rf key v rc)"
proof -
  consider (weight) "key \<in> set weight_keys" | (size) "key \<in> set size_keys" | (quota) "key = ''CPUQuota''"
    | (tasks) "key = ''TasksMax''"
    using normalize_keys [OF assms(1)] assms(3) by fast
  thus ?thesis
  proof cases
    case weight
    from normalize_weight_keys [OF this assms(1)] show ?thesis
      by (elim disjE exE conjE) (simp add: rc_apply_eqs idle_word)+
  next
    case size
    then obtain l where "parse_size_limit v = Some l"
      "p = \<lparr> np_key = canonical_key key, np_value = unit_limit_value l \<rparr>"
      using assms(1) by (auto simp: normalize_size_eq normalize_size_Inr)
    thus ?thesis using canonical_size_key size parse_size_limit_print by (simp add: rc_apply_size)
  next
    case quota
    then obtain q where "parse_cpu_quota v = Some q"
      "p = \<lparr> np_key = ''CPUQuota'', np_value = quota_unit_value q \<rparr>"
      using assms(1) by (auto simp: normalize_eqs split: option.splits)
    thus ?thesis using parse_cpu_quota_print parse_cpu_quota_ok quota by (simp add: rc_apply_eqs)
  next
    case tasks
    show ?thesis
    proof (cases "trim v = []")
      case False
      then obtain l where "parse_count_limit rf v = Some l"
        "p = \<lparr> np_key = ''TasksMax'', np_value = unit_limit_value l \<rparr>"
        using assms(1) tasks by (auto simp: normalize_eqs split: option.splits)
      thus ?thesis using assms(2) parse_count_limit_print unit_limit_value_word unit_limit_value_zero tasks False
        by (simp add: rc_apply_eqs)
    qed (use assms(1) tasks in \<open>auto simp: normalize_eqs rc_apply_eqs\<close>)
  qed
qed

section \<open>Examples\<close>

lemma eval_shares: "parse_cpu_shares ''1024'' = Some 39"
  by (simp add: parse_cpu_shares_def trim_id is_ws_def parse_uint_def is_digit_def digit_val_def)

lemma show_39: "show_nat 39 = ''39''"
  by (simp add: show_nat.simps char_of_eq_iff)

lemma normalize_shares: "normalize_property rf ''CPUShares'' ''1024'' = Inr \<lparr> np_key = ''CPUWeight'', np_value = ''39'' \<rparr>"
  by (simp add: normalize_eqs normalize_weight_def eval_shares show_39)

theorem normalize_property_idempotent_witness:
  "normalize_property Map.empty ''CPUWeight'' ''39'' = Inr \<lparr> np_key = ''CPUWeight'', np_value = ''39'' \<rparr>"
  using normalize_property_idempotent [OF normalize_shares [of Map.empty]] by simp

theorem normalize_property_effect_witness:
  "rc_apply Map.empty ''CPUWeight'' ''39'' resource_control_default
     = rc_apply Map.empty ''CPUShares'' ''1024'' resource_control_default"
  using normalize_property_effect [OF normalize_shares [of Map.empty]] by simp

lemma eval_zero_percent: "tasks_max_parse ''0%'' = Some \<lparr> tm_value = 0, tm_scale = 10000 \<rparr>"
  by (simp add: tasks_max_parse_def trim_id is_ws_def parse_permyriad_def strip_suffix_def ends_with_def
      split_once_def str_find_def parse_uint_def is_digit_def digit_val_def checked_mul_def
      checked_add_def)

lemma eval_zero: "tasks_max_parse ''0'' = None"
  by (simp add: tasks_max_parse_def trim_id is_ws_def parse_permyriad_def strip_suffix_def ends_with_def
      parse_uint_def is_digit_def digit_val_def)

text \<open>
  A task limit of zero percent is accepted and normalised to zero, but the canonical
  assignment is rejected when it is normalised again, and ignored when it is applied, so the
  stored drop-in leaves the earlier task limit in force.
\<close>

theorem zero_percent_lost:
  "normalize_property rf ''TasksMax'' ''0%'' = Inr \<lparr> np_key = ''TasksMax'', np_value = ''0'' \<rparr>
   \<and> (\<exists>e. normalize_property rf ''TasksMax'' ''0'' = Inl e)
   \<and> tasks_max (snd (rc_apply rf ''TasksMax'' ''0%'' rc)) = Some (LValue 0)
   \<and> snd (rc_apply rf ''TasksMax'' ''0'' rc) = rc"
proof -
  have t: "trim ''0%'' = ''0%''" "trim ''0'' = ''0''" by (simp_all add: trim_id is_ws_def)
  have "parse_count_limit rf ''0%'' = Some (LValue 0)"
    by (simp add: parse_count_limit_def eval_zero_percent tasks_max_resolve_def sat_mul_def)
  moreover have "parse_count_limit rf ''0'' = None" by (simp add: parse_count_limit_def eval_zero)
  ultimately show ?thesis using unit_limit_value_zero [of "LValue 0"]
    by (simp add: normalize_eqs rc_apply_eqs t)
qed

text \<open>
  The boolean property is read by two parsers that disagree on case: \<open>YES\<close> is normalised to
  true, but applied from a unit file it means false.
\<close>

theorem writeback_case:
  "normalize_property rf ''MemoryZSwapWriteback'' ''YES''
     = Inr \<lparr> np_key = ''MemoryZSwapWriteback'', np_value = ''yes'' \<rparr>
   \<and> memory_zswap_writeback (snd (rc_apply rf ''MemoryZSwapWriteback'' ''yes'' rc)) = Some True
   \<and> memory_zswap_writeback (snd (rc_apply rf ''MemoryZSwapWriteback'' ''YES'' rc)) = Some False"
proof -
  have t: "trim ''YES'' = ''YES''" by (simp add: trim_id is_ws_def)
  have "to_ascii_lowercase ''YES'' = ''yes''"
    by (simp add: to_ascii_lowercase_def to_lower_def is_upper_def char_of_eq_iff)
  thus ?thesis by (simp add: normalize_eqs rc_apply_eqs t parse_bool_value_def rc_parse_bool_def yes_no_words)
qed

section \<open>The stored settings\<close>

text \<open>Every stored value is in the range its controller file accepts.\<close>

definition rc_ok :: "resource_control \<Rightarrow> bool" where
  "rc_ok rc \<longleftrightarrow>
     pred_option (\<lambda>w. 1 \<le> w \<and> w \<le> 10000) (cpu_weight rc)
   \<and> pred_option (\<lambda>w. 1 \<le> w \<and> w \<le> 10000) (io_weight rc)
   \<and> pred_option quota_ok (cpu_quota_of rc)
   \<and> (cpu_idle rc \<longrightarrow> cpu_weight rc = None)"

lemma rc_apply_frame:
  assumes "key \<noteq> ''CPUWeight''" "key \<noteq> ''CPUShares''" "key \<noteq> ''IOWeight''" "key \<noteq> ''BlockIOWeight''"
    and "key \<noteq> ''CPUQuota''"
  shows "cpu_weight (snd (rc_apply rf key v rc)) = cpu_weight rc"
    "io_weight (snd (rc_apply rf key v rc)) = io_weight rc"
    "cpu_quota_of (snd (rc_apply rf key v rc)) = cpu_quota_of rc"
    "cpu_idle (snd (rc_apply rf key v rc)) = cpu_idle rc"
  using assms by (simp_all add: rc_apply_def split: option.split)

lemma pred_optionI: "(\<And>x. m = Some x \<Longrightarrow> P x) \<Longrightarrow> pred_option P m"
  by (cases m) auto

lemma rc_apply_ok:
  assumes "rc_ok rc"
  shows "rc_ok (snd (rc_apply rf key v rc))"
proof -
  have w: "pred_option (\<lambda>w. 1 \<le> w \<and> w \<le> 10000) (parse_weight v)"
    "pred_option (\<lambda>w. 1 \<le> w \<and> w \<le> 10000) (parse_cpu_shares v)"
    "pred_option (\<lambda>w. 1 \<le> w \<and> w \<le> 10000) (parse_block_io_weight v)"
    "pred_option quota_ok (parse_cpu_quota v)"
    by (rule pred_optionI, erule weight_bounds parse_cpu_quota_ok)+
  consider "key = ''CPUWeight''" | "key = ''CPUShares''" | "key = ''IOWeight''" | "key = ''BlockIOWeight''"
    | "key = ''CPUQuota''" | "key \<noteq> ''CPUWeight''" "key \<noteq> ''CPUShares''" "key \<noteq> ''IOWeight''"
        "key \<noteq> ''BlockIOWeight''" "key \<noteq> ''CPUQuota''" by argo
  thus ?thesis
  proof cases
    case 6
    thus ?thesis using assms by (simp add: rc_ok_def rc_apply_frame)
  qed (use assms w in \<open>simp_all add: rc_ok_def rc_apply_eqs\<close>)
qed

text \<open>
  Whatever assignments a unit file makes, in whatever order, the stored settings stay valid:
  CPU and IO weights lie between 1 and 10000, a CPU quota is positive and fits 64 bits, and idle
  scheduling and a CPU weight are never set together.
\<close>

theorem resource_settings_valid:
  "rc_ok (fold (\<lambda>(key, v) rc. snd (rc_apply rf key v rc)) entries resource_control_default)"
proof -
  have "rc_ok rc \<Longrightarrow> rc_ok (fold (\<lambda>(key, v) rc. snd (rc_apply rf key v rc)) entries rc)" for rc
    by (induction entries arbitrary: rc) (auto simp: rc_apply_ok)
  moreover have "rc_ok resource_control_default" by (simp add: rc_ok_def resource_control_default_def)
  ultimately show ?thesis .
qed

end
