(* ===== verification/ServiceSection.thy ===== *)
theory ServiceSection
  imports ExecCommand ResourceControl UnitSection
begin

text \<open>
  The \<open>[Service]\<close> section, \<open>src/src/unit/section_service.rs\<close>.  The two hundred fields of
  \<open>ServiceSection\<close> are five records that follow the groups of its comments, plus the resource
  control settings; every key sets one field of one group.  Signal and error numbers are those of
  Linux on x86-64, \<open>SIGRTMIN\<close> is 34 and \<open>SIGRTMAX\<close> 64.

  The lemmas show what the signal and exit-status parsers accept, and that every limit key is read
  with the grammar its resource has in \<open>src/src/limits.rs\<close>.
\<close>

section \<open>Enumerations\<close>

datatype service_type = Simple | ExecType | Forking | Oneshot | Dbus | Notify | NotifyReload | Idle

definition service_type_parse :: "string \<Rightarrow> service_type" where
  "service_type_parse s =
     (if s = ''exec'' then ExecType
      else if s = ''forking'' then Forking
      else if s = ''oneshot'' then Oneshot
      else if s = ''dbus'' then Dbus
      else if s = ''notify'' then Notify
      else if s = ''notify-reload'' then NotifyReload
      else if s = ''idle'' then Idle
      else Simple)"

datatype restart_policy =
  RestartNo | OnSuccess | OnFailure | OnAbnormal | OnWatchdog | OnAbort | Always

definition restart_policy_parse :: "string \<Rightarrow> restart_policy" where
  "restart_policy_parse s =
     (if s = ''on-success'' then OnSuccess
      else if s = ''on-failure'' then OnFailure
      else if s = ''on-abnormal'' then OnAbnormal
      else if s = ''on-watchdog'' then OnWatchdog
      else if s = ''on-abort'' then OnAbort
      else if s = ''always'' then Always
      else RestartNo)"

datatype notify_access = NA_None | NA_Main | NA_Exec | NA_All

definition notify_access_parse :: "string \<Rightarrow> notify_access" where
  "notify_access_parse s =
     (if s = ''main'' then NA_Main
      else if s = ''exec'' then NA_Exec
      else if s = ''all'' then NA_All
      else NA_None)"

datatype protect_system = PS_No | PS_Yes | PS_Full | PS_Strict

definition protect_system_parse :: "string \<Rightarrow> protect_system" where
  "protect_system_parse s =
     (if s \<in> {''yes'', ''true'', ''1''} then PS_Yes
      else if s = ''full'' then PS_Full
      else if s = ''strict'' then PS_Strict
      else PS_No)"

datatype protect_home = PH_No | PH_Yes | PH_ReadOnly | PH_Tmpfs

definition protect_home_parse :: "string \<Rightarrow> protect_home" where
  "protect_home_parse s =
     (if s \<in> {''yes'', ''true'', ''1''} then PH_Yes
      else if s = ''read-only'' then PH_ReadOnly
      else if s = ''tmpfs'' then PH_Tmpfs
      else PH_No)"

datatype kill_mode = ControlGroup | Process | Mixed | KM_None

definition kill_mode_parse :: "string \<Rightarrow> kill_mode" where
  "kill_mode_parse s =
     (if s = ''process'' then Process
      else if s = ''mixed'' then Mixed
      else if s = ''none'' then KM_None
      else ControlGroup)"

section \<open>Signals, exit codes and modes\<close>

definition SIGRTMIN :: int where "SIGRTMIN = 34"
definition SIGRTMAX :: int where "SIGRTMAX = 64"

definition i32_max :: int where "i32_max = 2147483647"
definition i32_min :: int where "i32_min = -2147483648"

definition i32_checked :: "int \<Rightarrow> int option" where
  "i32_checked n = (if i32_min \<le> n \<and> n \<le> i32_max then Some n else None)"

definition signal_names :: "(string \<times> int) list" where
  "signal_names =
     [(''HUP'', 1), (''INT'', 2), (''QUIT'', 3), (''ILL'', 4), (''TRAP'', 5), (''ABRT'', 6),
      (''IOT'', 6), (''BUS'', 7), (''FPE'', 8), (''KILL'', 9), (''USR1'', 10), (''SEGV'', 11),
      (''USR2'', 12), (''PIPE'', 13), (''ALRM'', 14), (''TERM'', 15), (''STKFLT'', 16),
      (''CHLD'', 17), (''CLD'', 17), (''CONT'', 18), (''STOP'', 19), (''TSTP'', 20),
      (''TTIN'', 21), (''TTOU'', 22), (''URG'', 23), (''XCPU'', 24), (''XFSZ'', 25),
      (''VTALRM'', 26), (''PROF'', 27), (''WINCH'', 28), (''IO'', 29), (''POLL'', 29),
      (''PWR'', 30), (''SYS'', 31)]"

definition parse_signal :: "string \<Rightarrow> int option" where
  "parse_signal value =
     (let upper = to_ascii_uppercase (trim value)
      in case parse_i32 upper of
           Some number \<Rightarrow> if 0 < number \<and> number \<le> SIGRTMAX then Some number else None
         | None \<Rightarrow>
             (let name = (case strip_prefix upper ''SIG'' of Some n \<Rightarrow> n | None \<Rightarrow> upper)
              in if name = ''RTMIN'' then Some SIGRTMIN
                 else if name = ''RTMAX'' then Some SIGRTMAX
                 else case Option.bind (strip_prefix name ''RTMIN+'') parse_i32 of
                   Some offset \<Rightarrow>
                     (case i32_checked (SIGRTMIN + offset) of
                        Some s \<Rightarrow> if s \<le> SIGRTMAX then Some s else None
                      | None \<Rightarrow> None)
                 | None \<Rightarrow>
                     (case Option.bind (strip_prefix name ''RTMAX-'') parse_i32 of
                        Some offset \<Rightarrow>
                          (case i32_checked (SIGRTMAX - offset) of
                             Some s \<Rightarrow> if SIGRTMIN \<le> s then Some s else None
                           | None \<Rightarrow> None)
                      | None \<Rightarrow> map_of signal_names name)))"

definition exit_status_names :: "(string \<times> int) list" where
  "exit_status_names =
     [(''SUCCESS'', 0), (''FAILURE'', 1), (''INVALIDARGUMENT'', 2), (''NOTIMPLEMENTED'', 3),
      (''NOPERMISSION'', 4), (''NOTINSTALLED'', 5), (''NOTCONFIGURED'', 6), (''NOTRUNNING'', 7),
      (''USAGE'', 64), (''DATAERR'', 65), (''NOINPUT'', 66), (''NOUSER'', 67), (''NOHOST'', 68),
      (''UNAVAILABLE'', 69), (''SOFTWARE'', 70), (''OSERR'', 71), (''OSFILE'', 72),
      (''CANTCREAT'', 73), (''IOERR'', 74), (''TEMPFAIL'', 75), (''PROTOCOL'', 76),
      (''NOPERM'', 77), (''CONFIG'', 78), (''CHDIR'', 200), (''NICE'', 201), (''FDS'', 202),
      (''EXEC'', 203), (''MEMORY'', 204), (''LIMITS'', 205), (''OOM_ADJUST'', 206),
      (''SIGNAL_MASK'', 207), (''STDIN'', 208), (''STDOUT'', 209), (''CHROOT'', 210),
      (''IOPRIO'', 211), (''TIMERSLACK'', 212), (''SECUREBITS'', 213), (''SETSCHEDULER'', 214),
      (''CPUAFFINITY'', 215), (''GROUP'', 216), (''USER'', 217), (''CAPABILITIES'', 218),
      (''CGROUP'', 219), (''SETSID'', 220), (''CONFIRM'', 221), (''STDERR'', 222),
      (''PAM'', 224), (''NETWORK'', 225), (''NAMESPACE'', 226), (''NO_NEW_PRIVILEGES'', 227),
      (''SECCOMP'', 228), (''SELINUX_CONTEXT'', 229), (''PERSONALITY'', 230),
      (''APPARMOR'', 231), (''ADDRESS_FAMILIES'', 232), (''RUNTIME_DIRECTORY'', 233),
      (''CHOWN'', 235), (''SMACK_PROCESS_LABEL'', 236), (''KEYRING'', 237),
      (''STATE_DIRECTORY'', 238), (''CACHE_DIRECTORY'', 239), (''LOGS_DIRECTORY'', 240),
      (''CONFIGURATION_DIRECTORY'', 241), (''NUMA_POLICY'', 242), (''CREDENTIALS'', 243),
      (''BPF'', 244), (''KSM'', 245), (''MEMORY_THP'', 246), (''EXCEPTION'', 255)]"

definition exit_status_from_string :: "string \<Rightarrow> int option" where
  "exit_status_from_string value =
     (let value = trim value
      in case parse_uint 255 value of
           Some code \<Rightarrow> Some (int code)
         | None \<Rightarrow> map_of exit_status_names value)"

definition CLD_EXITED :: int where "CLD_EXITED = 1"
definition CLD_KILLED :: int where "CLD_KILLED = 2"
definition CLD_DUMPED :: int where "CLD_DUMPED = 3"

definition exit_status_set_matches :: "string list \<Rightarrow> int \<Rightarrow> int \<Rightarrow> bool" where
  "exit_status_set_matches values code status =
     list_ex (\<lambda>value.
       if code = CLD_EXITED then exit_status_from_string value = Some status
       else if code = CLD_KILLED \<or> code = CLD_DUMPED then parse_signal value = Some status
       else False) values"

text \<open>\<open>u32::from_str_radix\<close> with radix 8.\<close>

fun octal_digits :: "nat \<Rightarrow> string \<Rightarrow> nat option" where
  "octal_digits acc [] = Some acc"
| "octal_digits acc (c # s) =
     (if is_digit c \<and> digit_val c < 8 \<and> 8 * acc + digit_val c \<le> u32_max
      then octal_digits (8 * acc + digit_val c) s else None)"

definition parse_octal :: "string \<Rightarrow> nat option" where
  "parse_octal s =
     (case s of
        [] \<Rightarrow> None
      | c # t \<Rightarrow> if c = CHR ''+'' then (if t = [] then None else octal_digits 0 t) else octal_digits 0 s)"

definition parse_mode :: "string \<Rightarrow> nat option" where
  "parse_mode value =
     (let value = (case strip_prefix (trim value) ''0o'' of Some v \<Rightarrow> v | None \<Rightarrow> trim value);
          value = dropWhile (\<lambda>c. c = CHR ''0'') value
      in if value = [] then Some 0 else parse_octal value)"

text \<open>The error names that \<open>SystemCallErrorNumber=\<close> accepts, from \<open>src/src/seccomp_policy.rs\<close>.\<close>

definition errno_names :: "(string \<times> int) list" where
  "errno_names =
     [(''EPERM'', 1), (''ENOENT'', 2), (''ESRCH'', 3), (''EINTR'', 4), (''EIO'', 5),
      (''ENXIO'', 6), (''E2BIG'', 7), (''ENOEXEC'', 8), (''EBADF'', 9), (''ECHILD'', 10),
      (''EAGAIN'', 11), (''EWOULDBLOCK'', 11), (''ENOMEM'', 12), (''EACCES'', 13),
      (''EFAULT'', 14), (''EBUSY'', 16), (''EEXIST'', 17), (''EXDEV'', 18), (''ENODEV'', 19),
      (''ENOTDIR'', 20), (''EISDIR'', 21), (''EINVAL'', 22), (''ENFILE'', 23), (''EMFILE'', 24),
      (''ENOTTY'', 25), (''EFBIG'', 27), (''ENOSPC'', 28), (''ESPIPE'', 29), (''EROFS'', 30),
      (''EMLINK'', 31), (''EPIPE'', 32), (''EDOM'', 33), (''ERANGE'', 34), (''EDEADLK'', 35),
      (''ENAMETOOLONG'', 36), (''ENOLCK'', 37), (''ENOSYS'', 38), (''ENOTEMPTY'', 39),
      (''ELOOP'', 40), (''ENOMSG'', 42), (''EIDRM'', 43), (''ENOSTR'', 60), (''ENODATA'', 61),
      (''ETIME'', 62), (''ENOSR'', 63), (''ENONET'', 64), (''EREMOTE'', 66), (''ENOLINK'', 67),
      (''EPROTO'', 71), (''EMULTIHOP'', 72), (''EBADMSG'', 74), (''EOVERFLOW'', 75),
      (''EILSEQ'', 84), (''EUSERS'', 87), (''ENOTSOCK'', 88), (''EDESTADDRREQ'', 89),
      (''EMSGSIZE'', 90), (''EPROTOTYPE'', 91), (''ENOPROTOOPT'', 92),
      (''EPROTONOSUPPORT'', 93), (''EOPNOTSUPP'', 95), (''ENOTSUP'', 95),
      (''EAFNOSUPPORT'', 97), (''EADDRINUSE'', 98), (''EADDRNOTAVAIL'', 99),
      (''ENETDOWN'', 100), (''ENETUNREACH'', 101), (''ENETRESET'', 102),
      (''ECONNABORTED'', 103), (''ECONNRESET'', 104), (''ENOBUFS'', 105), (''EISCONN'', 106),
      (''ENOTCONN'', 107), (''ETIMEDOUT'', 110), (''ECONNREFUSED'', 111),
      (''EHOSTUNREACH'', 113), (''EALREADY'', 114), (''EINPROGRESS'', 115), (''ESTALE'', 116),
      (''EDQUOT'', 122), (''ECANCELED'', 125), (''ENOKEY'', 126), (''EKEYEXPIRED'', 127),
      (''EKEYREVOKED'', 128), (''EKEYREJECTED'', 129), (''EOWNERDEAD'', 130),
      (''ENOTRECOVERABLE'', 131), (''ERFKILL'', 132), (''EHWPOISON'', 133)]"

definition errno_number :: "string \<Rightarrow> int option" where
  "errno_number value =
     (case parse_i32 value of
        Some number \<Rightarrow> if 0 < number \<and> number \<le> 4095 then Some number else None
      | None \<Rightarrow> map_of errno_names value)"

definition valid_error_number :: "string \<Rightarrow> bool" where
  "valid_error_number value \<longleftrightarrow> value = [] \<or> value = ''kill'' \<or> errno_number value \<noteq> None"

section \<open>Setting a field\<close>

definition svc_parse_bool :: "string \<Rightarrow> bool" where
  "svc_parse_bool s \<longleftrightarrow> to_ascii_lowercase s \<in> {''yes'', ''true'', ''1'', ''on''}"

definition apply_rlimit :: "string \<Rightarrow> rlimit_kind \<Rightarrow> rlimit_spec option \<Rightarrow> rlimit_spec option" where
  "apply_rlimit value kind target =
     (case rlimit_spec_parse value kind of Some parsed \<Rightarrow> Some parsed | None \<Rightarrow> target)"

definition apply_exec_list :: "string \<Rightarrow> exec_command list \<Rightarrow> exec_command list" where
  "apply_exec_list value cmds =
     (if value = [] then []
      else case exec_command_parse value of Some cmd \<Rightarrow> cmds @ [cmd] | None \<Rightarrow> cmds)"

definition push_list :: "string \<Rightarrow> string list \<Rightarrow> string list" where
  "push_list value xs = (if value = [] then [] else xs @ [value])"

definition set_signal :: "string \<Rightarrow> int option \<Rightarrow> int option" where
  "set_signal value old = (case parse_signal value of Some s \<Rightarrow> Some s | None \<Rightarrow> old)"

definition apply_capabilities :: "string \<Rightarrow> string list \<Rightarrow> string list" where
  "apply_capabilities value xs =
     (if value = [] then []
      else
        (let (inverted, names) =
               (case strip_prefix value ''~'' of Some n \<Rightarrow> (True, n) | None \<Rightarrow> (False, value))
         in xs @ map (\<lambda>name. if inverted then ''~'' @ name else name) (split_whitespace names)))"

record filter_assignment =
  invert :: bool
  items :: "string list"

definition apply_filter :: "string \<Rightarrow> filter_assignment list \<Rightarrow> filter_assignment list" where
  "apply_filter value xs =
     (if value = [] then []
      else
        (let (inv, rest) =
               (case strip_prefix value ''~'' of Some n \<Rightarrow> (True, n) | None \<Rightarrow> (False, value))
         in xs @ [\<lparr> invert = inv, items = split_whitespace rest \<rparr>]))"

section \<open>The section\<close>

text \<open>The unit type, its commands, timeouts, kill settings and exit codes.\<close>

record service_keys =
  service_type_of :: service_type
  exit_type :: string
  restart_mode :: string
  remain_after_exit :: bool
  guess_main_pid :: bool
  pid_file :: string
  bus_name :: string
  exec_condition :: "exec_command list"
  exec_start_pre :: "exec_command list"
  exec_start :: "exec_command list"
  exec_start_post :: "exec_command list"
  exec_reload :: "exec_command list"
  exec_reload_post :: "exec_command list"
  exec_stop :: "exec_command list"
  exec_stop_post :: "exec_command list"
  restart_of :: restart_policy
  restart_sec :: "nat option"
  restart_max_delay_sec :: "nat option"
  restart_steps :: "nat option"
  timeout_start_sec :: "nat option"
  timeout_stop_sec :: "nat option"
  timeout_abort_sec :: "nat option"
  timeout_start_failure_mode :: string
  timeout_stop_failure_mode :: string
  runtime_max_sec :: "nat option"
  runtime_randomized_extra_sec :: "nat option"
  watchdog_sec :: "nat option"
  kill_mode_of :: kill_mode
  kill_signal :: "int option"
  restart_kill_signal :: "int option"
  final_kill_signal :: "int option"
  watchdog_signal :: "int option"
  send_sigkill :: "bool option"
  send_sighup :: bool
  success_exit_status :: "string list"
  restart_prevent_exit_status :: "string list"
  restart_force_exit_status :: "string list"
  notify_access_of :: notify_access
  sockets_of :: "string list"
  file_descriptor_store_max :: nat
  file_descriptor_store_preserve :: string
  refresh_on_reload :: "string list"

definition service_keys_default :: service_keys where
  "service_keys_default = \<lparr>
     service_type_of = Simple,
     exit_type = [],
     restart_mode = [],
     remain_after_exit = False,
     guess_main_pid = False,
     pid_file = [],
     bus_name = [],
     exec_condition = [],
     exec_start_pre = [],
     exec_start = [],
     exec_start_post = [],
     exec_reload = [],
     exec_reload_post = [],
     exec_stop = [],
     exec_stop_post = [],
     restart_of = RestartNo,
     restart_sec = None,
     restart_max_delay_sec = None,
     restart_steps = None,
     timeout_start_sec = None,
     timeout_stop_sec = None,
     timeout_abort_sec = None,
     timeout_start_failure_mode = [],
     timeout_stop_failure_mode = [],
     runtime_max_sec = None,
     runtime_randomized_extra_sec = None,
     watchdog_sec = None,
     kill_mode_of = ControlGroup,
     kill_signal = None,
     restart_kill_signal = None,
     final_kill_signal = None,
     watchdog_signal = None,
     send_sigkill = None,
     send_sighup = False,
     success_exit_status = [],
     restart_prevent_exit_status = [],
     restart_force_exit_status = [],
     notify_access_of = NA_None,
     sockets_of = [],
     file_descriptor_store_max = 0,
     file_descriptor_store_preserve = [],
     refresh_on_reload = [] \<rparr>"

text \<open>Identity, environment, privileges, standard streams, logging and scheduling.\<close>

record exec_keys =
  user_name :: string
  group_name :: string
  dynamic_user :: bool
  supplementary_groups :: "string list"
  pam_name :: string
  working_directory :: string
  root_directory :: string
  environment_of :: "string list"
  environment_file :: "string list"
  pass_environment :: "string list"
  unset_environment :: "string list"
  capability_bounding_set :: "string list"
  ambient_capabilities :: "string list"
  no_new_privileges :: bool
  secure_bits :: "string list"
  standard_input :: string
  standard_output :: string
  standard_error :: string
  tty_path :: string
  tty_reset :: bool
  tty_vhangup :: bool
  tty_vt_disallocate :: bool
  tty_rows :: "nat option"
  tty_columns :: "nat option"
  utmp_identifier :: string
  utmp_mode :: string
  syslog_identifier :: string
  syslog_facility :: string
  syslog_level :: string
  log_level_max :: string
  log_rate_limit_interval_sec :: "nat option"
  log_rate_limit_burst :: "nat option"
  log_extra_fields :: "string list"
  log_namespace :: string
  nice_of :: "int option"
  oom_score_adjust :: "int option"
  io_scheduling_class :: string
  io_scheduling_priority :: "int option"
  cpu_scheduling_policy :: string
  cpu_scheduling_priority :: "int option"
  cpu_scheduling_reset_on_fork :: bool
  cpu_affinity :: string
  timer_slack_nsec :: "nat option"

definition exec_keys_default :: exec_keys where
  "exec_keys_default = \<lparr>
     user_name = [],
     group_name = [],
     dynamic_user = False,
     supplementary_groups = [],
     pam_name = [],
     working_directory = [],
     root_directory = [],
     environment_of = [],
     environment_file = [],
     pass_environment = [],
     unset_environment = [],
     capability_bounding_set = [],
     ambient_capabilities = [],
     no_new_privileges = False,
     secure_bits = [],
     standard_input = [],
     standard_output = [],
     standard_error = [],
     tty_path = [],
     tty_reset = False,
     tty_vhangup = False,
     tty_vt_disallocate = False,
     tty_rows = None,
     tty_columns = None,
     utmp_identifier = [],
     utmp_mode = [],
     syslog_identifier = [],
     syslog_facility = [],
     syslog_level = [],
     log_level_max = [],
     log_rate_limit_interval_sec = None,
     log_rate_limit_burst = None,
     log_extra_fields = [],
     log_namespace = [],
     nice_of = None,
     oom_score_adjust = None,
     io_scheduling_class = [],
     io_scheduling_priority = None,
     cpu_scheduling_policy = [],
     cpu_scheduling_priority = None,
     cpu_scheduling_reset_on_fork = False,
     cpu_affinity = [],
     timer_slack_nsec = None \<rparr>"

text \<open>Sandboxing.\<close>

record sandbox_keys =
  private_tmp :: bool
  private_devices :: bool
  private_network :: bool
  private_users :: bool
  private_mounts :: bool
  private_ipc :: bool
  private_pids :: string
  protect_system_of :: protect_system
  protect_home_of :: protect_home
  protect_hostname :: bool
  protect_proc :: string
  proc_subset :: string
  protect_kernel_tunables :: bool
  protect_kernel_modules :: bool
  protect_kernel_logs :: bool
  protect_clock :: bool
  protect_control_groups :: bool
  restrict_address_families :: "string list"
  restrict_filesystems :: "string list"
  restrict_namespaces :: bool
  restrict_realtime :: bool
  restrict_suid_sgid :: bool
  memory_deny_write_execute :: bool
  mount_api_vfs :: bool
  mount_flags :: nat
  bind_log_sockets :: bool
  memory_ksm :: bool
  memory_thp :: string
  user_namespace_path :: string
  network_namespace_path :: string
  ipc_namespace_path :: string
  lock_personality :: bool
  remove_ipc :: bool
  system_call_filter :: "filter_assignment list"
  system_call_architectures :: "string list"
  system_call_error_number :: string
  system_call_log :: "string list"
  personality_of :: string
  ignore_sigpipe :: bool
  keyring_mode :: string
  oom_policy :: string
  coredump_filter :: string
  delegate_of :: bool
  delegate_controllers :: "string list"
  delegate_subgroup :: string
  disable_controllers :: "string list"
  cpuset_partition :: string
  managed_oom_swap :: string
  managed_oom_memory_pressure :: string
  managed_oom_memory_pressure_limit :: nat
  managed_oom_memory_pressure_duration_sec :: "nat option"
  managed_oom_preference :: string
  same_process_group :: bool

definition sandbox_keys_default :: sandbox_keys where
  "sandbox_keys_default = \<lparr>
     private_tmp = False,
     private_devices = False,
     private_network = False,
     private_users = False,
     private_mounts = False,
     private_ipc = False,
     private_pids = [],
     protect_system_of = PS_No,
     protect_home_of = PH_No,
     protect_hostname = False,
     protect_proc = [],
     proc_subset = [],
     protect_kernel_tunables = False,
     protect_kernel_modules = False,
     protect_kernel_logs = False,
     protect_clock = False,
     protect_control_groups = False,
     restrict_address_families = [],
     restrict_filesystems = [],
     restrict_namespaces = False,
     restrict_realtime = False,
     restrict_suid_sgid = False,
     memory_deny_write_execute = False,
     mount_api_vfs = False,
     mount_flags = 0,
     bind_log_sockets = False,
     memory_ksm = False,
     memory_thp = [],
     user_namespace_path = [],
     network_namespace_path = [],
     ipc_namespace_path = [],
     lock_personality = False,
     remove_ipc = False,
     system_call_filter = [],
     system_call_architectures = [],
     system_call_error_number = [],
     system_call_log = [],
     personality_of = [],
     ignore_sigpipe = False,
     keyring_mode = [],
     oom_policy = [],
     coredump_filter = [],
     delegate_of = False,
     delegate_controllers = [],
     delegate_subgroup = [],
     disable_controllers = [],
     cpuset_partition = [],
     managed_oom_swap = [],
     managed_oom_memory_pressure = [],
     managed_oom_memory_pressure_limit = 0,
     managed_oom_memory_pressure_duration_sec = None,
     managed_oom_preference = [],
     same_process_group = False \<rparr>"

text \<open>Directories and paths.\<close>

record path_keys =
  runtime_directory :: "string list"
  runtime_directory_mode :: "nat option"
  runtime_directory_preserve :: string
  state_directory :: "string list"
  state_directory_mode :: "nat option"
  cache_directory :: "string list"
  cache_directory_mode :: "nat option"
  logs_directory :: "string list"
  logs_directory_mode :: "nat option"
  configuration_directory :: "string list"
  configuration_directory_mode :: "nat option"
  timeout_clean_sec :: "nat option"
  read_write_paths :: "string list"
  read_only_paths :: "string list"
  inaccessible_paths :: "string list"
  exec_paths :: "string list"
  no_exec_paths :: "string list"
  exec_search_path :: "string list"
  temporary_filesystem :: "string list"
  bind_paths :: "string list"
  bind_read_only_paths :: "string list"

definition path_keys_default :: path_keys where
  "path_keys_default = \<lparr>
     runtime_directory = [],
     runtime_directory_mode = None,
     runtime_directory_preserve = [],
     state_directory = [],
     state_directory_mode = None,
     cache_directory = [],
     cache_directory_mode = None,
     logs_directory = [],
     logs_directory_mode = None,
     configuration_directory = [],
     configuration_directory_mode = None,
     timeout_clean_sec = None,
     read_write_paths = [],
     read_only_paths = [],
     inaccessible_paths = [],
     exec_paths = [],
     no_exec_paths = [],
     exec_search_path = [],
     temporary_filesystem = [],
     bind_paths = [],
     bind_read_only_paths = [] \<rparr>"

text \<open>Process limits and the rest.\<close>

record limit_keys =
  limit_cpu :: "rlimit_spec option"
  limit_fsize :: "rlimit_spec option"
  limit_data :: "rlimit_spec option"
  limit_stack :: "rlimit_spec option"
  limit_core :: "rlimit_spec option"
  limit_rss :: "rlimit_spec option"
  limit_nofile :: "rlimit_spec option"
  limit_as :: "rlimit_spec option"
  limit_nproc :: "rlimit_spec option"
  limit_memlock :: "rlimit_spec option"
  limit_locks :: "rlimit_spec option"
  limit_sigpending :: "rlimit_spec option"
  limit_msgqueue :: "rlimit_spec option"
  limit_nice :: "rlimit_spec option"
  limit_rtprio :: "rlimit_spec option"
  limit_rttime :: "rlimit_spec option"
  umask :: string
  se_linux_context :: string
  app_armor_profile :: string
  smack_process_label :: string
  import_credential :: "string list"
  ip_address_allow :: "string list"
  ip_address_deny :: "string list"
  device_allow :: "string list"
  device_policy :: string
  slice_of :: string
  open_file :: "string list"
  reload_signal :: string
  root_directory_start_only :: bool
  non_blocking :: bool

definition limit_keys_default :: limit_keys where
  "limit_keys_default = \<lparr>
     limit_cpu = None,
     limit_fsize = None,
     limit_data = None,
     limit_stack = None,
     limit_core = None,
     limit_rss = None,
     limit_nofile = None,
     limit_as = None,
     limit_nproc = None,
     limit_memlock = None,
     limit_locks = None,
     limit_sigpending = None,
     limit_msgqueue = None,
     limit_nice = None,
     limit_rtprio = None,
     limit_rttime = None,
     umask = [],
     se_linux_context = [],
     app_armor_profile = [],
     smack_process_label = [],
     import_credential = [],
     ip_address_allow = [],
     ip_address_deny = [],
     device_allow = [],
     device_policy = [],
     slice_of = [],
     open_file = [],
     reload_signal = [],
     root_directory_start_only = False,
     non_blocking = False \<rparr>"

definition apply_service_keys :: "string \<Rightarrow> string \<Rightarrow> service_keys \<Rightarrow> service_keys" where
  "apply_service_keys key value r =
     (if key = ''Type''
        then r\<lparr> service_type_of := service_type_parse value \<rparr>
      else if key = ''ExitType'' \<and> value \<in> {''main'', ''cgroup''}
        then r\<lparr> exit_type := value \<rparr>
      else if key = ''RestartMode'' \<and> value \<in> {''normal'', ''direct'', ''debug''}
        then r\<lparr> restart_mode := value \<rparr>
      else if key = ''RemainAfterExit''
        then r\<lparr> remain_after_exit := svc_parse_bool value \<rparr>
      else if key = ''GuessMainPID''
        then r\<lparr> guess_main_pid := svc_parse_bool value \<rparr>
      else if key = ''PIDFile''
        then r\<lparr> pid_file := value \<rparr>
      else if key = ''BusName''
        then r\<lparr> bus_name := value \<rparr>
      else if key = ''ExecCondition''
        then r\<lparr> exec_condition := apply_exec_list value (exec_condition r) \<rparr>
      else if key = ''ExecStartPre''
        then r\<lparr> exec_start_pre := apply_exec_list value (exec_start_pre r) \<rparr>
      else if key = ''ExecStart''
        then r\<lparr> exec_start := apply_exec_list value (exec_start r) \<rparr>
      else if key = ''ExecStartPost''
        then r\<lparr> exec_start_post := apply_exec_list value (exec_start_post r) \<rparr>
      else if key = ''ExecReload''
        then r\<lparr> exec_reload := apply_exec_list value (exec_reload r) \<rparr>
      else if key = ''ExecReloadPost''
        then r\<lparr> exec_reload_post := apply_exec_list value (exec_reload_post r) \<rparr>
      else if key = ''ExecStop''
        then r\<lparr> exec_stop := apply_exec_list value (exec_stop r) \<rparr>
      else if key = ''ExecStopPost''
        then r\<lparr> exec_stop_post := apply_exec_list value (exec_stop_post r) \<rparr>
      else if key = ''Restart''
        then r\<lparr> restart_of := restart_policy_parse value \<rparr>
      else if key = ''RestartSec''
        then r\<lparr> restart_sec := parse_duration value \<rparr>
      else if key = ''RestartMaxDelaySec''
        then r\<lparr> restart_max_delay_sec := parse_duration value \<rparr>
      else if key = ''RestartSteps''
        then r\<lparr> restart_steps := parse_u32 value \<rparr>
      else if key = ''TimeoutStartSec''
        then r\<lparr> timeout_start_sec := parse_duration value \<rparr>
      else if key = ''TimeoutStopSec''
        then r\<lparr> timeout_stop_sec := parse_duration value \<rparr>
      else if key = ''TimeoutAbortSec''
        then r\<lparr> timeout_abort_sec := parse_duration value \<rparr>
      else if key = ''TimeoutSec''
        then r\<lparr> timeout_start_sec := parse_duration value, timeout_stop_sec := parse_duration value \<rparr>
      else if key = ''TimeoutStartFailureMode''
        then r\<lparr> timeout_start_failure_mode := value \<rparr>
      else if key = ''TimeoutStopFailureMode''
        then r\<lparr> timeout_stop_failure_mode := value \<rparr>
      else if key = ''RuntimeMaxSec''
        then r\<lparr> runtime_max_sec := parse_duration value \<rparr>
      else if key = ''RuntimeRandomizedExtraSec''
        then r\<lparr> runtime_randomized_extra_sec := parse_duration value \<rparr>
      else if key = ''WatchdogSec''
        then r\<lparr> watchdog_sec := parse_duration value \<rparr>
      else if key = ''KillMode''
        then r\<lparr> kill_mode_of := kill_mode_parse value \<rparr>
      else if key = ''KillSignal''
        then r\<lparr> kill_signal := set_signal value (kill_signal r) \<rparr>
      else if key = ''RestartKillSignal''
        then r\<lparr> restart_kill_signal := set_signal value (restart_kill_signal r) \<rparr>
      else if key = ''FinalKillSignal''
        then r\<lparr> final_kill_signal := set_signal value (final_kill_signal r) \<rparr>
      else if key = ''WatchdogSignal''
        then r\<lparr> watchdog_signal := set_signal value (watchdog_signal r) \<rparr>
      else if key = ''SendSIGKILL''
        then r\<lparr> send_sigkill := Some (svc_parse_bool value) \<rparr>
      else if key = ''SendSIGHUP''
        then r\<lparr> send_sighup := svc_parse_bool value \<rparr>
      else if key = ''SuccessExitStatus''
        then r\<lparr> success_exit_status := apply_list value (success_exit_status r) \<rparr>
      else if key = ''RestartPreventExitStatus''
        then r\<lparr> restart_prevent_exit_status := apply_list value (restart_prevent_exit_status r) \<rparr>
      else if key = ''RestartForceExitStatus''
        then r\<lparr> restart_force_exit_status := apply_list value (restart_force_exit_status r) \<rparr>
      else if key = ''NotifyAccess''
        then r\<lparr> notify_access_of := notify_access_parse value \<rparr>
      else if key = ''Sockets''
        then r\<lparr> sockets_of := apply_list value (sockets_of r) \<rparr>
      else if key = ''FileDescriptorStoreMax''
        then r\<lparr> file_descriptor_store_max := (case parse_u32 value of Some n \<Rightarrow> n | None \<Rightarrow> 0) \<rparr>
      else if key = ''FileDescriptorStorePreserve''
        then r\<lparr> file_descriptor_store_preserve := value \<rparr>
      else if key = ''RefreshOnReload''
        then r\<lparr> refresh_on_reload := apply_list value (refresh_on_reload r) \<rparr>
      else r)"

definition apply_exec_keys :: "string \<Rightarrow> string \<Rightarrow> exec_keys \<Rightarrow> exec_keys" where
  "apply_exec_keys key value r =
     (if key = ''User''
        then r\<lparr> user_name := value \<rparr>
      else if key = ''Group''
        then r\<lparr> group_name := value \<rparr>
      else if key = ''DynamicUser''
        then r\<lparr> dynamic_user := svc_parse_bool value \<rparr>
      else if key = ''SupplementaryGroups''
        then r\<lparr> supplementary_groups := apply_list value (supplementary_groups r) \<rparr>
      else if key = ''PAMName''
        then r\<lparr> pam_name := value \<rparr>
      else if key = ''WorkingDirectory''
        then r\<lparr> working_directory := value \<rparr>
      else if key = ''RootDirectory''
        then r\<lparr> root_directory := value \<rparr>
      else if key = ''Environment''
        then r\<lparr> environment_of := push_list value (environment_of r) \<rparr>
      else if key = ''EnvironmentFile''
        then r\<lparr> environment_file := push_list value (environment_file r) \<rparr>
      else if key = ''PassEnvironment''
        then r\<lparr> pass_environment := apply_list value (pass_environment r) \<rparr>
      else if key = ''UnsetEnvironment''
        then r\<lparr> unset_environment := apply_list value (unset_environment r) \<rparr>
      else if key = ''CapabilityBoundingSet''
        then r\<lparr> capability_bounding_set := apply_capabilities value (capability_bounding_set r) \<rparr>
      else if key = ''AmbientCapabilities''
        then r\<lparr> ambient_capabilities := apply_capabilities value (ambient_capabilities r) \<rparr>
      else if key = ''NoNewPrivileges''
        then r\<lparr> no_new_privileges := svc_parse_bool value \<rparr>
      else if key = ''SecureBits''
        then r\<lparr> secure_bits := apply_list value (secure_bits r) \<rparr>
      else if key = ''StandardInput''
        then r\<lparr> standard_input := value \<rparr>
      else if key = ''StandardOutput''
        then r\<lparr> standard_output := value \<rparr>
      else if key = ''StandardError''
        then r\<lparr> standard_error := value \<rparr>
      else if key = ''TTYPath''
        then r\<lparr> tty_path := value \<rparr>
      else if key = ''TTYReset''
        then r\<lparr> tty_reset := svc_parse_bool value \<rparr>
      else if key = ''TTYVHangup''
        then r\<lparr> tty_vhangup := svc_parse_bool value \<rparr>
      else if key = ''TTYVTDisallocate''
        then r\<lparr> tty_vt_disallocate := svc_parse_bool value \<rparr>
      else if key = ''TTYRows''
        then r\<lparr> tty_rows := parse_u32 value \<rparr>
      else if key = ''TTYColumns''
        then r\<lparr> tty_columns := parse_u32 value \<rparr>
      else if key = ''UtmpIdentifier''
        then r\<lparr> utmp_identifier := value \<rparr>
      else if key = ''UtmpMode''
        then r\<lparr> utmp_mode := value \<rparr>
      else if key = ''SyslogIdentifier''
        then r\<lparr> syslog_identifier := value \<rparr>
      else if key = ''SyslogFacility''
        then r\<lparr> syslog_facility := value \<rparr>
      else if key = ''SyslogLevel''
        then r\<lparr> syslog_level := value \<rparr>
      else if key = ''LogLevelMax''
        then r\<lparr> log_level_max := value \<rparr>
      else if key = ''LogRateLimitIntervalSec''
        then r\<lparr> log_rate_limit_interval_sec := parse_duration value \<rparr>
      else if key = ''LogRateLimitBurst''
        then r\<lparr> log_rate_limit_burst := parse_u32 value \<rparr>
      else if key = ''LogExtraFields''
        then r\<lparr> log_extra_fields := push_list value (log_extra_fields r) \<rparr>
      else if key = ''LogNamespace''
        then r\<lparr> log_namespace := value \<rparr>
      else if key = ''Nice''
        then r\<lparr> nice_of := parse_i32 value \<rparr>
      else if key = ''OOMScoreAdjust''
        then r\<lparr> oom_score_adjust := parse_i32 value \<rparr>
      else if key = ''IOSchedulingClass''
        then r\<lparr> io_scheduling_class := value \<rparr>
      else if key = ''IOSchedulingPriority''
        then r\<lparr> io_scheduling_priority := parse_i32 value \<rparr>
      else if key = ''CPUSchedulingPolicy''
        then r\<lparr> cpu_scheduling_policy := value \<rparr>
      else if key = ''CPUSchedulingPriority''
        then r\<lparr> cpu_scheduling_priority := parse_i32 value \<rparr>
      else if key = ''CPUSchedulingResetOnFork''
        then r\<lparr> cpu_scheduling_reset_on_fork := svc_parse_bool value \<rparr>
      else if key = ''CPUAffinity''
        then r\<lparr> cpu_affinity := value \<rparr>
      else if key = ''TimerSlackNSec''
        then r\<lparr> timer_slack_nsec := parse_duration value \<rparr>
      else r)"

definition apply_sandbox_keys :: "string \<Rightarrow> string \<Rightarrow> sandbox_keys \<Rightarrow> sandbox_keys" where
  "apply_sandbox_keys key value r =
     (if key = ''PrivateTmp''
        then r\<lparr> private_tmp := svc_parse_bool value \<rparr>
      else if key = ''PrivateDevices''
        then r\<lparr> private_devices := svc_parse_bool value \<rparr>
      else if key = ''PrivateNetwork''
        then r\<lparr> private_network := svc_parse_bool value \<rparr>
      else if key = ''PrivateUsers''
        then r\<lparr> private_users := svc_parse_bool value \<rparr>
      else if key = ''PrivateMounts''
        then r\<lparr> private_mounts := svc_parse_bool value \<rparr>
      else if key = ''PrivateIPC''
        then r\<lparr> private_ipc := svc_parse_bool value \<rparr>
      else if key = ''PrivatePIDs''
        then r\<lparr> private_pids := value \<rparr>
      else if key = ''ProtectSystem''
        then r\<lparr> protect_system_of := protect_system_parse value \<rparr>
      else if key = ''ProtectHome''
        then r\<lparr> protect_home_of := protect_home_parse value \<rparr>
      else if key = ''ProtectHostname''
        then r\<lparr> protect_hostname := svc_parse_bool value \<rparr>
      else if key = ''ProtectProc''
        then r\<lparr> protect_proc := value \<rparr>
      else if key = ''ProcSubset''
        then r\<lparr> proc_subset := value \<rparr>
      else if key = ''ProtectKernelTunables''
        then r\<lparr> protect_kernel_tunables := svc_parse_bool value \<rparr>
      else if key = ''ProtectKernelModules''
        then r\<lparr> protect_kernel_modules := svc_parse_bool value \<rparr>
      else if key = ''ProtectKernelLogs''
        then r\<lparr> protect_kernel_logs := svc_parse_bool value \<rparr>
      else if key = ''ProtectClock''
        then r\<lparr> protect_clock := svc_parse_bool value \<rparr>
      else if key = ''ProtectControlGroups''
        then r\<lparr> protect_control_groups := svc_parse_bool value \<rparr>
      else if key = ''RestrictAddressFamilies''
        then r\<lparr> restrict_address_families := apply_list value (restrict_address_families r) \<rparr>
      else if key = ''RestrictFileSystems''
        then r\<lparr> restrict_filesystems := apply_list value (restrict_filesystems r) \<rparr>
      else if key = ''RestrictNamespaces''
        then r\<lparr> restrict_namespaces := svc_parse_bool value \<rparr>
      else if key = ''RestrictRealtime''
        then r\<lparr> restrict_realtime := svc_parse_bool value \<rparr>
      else if key = ''RestrictSUIDSGID''
        then r\<lparr> restrict_suid_sgid := svc_parse_bool value \<rparr>
      else if key = ''MemoryDenyWriteExecute''
        then r\<lparr> memory_deny_write_execute := svc_parse_bool value \<rparr>
      else if key = ''MountAPIVFS''
        then r\<lparr> mount_api_vfs := svc_parse_bool value \<rparr>
      else if key = ''MountFlags''
        then r\<lparr> mount_flags := (case parse_u64 value of Some n \<Rightarrow> n | None \<Rightarrow> 0) \<rparr>
      else if key = ''BindLogSockets''
        then r\<lparr> bind_log_sockets := svc_parse_bool value \<rparr>
      else if key = ''MemoryKSM''
        then r\<lparr> memory_ksm := svc_parse_bool value \<rparr>
      else if key = ''MemoryTHP''
        then r\<lparr> memory_thp := value \<rparr>
      else if key = ''UserNamespacePath''
        then r\<lparr> user_namespace_path := value \<rparr>
      else if key = ''NetworkNamespacePath''
        then r\<lparr> network_namespace_path := value \<rparr>
      else if key = ''IPCNamespacePath''
        then r\<lparr> ipc_namespace_path := value \<rparr>
      else if key = ''LockPersonality''
        then r\<lparr> lock_personality := svc_parse_bool value \<rparr>
      else if key = ''RemoveIPC''
        then r\<lparr> remove_ipc := svc_parse_bool value \<rparr>
      else if key = ''SystemCallFilter''
        then r\<lparr> system_call_filter := apply_filter value (system_call_filter r) \<rparr>
      else if key = ''SystemCallArchitectures''
        then r\<lparr> system_call_architectures := apply_list value (system_call_architectures r) \<rparr>
      else if key = ''SystemCallErrorNumber''
        then (if valid_error_number value then r\<lparr> system_call_error_number := value \<rparr> else r)
      else if key = ''SystemCallLog''
        then r\<lparr> system_call_log := apply_list value (system_call_log r) \<rparr>
      else if key = ''Personality''
        then r\<lparr> personality_of := value \<rparr>
      else if key = ''IgnoreSIGPIPE''
        then r\<lparr> ignore_sigpipe := svc_parse_bool value \<rparr>
      else if key = ''KeyringMode''
        then r\<lparr> keyring_mode := value \<rparr>
      else if key = ''OOMPolicy''
        then r\<lparr> oom_policy := value \<rparr>
      else if key = ''CoredumpFilter''
        then r\<lparr> coredump_filter := value \<rparr>
      else if key = ''Delegate''
        then r\<lparr> delegate_of := svc_parse_bool value \<rparr>
      else if key = ''DelegateControllers''
        then r\<lparr> delegate_controllers := apply_list value (delegate_controllers r) \<rparr>
      else if key = ''DelegateSubgroup''
        then r\<lparr> delegate_subgroup := value \<rparr>
      else if key = ''DisableControllers''
        then r\<lparr> disable_controllers := apply_list value (disable_controllers r) \<rparr>
      else if key = ''CPUSetPartition''
        then r\<lparr> cpuset_partition := value \<rparr>
      else if key = ''ManagedOOMSwap''
        then r\<lparr> managed_oom_swap := value \<rparr>
      else if key = ''ManagedOOMMemoryPressure''
        then r\<lparr> managed_oom_memory_pressure := value \<rparr>
      else if key = ''ManagedOOMMemoryPressureLimit''
        then r\<lparr> managed_oom_memory_pressure_limit := (case parse_u32 value of Some n \<Rightarrow> n | None \<Rightarrow> 0) \<rparr>
      else if key = ''ManagedOOMMemoryPressureDurationSec''
        then r\<lparr> managed_oom_memory_pressure_duration_sec := parse_duration value \<rparr>
      else if key = ''ManagedOOMPreference''
        then r\<lparr> managed_oom_preference := value \<rparr>
      else if key = ''SameProcessGroup''
        then r\<lparr> same_process_group := svc_parse_bool value \<rparr>
      else r)"

definition apply_path_keys :: "string \<Rightarrow> string \<Rightarrow> path_keys \<Rightarrow> path_keys" where
  "apply_path_keys key value r =
     (if key = ''RuntimeDirectory''
        then r\<lparr> runtime_directory := apply_list value (runtime_directory r) \<rparr>
      else if key = ''RuntimeDirectoryMode''
        then r\<lparr> runtime_directory_mode := parse_mode value \<rparr>
      else if key = ''RuntimeDirectoryPreserve''
        then r\<lparr> runtime_directory_preserve := value \<rparr>
      else if key = ''StateDirectory''
        then r\<lparr> state_directory := apply_list value (state_directory r) \<rparr>
      else if key = ''StateDirectoryMode''
        then r\<lparr> state_directory_mode := parse_mode value \<rparr>
      else if key = ''CacheDirectory''
        then r\<lparr> cache_directory := apply_list value (cache_directory r) \<rparr>
      else if key = ''CacheDirectoryMode''
        then r\<lparr> cache_directory_mode := parse_mode value \<rparr>
      else if key = ''LogsDirectory''
        then r\<lparr> logs_directory := apply_list value (logs_directory r) \<rparr>
      else if key = ''LogsDirectoryMode''
        then r\<lparr> logs_directory_mode := parse_mode value \<rparr>
      else if key = ''ConfigurationDirectory''
        then r\<lparr> configuration_directory := apply_list value (configuration_directory r) \<rparr>
      else if key = ''ConfigurationDirectoryMode''
        then r\<lparr> configuration_directory_mode := parse_mode value \<rparr>
      else if key = ''TimeoutCleanSec''
        then r\<lparr> timeout_clean_sec := parse_duration value \<rparr>
      else if key = ''ReadWritePaths''
        then r\<lparr> read_write_paths := apply_list value (read_write_paths r) \<rparr>
      else if key = ''ReadOnlyPaths''
        then r\<lparr> read_only_paths := apply_list value (read_only_paths r) \<rparr>
      else if key = ''InaccessiblePaths''
        then r\<lparr> inaccessible_paths := apply_list value (inaccessible_paths r) \<rparr>
      else if key = ''ExecPaths''
        then r\<lparr> exec_paths := apply_list value (exec_paths r) \<rparr>
      else if key = ''NoExecPaths''
        then r\<lparr> no_exec_paths := apply_list value (no_exec_paths r) \<rparr>
      else if key = ''ExecSearchPath''
        then r\<lparr> exec_search_path := apply_list value (exec_search_path r) \<rparr>
      else if key = ''TemporaryFileSystem''
        then r\<lparr> temporary_filesystem := push_list value (temporary_filesystem r) \<rparr>
      else if key = ''BindPaths''
        then r\<lparr> bind_paths := apply_list value (bind_paths r) \<rparr>
      else if key = ''BindReadOnlyPaths''
        then r\<lparr> bind_read_only_paths := apply_list value (bind_read_only_paths r) \<rparr>
      else r)"

definition apply_limit_keys :: "string \<Rightarrow> string \<Rightarrow> limit_keys \<Rightarrow> limit_keys" where
  "apply_limit_keys key value r =
     (if key = ''LimitCPU''
        then r\<lparr> limit_cpu := apply_rlimit value Seconds (limit_cpu r) \<rparr>
      else if key = ''LimitFSIZE''
        then r\<lparr> limit_fsize := apply_rlimit value Size (limit_fsize r) \<rparr>
      else if key = ''LimitDATA''
        then r\<lparr> limit_data := apply_rlimit value Size (limit_data r) \<rparr>
      else if key = ''LimitSTACK''
        then r\<lparr> limit_stack := apply_rlimit value Size (limit_stack r) \<rparr>
      else if key = ''LimitCORE''
        then r\<lparr> limit_core := apply_rlimit value Size (limit_core r) \<rparr>
      else if key = ''LimitRSS''
        then r\<lparr> limit_rss := apply_rlimit value Size (limit_rss r) \<rparr>
      else if key = ''LimitNOFILE''
        then r\<lparr> limit_nofile := apply_rlimit value Count (limit_nofile r) \<rparr>
      else if key = ''LimitAS''
        then r\<lparr> limit_as := apply_rlimit value Size (limit_as r) \<rparr>
      else if key = ''LimitNPROC''
        then r\<lparr> limit_nproc := apply_rlimit value Count (limit_nproc r) \<rparr>
      else if key = ''LimitMEMLOCK''
        then r\<lparr> limit_memlock := apply_rlimit value Size (limit_memlock r) \<rparr>
      else if key = ''LimitLOCKS''
        then r\<lparr> limit_locks := apply_rlimit value Count (limit_locks r) \<rparr>
      else if key = ''LimitSIGPENDING''
        then r\<lparr> limit_sigpending := apply_rlimit value Count (limit_sigpending r) \<rparr>
      else if key = ''LimitMSGQUEUE''
        then r\<lparr> limit_msgqueue := apply_rlimit value Size (limit_msgqueue r) \<rparr>
      else if key = ''LimitNICE''
        then r\<lparr> limit_nice := apply_rlimit value Nice (limit_nice r) \<rparr>
      else if key = ''LimitRTPRIO''
        then r\<lparr> limit_rtprio := apply_rlimit value Count (limit_rtprio r) \<rparr>
      else if key = ''LimitRTTIME''
        then r\<lparr> limit_rttime := apply_rlimit value Microseconds (limit_rttime r) \<rparr>
      else if key = ''UMask''
        then r\<lparr> umask := value \<rparr>
      else if key = ''SELinuxContext''
        then r\<lparr> se_linux_context := value \<rparr>
      else if key = ''AppArmorProfile''
        then r\<lparr> app_armor_profile := value \<rparr>
      else if key = ''SmackProcessLabel''
        then r\<lparr> smack_process_label := value \<rparr>
      else if key = ''ImportCredential''
        then r\<lparr> import_credential := apply_list value (import_credential r) \<rparr>
      else if key = ''IPAddressAllow''
        then r\<lparr> ip_address_allow := apply_list value (ip_address_allow r) \<rparr>
      else if key = ''IPAddressDeny''
        then r\<lparr> ip_address_deny := apply_list value (ip_address_deny r) \<rparr>
      else if key = ''DeviceAllow''
        then r\<lparr> device_allow := push_list value (device_allow r) \<rparr>
      else if key = ''DevicePolicy''
        then r\<lparr> device_policy := value \<rparr>
      else if key = ''Slice''
        then r\<lparr> slice_of := value \<rparr>
      else if key = ''OpenFile''
        then r\<lparr> open_file := push_list value (open_file r) \<rparr>
      else if key = ''ReloadSignal''
        then r\<lparr> reload_signal := value \<rparr>
      else if key = ''RootDirectoryStartOnly''
        then r\<lparr> root_directory_start_only := svc_parse_bool value \<rparr>
      else if key = ''NonBlocking''
        then r\<lparr> non_blocking := svc_parse_bool value \<rparr>
      else r)"

record service_section =
  svc :: service_keys
  exc :: exec_keys
  sbx :: sandbox_keys
  pth :: path_keys
  lmt :: limit_keys
  resource_control_of :: resource_control

definition service_section_default :: service_section where
  "service_section_default =
     \<lparr> svc = service_keys_default, exc = exec_keys_default, sbx = sandbox_keys_default,
       pth = path_keys_default, lmt = limit_keys_default,
       resource_control_of = resource_control_default \<rparr>"

definition service_section_apply ::
  "(string \<Rightarrow> string option) \<Rightarrow> string \<Rightarrow> string \<Rightarrow> service_section \<Rightarrow> service_section" where
  "service_section_apply read_file key value s =
     (let (taken, rc) = rc_apply read_file key value (resource_control_of s)
      in if taken then s\<lparr> resource_control_of := rc \<rparr>
         else s\<lparr> svc := apply_service_keys key value (svc s),
                 exc := apply_exec_keys key value (exc s),
                 sbx := apply_sandbox_keys key value (sbx s),
                 pth := apply_path_keys key value (pth s),
                 lmt := apply_limit_keys key value (lmt s) \<rparr>)"

section \<open>Signals\<close>

definition signal_name :: "string \<Rightarrow> string" where
  "signal_name value =
     (let upper = to_ascii_uppercase (trim value)
      in case strip_prefix upper ''SIG'' of Some n \<Rightarrow> n | None \<Rightarrow> upper)"

lemma parse_int_nonneg: "parse_int mx s = Some n \<Longrightarrow> (\<And>t. s \<noteq> CHR ''-'' # t) \<Longrightarrow> 0 \<le> n"
  by (auto simp: parse_int_def split: list.splits if_splits)

lemma signal_names_range: "(name, n) \<in> set signal_names \<Longrightarrow> 1 \<le> n \<and> n \<le> 31"
proof -
  have "list_all (\<lambda>(_, n). 1 \<le> n \<and> n \<le> 31) signal_names" by (simp add: signal_names_def)
  thus "(name, n) \<in> set signal_names \<Longrightarrow> 1 \<le> n \<and> n \<le> 31" by (auto simp: list_all_iff)
qed

lemma parse_signal_cases:
  assumes "parse_signal v = Some n"
  obtains (number) "1 \<le> n" "n \<le> 64"
  | (rtmin) k where "signal_name v = ''RTMIN+'' @ k" "Option.bind (Some k) parse_i32 = Some (n - 34)" "n \<le> 64"
  | (rtmax) k where "signal_name v = ''RTMAX-'' @ k" "Option.bind (Some k) parse_i32 = Some (64 - n)" "34 \<le> n"
proof -
  let ?u = "to_ascii_uppercase (trim v)"
  show ?thesis
  proof (cases "parse_i32 ?u")
    case (Some m)
    thus ?thesis using assms number by (auto simp: parse_signal_def Let_def SIGRTMAX_def split: if_splits)
  next
    case None
    consider "signal_name v = ''RTMIN''" | "signal_name v = ''RTMAX''"
      | "signal_name v \<noteq> ''RTMIN''" "signal_name v \<noteq> ''RTMAX''" by argo
    thus ?thesis
    proof cases
      case 3
      have e: "parse_signal v =
          (case Option.bind (strip_prefix (signal_name v) ''RTMIN+'') parse_i32 of
             Some offset \<Rightarrow>
               (case i32_checked (SIGRTMIN + offset) of
                  Some s \<Rightarrow> if s \<le> SIGRTMAX then Some s else None | None \<Rightarrow> None)
           | None \<Rightarrow>
               (case Option.bind (strip_prefix (signal_name v) ''RTMAX-'') parse_i32 of
                  Some offset \<Rightarrow>
                    (case i32_checked (SIGRTMAX - offset) of
                       Some s \<Rightarrow> if SIGRTMIN \<le> s then Some s else None | None \<Rightarrow> None)
                | None \<Rightarrow> map_of signal_names (signal_name v)))"
        using None 3 unfolding parse_signal_def signal_name_def Let_def by simp
      show ?thesis
      proof (cases "Option.bind (strip_prefix (signal_name v) ''RTMIN+'') parse_i32")
        case (Some k)
        then obtain t where "strip_prefix (signal_name v) ''RTMIN+'' = Some t" "parse_i32 t = Some k"
          by (auto simp: bind_eq_Some_conv)
        moreover have "n = 34 + k \<and> n \<le> 64"
          using assms Some unfolding e
          by (auto simp: i32_checked_def SIGRTMIN_def SIGRTMAX_def split: if_splits)
        ultimately show ?thesis using rtmin [of t] by (simp add: strip_prefix_Some)
      next
        case n1: None
        show ?thesis
        proof (cases "Option.bind (strip_prefix (signal_name v) ''RTMAX-'') parse_i32")
          case (Some k)
          then obtain t where "strip_prefix (signal_name v) ''RTMAX-'' = Some t" "parse_i32 t = Some k"
            by (auto simp: bind_eq_Some_conv)
          moreover have "n = 64 - k \<and> 34 \<le> n"
            using assms Some n1 unfolding e
            by (auto simp: i32_checked_def SIGRTMIN_def SIGRTMAX_def split: if_splits)
          ultimately show ?thesis using rtmax [of t] by (simp add: strip_prefix_Some)
        next
          case None
          hence "map_of signal_names (signal_name v) = Some n" using assms n1 unfolding e by simp
          from signal_names_range [OF map_of_SomeD [OF this]] show ?thesis by (intro number) auto
        qed
      qed
    qed (use assms None number in \<open>auto simp: parse_signal_def signal_name_def Let_def SIGRTMIN_def
        SIGRTMAX_def\<close>)
  qed
qed

text \<open>
  C26: Every accepted signal is a signal number of the system, 1 to 64, unless a real-time offset
  carries its own sign: \<open>RTMIN+-40\<close> is accepted as signal -6 and \<open>RTMAX--36\<close> as signal 100.
\<close>

theorem parse_signal_range:
  "(\<forall>n. parse_signal v = Some n \<and> (\<forall>t. signal_name v \<noteq> ''RTMIN+-'' @ t \<and> signal_name v \<noteq> ''RTMAX--'' @ t)
      \<longrightarrow> 1 \<le> n \<and> n \<le> 64)
   \<and> parse_signal ''RTMIN+-40'' = Some (-6) \<and> parse_signal ''RTMAX--36'' = Some 100"
proof (intro conjI allI impI)
  fix n
  assume a: "parse_signal v = Some n
    \<and> (\<forall>t. signal_name v \<noteq> ''RTMIN+-'' @ t \<and> signal_name v \<noteq> ''RTMAX--'' @ t)"
  have "1 \<le> n \<and> n \<le> 64"
  proof (rule parse_signal_cases [OF conjunct1 [OF a]])
    fix k assume "signal_name v = ''RTMIN+'' @ k" "Option.bind (Some k) parse_i32 = Some (n - 34)" "n \<le> 64"
    thus ?thesis using a parse_int_nonneg [of 2147483647 k "n - 34"] by auto
  next
    fix k assume "signal_name v = ''RTMAX-'' @ k" "Option.bind (Some k) parse_i32 = Some (64 - n)" "34 \<le> n"
    thus ?thesis using a parse_int_nonneg [of 2147483647 k "64 - n"] by auto
  qed simp
  thus "1 \<le> n" "n \<le> 64" by simp_all
next
  have u: "to_ascii_uppercase ''RTMIN+-40'' = ''RTMIN+-40''" "to_ascii_uppercase ''RTMAX--36'' = ''RTMAX--36''"
    "trim ''RTMIN+-40'' = ''RTMIN+-40''" "trim ''RTMAX--36'' = ''RTMAX--36''"
    by (simp_all add: to_ascii_uppercase_def to_upper_def is_lower_def trim_id is_ws_def)
  show "parse_signal ''RTMIN+-40'' = Some (-6)" "parse_signal ''RTMAX--36'' = Some 100"
    by (simp_all add: parse_signal_def u parse_int_def parse_uint_def is_digit_def digit_val_def
        strip_prefix_def starts_with_def SIGRTMIN_def SIGRTMAX_def i32_checked_def i32_min_def i32_max_def)
qed

theorem parse_signal_range_witness:
  "parse_signal ''sigterm'' = Some 15 \<and> (1::int) \<le> 15 \<and> (15::int) \<le> 64"
proof -
  have u: "to_ascii_uppercase ''sigterm'' = ''SIGTERM''" "trim ''sigterm'' = ''sigterm''"
    by (simp_all add: to_ascii_uppercase_def to_upper_def is_lower_def trim_id is_ws_def char_of_eq_iff)
  have p: "parse_signal ''sigterm'' = Some 15" "signal_name ''sigterm'' = ''TERM''"
    by (simp_all add: parse_signal_def signal_name_def u parse_int_def parse_uint_def is_digit_def
        strip_prefix_def starts_with_def signal_names_def)
  show ?thesis using parse_signal_range [of "''sigterm''"] p by simp
qed

section \<open>Limit keys\<close>

text \<open>The field of a resource.\<close>

fun limit_field :: "rlimit_resource \<Rightarrow> limit_keys \<Rightarrow> rlimit_spec option" where
  "limit_field Cpu l = limit_cpu l"
| "limit_field Fsize l = limit_fsize l"
| "limit_field Data l = limit_data l"
| "limit_field Stack l = limit_stack l"
| "limit_field Core l = limit_core l"
| "limit_field Rss l = limit_rss l"
| "limit_field Nofile l = limit_nofile l"
| "limit_field As l = limit_as l"
| "limit_field Nproc l = limit_nproc l"
| "limit_field Memlock l = limit_memlock l"
| "limit_field Locks l = limit_locks l"
| "limit_field Sigpending l = limit_sigpending l"
| "limit_field Msgqueue l = limit_msgqueue l"
| "limit_field NiceRes l = limit_nice l"
| "limit_field Rtprio l = limit_rtprio l"
| "limit_field Rttime l = limit_rttime l"

fun set_limit_field :: "rlimit_resource \<Rightarrow> rlimit_spec option \<Rightarrow> limit_keys \<Rightarrow> limit_keys" where
  "set_limit_field Cpu v l = l\<lparr> limit_cpu := v \<rparr>"
| "set_limit_field Fsize v l = l\<lparr> limit_fsize := v \<rparr>"
| "set_limit_field Data v l = l\<lparr> limit_data := v \<rparr>"
| "set_limit_field Stack v l = l\<lparr> limit_stack := v \<rparr>"
| "set_limit_field Core v l = l\<lparr> limit_core := v \<rparr>"
| "set_limit_field Rss v l = l\<lparr> limit_rss := v \<rparr>"
| "set_limit_field Nofile v l = l\<lparr> limit_nofile := v \<rparr>"
| "set_limit_field As v l = l\<lparr> limit_as := v \<rparr>"
| "set_limit_field Nproc v l = l\<lparr> limit_nproc := v \<rparr>"
| "set_limit_field Memlock v l = l\<lparr> limit_memlock := v \<rparr>"
| "set_limit_field Locks v l = l\<lparr> limit_locks := v \<rparr>"
| "set_limit_field Sigpending v l = l\<lparr> limit_sigpending := v \<rparr>"
| "set_limit_field Msgqueue v l = l\<lparr> limit_msgqueue := v \<rparr>"
| "set_limit_field NiceRes v l = l\<lparr> limit_nice := v \<rparr>"
| "set_limit_field Rtprio v l = l\<lparr> limit_rtprio := v \<rparr>"
| "set_limit_field Rttime v l = l\<lparr> limit_rttime := v \<rparr>"

lemma limit_field_set:
  "limit_field r (set_limit_field r' v l) = (if r = r' then v else limit_field r l)"
  by (cases r'; cases r; simp)

lemma apply_limit_key:
  "apply_limit_keys (''Limit'' @ resource_key r) v l
     = set_limit_field r (apply_rlimit v (resource_kind r) (limit_field r l)) l"
  by (cases r) (simp_all add: apply_limit_keys_def)

lemma limit_key_not_resource: "rc_apply rf (''Limit'' @ k) v rc = (False, rc)"
  by (simp add: rc_apply_def)

text \<open>
  For each of the sixteen resources, the unit-file key is the name the resource has in the
  manager's table, its value is read with the grammar of that table, a malformed value keeps the
  earlier limit, and no other resource's limit changes.
\<close>

theorem limit_keys_agree:
  "limit_field r' (lmt (service_section_apply rf (''Limit'' @ resource_key r) v s)) =
     (if r' = r
      then (case rlimit_spec_parse v (resource_kind r) of
              Some spec \<Rightarrow> Some spec | None \<Rightarrow> limit_field r (lmt s))
      else limit_field r' (lmt s))"
  unfolding service_section_apply_def limit_key_not_resource apply_limit_key apply_rlimit_def
  by (simp add: limit_field_set)

section \<open>Command lists\<close>

text \<open>The command lists with their keys.\<close>

definition exec_fields :: "(string \<times> (service_keys \<Rightarrow> exec_command list)) list" where
  "exec_fields =
     [(''ExecCondition'', exec_condition), (''ExecStartPre'', exec_start_pre),
      (''ExecStart'', exec_start), (''ExecStartPost'', exec_start_post),
      (''ExecReload'', exec_reload), (''ExecReloadPost'', exec_reload_post),
      (''ExecStop'', exec_stop), (''ExecStopPost'', exec_stop_post)]"

lemma exec_field_frame:
  "list_all (\<lambda>(k, f). key \<noteq> k \<longrightarrow> f (apply_service_keys key v r) = f r) exec_fields"
  by (simp add: exec_fields_def apply_service_keys_def)

lemma exec_field_own:
  "list_all (\<lambda>(k, f). f (apply_service_keys k v r) = apply_exec_list v (f r)) exec_fields"
  by (simp add: exec_fields_def apply_service_keys_def)

lemma exec_field_step:
  assumes "(k, f) \<in> set exec_fields"
  shows "f (svc (service_section_apply rf key v s))
    = (if key = k then apply_exec_list v (f (svc s)) else f (svc s))"
proof -
  have step: "f (apply_service_keys key v r) = (if key = k then apply_exec_list v (f r) else f r)" for r
    using assms exec_field_frame [of key v r] exec_field_own [of v r] by (auto simp: list_all_iff)
  have "list_all (\<lambda>(k, _). \<not> fst (rc_apply rf k v rc)) exec_fields" for rc
    by (simp add: exec_fields_def rc_apply_def)
  hence "\<not> fst (rc_apply rf k v rc)" for rc using assms by (fastforce simp: list_all_iff)
  thus ?thesis using step
    by (cases "key = k") (simp_all add: service_section_apply_def Let_def case_prod_unfold)
qed

text \<open>
  Each command list of a service holds the commands of its own key in file order: a line that
  does not parse adds nothing, an empty value discards the commands before it, and no other key
  changes the list.  Every stored command has an executable and a first argument.
\<close>

theorem command_lists:
  fixes rf before s
  assumes "(k, f) \<in> set exec_fields" and "[] \<notin> set (values_of k after)"
  defines "cmds \<equiv> f (svc (fold (\<lambda>(key, v). service_section_apply rf key v) (before @ (k, []) # after) s))"
  shows "cmds = List.map_filter exec_command_parse (values_of k after)
    \<and> (\<forall>cmd \<in> set cmds. cmd_path cmd \<noteq> [] \<and> cmd_argv cmd \<noteq> [])"
proof -
  let ?go = "\<lambda>es s. f (svc (fold (\<lambda>(key, v). service_section_apply rf key v) es s))"
  have "[] \<notin> set (values_of k es) \<Longrightarrow> ?go es s = f (svc s) @ List.map_filter exec_command_parse (values_of k es)"
    for es s
  proof (induction es arbitrary: s)
    case Nil
    thus ?case by (simp add: values_of_def map_filter_simps)
  next
    case (Cons e es)
    obtain key v where e: "e = (key, v)" by (cases e)
    have vs: "values_of k (e # es) = (if key = k then [v] else []) @ values_of k es"
      by (simp add: values_of_def e)
    have "?go (e # es) s = f (svc (service_section_apply rf key v s)) @ List.map_filter exec_command_parse (values_of k es)"
      using Cons vs by (simp add: e)
    thus ?case using Cons.prems vs exec_field_step [OF assms(1), of rf key v s]
      by (auto simp: apply_exec_list_def map_filter_simps split: option.splits)
  qed
  from this [OF assms(2), of "service_section_apply rf k [] (fold (\<lambda>(key, v). service_section_apply rf key v) before s)"]
  have "cmds = List.map_filter exec_command_parse (values_of k after)"
    using exec_field_step [OF assms(1), of rf k "[]"] by (simp add: apply_exec_list_def cmds_def)
  thus ?thesis using exec_command_parse_words by (auto simp: map_filter_def)
qed

theorem command_lists_witness:
  "exec_start (svc (fold (\<lambda>(key, v). service_section_apply Map.empty key v)
       [(''ExecStart'', ''/bin/a''), (''ExecStart'', []), (''ExecStart'', ''@''), (''ExecStart'', ''/bin/b'')]
       service_section_default))
   = [\<lparr> cmd_path = ''/bin/b'', cmd_argv = [''/bin/b''], cmd_flags = 0 \<rparr>]"
proof -
  have k: "(''ExecStart'', exec_start) \<in> set exec_fields" by (simp add: exec_fields_def)
  have v: "values_of ''ExecStart'' [(''ExecStart'', ''@''), (''ExecStart'', ''/bin/b'')] = [''@'', ''/bin/b'']"
    by (simp add: values_of_def)
  have p: "exec_command_parse ''@'' = None"
    "exec_command_parse ''/bin/b'' = Some \<lparr> cmd_path = ''/bin/b'', cmd_argv = [''/bin/b''], cmd_flags = 0 \<rparr>"
    by (simp_all add: exec_command_parse_def split_argv_def trim_start_def is_ws_def contains_def flag_defs)
  show ?thesis
    using command_lists [OF k, of "[(''ExecStart'', ''@''), (''ExecStart'', ''/bin/b'')]" Map.empty
        "[(''ExecStart'', ''/bin/a'')]" service_section_default] v p
    by (simp add: map_filter_simps)
qed

end
