(* ===== verification/UnitKinds.thy ===== *)
theory UnitKinds
  imports ServiceSection
begin

text \<open>
  The sections of the unit kinds other than services: \<open>src/src/unit/section_socket.rs\<close>,
  \<open>section_timer.rs\<close>, \<open>section_path.rs\<close>, \<open>section_mount.rs\<close>, \<open>section_swap.rs\<close>,
  \<open>section_automount.rs\<close>, \<open>section_slice.rs\<close> and \<open>section_install.rs\<close>, with their defaults and
  the assignment of one key.  The prefix of a field name tells the section it belongs to.
\<close>

abbreviation parse_i64 :: "string \<Rightarrow> int option" where "parse_i64 \<equiv> parse_int 9223372036854775807"

text \<open>A list that grows by one entry and is cleared by an empty value.\<close>

definition push_or_clear :: "string \<Rightarrow> string list \<Rightarrow> string list" where
  "push_or_clear v xs = (if v = [] then [] else xs @ [v])"

section \<open>Timers\<close>

record timer_section =
  tm_on_active_sec :: "nat option"
  tm_on_boot_sec :: "nat option"
  tm_on_startup_sec :: "nat option"
  tm_on_unit_active_sec :: "nat option"
  tm_on_unit_inactive_sec :: "nat option"
  tm_on_calendar :: "string list"
  tm_on_clock_change :: bool
  tm_on_timezone_change :: bool
  tm_accuracy_sec :: "nat option"
  tm_randomized_delay_sec :: "nat option"
  tm_fixed_random_delay :: bool
  tm_on_clock_change_unit :: string
  tm_persistent :: bool
  tm_wake_system :: bool
  tm_remain_after_elapse :: bool
  tm_unit :: string

definition timer_section_default :: timer_section where
  "timer_section_default = \<lparr>
     tm_on_active_sec = None, tm_on_boot_sec = None, tm_on_startup_sec = None,
     tm_on_unit_active_sec = None, tm_on_unit_inactive_sec = None, tm_on_calendar = [],
     tm_on_clock_change = False, tm_on_timezone_change = False, tm_accuracy_sec = None,
     tm_randomized_delay_sec = None, tm_fixed_random_delay = False,
     tm_on_clock_change_unit = [], tm_persistent = False, tm_wake_system = False,
     tm_remain_after_elapse = False, tm_unit = [] \<rparr>"

definition timer_section_apply :: "string \<Rightarrow> string \<Rightarrow> timer_section \<Rightarrow> timer_section" where
  "timer_section_apply key v s =
     (if key = ''OnCalendar'' then s\<lparr> tm_on_calendar := push_or_clear v (tm_on_calendar s) \<rparr>
      else if key = ''OnActiveSec'' then s\<lparr> tm_on_active_sec := parse_duration v \<rparr>
      else if key = ''OnBootSec'' then s\<lparr> tm_on_boot_sec := parse_duration v \<rparr>
      else if key = ''OnStartupSec'' then s\<lparr> tm_on_startup_sec := parse_duration v \<rparr>
      else if key = ''OnUnitActiveSec'' then s\<lparr> tm_on_unit_active_sec := parse_duration v \<rparr>
      else if key = ''OnUnitInactiveSec'' then s\<lparr> tm_on_unit_inactive_sec := parse_duration v \<rparr>
      else if key = ''OnClockChange'' then s\<lparr> tm_on_clock_change := unit_parse_bool v \<rparr>
      else if key = ''OnTimezoneChange'' then s\<lparr> tm_on_timezone_change := unit_parse_bool v \<rparr>
      else if key = ''AccuracySec'' then s\<lparr> tm_accuracy_sec := parse_duration v \<rparr>
      else if key = ''RandomizedDelaySec'' then s\<lparr> tm_randomized_delay_sec := parse_duration v \<rparr>
      else if key = ''FixedRandomDelay'' then s\<lparr> tm_fixed_random_delay := unit_parse_bool v \<rparr>
      else if key = ''Persistent'' then s\<lparr> tm_persistent := unit_parse_bool v \<rparr>
      else if key = ''WakeSystem'' then s\<lparr> tm_wake_system := unit_parse_bool v \<rparr>
      else if key = ''RemainAfterElapse'' then s\<lparr> tm_remain_after_elapse := unit_parse_bool v \<rparr>
      else if key = ''Unit'' then s\<lparr> tm_unit := v \<rparr>
      else s)"

section \<open>Mounts and swaps\<close>

record mount_section =
  mt_what :: string
  mt_where :: string
  mt_type :: string
  mt_options :: string
  mt_sloppy_options :: bool
  mt_lazy_unmount :: bool
  mt_read_write_only :: bool
  mt_force_unmount :: bool
  mt_directory_mode :: string
  mt_timeout_sec :: "nat option"

definition mount_section_default :: mount_section where
  "mount_section_default = \<lparr>
     mt_what = [], mt_where = [], mt_type = [], mt_options = [], mt_sloppy_options = False,
     mt_lazy_unmount = False, mt_read_write_only = False, mt_force_unmount = False,
     mt_directory_mode = [], mt_timeout_sec = None \<rparr>"

definition mount_section_apply :: "string \<Rightarrow> string \<Rightarrow> mount_section \<Rightarrow> mount_section" where
  "mount_section_apply key v s =
     (if key = ''What'' then s\<lparr> mt_what := v \<rparr>
      else if key = ''Where'' then s\<lparr> mt_where := v \<rparr>
      else if key = ''Type'' then s\<lparr> mt_type := v \<rparr>
      else if key = ''Options'' then s\<lparr> mt_options := v \<rparr>
      else if key = ''SloppyOptions'' then s\<lparr> mt_sloppy_options := unit_parse_bool v \<rparr>
      else if key = ''LazyUnmount'' then s\<lparr> mt_lazy_unmount := unit_parse_bool v \<rparr>
      else if key = ''ReadWriteOnly'' then s\<lparr> mt_read_write_only := unit_parse_bool v \<rparr>
      else if key = ''ForceUnmount'' then s\<lparr> mt_force_unmount := unit_parse_bool v \<rparr>
      else if key = ''DirectoryMode'' then s\<lparr> mt_directory_mode := v \<rparr>
      else if key = ''TimeoutSec'' then s\<lparr> mt_timeout_sec := parse_duration v \<rparr>
      else s)"

record swap_section =
  sw_what :: string
  sw_priority :: "int option"
  sw_options :: string
  sw_timeout_sec :: "nat option"

definition swap_section_default :: swap_section where
  "swap_section_default = \<lparr>
     sw_what = [], sw_priority = None, sw_options = [], sw_timeout_sec = None \<rparr>"

definition swap_section_apply :: "string \<Rightarrow> string \<Rightarrow> swap_section \<Rightarrow> swap_section" where
  "swap_section_apply key v s =
     (if key = ''What'' then s\<lparr> sw_what := v \<rparr>
      else if key = ''Priority'' then s\<lparr> sw_priority := parse_i32 v \<rparr>
      else if key = ''Options'' then s\<lparr> sw_options := v \<rparr>
      else if key = ''TimeoutSec'' then s\<lparr> sw_timeout_sec := parse_duration v \<rparr>
      else s)"

section \<open>Paths\<close>

record path_spec =
  ps_kind :: string
  ps_path :: string

record path_section =
  pa_watches :: "path_spec list"
  pa_unit :: string
  pa_make_directory :: bool
  pa_directory_mode :: string
  pa_trigger_limit_interval_sec :: "nat option"
  pa_trigger_limit_burst :: "nat option"

definition path_section_default :: path_section where
  "path_section_default = \<lparr>
     pa_watches = [], pa_unit = [], pa_make_directory = False, pa_directory_mode = [],
     pa_trigger_limit_interval_sec = None, pa_trigger_limit_burst = None \<rparr>"

definition path_section_apply :: "string \<Rightarrow> string \<Rightarrow> path_section \<Rightarrow> path_section" where
  "path_section_apply key v s =
     (if key \<in> {''PathExists'', ''PathExistsGlob'', ''PathChanged'', ''PathModified'', ''DirectoryNotEmpty''} then s\<lparr> pa_watches := (if v = [] then filter (\<lambda>w. ps_kind w \<noteq> key) (pa_watches s)
          else pa_watches s @ [\<lparr> ps_kind = key, ps_path = v \<rparr>]) \<rparr>
      else if key = ''TriggerLimitIntervalSec'' then s\<lparr> pa_trigger_limit_interval_sec := parse_duration v \<rparr>
      else if key = ''Unit'' then s\<lparr> pa_unit := v \<rparr>
      else if key = ''MakeDirectory'' then s\<lparr> pa_make_directory := unit_parse_bool v \<rparr>
      else if key = ''DirectoryMode'' then s\<lparr> pa_directory_mode := v \<rparr>
      else if key = ''TriggerLimitBurst'' then s\<lparr> pa_trigger_limit_burst := parse_u32 v \<rparr>
      else s)"

section \<open>Sockets\<close>

record listen_spec =
  ls_kind :: string
  ls_address :: string

record socket_section =
  so_listen :: "listen_spec list"
  so_accept :: bool
  so_writable :: bool
  so_flush_pending :: bool
  so_max_connections :: "nat option"
  so_max_connections_per_source :: "nat option"
  so_keep_alive :: bool
  so_keep_alive_time_sec :: "nat option"
  so_keep_alive_interval_sec :: "nat option"
  so_keep_alive_probes :: "nat option"
  so_no_delay :: bool
  so_priority :: "int option"
  so_defer_accept_sec :: "nat option"
  so_receive_buffer :: "nat option"
  so_send_buffer :: "nat option"
  so_iptos :: string
  so_ipttl :: "int option"
  so_mark :: "nat option"
  so_reuse_port :: bool
  so_smack_label :: string
  so_smack_label_ip_in :: string
  so_smack_label_ip_out :: string
  so_se_linux_context_from_net :: bool
  so_pipe_size :: "nat option"
  so_message_queue_max_messages :: "int option"
  so_message_queue_message_size :: "int option"
  so_free_bind :: bool
  so_transparent :: bool
  so_broadcast :: bool
  so_pass_credentials :: bool
  so_pass_security :: bool
  so_pass_packet_info :: bool
  so_timestamping :: string
  so_tcp_congestion :: string
  so_exec_start_pre :: "string list"
  so_exec_start_post :: "string list"
  so_exec_stop_pre :: "string list"
  so_exec_stop_post :: "string list"
  so_timeout_sec :: "nat option"
  so_service :: string
  so_remove_on_stop :: bool
  so_symlinks :: "string list"
  so_file_descriptor_name :: string
  so_trigger_limit_interval_sec :: "nat option"
  so_trigger_limit_burst :: "nat option"
  so_socket_mode :: string
  so_directory_mode :: string
  so_socket_user :: string
  so_socket_group :: string
  so_defer_trigger :: bool

definition socket_section_default :: socket_section where
  "socket_section_default = \<lparr>
     so_listen = [], so_accept = False, so_writable = False, so_flush_pending = False,
     so_max_connections = None, so_max_connections_per_source = None, so_keep_alive = False,
     so_keep_alive_time_sec = None, so_keep_alive_interval_sec = None,
     so_keep_alive_probes = None, so_no_delay = False, so_priority = None,
     so_defer_accept_sec = None, so_receive_buffer = None, so_send_buffer = None, so_iptos = [],
     so_ipttl = None, so_mark = None, so_reuse_port = False, so_smack_label = [],
     so_smack_label_ip_in = [], so_smack_label_ip_out = [],
     so_se_linux_context_from_net = False, so_pipe_size = None,
     so_message_queue_max_messages = None, so_message_queue_message_size = None,
     so_free_bind = False, so_transparent = False, so_broadcast = False,
     so_pass_credentials = False, so_pass_security = False, so_pass_packet_info = False,
     so_timestamping = [], so_tcp_congestion = [], so_exec_start_pre = [],
     so_exec_start_post = [], so_exec_stop_pre = [], so_exec_stop_post = [],
     so_timeout_sec = None, so_service = [], so_remove_on_stop = False, so_symlinks = [],
     so_file_descriptor_name = [], so_trigger_limit_interval_sec = None,
     so_trigger_limit_burst = None, so_socket_mode = [], so_directory_mode = [],
     so_socket_user = [], so_socket_group = [], so_defer_trigger = False \<rparr>"

definition socket_section_apply :: "string \<Rightarrow> string \<Rightarrow> socket_section \<Rightarrow> socket_section" where
  "socket_section_apply key v s =
     (if starts_with key ''Listen'' then (let kind = drop 6 key
       in s\<lparr> so_listen := (if v = [] then filter (\<lambda>l. ls_kind l \<noteq> kind) (so_listen s)
            else so_listen s @ [\<lparr> ls_kind = kind, ls_address = v \<rparr>]) \<rparr>)
      else if key = ''ExecStartPre'' then s\<lparr> so_exec_start_pre := push_or_clear v (so_exec_start_pre s) \<rparr>
      else if key = ''ExecStartPost'' then s\<lparr> so_exec_start_post := push_or_clear v (so_exec_start_post s) \<rparr>
      else if key = ''ExecStopPre'' then s\<lparr> so_exec_stop_pre := push_or_clear v (so_exec_stop_pre s) \<rparr>
      else if key = ''ExecStopPost'' then s\<lparr> so_exec_stop_post := push_or_clear v (so_exec_stop_post s) \<rparr>
      else if key = ''Symlinks'' then s\<lparr> so_symlinks := apply_list v (so_symlinks s) \<rparr>
      else if key = ''Accept'' then s\<lparr> so_accept := unit_parse_bool v \<rparr>
      else if key = ''Writable'' then s\<lparr> so_writable := unit_parse_bool v \<rparr>
      else if key = ''FlushPending'' then s\<lparr> so_flush_pending := unit_parse_bool v \<rparr>
      else if key = ''MaxConnections'' then s\<lparr> so_max_connections := parse_u32 v \<rparr>
      else if key = ''MaxConnectionsPerSource'' then s\<lparr> so_max_connections_per_source := parse_u32 v \<rparr>
      else if key = ''KeepAlive'' then s\<lparr> so_keep_alive := unit_parse_bool v \<rparr>
      else if key = ''KeepAliveTimeSec'' then s\<lparr> so_keep_alive_time_sec := parse_duration v \<rparr>
      else if key = ''KeepAliveIntervalSec'' then s\<lparr> so_keep_alive_interval_sec := parse_duration v \<rparr>
      else if key = ''KeepAliveProbes'' then s\<lparr> so_keep_alive_probes := parse_u32 v \<rparr>
      else if key = ''NoDelay'' then s\<lparr> so_no_delay := unit_parse_bool v \<rparr>
      else if key = ''Priority'' then s\<lparr> so_priority := parse_i32 v \<rparr>
      else if key = ''DeferAcceptSec'' then s\<lparr> so_defer_accept_sec := parse_duration v \<rparr>
      else if key = ''ReceiveBuffer'' then s\<lparr> so_receive_buffer := parse_u64 v \<rparr>
      else if key = ''SendBuffer'' then s\<lparr> so_send_buffer := parse_u64 v \<rparr>
      else if key = ''IPTOS'' then s\<lparr> so_iptos := v \<rparr>
      else if key = ''IPTTL'' then s\<lparr> so_ipttl := parse_i32 v \<rparr>
      else if key = ''Mark'' then s\<lparr> so_mark := parse_u32 v \<rparr>
      else if key = ''ReusePort'' then s\<lparr> so_reuse_port := unit_parse_bool v \<rparr>
      else if key = ''SmackLabel'' then s\<lparr> so_smack_label := v \<rparr>
      else if key = ''SmackLabelIPIn'' then s\<lparr> so_smack_label_ip_in := v \<rparr>
      else if key = ''SmackLabelIPOut'' then s\<lparr> so_smack_label_ip_out := v \<rparr>
      else if key = ''SELinuxContextFromNet'' then s\<lparr> so_se_linux_context_from_net := unit_parse_bool v \<rparr>
      else if key = ''PipeSize'' then s\<lparr> so_pipe_size := parse_u64 v \<rparr>
      else if key = ''MessageQueueMaxMessages'' then s\<lparr> so_message_queue_max_messages := parse_i64 v \<rparr>
      else if key = ''MessageQueueMessageSize'' then s\<lparr> so_message_queue_message_size := parse_i64 v \<rparr>
      else if key = ''FreeBind'' then s\<lparr> so_free_bind := unit_parse_bool v \<rparr>
      else if key = ''Transparent'' then s\<lparr> so_transparent := unit_parse_bool v \<rparr>
      else if key = ''Broadcast'' then s\<lparr> so_broadcast := unit_parse_bool v \<rparr>
      else if key = ''PassCredentials'' then s\<lparr> so_pass_credentials := unit_parse_bool v \<rparr>
      else if key = ''PassSecurity'' then s\<lparr> so_pass_security := unit_parse_bool v \<rparr>
      else if key = ''PassPacketInfo'' then s\<lparr> so_pass_packet_info := unit_parse_bool v \<rparr>
      else if key = ''Timestamping'' then s\<lparr> so_timestamping := v \<rparr>
      else if key = ''TCPCongestion'' then s\<lparr> so_tcp_congestion := v \<rparr>
      else if key = ''TimeoutSec'' then s\<lparr> so_timeout_sec := parse_duration v \<rparr>
      else if key = ''Service'' then s\<lparr> so_service := v \<rparr>
      else if key = ''RemoveOnStop'' then s\<lparr> so_remove_on_stop := unit_parse_bool v \<rparr>
      else if key = ''FileDescriptorName'' then s\<lparr> so_file_descriptor_name := v \<rparr>
      else if key = ''TriggerLimitIntervalSec'' then s\<lparr> so_trigger_limit_interval_sec := parse_duration v \<rparr>
      else if key = ''TriggerLimitBurst'' then s\<lparr> so_trigger_limit_burst := parse_u32 v \<rparr>
      else if key = ''SocketMode'' then s\<lparr> so_socket_mode := v \<rparr>
      else if key = ''DirectoryMode'' then s\<lparr> so_directory_mode := v \<rparr>
      else if key = ''SocketUser'' then s\<lparr> so_socket_user := v \<rparr>
      else if key = ''SocketGroup'' then s\<lparr> so_socket_group := v \<rparr>
      else if key = ''DeferTrigger'' then s\<lparr> so_defer_trigger := unit_parse_bool v \<rparr>
      else s)"

section \<open>Automounts and slices\<close>

record automount_section =
  am_where :: string
  am_extra_options :: string
  am_directory_mode :: nat
  am_timeout_idle_sec :: "nat option"
  am_trigger_unit :: string

definition automount_section_default :: automount_section where
  "automount_section_default = \<lparr>
     am_where = [], am_extra_options = [], am_directory_mode = 493, am_timeout_idle_sec = None,
     am_trigger_unit = [] \<rparr>"

definition automount_parse_mode :: "string \<Rightarrow> nat option" where
  "automount_parse_mode v =
     (let v = trim v
      in if v = [] \<or> hd v \<in> {CHR ''+'', CHR ''-''} then None
         else case parse_octal v of
           None \<Rightarrow> None
         | Some mode \<Rightarrow> if mode \<le> 4095 then Some mode else None)"

definition automount_section_apply :: "string \<Rightarrow> string \<Rightarrow> automount_section \<Rightarrow> automount_section" where
  "automount_section_apply key v s =
     (if key = ''Where'' then s\<lparr> am_where := v \<rparr>
      else if key = ''ExtraOptions'' then s\<lparr> am_extra_options := v \<rparr>
      else if key = ''DirectoryMode'' then (case automount_parse_mode v of Some m \<Rightarrow> s\<lparr> am_directory_mode := m \<rparr> | None \<Rightarrow> s)
      else if key = ''TimeoutIdleSec'' then (let v = trim v
       in if v \<in> {''0'', ''infinity''} then s\<lparr> am_timeout_idle_sec := None \<rparr>
          else case parse_duration v of Some t \<Rightarrow> s\<lparr> am_timeout_idle_sec := Some t \<rparr> | None \<Rightarrow> s)
      else s)"

record slice_section =
  sl_concurrency_soft_max :: nat
  sl_concurrency_hard_max :: nat
  sl_resource_control :: resource_control

definition slice_section_default :: slice_section where
  "slice_section_default = \<lparr> sl_concurrency_soft_max = u32_max, sl_concurrency_hard_max = u32_max,
     sl_resource_control = resource_control_default \<rparr>"

definition parse_concurrency_max :: "string \<Rightarrow> nat option" where
  "parse_concurrency_max v =
     (let v = trim v in if v = [] \<or> v = ''infinity'' then Some u32_max else parse_u32 v)"

definition slice_section_apply ::
  "(string \<Rightarrow> string option) \<Rightarrow> string \<Rightarrow> string \<Rightarrow> slice_section \<Rightarrow> slice_section" where
  "slice_section_apply read_file key v s =
     (let (handled, rc) = rc_apply read_file key v (sl_resource_control s)
      in if handled then s\<lparr> sl_resource_control := rc \<rparr>
         else if key = ''ConcurrencySoftMax'' then
           (case parse_concurrency_max v of Some n \<Rightarrow> s\<lparr> sl_concurrency_soft_max := n \<rparr> | None \<Rightarrow> s)
         else if key = ''ConcurrencyHardMax'' then
           (case parse_concurrency_max v of Some n \<Rightarrow> s\<lparr> sl_concurrency_hard_max := n \<rparr> | None \<Rightarrow> s)
         else s)"

section \<open>Install\<close>

record install_section =
  in_wanted_by :: "string list"
  in_required_by :: "string list"
  in_upheld_by :: "string list"
  in_also :: "string list"
  in_alias :: "string list"
  in_default_instance :: string

definition install_section_default :: install_section where
  "install_section_default = \<lparr>
     in_wanted_by = [], in_required_by = [], in_upheld_by = [], in_also = [], in_alias = [],
     in_default_instance = [] \<rparr>"

definition install_section_apply :: "string \<Rightarrow> string \<Rightarrow> install_section \<Rightarrow> install_section" where
  "install_section_apply key v s =
     (if key = ''WantedBy'' then s\<lparr> in_wanted_by := apply_list v (in_wanted_by s) \<rparr>
      else if key = ''RequiredBy'' then s\<lparr> in_required_by := apply_list v (in_required_by s) \<rparr>
      else if key = ''UpheldBy'' then s\<lparr> in_upheld_by := apply_list v (in_upheld_by s) \<rparr>
      else if key = ''Also'' then s\<lparr> in_also := apply_list v (in_also s) \<rparr>
      else if key = ''Alias'' then s\<lparr> in_alias := apply_list v (in_alias s) \<rparr>
      else if key = ''DefaultInstance'' then s\<lparr> in_default_instance := v \<rparr>
      else s)"

end
