(* ===== verification/World.thy ===== *)
theory World
  imports UnitKinds Units
begin

text \<open>
  The outside world of the service manager.  What the manager does to processes and files is a
  value of \<open>effect\<close>; an operation extends the list of effects done so far, its log.  What the
  operating system answers is a function of that log, one field of the record \<open>os\<close> per kind of
  question, so a theorem about all records of type \<open>os\<close> covers every behaviour of the system.

  The environment strings handed to children are not part of the model.
\<close>

type_synonym pid = int
type_synonym fd = int

text \<open>\<open>ChildExit\<close> of \<open>src/src/event/child.rs\<close>.\<close>

record child_exit =
  exit_pid :: pid
  exit_code :: int
  exit_status :: int

definition child_exit_is_success :: "child_exit \<Rightarrow> bool" where
  "child_exit_is_success e \<longleftrightarrow> exit_code e = CLD_EXITED \<and> exit_status e = 0"

datatype effect =
  E_Run string exec_command
| E_Spawn exec_command bool
| E_Kill pid int
| E_Kill_Group string int "pid list"
| E_Close fd
| E_Remove_File string
| E_Alloc_User string
| E_Prepare_Dirs
| E_Create_Cgroup string
| E_Apply_Control string
| E_Remove_Cgroup string
| E_Attach_Pid string pid
| E_Unit_On string
| E_Unit_Off string
| E_Arm_Timer nat int
| E_Random

datatype io_kind = NotFound | WouldBlock | OtherIo

text \<open>How a command that was waited for ended; none of the two if it did not exit normally.\<close>

datatype wait_status = Exited int | Signaled int | OtherStatus

record os =
  os_run :: "effect list \<Rightarrow> exec_command \<Rightarrow> wait_status option"
  os_spawn :: "effect list \<Rightarrow> exec_command \<Rightarrow> bool \<Rightarrow> (pid \<times> fd) option"
  os_kill :: "effect list \<Rightarrow> pid \<Rightarrow> int \<Rightarrow> bool"
  os_kill_group :: "effect list \<Rightarrow> string \<Rightarrow> int \<Rightarrow> pid list \<Rightarrow> nat option"
  os_alloc_user :: "effect list \<Rightarrow> string \<Rightarrow> nat option"
  os_prepare_dirs :: "effect list \<Rightarrow> bool"
  os_probe :: "effect list \<Rightarrow> condition \<Rightarrow> bool"
  os_file_uid :: "effect list \<Rightarrow> string \<Rightarrow> io_kind + nat"
  os_read_file :: "effect list \<Rightarrow> string \<Rightarrow> io_kind + string"
  os_symlink :: "effect list \<Rightarrow> string \<Rightarrow> bool"
  os_alive :: "effect list \<Rightarrow> pid \<Rightarrow> bool"
  os_cgroup_pids :: "effect list \<Rightarrow> string \<Rightarrow> pid list"
  os_ok :: "effect list \<Rightarrow> effect \<Rightarrow> bool"
  os_procs :: "effect list \<Rightarrow> string \<Rightarrow> string option"
  os_populated :: "effect list \<Rightarrow> string \<Rightarrow> io_kind + bool"
  os_monotonic :: "effect list \<Rightarrow> int option"
  os_realtime :: "effect list \<Rightarrow> int option"
  os_random :: "effect list \<Rightarrow> 8 word list option"
  os_self_pid :: pid
  os_euid :: nat

end
