(* ===== verification/KillRestart.thy ===== *)
theory KillRestart
  imports World
begin

text \<open>
  The kill policy of a service, \<open>src/src/kill_context.rs\<close>, and restart decisions and timeouts,
  \<open>src/src/restart.rs\<close>.  Durations are microseconds, timer values nanoseconds.

  The lemmas show which processes get which signals under every kill mode, the restart table, and
  the values the timers are armed with.
\<close>

section \<open>Kill policy\<close>

definition SIGHUP :: int where "SIGHUP = 1"
definition SIGINT :: int where "SIGINT = 2"
definition SIGABRT :: int where "SIGABRT = 6"
definition SIGKILL :: int where "SIGKILL = 9"
definition SIGPIPE :: int where "SIGPIPE = 13"
definition SIGTERM :: int where "SIGTERM = 15"

lemmas signal_defs = SIGHUP_def SIGINT_def SIGABRT_def SIGKILL_def SIGPIPE_def SIGTERM_def

datatype kill_operation = KO_Terminate | KO_Restart | KO_Kill | KO_Watchdog

record kill_policy =
  kp_mode :: kill_mode
  kp_kill_signal :: int
  kp_restart_kill_signal :: int
  kp_final_kill_signal :: int
  kp_watchdog_signal :: int
  kp_send_sigkill :: bool
  kp_send_sighup :: bool

definition unwrap_or :: "'a option \<Rightarrow> 'a \<Rightarrow> 'a" where
  "unwrap_or x d = (case x of Some v \<Rightarrow> v | None \<Rightarrow> d)"

definition kill_policy_from_service :: "service_keys \<Rightarrow> kill_policy" where
  "kill_policy_from_service section =
     (let ks = unwrap_or (kill_signal section) SIGTERM
      in \<lparr> kp_mode = kill_mode_of section, kp_kill_signal = ks,
           kp_restart_kill_signal = unwrap_or (restart_kill_signal section) ks,
           kp_final_kill_signal = unwrap_or (final_kill_signal section) SIGKILL,
           kp_watchdog_signal = unwrap_or (watchdog_signal section) SIGABRT,
           kp_send_sigkill = unwrap_or (send_sigkill section) True,
           kp_send_sighup = send_sighup section \<rparr>)"

definition policy_signal :: "kill_policy \<Rightarrow> kill_operation \<Rightarrow> int option" where
  "policy_signal p op =
     (if kp_mode p = KM_None then None
      else case op of
        KO_Terminate \<Rightarrow> Some (kp_kill_signal p)
      | KO_Restart \<Rightarrow> Some (kp_restart_kill_signal p)
      | KO_Kill \<Rightarrow> if kp_send_sigkill p then Some (kp_final_kill_signal p) else None
      | KO_Watchdog \<Rightarrow> Some (kp_watchdog_signal p))"

definition send_hup :: "kill_policy \<Rightarrow> kill_operation \<Rightarrow> bool" where
  "send_hup p op \<longleftrightarrow> kp_send_sighup p \<and> (op = KO_Terminate \<or> op = KO_Restart)"

definition signal_group :: "kill_policy \<Rightarrow> kill_operation \<Rightarrow> bool" where
  "signal_group p op \<longleftrightarrow> kp_mode p = ControlGroup \<or> (kp_mode p = Mixed \<and> op = KO_Kill)"

text \<open>The loop over the tracked processes: signals sent, last process seen, effects done.\<close>

fun signal_loop ::
  "os \<Rightarrow> kill_policy \<Rightarrow> kill_operation \<Rightarrow> int \<Rightarrow> pid list \<Rightarrow> pid option \<Rightarrow> nat \<Rightarrow> effect list
   \<Rightarrow> nat \<times> effect list" where
  "signal_loop os p op sig [] seen sent lg = (sent, lg)"
| "signal_loop os p op sig (pid # pids) seen sent lg =
     (if pid \<le> 0 \<or> seen = Some pid then signal_loop os p op sig pids seen sent lg
      else
        (let ok = os_kill os lg pid sig;
             lg = lg @ [E_Kill pid sig];
             sent = (if ok then sent + 1 else sent);
             lg = (if send_hup p op then lg @ [E_Kill pid SIGHUP] else lg)
         in signal_loop os p op sig pids (Some pid) sent lg))"

definition flatten :: "'a option list \<Rightarrow> 'a list" where
  "flatten xs = List.map_filter (\<lambda>x. x) xs"

definition signal_primary ::
  "os \<Rightarrow> kill_policy \<Rightarrow> pid option \<Rightarrow> pid option \<Rightarrow> kill_operation \<Rightarrow> effect list
   \<Rightarrow> nat \<times> effect list" where
  "signal_primary os p main_pid control_pid op lg =
     (case policy_signal p op of
        None \<Rightarrow> (0, lg)
      | Some sig \<Rightarrow> signal_loop os p op sig (flatten [main_pid, control_pid]) None 0 lg)"

definition signal_cgroup_members ::
  "os \<Rightarrow> string \<Rightarrow> kill_policy \<Rightarrow> pid option \<Rightarrow> pid option \<Rightarrow> kill_operation \<Rightarrow> effect list
   \<Rightarrow> nat option \<times> effect list" where
  "signal_cgroup_members os unit_name p main_pid control_pid op lg =
     (case policy_signal p op of
        None \<Rightarrow> (Some 0, lg)
      | Some sig \<Rightarrow>
          if \<not> signal_group p op then (Some 0, lg)
          else
            (let excluded = flatten [main_pid, control_pid];
                 r = os_kill_group os lg unit_name sig excluded;
                 lg = lg @ [E_Kill_Group unit_name sig excluded]
             in case r of
                  None \<Rightarrow> (None, lg)
                | Some sent \<Rightarrow>
                    if send_hup p op then
                      (let r2 = os_kill_group os lg unit_name SIGHUP excluded;
                           lg = lg @ [E_Kill_Group unit_name SIGHUP excluded]
                       in case r2 of
                            None \<Rightarrow> (None, lg)
                          | Some sent2 \<Rightarrow> (Some (sat_add u64_max sent sent2), lg))
                    else (Some sent, lg)))"

section \<open>Restart\<close>

definition should_restart_result :: "restart_policy \<Rightarrow> string \<Rightarrow> bool" where
  "should_restart_result policy result =
     (case policy of
        RestartNo \<Rightarrow> False
      | Always \<Rightarrow> True
      | OnSuccess \<Rightarrow> result = ''success''
      | OnFailure \<Rightarrow> result \<noteq> ''success'' \<and> result \<noteq> ''skip-condition''
      | OnAbnormal \<Rightarrow> result \<notin> {''success'', ''exit-code'', ''skip-condition''}
      | OnAbort \<Rightarrow> result \<in> {''signal'', ''core-dump''}
      | OnWatchdog \<Rightarrow> result = ''watchdog'')"

definition should_restart :: "restart_policy \<Rightarrow> child_exit \<Rightarrow> bool" where
  "should_restart policy e =
     (let result =
        (if exit_code e = CLD_EXITED then (if exit_status e = 0 then ''success'' else ''exit-code'')
         else if exit_code e = CLD_DUMPED then ''core-dump''
         else if exit_code e = CLD_KILLED then ''signal''
         else ''resources'')
      in should_restart_result policy result)"

definition i64_max :: int where "i64_max = 2 ^ 63 - 1"

text \<open>The conversion \<open>as i64\<close> of an unsigned number.\<close>

definition as_i64 :: "nat \<Rightarrow> int" where
  "as_i64 n = (let m = int n mod 2 ^ 64 in if m < 2 ^ 63 then m else m - 2 ^ 64)"

definition as_nanos :: "nat \<Rightarrow> nat" where "as_nanos d = d * 1000"

definition schedule_restart_ns :: "nat \<Rightarrow> int" where
  "schedule_restart_ns delay = max (as_i64 (as_nanos delay)) 1000000"

datatype service_timeout_phase = Phase_Start | Phase_Stop | Phase_Abort

record service_timeout_event =
  te_unit_name :: string
  te_phase :: service_timeout_phase
  te_source_id :: nat

definition service_timeout_ns :: "nat \<Rightarrow> int" where
  "service_timeout_ns timeout = max (as_i64 (min (as_nanos timeout) (nat i64_max))) 1"

definition on_service_timeout ::
  "string \<Rightarrow> service_timeout_phase \<Rightarrow> nat \<Rightarrow> service_timeout_event list \<Rightarrow> service_timeout_event list" where
  "on_service_timeout unit_name phase source_id events =
     events @ [\<lparr> te_unit_name = unit_name, te_phase = phase, te_source_id = source_id \<rparr>]"

definition duration_ns :: "nat \<Rightarrow> int" where
  "duration_ns d = max (if int (as_nanos d) \<le> i64_max then int (as_nanos d) else i64_max) 1000000"

text \<open>Expiry handlers: process, phase and log.\<close>

definition start_timeout_kill :: "pid \<Rightarrow> nat \<Rightarrow> effect list \<Rightarrow> nat \<times> effect list" where
  "start_timeout_kill pid phase lg =
     (if phase = 0 then (1, lg @ [E_Kill pid SIGTERM])
      else if phase = 1 then (2, lg @ [E_Kill pid SIGKILL])
      else (phase, lg))"

definition stop_timeout_kill :: "pid \<Rightarrow> effect list \<Rightarrow> effect list" where
  "stop_timeout_kill pid lg = lg @ [E_Kill pid SIGKILL]"

section \<open>Which processes are signalled\<close>

text \<open>The effects of signalling one process.\<close>

definition kill_effects :: "kill_policy \<Rightarrow> kill_operation \<Rightarrow> int \<Rightarrow> pid \<Rightarrow> effect list" where
  "kill_effects p op sig pid = E_Kill pid sig # (if send_hup p op then [E_Kill pid SIGHUP] else [])"

text \<open>The processes a stop is about: valid and each named once.\<close>

definition kill_targets :: "pid option \<Rightarrow> pid option \<Rightarrow> pid list" where
  "kill_targets main_pid control_pid =
     remdups (filter (\<lambda>pid. 0 < pid) (flatten [main_pid, control_pid]))"

lemma flatten_simps [simp]:
  "flatten [] = []" "flatten (None # xs) = flatten xs" "flatten (Some x # xs) = x # flatten xs"
  by (simp_all add: flatten_def List.map_filter_simps)

lemma set_flatten: "set (flatten xs) = {x. Some x \<in> set xs}"
  by (induction xs) (auto split: option.splits simp: flatten_def List.map_filter_simps)

lemma policy_signal_none_mode: "kp_mode p = KM_None \<Longrightarrow> policy_signal p op = None"
  by (simp add: policy_signal_def)

lemma signal_primary_log:
  "snd (signal_primary os p m c op lg) =
     lg @ (case policy_signal p op of
             None \<Rightarrow> []
           | Some sig \<Rightarrow> concat (map (kill_effects p op sig) (kill_targets m c)))"
  by (cases m; cases c) (auto simp: signal_primary_def kill_targets_def kill_effects_def Let_def
      split: option.splits)

lemma signal_primary_count: "fst (signal_primary os p m c op lg) \<le> length (kill_targets m c)"
  by (cases m; cases c) (auto simp: signal_primary_def kill_targets_def Let_def split: option.splits)

lemma signal_cgroup_log:
  "snd (signal_cgroup_members os name p m c op lg) =
     lg @ (case policy_signal p op of
             None \<Rightarrow> []
           | Some sig \<Rightarrow>
               if signal_group p op then
                 E_Kill_Group name sig (flatten [m, c]) #
                 (if send_hup p op \<and> os_kill_group os lg name sig (flatten [m, c]) \<noteq> None
                  then [E_Kill_Group name SIGHUP (flatten [m, c])] else [])
               else [])"
  by (auto simp: signal_cgroup_members_def Let_def split: option.splits)

text \<open>
  C13: What stopping a service sends.  Under every kill policy the tracked processes, the main and
  the control process, are signalled first and each once, with the signal of the operation and then
  \<open>SIGHUP\<close> where \<open>SendSIGHUP=\<close> asks for it; the control group is signalled after them, only under
  \<open>KillMode=control-group\<close> or in the final kill of \<open>KillMode=mixed\<close>, and always without the tracked
  processes, so no process gets the signal twice.  With \<open>KillMode=none\<close>, and in the final kill with
  \<open>SendSIGKILL=no\<close>, nothing is sent.
\<close>

theorem kill_signals_exact:
  assumes primary: "signal_primary os p m c op lg = (sent, lg1)"
    and group: "signal_cgroup_members os name p m c op lg1 = (r, lg2)"
  shows "lg2 = lg @ (case policy_signal p op of
             None \<Rightarrow> []
           | Some sig \<Rightarrow>
               concat (map (kill_effects p op sig) (kill_targets m c)) @
               (if kp_mode p = ControlGroup \<or> kp_mode p = Mixed \<and> op = KO_Kill then
                  E_Kill_Group name sig (flatten [m, c]) #
                  (if send_hup p op \<and> os_kill_group os lg1 name sig (flatten [m, c]) \<noteq> None
                   then [E_Kill_Group name SIGHUP (flatten [m, c])] else [])
                else []))
     \<and> (policy_signal p op = None \<longleftrightarrow>
          kp_mode p = KM_None \<or> (op = KO_Kill \<and> \<not> kp_send_sigkill p))
     \<and> sent \<le> length (kill_targets m c)
     \<and> distinct (kill_targets m c)
     \<and> set (kill_targets m c) = {pid. 0 < pid \<and> (m = Some pid \<or> c = Some pid)}"
proof -
  have "lg1 = lg @ (case policy_signal p op of
      None \<Rightarrow> [] | Some sig \<Rightarrow> concat (map (kill_effects p op sig) (kill_targets m c)))"
    using signal_primary_log [of os p m c op lg] primary by simp
  moreover have "lg2 = lg1 @ (case policy_signal p op of
             None \<Rightarrow> []
           | Some sig \<Rightarrow>
               if signal_group p op then
                 E_Kill_Group name sig (flatten [m, c]) #
                 (if send_hup p op \<and> os_kill_group os lg1 name sig (flatten [m, c]) \<noteq> None
                  then [E_Kill_Group name SIGHUP (flatten [m, c])] else [])
               else [])"
    using signal_cgroup_log [of os name p m c op lg1] group by simp
  ultimately have lg2: "lg2 = lg @ (case policy_signal p op of
             None \<Rightarrow> []
           | Some sig \<Rightarrow>
               concat (map (kill_effects p op sig) (kill_targets m c)) @
               (if signal_group p op then
                  E_Kill_Group name sig (flatten [m, c]) #
                  (if send_hup p op \<and> os_kill_group os lg1 name sig (flatten [m, c]) \<noteq> None
                   then [E_Kill_Group name SIGHUP (flatten [m, c])] else [])
                else []))"
    by (cases "policy_signal p op") simp_all
  have "policy_signal p op = None \<longleftrightarrow>
      kp_mode p = KM_None \<or> (op = KO_Kill \<and> \<not> kp_send_sigkill p)"
    by (cases op) (auto simp: policy_signal_def)
  moreover have "sent \<le> length (kill_targets m c)"
    using signal_primary_count [of os p m c op lg] primary by simp
  moreover have "set (kill_targets m c) = {pid. 0 < pid \<and> (m = Some pid \<or> c = Some pid)}"
    by (auto simp: kill_targets_def set_flatten)
  ultimately show ?thesis
    using lg2 unfolding signal_group_def by (simp add: kill_targets_def)
qed

definition quiet_os :: os where
  "quiet_os = \<lparr> os_run = \<lambda>_ _. Some (Exited 0), os_spawn = \<lambda>_ _ _. Some (100, 7), os_kill = \<lambda>_ _ _. True,
     os_kill_group = \<lambda>_ _ _ _. Some 2, os_alloc_user = \<lambda>_ _. Some 61184, os_prepare_dirs = \<lambda>_. True,
     os_probe = \<lambda>_ _. True, os_file_uid = \<lambda>_ _. Inr 0, os_read_file = \<lambda>_ _. Inr ''100'',
     os_symlink = \<lambda>_ _. False, os_alive = \<lambda>_ _. True, os_cgroup_pids = \<lambda>_ _. [], os_ok = \<lambda>_ _. True,
     os_procs = \<lambda>_ _. None, os_populated = \<lambda>_ _. Inr False, os_monotonic = \<lambda>_. Some 1000,
     os_realtime = \<lambda>_. Some 2000, os_random = \<lambda>_. Some (replicate 16 0), os_self_pid = 1, os_euid = 0 \<rparr>"

theorem kill_signals_exact_witness:
  "snd (signal_cgroup_members quiet_os ''a.service''
         (kill_policy_from_service (svc service_section_default)) (Some 100) None KO_Terminate
         [E_Kill 100 15]) = [E_Kill 100 15, E_Kill_Group ''a.service'' 15 [100]]
   \<and> set (kill_targets (Some 100) None) = {pid. 0 < pid \<and> (Some 100 = Some pid \<or> None = Some pid)}"
proof -
  let ?p = "kill_policy_from_service (svc service_section_default)"
  have p: "?p = \<lparr> kp_mode = ControlGroup, kp_kill_signal = 15, kp_restart_kill_signal = 15,
      kp_final_kill_signal = 9, kp_watchdog_signal = 6, kp_send_sigkill = True, kp_send_sighup = False \<rparr>"
    by (simp add: kill_policy_from_service_def service_section_default_def service_keys_default_def
        unwrap_or_def Let_def signal_defs)
  have primary: "signal_primary quiet_os ?p (Some 100) None KO_Terminate [] = (1, [E_Kill 100 15])"
    by (simp add: p signal_primary_def policy_signal_def quiet_os_def send_hup_def Let_def)
  have group: "signal_cgroup_members quiet_os ''a.service'' ?p (Some 100) None KO_Terminate [E_Kill 100 15]
      = (Some 2, [E_Kill 100 15, E_Kill_Group ''a.service'' 15 [100]])"
    by (simp add: p signal_cgroup_members_def policy_signal_def quiet_os_def send_hup_def
        signal_group_def Let_def)
  show ?thesis
    using kill_signals_exact [OF primary group] group by simp
qed

section \<open>Timer values\<close>

lemma as_i64_small: "n < 2 ^ 63 \<Longrightarrow> as_i64 n = int n"
  by (simp add: as_i64_def Let_def)

lemma as_i64_upper: "as_i64 n \<le> i64_max"
proof -
  have "int n mod 18446744073709551616 < 18446744073709551616" by (rule pos_mod_bound) simp
  then show ?thesis by (auto simp: as_i64_def i64_max_def Let_def)
qed

text \<open>
  The values timers are armed with.  Every timer value is positive and fits a signed 64-bit
  number, restarts and activation timeouts are at least a millisecond, and as long as the duration
  fits the nanosecond range it is exact.  The conversions differ past that range: service timeouts
  saturate, but the restart delay wraps around, so a delay of 9223372036854776 microseconds is a
  restart after one millisecond.
\<close>

theorem timer_values:
  "1000000 \<le> duration_ns d \<and> duration_ns d \<le> i64_max
   \<and> 1 \<le> service_timeout_ns d \<and> service_timeout_ns d \<le> i64_max
   \<and> 1000000 \<le> schedule_restart_ns d \<and> schedule_restart_ns d \<le> i64_max
   \<and> (if 1000 * int d \<le> i64_max
      then duration_ns d = max (1000 * int d) 1000000
           \<and> service_timeout_ns d = max (1000 * int d) 1
           \<and> schedule_restart_ns d = max (1000 * int d) 1000000
      else duration_ns d = i64_max \<and> service_timeout_ns d = i64_max)
   \<and> schedule_restart_ns 9223372036854776 = 1000000"
proof -
  have small: "as_i64 (as_nanos d) = 1000 * int d" if "1000 * int d \<le> i64_max"
    using that as_i64_small [of "as_nanos d"] by (simp add: as_nanos_def i64_max_def)
  have cut: "as_i64 (min (as_nanos d) (nat i64_max)) = min (1000 * int d) i64_max"
    using as_i64_small [of "min (as_nanos d) (nat i64_max)"] by (simp add: as_nanos_def i64_max_def)
  have wrap: "schedule_restart_ns 9223372036854776 = 1000000"
    by (simp add: schedule_restart_ns_def as_i64_def as_nanos_def Let_def)
  show ?thesis
    using as_i64_upper [of "as_nanos d"] small cut wrap
    by (auto simp: duration_ns_def service_timeout_ns_def schedule_restart_ns_def as_nanos_def i64_max_def)
qed

end
