(* ===== verification/Service.thy ===== *)
theory Service
  imports KillRestart
begin

text \<open>
  The service state machine, \<open>src/src/service.rs\<close>: activation, deactivation, reload, readiness,
  adoption of forked processes, child exits, empty control groups and timeouts.  Every operation
  takes the operating system, the runtime record of the unit and the log of effects, and returns
  the changed record, the longer log and, where the code returns one, a result.

  Of a control group only the processes in it matter here; \<open>cg\<close> is the path of its
  \<open>cgroup.procs\<close> file, if there is one.
\<close>

section \<open>Records\<close>

datatype loaded_unit =
  Service string unit_section service_section
| Socket string unit_section socket_section
| Automount string unit_section automount_section
| Timer string unit_section timer_section
| PathUnit string unit_section path_section
| Mount string unit_section mount_section
| Swap string unit_section swap_section
| Target string unit_section
| Slice string unit_section slice_section
| Scope string unit_section

fun unit_name :: "loaded_unit \<Rightarrow> string" where
  "unit_name (Service n _ _) = n"
| "unit_name (Socket n _ _) = n"
| "unit_name (Automount n _ _) = n"
| "unit_name (Timer n _ _) = n"
| "unit_name (PathUnit n _ _) = n"
| "unit_name (Mount n _ _) = n"
| "unit_name (Swap n _ _) = n"
| "unit_name (Target n _) = n"
| "unit_name (Slice n _ _) = n"
| "unit_name (Scope n _) = n"

fun unit_section_of :: "loaded_unit \<Rightarrow> unit_section" where
  "unit_section_of (Service _ u _) = u"
| "unit_section_of (Socket _ u _) = u"
| "unit_section_of (Automount _ u _) = u"
| "unit_section_of (Timer _ u _) = u"
| "unit_section_of (PathUnit _ u _) = u"
| "unit_section_of (Mount _ u _) = u"
| "unit_section_of (Swap _ u _) = u"
| "unit_section_of (Target _ u) = u"
| "unit_section_of (Slice _ u _) = u"
| "unit_section_of (Scope _ u) = u"

fun service_of :: "loaded_unit \<Rightarrow> service_section option" where
  "service_of (Service _ _ s) = Some s"
| "service_of _ = None"

record unit_record =
  loaded :: loaded_unit
  state :: unit_state
  active_pid :: "pid option"
  control_pid :: "pid option"
  stop_requested :: bool
  idle_gate_fd :: "fd option"
  restart_count :: nat
  last_start_ns :: int
  start_limit_window_ns :: int
  start_limit_count :: nat
  dynamic_user_of :: "nat option"
  status_text :: "string option"
  status_errno :: "int option"
  watchdog_timestamp_ns :: "int option"
  watchdog_timestamp_realtime_ns :: "int option"
  exec_main_start_realtime_ns :: "int option"
  exec_main_start_monotonic_ns :: "int option"
  exec_main_exit_realtime_ns :: "int option"
  exec_main_exit_monotonic_ns :: "int option"
  watchdog_triggered :: bool
  service_result :: string
  exec_main_code :: int
  exec_main_status :: int
  invocation_id :: "8 word list option"

definition unit_record_new :: "loaded_unit \<Rightarrow> unit_record" where
  "unit_record_new l =
     \<lparr> loaded = l, state = Inactive, active_pid = None, control_pid = None, stop_requested = False,
       idle_gate_fd = None, restart_count = 0, last_start_ns = 0, start_limit_window_ns = 0,
       start_limit_count = 0, dynamic_user_of = None, status_text = None, status_errno = None,
       watchdog_timestamp_ns = None, watchdog_timestamp_realtime_ns = None,
       exec_main_start_realtime_ns = None, exec_main_start_monotonic_ns = None,
       exec_main_exit_realtime_ns = None, exec_main_exit_monotonic_ns = None,
       watchdog_triggered = False, service_result = ''success'', exec_main_code = 0,
       exec_main_status = 0, invocation_id = None \<rparr>"

text \<open>The identifier made from sixteen random bytes, and its printed form.\<close>

definition assign_invocation_id :: "8 word list \<Rightarrow> unit_record \<Rightarrow> unit_record" where
  "assign_invocation_id bytes r =
     (let bs = bytes[6 := (bytes ! 6 AND 0x0F) OR 0x40];
          bs = bs[8 := (bs ! 8 AND 0x3F) OR 0x80]
      in r\<lparr> invocation_id := Some bs \<rparr>)"

definition hex_digit :: "nat \<Rightarrow> char" where
  "hex_digit n = ''0123456789abcdef'' ! n"

definition invocation_id_hex :: "8 word list \<Rightarrow> string" where
  "invocation_id_hex bs = concat (map (\<lambda>b. [hex_digit (unat b div 16), hex_digit (unat b mod 16)]) bs)"

section \<open>Commands\<close>

record command_outcome =
  co_exit_code :: "int option"
  co_signal :: "int option"
  co_ignored :: bool

definition outcome_is_success :: "command_outcome \<Rightarrow> bool" where
  "outcome_is_success c \<longleftrightarrow> co_ignored c \<or> co_exit_code c = Some 0"

definition condition_skips :: "command_outcome \<Rightarrow> bool" where
  "condition_skips c \<longleftrightarrow>
     \<not> co_ignored c \<and> (case co_exit_code c of Some code \<Rightarrow> 1 \<le> code \<and> code \<le> 254 | None \<Rightarrow> False)"

datatype service_error =
  Not_Service string | No_Exec_Start string | Multiple_Exec_Start string | No_Bus_Name string
| User_Failed string | Directories_Failed string | Spawn_Failed | Wait_Failed
| Command_Failed string string command_outcome | Not_Active string | No_Exec_Reload string
| Io_Error io_kind | Invalid_Pid | Manager_Pid | Unsafe_Symlink | Foreign_Pid

type_synonym 'a result = "service_error + 'a"

definition wait_for_command :: "wait_status \<Rightarrow> exec_flags \<Rightarrow> command_outcome" where
  "wait_for_command status flags =
     (let ignored = contains flags IGNORE_FAILURE
      in case status of
           Exited c \<Rightarrow> \<lparr> co_exit_code = Some c, co_signal = None, co_ignored = ignored \<rparr>
         | Signaled s \<Rightarrow> \<lparr> co_exit_code = None, co_signal = Some s, co_ignored = ignored \<rparr>
         | OtherStatus \<Rightarrow> \<lparr> co_exit_code = None, co_signal = None, co_ignored = ignored \<rparr>)"

text \<open>Spawn a command and wait for it.  The phase is recorded with the effect.\<close>

definition run_command ::
  "os \<Rightarrow> string \<Rightarrow> exec_command \<Rightarrow> effect list \<Rightarrow> command_outcome result \<times> effect list" where
  "run_command os phase command lg =
     (case os_run os lg command of
        None \<Rightarrow> (Inl Spawn_Failed, lg @ [E_Run phase command])
      | Some status \<Rightarrow>
          (Inr (wait_for_command status (cmd_flags command)), lg @ [E_Run phase command]))"

text \<open>Spawn a process that is not waited for; an idle service gets a gate to wait at.\<close>

definition spawn_command ::
  "os \<Rightarrow> exec_command \<Rightarrow> bool \<Rightarrow> effect list \<Rightarrow> (pid \<times> fd option) option \<times> effect list" where
  "spawn_command os command idle lg =
     (map_option (\<lambda>(pid, gate). (pid, if idle then Some gate else None)) (os_spawn os lg command idle),
      lg @ [E_Spawn command idle])"

fun run_command_list ::
  "os \<Rightarrow> string \<Rightarrow> exec_command list \<Rightarrow> effect list \<Rightarrow> unit result \<times> effect list" where
  "run_command_list os phase [] lg = (Inr (), lg)"
| "run_command_list os phase (command # commands) lg =
     (case run_command os phase command lg of
        (Inl e, lg') \<Rightarrow> (Inl e, lg')
      | (Inr outcome, lg') \<Rightarrow>
          if \<not> outcome_is_success outcome
          then (Inl (Command_Failed phase (cmd_path command) outcome), lg')
          else run_command_list os phase commands lg')"

definition run_start_post ::
  "os \<Rightarrow> service_section \<Rightarrow> effect list \<Rightarrow> unit result \<times> effect list" where
  "run_start_post os section lg =
     run_command_list os ''ExecStartPost'' (exec_start_post (svc section)) lg"

definition run_stop_post ::
  "os \<Rightarrow> service_section \<Rightarrow> unit_record \<Rightarrow> effect list \<Rightarrow> unit_record \<times> effect list" where
  "run_stop_post os section r lg =
     (case run_command_list os ''ExecStopPost'' (exec_stop_post (svc section)) lg of
        (Inl _, lg') \<Rightarrow> (r\<lparr> state := Failed \<rparr>, lg')
      | (Inr _, lg') \<Rightarrow> (r, lg'))"

definition release_idle_gate :: "unit_record \<Rightarrow> effect list \<Rightarrow> unit_record \<times> effect list" where
  "release_idle_gate r lg =
     (case idle_gate_fd r of
        Some fd \<Rightarrow> (r\<lparr> idle_gate_fd := None \<rparr>, lg @ [E_Close fd])
      | None \<Rightarrow> (r, lg))"

definition pid_file_path :: "service_section \<Rightarrow> string" where
  "pid_file_path section =
     (if starts_with (pid_file (svc section)) ''/'' then pid_file (svc section)
      else ''/run/'' @ pid_file (svc section))"

definition remove_pid_file :: "service_section \<Rightarrow> effect list \<Rightarrow> effect list" where
  "remove_pid_file section lg =
     (if pid_file (svc section) = [] then lg else lg @ [E_Remove_File (pid_file_path section)])"

definition service_result_from_exit :: "child_exit \<Rightarrow> string" where
  "service_result_from_exit e =
     (if exit_code e = CLD_DUMPED then ''core-dump''
      else if exit_code e = CLD_KILLED then ''signal''
      else ''exit-code'')"

definition is_success :: "child_exit \<Rightarrow> exec_flags option \<Rightarrow> service_section \<Rightarrow> bool" where
  "is_success e flags section =
     (if (case flags of Some w \<Rightarrow> contains w IGNORE_FAILURE | None \<Rightarrow> False) then True
      else if exit_code e = CLD_EXITED then
        exit_status e = 0
        \<or> exit_status_set_matches (success_exit_status (svc section)) (exit_code e) (exit_status e)
      else if exit_code e = CLD_KILLED then
        (service_type_of (svc section) \<noteq> Oneshot
           \<and> exit_status e \<in> {SIGHUP, SIGINT, SIGTERM, SIGPIPE})
        \<or> exit_status_set_matches (success_exit_status (svc section)) (exit_code e) (exit_status e)
      else False)"

definition restart_requested :: "service_section \<Rightarrow> child_exit \<Rightarrow> string \<Rightarrow> bool" where
  "restart_requested section e result =
     (if exit_status_set_matches (restart_prevent_exit_status (svc section)) (exit_code e) (exit_status e)
      then False
      else if exit_status_set_matches (restart_force_exit_status (svc section)) (exit_code e) (exit_status e)
      then \<not> (service_type_of (svc section) = Oneshot \<and> result = ''success'')
      else should_restart_result (restart_of (svc section)) result)"

definition first_flags :: "service_section \<Rightarrow> exec_flags option" where
  "first_flags section =
     (case exec_start (svc section) of [] \<Rightarrow> None | c # _ \<Rightarrow> Some (cmd_flags c))"

definition watchdog_usec :: "service_section \<Rightarrow> int \<Rightarrow> nat" where
  "watchdog_usec section notify_fd =
     (if notify_fd < 0 then 0
      else case watchdog_sec (svc section) of None \<Rightarrow> 0 | Some d \<Rightarrow> min u64_max d)"

section \<open>Activation\<close>

definition allocate_dynamic_user ::
  "os \<Rightarrow> string \<Rightarrow> service_section \<Rightarrow> effect list \<Rightarrow> nat option result \<times> effect list" where
  "allocate_dynamic_user os name section lg =
     (if \<not> dynamic_user (exc section) then (Inr None, lg)
      else case os_alloc_user os lg name of
        None \<Rightarrow> (Inl (User_Failed name), lg @ [E_Alloc_User name])
      | Some uid \<Rightarrow> (Inr (Some uid), lg @ [E_Alloc_User name]))"

datatype condition_result = Proceed | Skip

fun run_conditions ::
  "os \<Rightarrow> exec_command list \<Rightarrow> effect list \<Rightarrow> condition_result result \<times> effect list" where
  "run_conditions os [] lg = (Inr Proceed, lg)"
| "run_conditions os (command # commands) lg =
     (case run_command os ''ExecCondition'' command lg of
        (Inl e, lg') \<Rightarrow> (Inl e, lg')
      | (Inr outcome, lg') \<Rightarrow>
          if condition_skips outcome then (Inr Skip, lg')
          else if \<not> outcome_is_success outcome
          then (Inl (Command_Failed ''ExecCondition'' (cmd_path command) outcome), lg')
          else run_conditions os commands lg')"

text \<open>The commands of a \<open>Type=oneshot\<close> service; the second part tells whether
  \<open>ExecStopPost=\<close> is to run after a failure.\<close>

fun run_oneshot ::
  "os \<Rightarrow> exec_command list \<Rightarrow> effect list \<Rightarrow> (unit result \<times> bool) \<times> effect list" where
  "run_oneshot os [] lg = ((Inr (), False), lg)"
| "run_oneshot os (command # commands) lg =
     (case run_command os ''ExecStart'' command lg of
        (Inl e, lg') \<Rightarrow> ((Inl e, False), lg')
      | (Inr outcome, lg') \<Rightarrow>
          if \<not> outcome_is_success outcome
          then ((Inl (Command_Failed ''ExecStart'' (cmd_path command) outcome), True), lg')
          else run_oneshot os commands lg')"

definition activate_oneshot ::
  "os \<Rightarrow> service_section \<Rightarrow> unit_record \<Rightarrow> effect list \<Rightarrow> unit result \<times> unit_record \<times> effect list" where
  "activate_oneshot os section r lg =
     (case run_oneshot os (exec_start (svc section)) lg of
        ((Inl e, stop_post), lg) \<Rightarrow>
          (let r = r\<lparr> state := Failed \<rparr>
           in if stop_post then (let (r, lg) = run_stop_post os section r lg in (Inl e, r, lg))
              else (Inl e, r, lg))
      | ((Inr _, _), lg) \<Rightarrow>
          (case run_command_list os ''ExecStartPost'' (exec_start_post (svc section)) lg of
             (Inl e, lg) \<Rightarrow> (Inl e, r\<lparr> state := Failed \<rparr>, lg)
           | (Inr _, lg) \<Rightarrow>
               if remain_after_exit (svc section) then (Inr (), r\<lparr> state := Active \<rparr>, lg)
               else (Inr (), r\<lparr> dynamic_user_of := None, state := Inactive \<rparr>, lg)))"

definition activate_main ::
  "os \<Rightarrow> service_section \<Rightarrow> unit_record \<Rightarrow> effect list \<Rightarrow> unit result \<times> unit_record \<times> effect list" where
  "activate_main os section r lg =
     (let command = hd (exec_start (svc section));
          type = service_type_of (svc section)
      in case spawn_command os command (type = Idle) lg of
           (None, lg) \<Rightarrow>
             (let (r, lg) = run_stop_post os section (r\<lparr> state := Failed \<rparr>) lg
              in (Inl Spawn_Failed, r\<lparr> dynamic_user_of := None \<rparr>, lg))
         | (Some (pid, gate), lg) \<Rightarrow>
             (let r = (if type = Forking then r\<lparr> control_pid := Some pid, active_pid := None \<rparr>
                       else r\<lparr> active_pid := Some pid, control_pid := None \<rparr>);
                  r = r\<lparr> idle_gate_fd := gate,
                         state := (if type \<in> {Simple, ExecType, Idle} then Active else Activating) \<rparr>
              in if type \<in> {Forking, Notify, NotifyReload, Dbus} then (Inr (), r, lg)
                 else case run_start_post os section lg of
                   (Inr _, lg) \<Rightarrow> (Inr (), r, lg)
                 | (Inl e, lg) \<Rightarrow>
                     (let lg = (case active_pid r of Some pid \<Rightarrow> lg @ [E_Kill pid SIGTERM] | None \<Rightarrow> lg);
                          (r, lg) = release_idle_gate r lg
                      in (Inl e, r\<lparr> state := Failed \<rparr>, lg))))"

definition activate ::
  "os \<Rightarrow> unit_record \<Rightarrow> effect list \<Rightarrow> unit result \<times> unit_record \<times> effect list" where
  "activate os r lg =
     (let (r, lg) = release_idle_gate r lg
      in case loaded r of
           Service name us section \<Rightarrow>
             if \<not> evaluate_list (os_probe os lg) (conditions us)
             then (Inr (), r\<lparr> state := Inactive \<rparr>, lg)
             else
               (let r = r\<lparr> service_result := ''success'', stop_requested := False, exec_main_code := 0,
                           exec_main_status := 0, active_pid := None, control_pid := None \<rparr>
                in if exec_start (svc section) = []
                   then (Inl (No_Exec_Start name), r\<lparr> state := Failed \<rparr>, lg)
                   else if service_type_of (svc section) \<noteq> Oneshot \<and> length (exec_start (svc section)) \<noteq> 1
                   then (Inl (Multiple_Exec_Start name), r\<lparr> state := Failed \<rparr>, lg)
                   else if service_type_of (svc section) = Dbus \<and> bus_name (svc section) = []
                   then (Inl (No_Bus_Name name), r\<lparr> state := Failed \<rparr>, lg)
                   else case allocate_dynamic_user os name section lg of
                     (Inl e, lg) \<Rightarrow> (Inl e, r\<lparr> state := Failed \<rparr>, lg)
                   | (Inr user, lg) \<Rightarrow>
                       if \<not> os_prepare_dirs os lg
                       then (Inl (Directories_Failed name), r\<lparr> state := Failed \<rparr>, lg @ [E_Prepare_Dirs])
                       else case run_conditions os (exec_condition (svc section)) (lg @ [E_Prepare_Dirs]) of
                         (Inl e, lg) \<Rightarrow> (Inl e, r\<lparr> state := Failed \<rparr>, lg)
                       | (Inr Skip, lg) \<Rightarrow> (Inr (), r\<lparr> state := Inactive \<rparr>, lg)
                       | (Inr Proceed, lg) \<Rightarrow>
                           (case run_command_list os ''ExecStartPre'' (exec_start_pre (svc section)) lg of
                              (Inl e, lg) \<Rightarrow> (Inl e, r\<lparr> state := Failed \<rparr>, lg)
                            | (Inr _, lg) \<Rightarrow>
                                (let r = r\<lparr> dynamic_user_of := user, state := Activating \<rparr>
                                 in if service_type_of (svc section) = Oneshot
                                    then activate_oneshot os section r lg
                                    else activate_main os section r lg)))
         | l \<Rightarrow> (Inl (Not_Service (unit_name l)), r, lg))"

section \<open>Deactivation and reload\<close>

definition deactivate ::
  "os \<Rightarrow> kill_operation \<Rightarrow> unit_record \<Rightarrow> effect list \<Rightarrow> unit_record \<times> effect list" where
  "deactivate os op r lg =
     (case service_of (loaded r) of
        None \<Rightarrow> (r\<lparr> state := Inactive \<rparr>, lg)
      | Some section \<Rightarrow>
          (let r = r\<lparr> stop_requested := True \<rparr>;
               lg = snd (run_command_list os ''ExecStop'' (exec_stop (svc section)) lg)
           in if active_pid r \<noteq> None \<or> control_pid r \<noteq> None then
                (let lg = snd (signal_primary os (kill_policy_from_service (svc section))
                                 (active_pid r) (control_pid r) op lg);
                     (r, lg) = release_idle_gate r lg
                 in (r\<lparr> state := Deactivating \<rparr>, lg))
              else
                (let (r, lg) = run_stop_post os section (r\<lparr> state := Inactive \<rparr>) lg
                 in (r\<lparr> dynamic_user_of := None \<rparr>, lg))))"

definition reload ::
  "os \<Rightarrow> unit_record \<Rightarrow> effect list \<Rightarrow> unit result \<times> effect list" where
  "reload os r lg =
     (case service_of (loaded r) of
        None \<Rightarrow> (Inl (Not_Service (unit_name (loaded r))), lg)
      | Some section \<Rightarrow>
          if state r \<noteq> Active then (Inl (Not_Active (unit_name (loaded r))), lg)
          else if exec_reload (svc section) = [] then (Inl (No_Exec_Reload (unit_name (loaded r))), lg)
          else run_command_list os ''ExecReload'' (exec_reload (svc section)) lg)"

section \<open>Readiness\<close>

text \<open>The end of an activation that waited for readiness, shared by both service types.\<close>

definition complete_start ::
  "os \<Rightarrow> service_section \<Rightarrow> unit_record \<Rightarrow> effect list \<Rightarrow> bool result \<times> unit_record \<times> effect list" where
  "complete_start os section r lg =
     (case run_start_post os section lg of
        (Inl e, lg) \<Rightarrow>
          (Inl e, r\<lparr> state := Failed, service_result := ''exit-code'' \<rparr>,
           case active_pid r of Some pid \<Rightarrow> lg @ [E_Kill pid SIGTERM] | None \<Rightarrow> lg)
      | (Inr _, lg) \<Rightarrow> (Inr True, r\<lparr> state := Active, service_result := ''success'' \<rparr>, lg))"

definition complete_notify_start ::
  "os \<Rightarrow> unit_record \<Rightarrow> effect list \<Rightarrow> bool result \<times> unit_record \<times> effect list" where
  "complete_notify_start os r lg =
     (case service_of (loaded r) of
        None \<Rightarrow> (Inr False, r, lg)
      | Some section \<Rightarrow>
          if service_type_of (svc section) \<notin> {Notify, NotifyReload} \<or> state r \<noteq> Activating
          then (Inr False, r, lg)
          else complete_start os section r lg)"

definition complete_dbus_start ::
  "os \<Rightarrow> unit_record \<Rightarrow> effect list \<Rightarrow> bool result \<times> unit_record \<times> effect list" where
  "complete_dbus_start os r lg =
     (case service_of (loaded r) of
        None \<Rightarrow> (Inr False, r, lg)
      | Some section \<Rightarrow>
          if service_type_of (svc section) \<noteq> Dbus \<or> state r \<noteq> Activating then (Inr False, r, lg)
          else complete_start os section r lg)"

section \<open>Forking services\<close>

definition fail_forking_start ::
  "os \<Rightarrow> service_section \<Rightarrow> string \<Rightarrow> unit_record \<Rightarrow> effect list \<Rightarrow> unit_record \<times> effect list" where
  "fail_forking_start os section result r lg =
     (let (r, lg) = run_stop_post os section (r\<lparr> state := Failed, service_result := result \<rparr>) lg
      in (r\<lparr> dynamic_user_of := None \<rparr>, remove_pid_file section lg))"

definition finish_forking_start ::
  "os \<Rightarrow> service_section \<Rightarrow> pid option \<Rightarrow> unit_record \<Rightarrow> effect list
   \<Rightarrow> unit result \<times> unit_record \<times> effect list" where
  "finish_forking_start os section main_pid r lg =
     (let r = r\<lparr> active_pid := main_pid \<rparr>
      in case run_start_post os section lg of
           (Inl e, lg) \<Rightarrow>
             (let lg = (case active_pid r of Some pid \<Rightarrow> lg @ [E_Kill pid SIGTERM] | None \<Rightarrow> lg);
                  (r, lg) = fail_forking_start os section ''exit-code'' r lg
              in (Inl e, r, lg))
         | (Inr _, lg) \<Rightarrow> (Inr (), r\<lparr> state := Active, service_result := ''success'' \<rparr>, lg))"

definition pid_in_cgroup_tree :: "os \<Rightarrow> effect list \<Rightarrow> pid \<Rightarrow> string \<Rightarrow> bool" where
  "pid_in_cgroup_tree os lg pid procs \<longleftrightarrow> pid \<in> set (os_cgroup_pids os lg procs)"

definition cgroup_tree_populated :: "os \<Rightarrow> effect list \<Rightarrow> string \<Rightarrow> bool" where
  "cgroup_tree_populated os lg procs \<longleftrightarrow> os_cgroup_pids os lg procs \<noteq> []"

definition guess_main_pid_from_cgroup :: "os \<Rightarrow> effect list \<Rightarrow> string option \<Rightarrow> pid option" where
  "guess_main_pid_from_cgroup os lg cg =
     (case cg of
        None \<Rightarrow> None
      | Some procs \<Rightarrow>
          (case remdups (filter (\<lambda>pid. 0 < pid \<and> os_alive os lg pid) (os_cgroup_pids os lg procs)) of
             [pid] \<Rightarrow> Some pid
           | _ \<Rightarrow> None))"

definition read_pid_file :: "os \<Rightarrow> service_section \<Rightarrow> string option \<Rightarrow> effect list \<Rightarrow> pid result" where
  "read_pid_file os section cg lg =
     (let path = pid_file_path section;
          questionable_path = os_symlink os lg path
      in case os_file_uid os lg path of
           Inl k \<Rightarrow> Inl (Io_Error k)
         | Inr owner \<Rightarrow>
             (case os_read_file os lg path of
                Inl k \<Rightarrow> Inl (Io_Error k)
              | Inr contents \<Rightarrow>
                  (case split_whitespace contents of
                     [] \<Rightarrow> Inl (Io_Error WouldBlock)
                   | raw_pid # _ \<Rightarrow>
                       (case parse_i32 raw_pid of
                          None \<Rightarrow> Inl Invalid_Pid
                        | Some pid \<Rightarrow>
                            if pid \<le> 0 \<or> \<not> os_alive os lg pid then Inl (Io_Error WouldBlock)
                            else if pid = 1 \<or> pid = os_self_pid os then Inl Manager_Pid
                            else
                              (let belongs_to_service =
                                     (case cg of Some procs \<Rightarrow> pid_in_cgroup_tree os lg pid procs | None \<Rightarrow> False)
                               in if questionable_path \<and> \<not> belongs_to_service then Inl Unsafe_Symlink
                                  else if \<not> belongs_to_service \<and> owner \<noteq> os_euid os then Inl Foreign_Pid
                                  else Inr pid)))))"

fun pid_file_not_ready :: "service_error \<Rightarrow> bool" where
  "pid_file_not_ready (Io_Error k) = (k = NotFound \<or> k = WouldBlock)"
| "pid_file_not_ready _ = False"

definition on_forking_control_exit ::
  "os \<Rightarrow> string option \<Rightarrow> child_exit \<Rightarrow> unit_record \<Rightarrow> effect list
   \<Rightarrow> bool result \<times> unit_record \<times> effect list" where
  "on_forking_control_exit os cg e r lg =
     (if control_pid r \<noteq> Some (exit_pid e) then (Inr False, r, lg)
      else case service_of (loaded r) of
        None \<Rightarrow> (Inr False, r, lg)
      | Some section \<Rightarrow>
          if service_type_of (svc section) \<noteq> Forking then (Inr False, r, lg)
          else
            (let r = r\<lparr> control_pid := None \<rparr>
             in if \<not> is_success e (first_flags section) section then
                  (let (r, lg) = run_stop_post os section
                         (r\<lparr> state := Failed, service_result := service_result_from_exit e \<rparr>) lg
                   in (Inr True, r\<lparr> dynamic_user_of := None \<rparr>, remove_pid_file section lg))
                else if pid_file (svc section) = [] then
                  (let main_pid = (if guess_main_pid (svc section)
                                   then guess_main_pid_from_cgroup os lg cg else None)
                   in case finish_forking_start os section main_pid r lg of
                        (Inl err, r, lg) \<Rightarrow> (Inl err, r, lg)
                      | (Inr _, r, lg) \<Rightarrow> (Inr True, r, lg))
                else
                  (case read_pid_file os section cg lg of
                     Inr pid \<Rightarrow>
                       (case finish_forking_start os section (Some pid) r lg of
                          (Inl err, r, lg) \<Rightarrow> (Inl err, r, lg)
                        | (Inr _, r, lg) \<Rightarrow> (Inr True, r, lg))
                   | Inl err \<Rightarrow>
                       if pid_file_not_ready err then (Inr True, r, lg)
                       else (let (r, lg) = fail_forking_start os section ''protocol'' r lg
                             in (Inl err, r, lg)))))"

definition forking_pid_file_pending :: "unit_record \<Rightarrow> bool" where
  "forking_pid_file_pending r =
     (case service_of (loaded r) of
        Some section \<Rightarrow>
          service_type_of (svc section) = Forking \<and> pid_file (svc section) \<noteq> []
          \<and> state r = Activating \<and> control_pid r = None \<and> active_pid r = None
      | None \<Rightarrow> False)"

definition retry_forking_pid_file ::
  "os \<Rightarrow> string option \<Rightarrow> unit_record \<Rightarrow> effect list \<Rightarrow> bool result \<times> unit_record \<times> effect list" where
  "retry_forking_pid_file os cg r lg =
     (if \<not> forking_pid_file_pending r then (Inr False, r, lg)
      else case service_of (loaded r) of
        None \<Rightarrow> (Inr False, r, lg)
      | Some section \<Rightarrow>
          (case read_pid_file os section cg lg of
             Inr pid \<Rightarrow>
               (case finish_forking_start os section (Some pid) r lg of
                  (Inl err, r, lg) \<Rightarrow> (Inl err, r, lg)
                | (Inr _, r, lg) \<Rightarrow> (Inr True, r, lg))
           | Inl err \<Rightarrow>
               if pid_file_not_ready err then (Inr False, r, lg)
               else (let (r, lg) = fail_forking_start os section ''protocol'' r lg in (Inl err, r, lg))))"

definition on_forking_cgroup_empty ::
  "os \<Rightarrow> unit_record \<Rightarrow> effect list \<Rightarrow> bool \<times> unit_record \<times> effect list" where
  "on_forking_cgroup_empty os r lg =
     (case service_of (loaded r) of
        None \<Rightarrow> (False, r, lg)
      | Some section \<Rightarrow>
          if service_type_of (svc section) \<noteq> Forking \<or> state r \<noteq> Active
             \<or> active_pid r \<noteq> None \<or> control_pid r \<noteq> None
          then (False, r, lg)
          else
            (let (r, lg) = run_stop_post os section
                   (r\<lparr> state := Inactive, service_result := ''success'' \<rparr>) lg
             in (True, r\<lparr> dynamic_user_of := None \<rparr>, remove_pid_file section lg)))"

section \<open>Exits and timeouts\<close>

text \<open>The result of a main process exit and the state it leads to.\<close>

definition exit_result :: "unit_record \<Rightarrow> bool \<Rightarrow> child_exit \<Rightarrow> string" where
  "exit_result r success e =
     (if service_result r = ''resources'' then ''resources''
      else if service_result r = ''timeout'' then ''timeout''
      else if watchdog_triggered r then ''watchdog''
      else if stop_requested r \<or> success then ''success''
      else if exit_code e = CLD_DUMPED then ''core-dump''
      else if exit_code e = CLD_KILLED then ''signal''
      else ''exit-code'')"

definition exit_state :: "service_section \<Rightarrow> bool \<Rightarrow> bool \<Rightarrow> unit_state \<Rightarrow> unit_state" where
  "exit_state section success explicitly_stopping st =
     (case st of
        Activating \<Rightarrow>
          if service_type_of (svc section) = Oneshot \<and> remain_after_exit (svc section) \<and> success
          then Active else if success then Inactive else Failed
      | Active \<Rightarrow> if success then Inactive else Failed
      | Deactivating \<Rightarrow> if explicitly_stopping then Inactive else Failed
      | Failed \<Rightarrow> Failed
      | _ \<Rightarrow> Inactive)"

definition on_child_exit ::
  "os \<Rightarrow> string option \<Rightarrow> child_exit \<Rightarrow> unit_record \<Rightarrow> effect list \<Rightarrow> bool \<times> unit_record \<times> effect list" where
  "on_child_exit os cg e r lg =
     (if active_pid r \<noteq> Some (exit_pid e) then (False, r, lg)
      else case service_of (loaded r) of
        None \<Rightarrow> (False, r, lg)
      | Some section \<Rightarrow>
          (let (r, lg) = release_idle_gate r lg;
               explicitly_stopping = stop_requested r;
               success = is_success e (first_flags section) section;
               result = exit_result r success e;
               r = r\<lparr> active_pid := None, exec_main_code := exit_code e,
                       exec_main_status := exit_status e, service_result := result \<rparr>;
               direct_restart = (restart_mode (svc section) = ''direct'' \<and> \<not> explicitly_stopping
                                 \<and> restart_requested section e result)
           in if exit_type (svc section) = ''cgroup'' \<and> \<not> explicitly_stopping
                 \<and> (case cg of Some procs \<Rightarrow> cgroup_tree_populated os lg procs | None \<Rightarrow> False)
              then (True, r\<lparr> state := Active \<rparr>, lg)
              else
                (let r = r\<lparr> state := (if direct_restart then Active
                                       else exit_state section success explicitly_stopping (state r)) \<rparr>;
                     (r, lg) = run_stop_post os section r lg
                 in (True, r\<lparr> dynamic_user_of := None, stop_requested := False \<rparr>,
                     remove_pid_file section lg))))"

definition on_service_cgroup_empty ::
  "os \<Rightarrow> string option \<Rightarrow> unit_record \<Rightarrow> effect list \<Rightarrow> bool \<times> unit_record \<times> effect list" where
  "on_service_cgroup_empty os cg r lg =
     (case service_of (loaded r) of
        None \<Rightarrow> (False, r, lg)
      | Some section \<Rightarrow>
          if exit_type (svc section) \<noteq> ''cgroup'' \<or> active_pid r \<noteq> None \<or> control_pid r \<noteq> None
             \<or> state r \<notin> {Active, Activating}
             \<or> (case cg of Some procs \<Rightarrow> cgroup_tree_populated os lg procs | None \<Rightarrow> False)
          then (False, r, lg)
          else
            (let r = r\<lparr> state := (if stop_requested r \<or> service_result r = ''success''
                                   then Inactive else Failed) \<rparr>;
                 (r, lg) = run_stop_post os section r lg
             in (True, r\<lparr> dynamic_user_of := None, stop_requested := False \<rparr>,
                 remove_pid_file section lg)))"

definition finish_timeout_failure ::
  "os \<Rightarrow> string \<Rightarrow> unit_record \<Rightarrow> effect list \<Rightarrow> unit_record \<times> effect list" where
  "finish_timeout_failure os result r lg =
     (case service_of (loaded r) of
        None \<Rightarrow> (r\<lparr> state := Failed, service_result := result, stop_requested := False \<rparr>, lg)
      | Some section \<Rightarrow>
          (let (r, lg) = release_idle_gate r lg;
               (r, lg) = run_stop_post os section
                 (r\<lparr> active_pid := None, control_pid := None, state := Failed,
                     service_result := result \<rparr>) lg
           in (r\<lparr> dynamic_user_of := None, stop_requested := False \<rparr>, remove_pid_file section lg)))"

definition on_timeout_cgroup_empty ::
  "os \<Rightarrow> unit_record \<Rightarrow> effect list \<Rightarrow> bool \<times> unit_record \<times> effect list" where
  "on_timeout_cgroup_empty os r lg =
     (if state r \<noteq> Deactivating \<or> active_pid r \<noteq> None \<or> control_pid r \<noteq> None
         \<or> service_result r \<notin> {''timeout'', ''watchdog''}
      then (False, r, lg)
      else (let (r, lg) = finish_timeout_failure os (service_result r) r lg in (True, r, lg)))"

section \<open>Resource limits of a child\<close>

record spawn_rlimit =
  rl_resource :: int
  rl_soft :: nat
  rl_hard :: nat

fun rlimit_raw :: "rlimit_value \<Rightarrow> nat" where
  "rlimit_raw (RValue v) = v"
| "rlimit_raw RInfinity = u64_max"

definition compile_rlimits :: "service_section \<Rightarrow> spawn_rlimit list" where
  "compile_rlimits section =
     (let l = lmt section;
          push = (\<lambda>(resource, value).
            case value of
              Some v \<Rightarrow> [\<lparr> rl_resource = resource, rl_soft = rlimit_raw (soft v), rl_hard = rlimit_raw (hard v) \<rparr>]
            | None \<Rightarrow> [])
      in concat (map push
           [(0, limit_cpu l), (1, limit_fsize l), (2, limit_data l), (3, limit_stack l),
            (4, limit_core l), (5, limit_rss l), (7, limit_nofile l), (9, limit_as l),
            (6, limit_nproc l), (8, limit_memlock l), (10, limit_locks l), (11, limit_sigpending l),
            (12, limit_msgqueue l), (13, limit_nice l), (14, limit_rtprio l), (15, limit_rttime l)]))"

section \<open>Command lists\<close>

definition command_ok :: "os \<Rightarrow> effect list \<Rightarrow> exec_command \<Rightarrow> bool" where
  "command_ok os lg c \<longleftrightarrow>
     (case os_run os lg c of
        None \<Rightarrow> False
      | Some status \<Rightarrow> status = Exited 0 \<or> contains (cmd_flags c) IGNORE_FAILURE)"

text \<open>All commands of a list, run one after the other, end well.\<close>

fun all_succeed :: "os \<Rightarrow> string \<Rightarrow> exec_command list \<Rightarrow> effect list \<Rightarrow> bool" where
  "all_succeed os phase [] lg = True"
| "all_succeed os phase (c # cs) lg \<longleftrightarrow>
     command_ok os lg c \<and> all_succeed os phase cs (lg @ [E_Run phase c])"

lemma run_command_cases:
  "run_command os phase c lg =
     (case os_run os lg c of None \<Rightarrow> Inl Spawn_Failed | Some st \<Rightarrow> Inr (wait_for_command st (cmd_flags c)),
      lg @ [E_Run phase c])"
  by (simp add: run_command_def split: option.split)

lemma outcome_success_wait:
  "outcome_is_success (wait_for_command st fl) \<longleftrightarrow> st = Exited 0 \<or> contains fl IGNORE_FAILURE"
  by (cases st) (auto simp: wait_for_command_def outcome_is_success_def Let_def)

lemma condition_skips_not_success:
  "condition_skips oc \<Longrightarrow> \<not> outcome_is_success oc"
  by (auto simp: condition_skips_def outcome_is_success_def split: option.splits)

lemma run_command_list_ok:
  "all_succeed os phase cs lg \<Longrightarrow>
     run_command_list os phase cs lg = (Inr (), lg @ map (E_Run phase) cs)"
  by (induction os phase cs lg rule: all_succeed.induct)
    (auto simp: run_command_cases command_ok_def outcome_success_wait split: option.splits)

lemma run_command_list_fail:
  "\<not> all_succeed os phase cs lg \<Longrightarrow>
     \<exists>e k. k < length cs
       \<and> run_command_list os phase cs lg = (Inl e, lg @ map (E_Run phase) (take (Suc k) cs))"
proof (induction os phase cs lg rule: all_succeed.induct)
  case (2 os phase c cs lg)
  show ?case
  proof (cases "command_ok os lg c")
    case True
    then have "\<not> all_succeed os phase cs (lg @ [E_Run phase c])" using 2 by simp
    then obtain e k where "k < length cs"
      and "run_command_list os phase cs (lg @ [E_Run phase c]) =
        (Inl e, (lg @ [E_Run phase c]) @ map (E_Run phase) (take (Suc k) cs))"
      using "2.IH" by blast
    then show ?thesis
      using True by (intro exI [of _ e] exI [of _ "Suc k"])
        (auto simp: run_command_cases command_ok_def outcome_success_wait split: option.splits)
  next
    case False
    then show ?thesis
      by (intro exI [of _ "projl (fst (run_command_list os phase (c # cs) lg))"] exI [of _ 0])
        (auto simp: run_command_cases command_ok_def outcome_success_wait split: option.splits)
  qed
qed simp

lemma run_conditions_ok:
  "all_succeed os ''ExecCondition'' cs lg \<Longrightarrow>
     run_conditions os cs lg = (Inr Proceed, lg @ map (E_Run ''ExecCondition'') cs)"
proof (induction cs arbitrary: lg)
  case (Cons c cs)
  then obtain st where "os_run os lg c = Some st" "st = Exited 0 \<or> contains (cmd_flags c) IGNORE_FAILURE"
    by (auto simp: command_ok_def split: option.splits)
  moreover from this have "\<not> condition_skips (wait_for_command st (cmd_flags c))"
    using condition_skips_not_success outcome_success_wait by blast
  ultimately show ?case
    using Cons by (simp add: run_command_cases outcome_success_wait)
qed simp

lemma run_conditions_fail:
  "\<not> all_succeed os ''ExecCondition'' cs lg \<Longrightarrow>
     \<exists>res k. k < length cs \<and> res \<noteq> Inr Proceed
       \<and> run_conditions os cs lg = (res, lg @ map (E_Run ''ExecCondition'') (take (Suc k) cs))"
proof (induction cs arbitrary: lg)
  case (Cons c cs)
  show ?case
  proof (cases "command_ok os lg c")
    case True
    then obtain st where st: "os_run os lg c = Some st"
        "st = Exited 0 \<or> contains (cmd_flags c) IGNORE_FAILURE"
      by (auto simp: command_ok_def split: option.splits)
    then have no_skip: "\<not> condition_skips (wait_for_command st (cmd_flags c))"
      using condition_skips_not_success outcome_success_wait by blast
    from True Cons.prems have "\<not> all_succeed os ''ExecCondition'' cs (lg @ [E_Run ''ExecCondition'' c])"
      by simp
    then obtain res k where "k < length cs" "res \<noteq> Inr Proceed"
      "run_conditions os cs (lg @ [E_Run ''ExecCondition'' c]) =
        (res, (lg @ [E_Run ''ExecCondition'' c]) @ map (E_Run ''ExecCondition'') (take (Suc k) cs))"
      using Cons.IH by blast
    then show ?thesis
      using st no_skip by (intro exI [of _ res] exI [of _ "Suc k"])
        (simp add: run_command_cases outcome_success_wait)
  next
    case False
    then show ?thesis
      by (intro exI [of _ "fst (run_conditions os (c # cs) lg)"] exI [of _ 0])
        (auto simp: run_command_cases command_ok_def outcome_success_wait split: option.splits)
  qed
qed simp

lemma run_oneshot_ok:
  "all_succeed os ''ExecStart'' cs lg \<Longrightarrow>
     run_oneshot os cs lg = ((Inr (), False), lg @ map (E_Run ''ExecStart'') cs)"
  by (induction cs arbitrary: lg)
    (auto simp: run_command_cases command_ok_def outcome_success_wait split: option.splits)

lemma run_oneshot_fail:
  "\<not> all_succeed os ''ExecStart'' cs lg \<Longrightarrow>
     \<exists>e b k. k < length cs
       \<and> run_oneshot os cs lg = ((Inl e, b), lg @ map (E_Run ''ExecStart'') (take (Suc k) cs))"
proof (induction cs arbitrary: lg)
  case (Cons c cs)
  show ?case
  proof (cases "command_ok os lg c")
    case True
    with Cons.prems have "\<not> all_succeed os ''ExecStart'' cs (lg @ [E_Run ''ExecStart'' c])" by simp
    then obtain e b k where "k < length cs"
      "run_oneshot os cs (lg @ [E_Run ''ExecStart'' c]) =
        ((Inl e, b), (lg @ [E_Run ''ExecStart'' c]) @ map (E_Run ''ExecStart'') (take (Suc k) cs))"
      using Cons.IH by blast
    then show ?thesis
      using True by (intro exI [of _ e] exI [of _ b] exI [of _ "Suc k"])
        (auto simp: run_command_cases command_ok_def outcome_success_wait split: option.splits)
  next
    case False
    then have "\<exists>e b. run_oneshot os (c # cs) lg = ((Inl e, b), lg @ [E_Run ''ExecStart'' c])"
      by (auto simp: run_command_cases command_ok_def outcome_success_wait split: option.splits)
    then show ?thesis by fastforce
  qed
qed simp

section \<open>When a service starts\<close>

definition user_log :: "string \<Rightarrow> service_section \<Rightarrow> effect list \<Rightarrow> effect list" where
  "user_log name section lg = (if dynamic_user (exc section) then lg @ [E_Alloc_User name] else lg)"

definition condition_log :: "string \<Rightarrow> service_section \<Rightarrow> effect list \<Rightarrow> effect list" where
  "condition_log name section lg =
     user_log name section lg @ E_Prepare_Dirs # map (E_Run ''ExecCondition'') (exec_condition (svc section))"

text \<open>What has happened by the time the first start command runs.\<close>

definition setup_log :: "string \<Rightarrow> service_section \<Rightarrow> effect list \<Rightarrow> effect list" where
  "setup_log name section lg =
     condition_log name section lg @ map (E_Run ''ExecStartPre'') (exec_start_pre (svc section))"

text \<open>A start section that can be started at all.\<close>

definition start_section_ok :: "service_section \<Rightarrow> bool" where
  "start_section_ok section \<longleftrightarrow>
     exec_start (svc section) \<noteq> []
     \<and> (service_type_of (svc section) \<noteq> Oneshot \<longrightarrow> length (exec_start (svc section)) = 1)
     \<and> (service_type_of (svc section) = Dbus \<longrightarrow> bus_name (svc section) \<noteq> [])"

text \<open>Everything that has to hold before the first start command runs.\<close>

definition start_allowed :: "os \<Rightarrow> string \<Rightarrow> unit_section \<Rightarrow> service_section \<Rightarrow> effect list \<Rightarrow> bool" where
  "start_allowed os name us section lg \<longleftrightarrow>
     evaluate_list (os_probe os lg) (conditions us)
     \<and> start_section_ok section
     \<and> (dynamic_user (exc section) \<longrightarrow> os_alloc_user os lg name \<noteq> None)
     \<and> os_prepare_dirs os (user_log name section lg)
     \<and> all_succeed os ''ExecCondition'' (exec_condition (svc section))
         (user_log name section lg @ [E_Prepare_Dirs])
     \<and> all_succeed os ''ExecStartPre'' (exec_start_pre (svc section)) (condition_log name section lg)"

definition start_effect :: "effect \<Rightarrow> bool" where
  "start_effect e \<longleftrightarrow> (case e of E_Spawn _ _ \<Rightarrow> True | E_Run phase _ \<Rightarrow> phase = ''ExecStart'' | _ \<Rightarrow> False)"

lemma start_effect_simps [simp]:
  "start_effect (E_Spawn c b)" "\<not> start_effect (E_Alloc_User n)" "\<not> start_effect E_Prepare_Dirs"
  "start_effect (E_Run phase c) \<longleftrightarrow> phase = ''ExecStart''" "\<not> start_effect (E_Kill p s)"
  "\<not> start_effect (E_Close fd)"
  by (simp_all add: start_effect_def)

lemma allocate_dynamic_user_log:
  "snd (allocate_dynamic_user os name section lg) = user_log name section lg"
  by (simp add: allocate_dynamic_user_def user_log_def split: option.split)

lemma allocate_dynamic_user_ok:
  "(\<exists>user. fst (allocate_dynamic_user os name section lg) = Inr user) \<longleftrightarrow>
     (dynamic_user (exc section) \<longrightarrow> os_alloc_user os lg name \<noteq> None)"
  by (simp add: allocate_dynamic_user_def split: option.split)

text \<open>The record an activation works on once the gate of an earlier run is released.\<close>

definition start_record :: "unit_record \<Rightarrow> unit_record" where
  "start_record r =
     r\<lparr> idle_gate_fd := None, service_result := ''success'', stop_requested := False, exec_main_code := 0,
        exec_main_status := 0, active_pid := None, control_pid := None \<rparr>"

lemma release_idle_gate_record: "fst (release_idle_gate r lg) = r\<lparr> idle_gate_fd := None \<rparr>"
  by (cases r) (simp add: release_idle_gate_def split: option.split)

lemma release_idle_gate_log:
  "snd (release_idle_gate r lg) =
     lg @ (case idle_gate_fd r of Some fd \<Rightarrow> [E_Close fd] | None \<Rightarrow> [])"
  by (simp add: release_idle_gate_def split: option.split)

lemma release_idle_gate_eq:
  "release_idle_gate r lg =
     (r\<lparr> idle_gate_fd := None \<rparr>, lg @ (case idle_gate_fd r of Some fd \<Rightarrow> [E_Close fd] | None \<Rightarrow> []))"
  using release_idle_gate_record release_idle_gate_log by (metis prod.collapse)

lemma activate_allowed:
  assumes "loaded r = Service name us section"
    and "start_allowed os name us section (snd (release_idle_gate r lg))"
  shows "\<exists>user. activate os r lg =
      (if service_type_of (svc section) = Oneshot then activate_oneshot else activate_main) os section
        (start_record r \<lparr> dynamic_user_of := user, state := Activating \<rparr>)
        (setup_log name section (snd (release_idle_gate r lg)))"
proof -
  define lg0 where "lg0 = snd (release_idle_gate r lg)"
  have gate: "release_idle_gate r lg = (r\<lparr> idle_gate_fd := None \<rparr>, lg0)"
    by (simp add: lg0_def release_idle_gate_eq)
  from assms(2) have ok: "start_allowed os name us section lg0" by (simp add: lg0_def)
  then obtain user where user:
    "allocate_dynamic_user os name section lg0 = (Inr user, user_log name section lg0)"
    using allocate_dynamic_user_ok allocate_dynamic_user_log
    unfolding start_allowed_def by (metis prod.collapse)
  have conds: "run_conditions os (exec_condition (svc section))
      (user_log name section lg0 @ [E_Prepare_Dirs]) = (Inr Proceed, condition_log name section lg0)"
    using ok run_conditions_ok by (simp add: start_allowed_def condition_log_def)
  have pre: "run_command_list os ''ExecStartPre'' (exec_start_pre (svc section))
      (condition_log name section lg0) = (Inr (), setup_log name section lg0)"
    using ok run_command_list_ok by (simp add: start_allowed_def setup_log_def)
  show ?thesis
    using ok assms(1)
    by (intro exI [of _ user])
      (auto simp: activate_def gate user conds pre start_allowed_def start_section_ok_def
        start_record_def lg0_def [symmetric])
qed

text \<open>How an activation ends that never reaches a start command.\<close>

definition refused :: "unit_record \<Rightarrow> unit result \<Rightarrow> unit_record \<Rightarrow> bool" where
  "refused r res r' \<longleftrightarrow>
     isl res \<and> r' = start_record r \<lparr> state := Failed \<rparr>
     \<or> res = Inr () \<and> (r' = start_record r \<lparr> state := Inactive \<rparr>
                        \<or> r' = r\<lparr> idle_gate_fd := None, state := Inactive \<rparr>)"


lemma activate_refused:
  assumes loaded: "loaded r = Service name us section"
    and no: "\<not> start_allowed os name us section (snd (release_idle_gate r lg))"
  shows "\<exists>res r' new. activate os r lg = (res, r', snd (release_idle_gate r lg) @ new)
     \<and> (\<forall>e\<in>set new. \<not> start_effect e) \<and> refused r res r'"
proof -
  define lg0 where "lg0 = snd (release_idle_gate r lg)"
  have gate: "release_idle_gate r lg = (r\<lparr> idle_gate_fd := None \<rparr>, lg0)"
    by (simp add: lg0_def release_idle_gate_eq)
  define lg1 where "lg1 = user_log name section lg0"
  have lg1: "\<exists>new. lg1 = lg0 @ new \<and> (\<forall>e\<in>set new. \<not> start_effect e)"
    by (auto simp: lg1_def user_log_def)
  have user_log: "snd (allocate_dynamic_user os name section lg0) = lg1"
    by (simp add: lg1_def allocate_dynamic_user_log)
  note basics = activate_def start_record_def
  consider "\<not> evaluate_list (os_probe os lg0) (conditions us) \<or> \<not> start_section_ok section"
    | e where "evaluate_list (os_probe os lg0) (conditions us)" "start_section_ok section"
        "allocate_dynamic_user os name section lg0 = (Inl e, lg1)"
    | u where "evaluate_list (os_probe os lg0) (conditions us)" "start_section_ok section"
        "allocate_dynamic_user os name section lg0 = (Inr u, lg1)"
    using user_log
    by (cases "allocate_dynamic_user os name section lg0";
        cases "fst (allocate_dynamic_user os name section lg0)") auto
  then have "\<exists>res r' new. activate os r lg = (res, r', lg0 @ new)
     \<and> (\<forall>e\<in>set new. \<not> start_effect e) \<and> refused r res r'"
  proof cases
    case 1
    then consider "\<not> evaluate_list (os_probe os lg0) (conditions us)"
      | "evaluate_list (os_probe os lg0) (conditions us)" "exec_start (svc section) = []"
      | "evaluate_list (os_probe os lg0) (conditions us)" "exec_start (svc section) \<noteq> []"
        "service_type_of (svc section) \<noteq> Oneshot \<and> length (exec_start (svc section)) \<noteq> 1"
      | "evaluate_list (os_probe os lg0) (conditions us)" "exec_start (svc section) \<noteq> []"
        "\<not> (service_type_of (svc section) \<noteq> Oneshot \<and> length (exec_start (svc section)) \<noteq> 1)"
        "service_type_of (svc section) = Dbus \<and> bus_name (svc section) = []"
      unfolding start_section_ok_def by blast
    then show ?thesis
      by cases (simp_all add: basics gate loaded refused_def)
  next
    case 2
    then have "activate os r lg = (Inl e, start_record r \<lparr> state := Failed \<rparr>, lg1)"
      unfolding basics by (auto simp add: gate loaded start_section_ok_def)
    then show ?thesis using lg1 by (auto simp: refused_def)
  next
    case 3
    note ok = 3
    then have user: "dynamic_user (exc section) \<longrightarrow> os_alloc_user os lg0 name \<noteq> None"
      using allocate_dynamic_user_ok by (metis fst_conv)
    define lg2 where "lg2 = lg1 @ [E_Prepare_Dirs]"
    have lg2: "\<exists>new. lg2 = lg0 @ new \<and> (\<forall>e\<in>set new. \<not> start_effect e)"
      using lg1 by (auto simp: lg2_def)
    have sec: "exec_start (svc section) \<noteq> []"
      "\<not> (service_type_of (svc section) \<noteq> Oneshot \<and> length (exec_start (svc section)) \<noteq> 1)"
      "\<not> (service_type_of (svc section) = Dbus \<and> bus_name (svc section) = [])"
      using ok by (auto simp: start_section_ok_def)
    consider "\<not> os_prepare_dirs os lg1"
      | "os_prepare_dirs os lg1" "\<not> all_succeed os ''ExecCondition'' (exec_condition (svc section)) lg2"
      | "os_prepare_dirs os lg1" "all_succeed os ''ExecCondition'' (exec_condition (svc section)) lg2"
      by blast
    then show ?thesis
    proof cases
      case 1
      have "activate os r lg = (Inl (Directories_Failed name), start_record r \<lparr> state := Failed \<rparr>, lg2)"
        unfolding basics using ok sec 1
        by (cases "service_type_of (svc section) = Oneshot"; cases "service_type_of (svc section) = Dbus")
          (simp_all add: gate loaded lg2_def)
      then show ?thesis using lg2 by (auto simp: refused_def)
    next
      case 2
      then obtain res k where res: "res \<noteq> Inr Proceed"
        and conds: "run_conditions os (exec_condition (svc section)) lg2 =
          (res, lg2 @ map (E_Run ''ExecCondition'') (take (Suc k) (exec_condition (svc section))))"
        using run_conditions_fail by blast
      have "(\<exists>e. res = Inl e) \<or> res = Inr Skip"
        using res by (metis condition_result.exhaust sum.exhaust)
      then have "activate os r lg =
          (case res of Inl e \<Rightarrow> (Inl e, start_record r \<lparr> state := Failed \<rparr>,
               lg2 @ map (E_Run ''ExecCondition'') (take (Suc k) (exec_condition (svc section))))
           | Inr _ \<Rightarrow> (Inr (), start_record r \<lparr> state := Inactive \<rparr>,
               lg2 @ map (E_Run ''ExecCondition'') (take (Suc k) (exec_condition (svc section)))))"
        unfolding basics using ok sec 2 conds
        by (elim disjE exE; cases "service_type_of (svc section) = Oneshot";
            cases "service_type_of (svc section) = Dbus") (simp_all add: gate loaded lg2_def)
      then show ?thesis using lg2 by (cases res) (auto simp: refused_def)
    next
      case 3
      define lg3 where "lg3 = lg2 @ map (E_Run ''ExecCondition'') (exec_condition (svc section))"
      have conds: "run_conditions os (exec_condition (svc section)) lg2 = (Inr Proceed, lg3)"
        using 3 run_conditions_ok by (simp add: lg3_def)
      have "lg3 = condition_log name section lg0"
        by (simp add: lg3_def lg2_def lg1_def condition_log_def)
      then have "\<not> all_succeed os ''ExecStartPre'' (exec_start_pre (svc section)) lg3"
        using no ok user 3 by (simp add: start_allowed_def lg0_def [symmetric] lg1_def lg2_def)
      then obtain e k where pre: "run_command_list os ''ExecStartPre'' (exec_start_pre (svc section)) lg3 =
          (Inl e, lg3 @ map (E_Run ''ExecStartPre'') (take (Suc k) (exec_start_pre (svc section))))"
        using run_command_list_fail by blast
      have "activate os r lg = (Inl e, start_record r \<lparr> state := Failed \<rparr>,
          lg3 @ map (E_Run ''ExecStartPre'') (take (Suc k) (exec_start_pre (svc section))))"
        unfolding basics using ok sec 3(1) conds pre
        by (cases "service_type_of (svc section) = Oneshot"; cases "service_type_of (svc section) = Dbus")
          (simp_all add: gate loaded lg2_def)
      then show ?thesis using lg2 by (auto simp: lg3_def refused_def)
    qed
  qed
  then show ?thesis by (simp add: lg0_def)
qed

lemma run_command_list_log:
  "\<exists>k. snd (run_command_list os phase cs lg) = lg @ map (E_Run phase) (take k cs)"
proof (cases "all_succeed os phase cs lg")
  case True
  then show ?thesis using run_command_list_ok by (intro exI [of _ "length cs"]) simp
next
  case False
  then show ?thesis using run_command_list_fail by fastforce
qed

lemma run_command_list_Inr_iff:
  "(\<exists>u. fst (run_command_list os phase cs lg) = Inr u) \<longleftrightarrow> all_succeed os phase cs lg"
proof (cases "all_succeed os phase cs lg")
  case True
  then show ?thesis by (simp add: run_command_list_ok)
next
  case False
  then obtain e where "fst (run_command_list os phase cs lg) = Inl e"
    using run_command_list_fail by fastforce
  then show ?thesis using False by simp
qed

lemma run_stop_post_cases:
  "run_stop_post os section r lg =
     ((if all_succeed os ''ExecStopPost'' (exec_stop_post (svc section)) lg then r else r\<lparr> state := Failed \<rparr>),
      snd (run_command_list os ''ExecStopPost'' (exec_stop_post (svc section)) lg))"
proof (cases "all_succeed os ''ExecStopPost'' (exec_stop_post (svc section)) lg")
  case True
  then show ?thesis by (simp add: run_stop_post_def run_command_list_ok)
next
  case False
  then obtain e lg' where "run_command_list os ''ExecStopPost'' (exec_stop_post (svc section)) lg = (Inl e, lg')"
    using run_command_list_fail by blast
  then show ?thesis using False by (simp add: run_stop_post_def)
qed

lemma run_stop_post_state: "state (fst (run_stop_post os section r lg)) \<in> {state r, Failed}"
  by (simp add: run_stop_post_cases)

text \<open>The first effect of either kind of start.\<close>

definition first_start :: "service_section \<Rightarrow> effect" where
  "first_start section =
     (let c = hd (exec_start (svc section))
      in if service_type_of (svc section) = Oneshot then E_Run ''ExecStart'' c
         else E_Spawn c (service_type_of (svc section) = Idle))"

lemma activate_oneshot_ok:
  assumes start: "all_succeed os ''ExecStart'' (exec_start (svc section)) lg"
    and post: "all_succeed os ''ExecStartPost'' (exec_start_post (svc section))
       (lg @ map (E_Run ''ExecStart'') (exec_start (svc section)))"
  shows "activate_oneshot os section r lg =
     (Inr (), if remain_after_exit (svc section) then r\<lparr> state := Active \<rparr>
              else r\<lparr> dynamic_user_of := None, state := Inactive \<rparr>,
      lg @ map (E_Run ''ExecStart'') (exec_start (svc section))
         @ map (E_Run ''ExecStartPost'') (exec_start_post (svc section)))"
  using run_oneshot_ok [OF start] run_command_list_ok [OF post] by (simp add: activate_oneshot_def)

lemma activate_oneshot_fail:
  assumes ne: "exec_start (svc section) \<noteq> []"
    and no: "\<not> (all_succeed os ''ExecStart'' (exec_start (svc section)) lg
      \<and> all_succeed os ''ExecStartPost'' (exec_start_post (svc section))
       (lg @ map (E_Run ''ExecStart'') (exec_start (svc section))))"
  shows "\<exists>e rest. activate_oneshot os section r lg =
     (Inl e, r\<lparr> state := Failed \<rparr>, lg @ E_Run ''ExecStart'' (hd (exec_start (svc section))) # rest)"
proof (cases "all_succeed os ''ExecStart'' (exec_start (svc section)) lg")
  case True
  with no obtain e k where post: "run_command_list os ''ExecStartPost'' (exec_start_post (svc section))
      (lg @ map (E_Run ''ExecStart'') (exec_start (svc section))) =
        (Inl e, (lg @ map (E_Run ''ExecStart'') (exec_start (svc section)))
           @ map (E_Run ''ExecStartPost'') (take (Suc k) (exec_start_post (svc section))))"
    using run_command_list_fail by blast
  then show ?thesis
    using ne run_oneshot_ok [OF True] by (cases "exec_start (svc section)") (auto simp: activate_oneshot_def)
next
  case False
  then obtain e b k where k: "run_oneshot os (exec_start (svc section)) lg =
      ((Inl e, b), lg @ map (E_Run ''ExecStart'') (take (Suc k) (exec_start (svc section))))"
    using run_oneshot_fail by blast
  define lg1 where "lg1 = lg @ map (E_Run ''ExecStart'') (take (Suc k) (exec_start (svc section)))"
  obtain j where j: "snd (run_command_list os ''ExecStopPost'' (exec_stop_post (svc section)) lg1)
      = lg1 @ map (E_Run ''ExecStopPost'') (take j (exec_stop_post (svc section)))"
    using run_command_list_log by blast
  have "activate_oneshot os section r lg = (Inl e, r\<lparr> state := Failed \<rparr>,
      if b then lg1 @ map (E_Run ''ExecStopPost'') (take j (exec_stop_post (svc section))) else lg1)"
    by (cases r) (simp add: activate_oneshot_def k lg1_def [symmetric] run_stop_post_cases j Let_def)
  then show ?thesis
    using ne by (cases "exec_start (svc section)") (auto simp: lg1_def)
qed

text \<open>The record of a service whose main or control process has just been spawned.\<close>

definition spawned_record :: "service_section \<Rightarrow> pid \<Rightarrow> fd \<Rightarrow> unit_record \<Rightarrow> unit_record" where
  "spawned_record section pid gate r =
     (let type = service_type_of (svc section)
      in (if type = Forking then r\<lparr> control_pid := Some pid, active_pid := None \<rparr>
          else r\<lparr> active_pid := Some pid, control_pid := None \<rparr>)
         \<lparr> idle_gate_fd := (if type = Idle then Some gate else None),
           state := (if type \<in> {Simple, ExecType, Idle} then Active else Activating) \<rparr>)"

abbreviation start_command :: "service_section \<Rightarrow> exec_command" where
  "start_command section \<equiv> hd (exec_start (svc section))"

abbreviation idle_service :: "service_section \<Rightarrow> bool" where
  "idle_service section \<equiv> service_type_of (svc section) = Idle"

abbreviation waits_for_readiness :: "service_section \<Rightarrow> bool" where
  "waits_for_readiness section \<equiv> service_type_of (svc section) \<in> {Forking, Notify, NotifyReload, Dbus}"

lemma activate_main_spawn_fail:
  assumes "os_spawn os lg (start_command section) (idle_service section) = None"
  shows "\<exists>rest. activate_main os section r lg =
     (Inl Spawn_Failed, r\<lparr> state := Failed, dynamic_user_of := None \<rparr>,
      lg @ E_Spawn (start_command section) (idle_service section) # rest)"
proof -
  define lg1 where "lg1 = lg @ [E_Spawn (start_command section) (idle_service section)]"
  obtain j where j: "snd (run_command_list os ''ExecStopPost'' (exec_stop_post (svc section)) lg1)
      = lg1 @ map (E_Run ''ExecStopPost'') (take j (exec_stop_post (svc section)))"
    using run_command_list_log by blast
  then show ?thesis
    using assms by (cases r)
      (auto simp: activate_main_def spawn_command_def run_stop_post_cases lg1_def Let_def)
qed

lemma activate_main_waiting:
  assumes spawn: "os_spawn os lg (start_command section) (idle_service section) = Some (pid, gate)"
    and "waits_for_readiness section"
  shows "activate_main os section r lg =
     (Inr (), spawned_record section pid gate r,
      lg @ [E_Spawn (start_command section) (idle_service section)])"
  using assms by (auto simp: activate_main_def spawn_command_def spawned_record_def Let_def)

lemma activate_main_ok:
  assumes spawn: "os_spawn os lg (start_command section) (idle_service section) = Some (pid, gate)"
    and nw: "\<not> waits_for_readiness section"
    and post: "all_succeed os ''ExecStartPost'' (exec_start_post (svc section))
       (lg @ [E_Spawn (start_command section) (idle_service section)])"
  shows "activate_main os section r lg =
     (Inr (), spawned_record section pid gate r,
      lg @ E_Spawn (start_command section) (idle_service section)
         # map (E_Run ''ExecStartPost'') (exec_start_post (svc section)))"
  using spawn nw run_command_list_ok [OF post]
  by (simp add: activate_main_def spawn_command_def spawned_record_def run_start_post_def Let_def)

lemma activate_main_post_fail:
  assumes spawn: "os_spawn os lg (start_command section) (idle_service section) = Some (pid, gate)"
    and nw: "\<not> waits_for_readiness section"
    and post: "\<not> all_succeed os ''ExecStartPost'' (exec_start_post (svc section))
       (lg @ [E_Spawn (start_command section) (idle_service section)])"
  shows "\<exists>e rest. activate_main os section r lg =
     (Inl e, spawned_record section pid gate r \<lparr> idle_gate_fd := None, state := Failed \<rparr>,
      lg @ E_Spawn (start_command section) (idle_service section) # rest)
     \<and> E_Kill pid SIGTERM \<in> set rest"
proof -
  obtain e k where "run_command_list os ''ExecStartPost'' (exec_start_post (svc section))
      (lg @ [E_Spawn (start_command section) (idle_service section)]) =
        (Inl e, (lg @ [E_Spawn (start_command section) (idle_service section)])
           @ map (E_Run ''ExecStartPost'') (take (Suc k) (exec_start_post (svc section))))"
    using run_command_list_fail [OF post] by blast
  then show ?thesis
    using spawn nw by (cases r)
      (auto simp: activate_main_def spawn_command_def spawned_record_def run_start_post_def
        release_idle_gate_eq Let_def split: option.splits)
qed

text \<open>The start commands themselves end well, after the log of the preparations.\<close>

definition start_succeeds :: "os \<Rightarrow> service_section \<Rightarrow> effect list \<Rightarrow> bool" where
  "start_succeeds os section lg \<longleftrightarrow>
     (if service_type_of (svc section) = Oneshot then
        all_succeed os ''ExecStart'' (exec_start (svc section)) lg
        \<and> all_succeed os ''ExecStartPost'' (exec_start_post (svc section))
            (lg @ map (E_Run ''ExecStart'') (exec_start (svc section)))
      else
        os_spawn os lg (start_command section) (idle_service section) \<noteq> None
        \<and> (\<not> waits_for_readiness section \<longrightarrow>
             all_succeed os ''ExecStartPost'' (exec_start_post (svc section))
               (lg @ [E_Spawn (start_command section) (idle_service section)])))"

lemma spawned_record_simps [simp]:
  "state (spawned_record section pid gate r) =
     (if service_type_of (svc section) \<in> {Simple, ExecType, Idle} then Active else Activating)"
  "loaded (spawned_record section pid gate r) = loaded r"
  "active_pid (spawned_record section pid gate r) =
     (if service_type_of (svc section) = Forking then None else Some pid)"
  "control_pid (spawned_record section pid gate r) =
     (if service_type_of (svc section) = Forking then Some pid else None)"
  "idle_gate_fd (spawned_record section pid gate r) =
     (if service_type_of (svc section) = Idle then Some gate else None)"
  by (simp_all add: spawned_record_def Let_def)

text \<open>The start commands, from the record and the log of the preparations.\<close>

lemma start_outcome:
  assumes "start_section_ok section"
    and "(if service_type_of (svc section) = Oneshot then activate_oneshot else activate_main) os section r lg
       = (res, r', lg')"
  shows "(\<exists>rest. lg' = lg @ first_start section # rest)
    \<and> (isl res \<longleftrightarrow> \<not> start_succeeds os section lg)
    \<and> state r' = (if \<not> start_succeeds os section lg then Failed
                  else if service_type_of (svc section) = Oneshot then
                    (if remain_after_exit (svc section) then Active else Inactive)
                  else if waits_for_readiness section then Activating else Active)"
proof (cases "service_type_of (svc section) = Oneshot")
  case True
  from assms(1) have ne: "exec_start (svc section) \<noteq> []" by (simp add: start_section_ok_def)
  then show ?thesis
  proof (cases "start_succeeds os section lg")
    case ok: True
    then have "lg' = lg @ map (E_Run ''ExecStart'') (exec_start (svc section))
         @ map (E_Run ''ExecStartPost'') (exec_start_post (svc section))" "res = Inr ()"
        "r' = (if remain_after_exit (svc section) then r\<lparr> state := Active \<rparr>
              else r\<lparr> dynamic_user_of := None, state := Inactive \<rparr>)"
      using activate_oneshot_ok [of os "section" lg r] assms(2) True by (auto simp: start_succeeds_def)
    then show ?thesis
      using ok True ne by (cases "exec_start (svc section)") (auto simp: first_start_def)
  next
    case no: False
    then obtain e rest where
      "(res, r', lg') = (Inl e, r\<lparr> state := Failed \<rparr>, lg @ E_Run ''ExecStart'' (hd (exec_start (svc section))) # rest)"
      using activate_oneshot_fail [OF ne, of os lg r] assms(2) True by (auto simp: start_succeeds_def)
    then show ?thesis
      using no True by (simp add: first_start_def)
  qed
next
  case False
  then have main: "activate_main os section r lg = (res, r', lg')" using assms(2) by simp
  show ?thesis
  proof (cases "os_spawn os lg (start_command section) (idle_service section)")
    case None
    then show ?thesis
      using activate_main_spawn_fail [OF None, of r] main False
      by (auto simp: start_succeeds_def first_start_def Let_def)
  next
    case (Some p)
    then obtain pid gate where spawn:
      "os_spawn os lg (start_command section) (idle_service section) = Some (pid, gate)"
      by (cases p) simp
    have types: "service_type_of (svc section) \<in> {Simple, ExecType, Idle} \<longleftrightarrow> \<not> waits_for_readiness section"
      using False by (cases "service_type_of (svc section)") simp_all
    consider "waits_for_readiness section"
      | "\<not> waits_for_readiness section" "all_succeed os ''ExecStartPost'' (exec_start_post (svc section))
          (lg @ [E_Spawn (start_command section) (idle_service section)])"
      | "\<not> waits_for_readiness section" "\<not> all_succeed os ''ExecStartPost'' (exec_start_post (svc section))
          (lg @ [E_Spawn (start_command section) (idle_service section)])"
      by blast
    then show ?thesis
    proof cases
      case 1
      then show ?thesis
        using activate_main_waiting [OF spawn 1, of r] main False types spawn
        by (auto simp: start_succeeds_def first_start_def Let_def)
    next
      case 2
      then show ?thesis
        using activate_main_ok [OF spawn 2, of r] main False types spawn
        by (auto simp: start_succeeds_def first_start_def Let_def)
    next
      case 3
      then show ?thesis
        using activate_main_post_fail [OF spawn 3, of r] main False spawn
        by (auto simp: start_succeeds_def first_start_def Let_def)
    qed
  qed
qed

lemma start_effect_first_start: "start_effect (first_start section)"
  by (simp add: first_start_def Let_def)

lemma setup_log_extends:
  "\<exists>new. setup_log name section lg = lg @ new \<and> (\<forall>e\<in>set new. \<not> start_effect e)"
  by (auto simp: setup_log_def condition_log_def user_log_def)

text \<open>
  C9: Order of an activation.  A start command, the spawn of the main process or an \<open>ExecStart=\<close>
  command of a one-shot service, happens exactly when all conditions of the unit hold, the section
  can be started, the dynamic user was allocated, the directories were prepared, and all
  \<open>ExecCondition=\<close> and then all \<open>ExecStartPre=\<close> commands were run in order and ended well.  By the
  time of the first start command those commands are exactly what has happened.
\<close>

theorem activation_order:
  assumes loaded: "loaded r = Service name us section"
    and gate: "release_idle_gate r lg = (r0, lg0)"
    and act: "activate os r lg = (res, r', lg')"
  shows "\<exists>new. lg' = lg0 @ new
     \<and> ((\<exists>e\<in>set new. start_effect e) \<longleftrightarrow> start_allowed os name us section lg0)
     \<and> (start_allowed os name us section lg0 \<longrightarrow>
          (\<exists>rest. lg' = setup_log name section lg0 @ first_start section # rest))"
proof (cases "start_allowed os name us section lg0")
  case True
  then obtain user where "activate os r lg =
      (if service_type_of (svc section) = Oneshot then activate_oneshot else activate_main) os section
        (start_record r \<lparr> dynamic_user_of := user, state := Activating \<rparr>) (setup_log name section lg0)"
    using activate_allowed [OF loaded, of os lg] gate by auto
  moreover have "start_section_ok section" using True by (simp add: start_allowed_def)
  ultimately obtain rest where rest: "lg' = setup_log name section lg0 @ first_start section # rest"
    using start_outcome act by metis
  moreover obtain pre where "setup_log name section lg0 = lg0 @ pre"
    using setup_log_extends by blast
  ultimately show ?thesis using True start_effect_first_start by auto
next
  case False
  then show ?thesis using activate_refused [OF loaded, of os lg] gate act by auto
qed


definition demo_command :: exec_command where
  "demo_command = \<lparr> cmd_path = ''/bin/a'', cmd_argv = [''/bin/a''], cmd_flags = 0 \<rparr>"

definition demo_section :: service_section where
  "demo_section = service_section_default
     \<lparr> svc := service_keys_default \<lparr> exec_start := [demo_command], exec_start_pre := [demo_command] \<rparr> \<rparr>"

definition demo_record :: unit_record where
  "demo_record = unit_record_new (Service ''a.service'' unit_section_default demo_section)"

lemma demo_section_simps:
  "service_type_of (svc demo_section) = Simple" "exec_start (svc demo_section) = [demo_command]"
  "exec_start_pre (svc demo_section) = [demo_command]" "exec_start_post (svc demo_section) = []"
  "exec_condition (svc demo_section) = []" "exec_stop_post (svc demo_section) = []"
  "exec_stop (svc demo_section) = []" "pid_file (svc demo_section) = []"
  "restart_mode (svc demo_section) \<noteq> ''direct''" "exit_type (svc demo_section) \<noteq> ''cgroup''"
  "success_exit_status (svc demo_section) = []" "\<not> dynamic_user (exc demo_section)"
  by (simp_all add: demo_section_def service_section_default_def service_keys_default_def
      exec_keys_default_def)

lemma demo_start_allowed:
  "start_allowed quiet_os ''a.service'' unit_section_default demo_section []"
  by (simp add: start_allowed_def demo_section_simps unit_section_default_def evaluate_list_def
      start_section_ok_def user_log_def quiet_os_def command_ok_def)

lemma demo_record_simps:
  "loaded demo_record = Service ''a.service'' unit_section_default demo_section"
  "release_idle_gate demo_record lg = (demo_record, lg)" "state demo_record = Inactive"
  by (simp_all add: demo_record_def unit_record_new_def release_idle_gate_def)

theorem activation_order_witness:
  "start_allowed quiet_os ''a.service'' unit_section_default demo_section []
   \<and> (\<exists>rest. snd (snd (activate quiet_os demo_record [])) =
        setup_log ''a.service'' demo_section [] @ first_start demo_section # rest)"
proof -
  obtain res r' lg' where act: "activate quiet_os demo_record [] = (res, r', lg')" by (metis prod.exhaust)
  show ?thesis
    using activation_order [OF demo_record_simps(1,2) act] demo_start_allowed act by auto
qed


end
