(* ===== verification/ServiceRuns.thy ===== *)
theory ServiceRuns
  imports Service
begin

text \<open>
  The life of one unit record.  \<open>service_step\<close> collects everything the manager does to the record of
  a unit between two reloads of the unit files: the operations of \<open>src/src/service.rs\<close> and the
  assignments \<open>src/src/manager.rs\<close> makes itself.  \<open>record_ok\<close> is the invariant of a record;
  every step preserves it, so it holds of every record that is reachable from a new one.
\<close>

text \<open>The fields the invariant is about.\<close>

definition core :: "unit_record \<Rightarrow> loaded_unit \<times> unit_state \<times> pid option \<times> pid option \<times> fd option" where
  "core r = (loaded r, state r, active_pid r, control_pid r, idle_gate_fd r)"

inductive service_step :: "unit_record \<times> effect list \<Rightarrow> unit_record \<times> effect list \<Rightarrow> bool" where
  touch: "core r' = core r \<Longrightarrow> service_step (r, lg) (r', lg')"
| mark: "state r = Inactive \<or> state r = Failed \<Longrightarrow>
     service_step (r, lg) (r\<lparr> state := Activating \<rparr>, lg)"
| start: "activate os r lg = (res, r', lg') \<Longrightarrow> service_step (r, lg) (r', lg')"
| stop: "deactivate os op r lg = (r', lg') \<Longrightarrow> service_step (r, lg) (r', lg')"
| ready: "complete_notify_start os r lg = (res, r', lg') \<Longrightarrow> service_step (r, lg) (r', lg')"
| bus_name: "complete_dbus_start os r lg = (res, r', lg') \<Longrightarrow> service_step (r, lg) (r', lg')"
| main_exit: "on_child_exit os cg e r lg = (b, r', lg') \<Longrightarrow> service_step (r, lg) (r', lg')"
| control_exit: "on_forking_control_exit os cg e r lg = (res, r', lg') \<Longrightarrow> service_step (r, lg) (r', lg')"
| pid_file: "retry_forking_pid_file os cg r lg = (res, r', lg') \<Longrightarrow> service_step (r, lg) (r', lg')"
| cgroup_empty: "on_service_cgroup_empty os cg r lg = (b, r', lg') \<Longrightarrow> service_step (r, lg) (r', lg')"
| timeout_empty: "on_timeout_cgroup_empty os r lg = (b, r', lg') \<Longrightarrow> service_step (r, lg) (r', lg')"
| forking_empty: "on_forking_cgroup_empty os r lg = (b, r', lg') \<Longrightarrow> service_step (r, lg) (r', lg')"
| timeout: "finish_timeout_failure os result r lg = (r', lg') \<Longrightarrow> service_step (r, lg) (r', lg')"
| open_gate: "release_idle_gate r lg = (r', lg') \<Longrightarrow> service_step (r, lg) (r', lg')"
| main_pid: "service_step (r, lg) (r\<lparr> active_pid := Some pid \<rparr>, lg)"
| stopping: "service_step (r, lg) (r\<lparr> state := Deactivating \<rparr>, lg)"
| fail: "service_step (r, lg) (r\<lparr> state := Failed \<rparr>, lg)"
| reset: "service_step (r, lg) (r\<lparr> state := Inactive \<rparr>, lg)"
| other: "service_of (loaded r) = None \<Longrightarrow> service_step (r, lg) (r\<lparr> state := st \<rparr>, lg)"

text \<open>Services whose main process is their life: they are active only while it is tracked.\<close>

definition plain_service :: "service_section \<Rightarrow> bool" where
  "plain_service section \<longleftrightarrow>
     service_type_of (svc section) \<in> {Simple, ExecType, Idle}
     \<and> restart_mode (svc section) \<noteq> ''direct'' \<and> exit_type (svc section) \<noteq> ''cgroup''"

definition record_ok :: "unit_record \<Rightarrow> bool" where
  "record_ok r \<longleftrightarrow>
     (case service_of (loaded r) of
        None \<Rightarrow> True
      | Some section \<Rightarrow>
          (control_pid r \<noteq> None \<longrightarrow> service_type_of (svc section) = Forking)
          \<and> (idle_gate_fd r \<noteq> None \<longrightarrow> service_type_of (svc section) = Idle \<and> active_pid r \<noteq> None)
          \<and> (plain_service section \<and> state r = Active \<longrightarrow> active_pid r \<noteq> None))"

lemma record_ok_core: "core r' = core r \<Longrightarrow> record_ok r' = record_ok r"
  by (simp add: core_def record_ok_def split: option.split)

lemma record_ok_touch [simp]:
  "record_ok (r\<lparr> dynamic_user_of := u \<rparr>) = record_ok r"
  "record_ok (r\<lparr> service_result := s \<rparr>) = record_ok r"
  "record_ok (r\<lparr> stop_requested := b \<rparr>) = record_ok r"
  by (rule record_ok_core; simp add: core_def)+

lemma record_ok_service:
  "loaded r = Service n us section \<Longrightarrow> record_ok r \<longleftrightarrow>
     (control_pid r \<noteq> None \<longrightarrow> service_type_of (svc section) = Forking)
     \<and> (idle_gate_fd r \<noteq> None \<longrightarrow> service_type_of (svc section) = Idle \<and> active_pid r \<noteq> None)
     \<and> (plain_service section \<and> state r = Active \<longrightarrow> active_pid r \<noteq> None)"
  by (simp add: record_ok_def)

lemma record_ok_no_service: "service_of (loaded r) = None \<Longrightarrow> record_ok r"
  by (simp add: record_ok_def)

lemma service_of_Some: "service_of l = Some section \<longleftrightarrow> (\<exists>n us. l = Service n us section)"
  by (cases l) auto

lemma record_ok_inactive_state:
  "record_ok r \<Longrightarrow> st \<noteq> Active \<Longrightarrow> record_ok (r\<lparr> state := st \<rparr>)"
  by (auto simp: record_ok_def split: option.splits)

lemma record_ok_main_pid: "record_ok r \<Longrightarrow> record_ok (r\<lparr> active_pid := Some pid \<rparr>)"
  by (auto simp: record_ok_def split: option.splits)

lemma record_ok_gate: "record_ok r \<Longrightarrow> record_ok (r\<lparr> idle_gate_fd := None \<rparr>)"
  by (auto simp: record_ok_def split: option.splits)

lemma record_ok_new: "record_ok (unit_record_new l)"
  by (auto simp: record_ok_def unit_record_new_def split: option.splits)

text \<open>Fields \<open>ExecStopPost=\<close> leaves alone.\<close>

lemma record_ok_stop_post:
  "record_ok r \<Longrightarrow> record_ok (fst (run_stop_post os section r lg))"
  by (simp add: run_stop_post_cases record_ok_inactive_state)

section \<open>Every operation keeps the invariant\<close>

lemma loaded_run_stop_post [simp]: "loaded (fst (run_stop_post os section r lg)) = loaded r"
  by (simp add: run_stop_post_cases)

lemma spawned_record_ok: "loaded r = Service n us section \<Longrightarrow> record_ok (spawned_record section pid gate r)"
  by (simp add: record_ok_service)

lemma start_record_ok:
  "loaded r = Service n us section \<Longrightarrow> st \<noteq> Active \<Longrightarrow>
     record_ok (start_record r \<lparr> dynamic_user_of := user, state := st \<rparr>)"
  by (simp add: record_ok_service start_record_def)

lemma activate_oneshot_record_ok:
  assumes "loaded r = Service n us section" "service_type_of (svc section) = Oneshot"
    and "control_pid r = None" "idle_gate_fd r = None"
  shows "record_ok (fst (snd (activate_oneshot os section r lg)))"
proof -
  have "\<exists>st u. fst (snd (activate_oneshot os section r lg)) = r\<lparr> state := st, dynamic_user_of := u \<rparr>"
    by (cases r) (auto simp: activate_oneshot_def run_stop_post_cases Let_def split: sum.split prod.split)
  then show ?thesis
    using assms by (auto simp: record_ok_service plain_service_def)
qed

lemma activate_main_record_ok:
  assumes loaded: "loaded r = Service n us section"
    and none: "active_pid r = None" "control_pid r = None" "idle_gate_fd r = None"
  shows "record_ok (fst (snd (activate_main os section r lg)))"
proof (cases "os_spawn os lg (start_command section) (idle_service section)")
  case None
  then show ?thesis
    using activate_main_spawn_fail [OF None, of r] none by (auto simp: record_ok_service loaded)
next
  case (Some p)
  obtain pid gate where spawn:
    "os_spawn os lg (start_command section) (idle_service section) = Some (pid, gate)"
    using Some by (cases p) simp
  consider "waits_for_readiness section"
    | "\<not> waits_for_readiness section" "all_succeed os ''ExecStartPost'' (exec_start_post (svc section))
        (lg @ [E_Spawn (start_command section) (idle_service section)])"
    | "\<not> waits_for_readiness section" "\<not> all_succeed os ''ExecStartPost'' (exec_start_post (svc section))
        (lg @ [E_Spawn (start_command section) (idle_service section)])"
    by blast
  then show ?thesis
  proof cases
    case 1
    then show ?thesis
      using activate_main_waiting [OF spawn 1, of r] spawned_record_ok [OF loaded] by simp
  next
    case 2
    then show ?thesis
      using activate_main_ok [OF spawn 2, of r] spawned_record_ok [OF loaded] by simp
  next
    case 3
    then obtain e rest where "activate_main os section r lg =
      (Inl e, spawned_record section pid gate r \<lparr> idle_gate_fd := None, state := Failed \<rparr>,
        lg @ E_Spawn (start_command section) (idle_service section) # rest)"
      using activate_main_post_fail [OF spawn 3, of r] by blast
    then show ?thesis
      using spawned_record_ok [OF loaded] record_ok_gate record_ok_inactive_state by simp
  qed
qed

lemma activate_record_ok:
  assumes "record_ok r"
  shows "record_ok (fst (snd (activate os r lg)))"
proof (cases "loaded r")
  case (Service name us sec)
  define lg0 where "lg0 = snd (release_idle_gate r lg)"
  show ?thesis
  proof (cases "start_allowed os name us sec lg0")
    case True
    then obtain user where "activate os r lg =
        (if service_type_of (svc sec) = Oneshot then activate_oneshot else activate_main) os sec
          (start_record r \<lparr> dynamic_user_of := user, state := Activating \<rparr>) (setup_log name sec lg0)"
      using activate_allowed [OF Service, of os lg] by (auto simp: lg0_def)
    then show ?thesis
      using Service by (auto simp: start_record_def intro!: activate_oneshot_record_ok activate_main_record_ok)
  next
    case False
    then obtain res r' new where "activate os r lg = (res, r', lg0 @ new)" and refused: "refused r res r'"
      using activate_refused [OF Service, of os lg] by (auto simp: lg0_def)
    moreover have "record_ok r'"
      using refused assms Service by (auto simp: refused_def start_record_def record_ok_service)
    ultimately show ?thesis by simp
  qed
qed (simp_all add: activate_def release_idle_gate_eq record_ok_no_service)

lemma deactivate_record_ok: "record_ok r \<Longrightarrow> record_ok (fst (deactivate os op r lg))"
  by (cases "loaded r")
    (auto simp: deactivate_def release_idle_gate_eq run_stop_post_cases record_ok_no_service
      record_ok_service Let_def case_prod_unfold)

lemma complete_start_record_ok:
  assumes "record_ok r" "loaded r = Service n us section" "\<not> plain_service section"
  shows "record_ok (fst (snd (complete_start os section r lg)))"
  using assms by (auto simp: complete_start_def record_ok_service split: sum.split prod.split)

lemma complete_notify_start_record_ok:
  "record_ok r \<Longrightarrow> record_ok (fst (snd (complete_notify_start os r lg)))"
  by (auto simp: complete_notify_start_def plain_service_def service_of_Some
      intro: complete_start_record_ok split: option.split)

lemma complete_dbus_start_record_ok:
  "record_ok r \<Longrightarrow> record_ok (fst (snd (complete_dbus_start os r lg)))"
  by (auto simp: complete_dbus_start_def plain_service_def service_of_Some
      intro: complete_start_record_ok split: option.split)

text \<open>Forking services are not plain, so only the gate and the control process matter for them.\<close>

lemma fail_forking_record_ok:
  "record_ok r \<Longrightarrow> record_ok (fst (fail_forking_start os section result r lg))"
proof -
  assume "record_ok r"
  then have "record_ok (r\<lparr> state := Failed, service_result := result \<rparr>)"
    by (auto simp: record_ok_def split: option.splits)
  then have "record_ok (fst (run_stop_post os section (r\<lparr> state := Failed, service_result := result \<rparr>) lg))"
    by (rule record_ok_stop_post)
  then show ?thesis
    by (simp add: fail_forking_start_def case_prod_unfold Let_def)
qed

lemma finish_forking_record_ok:
  assumes "record_ok r" "loaded r = Service n us section" "service_type_of (svc section) = Forking"
  shows "record_ok (fst (snd (finish_forking_start os section main_pid r lg)))"
proof -
  have gate: "idle_gate_fd r = None" and np: "\<not> plain_service section"
    using assms by (auto simp: record_ok_service plain_service_def)
  have ok: "record_ok (r\<lparr> active_pid := main_pid, state := st, service_result := u \<rparr>)"
    "record_ok (r\<lparr> active_pid := main_pid \<rparr>)" for st u
    using assms gate np by (simp_all add: record_ok_service)
  show ?thesis
  proof (cases "run_start_post os section lg")
    case (Pair res lg1)
    then show ?thesis
      using ok fail_forking_record_ok [OF ok(2)]
      by (cases res) (simp_all add: finish_forking_start_def case_prod_unfold Let_def)
  qed
qed

lemma on_forking_control_exit_record_ok:
  assumes "record_ok r"
  shows "record_ok (fst (snd (on_forking_control_exit os cg e r lg)))"
proof (cases "control_pid r = Some (exit_pid e) \<and> (\<exists>n us section. loaded r = Service n us section
    \<and> service_type_of (svc section) = Forking)")
  case False
  then show ?thesis
    using assms by (cases "loaded r") (auto simp: on_forking_control_exit_def)
next
  case True
  then obtain n us sec where l: "loaded r = Service n us sec" "service_type_of (svc sec) = Forking"
    and pid: "control_pid r = Some (exit_pid e)" by blast
  let ?r = "r\<lparr> control_pid := None \<rparr>"
  have ok: "record_ok ?r" using assms l by (simp add: record_ok_service)
  have l': "loaded ?r = Service n us sec" using l by simp
  note fin = finish_forking_record_ok [OF ok l' l(2)]
  have stop: "record_ok (fst (run_stop_post os sec (?r\<lparr> state := Failed, service_result := s \<rparr>) lg)
      \<lparr> dynamic_user_of := None \<rparr>)" for s lg
    using ok l by (auto simp: run_stop_post_cases record_ok_service)
  have fin': "record_ok (fst (snd (case finish_forking_start os sec m ?r lg of
      (Inl err, r, lg) \<Rightarrow> (Inl err, r, lg) | (Inr _, r, lg) \<Rightarrow> (Inr True, r, lg))))" for m
    using fin [of os m lg]
    by (cases "finish_forking_start os sec m ?r lg"; cases "fst (finish_forking_start os sec m ?r lg)") auto
  show ?thesis
    using l pid stop fin' ok fail_forking_record_ok [OF ok]
    by (auto simp: on_forking_control_exit_def Let_def case_prod_unfold split: sum.split)
qed

lemma retry_forking_record_ok:
  assumes "record_ok r"
  shows "record_ok (fst (snd (retry_forking_pid_file os cg r lg)))"
proof (cases "forking_pid_file_pending r")
  case True
  then obtain n us sec where l: "loaded r = Service n us sec" "service_type_of (svc sec) = Forking"
    by (auto simp: forking_pid_file_pending_def service_of_Some split: option.splits)
  have "record_ok (fst (snd (case finish_forking_start os sec m r lg of
      (Inl err, r, lg) \<Rightarrow> (Inl err, r, lg) | (Inr _, r, lg) \<Rightarrow> (Inr True, r, lg))))" for m
    using finish_forking_record_ok [OF assms l, of os m lg]
    by (cases "finish_forking_start os sec m r lg"; cases "fst (finish_forking_start os sec m r lg)") auto
  then show ?thesis
    using True l assms fail_forking_record_ok [OF assms]
    by (auto simp: retry_forking_pid_file_def Let_def case_prod_unfold split: sum.split)
next
  case False
  then show ?thesis using assms by (simp add: retry_forking_pid_file_def)
qed

lemma on_forking_cgroup_empty_record_ok:
  "record_ok r \<Longrightarrow> record_ok (fst (snd (on_forking_cgroup_empty os r lg)))"
  by (cases "loaded r") (auto simp: on_forking_cgroup_empty_def run_stop_post_cases record_ok_service Let_def)

lemma exit_state_Active:
  "exit_state section success stopping st = Active \<Longrightarrow> service_type_of (svc section) = Oneshot"
  by (cases st) (auto simp: exit_state_def split: if_splits)

lemma on_child_exit_record_ok:
  assumes "record_ok r"
  shows "record_ok (fst (snd (on_child_exit os cg e r lg)))"
proof (cases "active_pid r = Some (exit_pid e) \<and> (\<exists>n us section. loaded r = Service n us section)")
  case False
  then show ?thesis using assms by (cases "loaded r") (auto simp: on_child_exit_def)
next
  case True
  then obtain n us sec where l: "loaded r = Service n us sec" and pid: "active_pid r = Some (exit_pid e)"
    by blast
  have "plain_service sec \<Longrightarrow> state (fst (snd (on_child_exit os cg e r lg))) \<noteq> Active"
    using l pid exit_state_Active [of sec]
    by (auto simp: on_child_exit_def plain_service_def release_idle_gate_eq run_stop_post_cases Let_def)
  moreover have "loaded (fst (snd (on_child_exit os cg e r lg))) = Service n us sec"
    "control_pid (fst (snd (on_child_exit os cg e r lg))) = control_pid r"
    "idle_gate_fd (fst (snd (on_child_exit os cg e r lg))) = None"
    using l pid by (auto simp: on_child_exit_def release_idle_gate_eq run_stop_post_cases Let_def)
  ultimately show ?thesis using assms l by (auto simp: record_ok_service)
qed

lemma on_service_cgroup_empty_record_ok:
  "record_ok r \<Longrightarrow> record_ok (fst (snd (on_service_cgroup_empty os cg r lg)))"
  by (cases "loaded r") (auto simp: on_service_cgroup_empty_def run_stop_post_cases record_ok_service Let_def)

lemma finish_timeout_record_ok:
  "record_ok r \<Longrightarrow> record_ok (fst (finish_timeout_failure os result r lg))"
  by (cases "loaded r")
    (auto simp: finish_timeout_failure_def release_idle_gate_eq run_stop_post_cases record_ok_service
      record_ok_no_service Let_def)

lemma on_timeout_cgroup_empty_record_ok:
  "record_ok r \<Longrightarrow> record_ok (fst (snd (on_timeout_cgroup_empty os r lg)))"
  using finish_timeout_record_ok [of r os "service_result r" lg]
  by (simp add: on_timeout_cgroup_empty_def case_prod_unfold Let_def)

lemma service_step_record_ok:
  assumes "service_step s t" "record_ok (fst s)"
  shows "record_ok (fst t)"
  using assms
proof (induction rule: service_step.induct)
  case (touch r' r lg lg')
  then show ?case using record_ok_core [of r' r] by simp
next
  case (open_gate r lg r' lg')
  then show ?case using record_ok_gate [of r] by (auto simp: release_idle_gate_eq)
next
  case (other r st lg)
  then show ?case by (simp add: record_ok_no_service)
next
  case (start os r lg res r' lg')
  then show ?case using activate_record_ok [of r os lg] by simp
next
  case (stop os op r lg r' lg')
  then show ?case using deactivate_record_ok [of r os op lg] by simp
next
  case (ready os r lg res r' lg')
  then show ?case using complete_notify_start_record_ok [of r os lg] by simp
next
  case (bus_name os r lg res r' lg')
  then show ?case using complete_dbus_start_record_ok [of r os lg] by simp
next
  case (main_exit os cg e r lg b r' lg')
  then show ?case using on_child_exit_record_ok [of r os cg e lg] by simp
next
  case (control_exit os cg e r lg res r' lg')
  then show ?case using on_forking_control_exit_record_ok [of r os cg e lg] by simp
next
  case (pid_file os cg r lg res r' lg')
  then show ?case using retry_forking_record_ok [of r os cg lg] by simp
next
  case (cgroup_empty os cg r lg b r' lg')
  then show ?case using on_service_cgroup_empty_record_ok [of r os cg lg] by simp
next
  case (timeout_empty os r lg b r' lg')
  then show ?case using on_timeout_cgroup_empty_record_ok [of r os lg] by simp
next
  case (forking_empty os r lg b r' lg')
  then show ?case using on_forking_cgroup_empty_record_ok [of r os lg] by simp
next
  case (timeout os result r lg r' lg')
  then show ?case using finish_timeout_record_ok [of r os result lg] by simp
qed (simp_all add: record_ok_inactive_state record_ok_main_pid)

interpretation records: invariant_system
  "\<lambda>s. \<exists>l. fst s = unit_record_new l" service_step "\<lambda>s. record_ok (fst s)"
  by unfold_locales (auto simp: record_ok_new dest: service_step_record_ok)

text \<open>
  C8: The invariant of a service, whatever happens to it and in whatever order: starts, stops,
  readiness, exits, empty control groups, timeouts, notifications, failures of any command.  A
  control process is tracked only for a forking service; a process waits at the idle gate only for
  an idle service whose main process is tracked, so no gate is ever left closed behind a lost
  process; and a simple, exec or idle service, not restarted in direct mode and not living on in its
  control group, is active only while its main process is tracked.
\<close>

theorem service_record_invariant:
  assumes run: "service_step\<^sup>*\<^sup>* (unit_record_new l, lg) (r, lg')"
    and loaded: "loaded r = Service name us section"
  shows "(control_pid r \<noteq> None \<longrightarrow> service_type_of (svc section) = Forking)
     \<and> (idle_gate_fd r \<noteq> None \<longrightarrow> service_type_of (svc section) = Idle \<and> active_pid r \<noteq> None)
     \<and> (service_type_of (svc section) \<in> {Simple, ExecType, Idle} \<and> restart_mode (svc section) \<noteq> ''direct''
        \<and> exit_type (svc section) \<noteq> ''cgroup'' \<and> state r = Active \<longrightarrow> active_pid r \<noteq> None)"
proof -
  have "record_ok r" using records.sinv_reachable [of "(unit_record_new l, lg)" "(r, lg')"] run by auto
  then show ?thesis using loaded by (auto simp: record_ok_service plain_service_def)
qed

theorem service_record_invariant_witness:
  "\<exists>r lg'. service_step\<^sup>*\<^sup>* (demo_record, []) (r, lg') \<and> state r = Active \<and> active_pid r \<noteq> None"
proof -
  let ?l = "Service ''a.service'' unit_section_default demo_section"
  let ?r0 = "demo_record\<lparr> state := Activating \<rparr>"
  have gate: "release_idle_gate ?r0 [] = (?r0, [])" and loaded: "loaded ?r0 = ?l"
    by (simp_all add: demo_record_def unit_record_new_def release_idle_gate_def)
  obtain user where act: "activate quiet_os ?r0 [] = activate_main quiet_os demo_section
      (start_record ?r0 \<lparr> dynamic_user_of := user, state := Activating \<rparr>)
      (setup_log ''a.service'' demo_section [])"
    using activate_allowed [OF loaded, of quiet_os "[]"] demo_start_allowed gate demo_section_simps by auto
  obtain r lg' where run: "activate quiet_os ?r0 [] = (Inr (), r, lg')" and r: "state r = Active"
      "loaded r = ?l"
    unfolding act
    by (simp add: demo_section_simps activate_main_def spawn_command_def run_start_post_def quiet_os_def Let_def
        start_record_def demo_record_def unit_record_new_def)
  have "service_step (demo_record, []) (?r0, [])"
    by (rule service_step.mark) (simp add: demo_record_def unit_record_new_def)
  moreover have "service_step (?r0, []) (r, lg')"
    by (rule service_step.start [OF run])
  ultimately have "service_step\<^sup>*\<^sup>* (demo_record, []) (r, lg')" by auto
  moreover from this have "active_pid r \<noteq> None"
    using service_record_invariant [of ?l "[]" r lg' "''a.service''" unit_section_default demo_section] r
    by (simp add: demo_record_def demo_section_simps)
  ultimately show ?thesis using r by blast
qed

section \<open>Exits\<close>




text \<open>
  C12: A stop that arrives while a forking service is starting can leave it active.  The start
  command is killed by the \<open>SIGTERM\<close> of the stop; death by \<open>SIGTERM\<close> counts as success and
  \<open>on_forking_control_exit\<close> looks neither at the state nor at the stop request, so without a PID file
  it runs the \<open>ExecStartPost=\<close> commands and makes the service active, for any state it was in.
\<close>

theorem stop_during_forking_start:
  assumes loaded: "loaded r = Service name us sec"
    and type: "service_type_of (svc sec) = Forking" and no_file: "pid_file (svc sec) = []"
    and stopping: "state r = Deactivating" "stop_requested r"
    and pid: "control_pid r = Some (exit_pid e)"
    and killed: "exit_code e = CLD_KILLED" "exit_status e = SIGTERM"
    and post: "all_succeed os ''ExecStartPost'' (exec_start_post (svc sec)) lg"
  shows "\<exists>r' lg'. on_forking_control_exit os cg e r lg = (Inr True, r', lg')
     \<and> state r' = Active \<and> stop_requested r' \<and> control_pid r' = None"
proof -
  have "is_success e (first_flags sec) sec"
    using killed type by (simp add: is_success_def CLD_EXITED_def CLD_KILLED_def signal_defs)
  then show ?thesis
    using loaded type no_file stopping pid run_command_list_ok [OF post]
    by (simp add: on_forking_control_exit_def finish_forking_start_def run_start_post_def Let_def)
qed

definition demo_forking :: service_section where
  "demo_forking = service_section_default
     \<lparr> svc := service_keys_default \<lparr> service_type_of := Forking, exec_start := [demo_command] \<rparr> \<rparr>"

theorem stop_during_forking_start_witness:
  "\<exists>r' lg'. on_forking_control_exit quiet_os None
      \<lparr> exit_pid = 100, exit_code = CLD_KILLED, exit_status = SIGTERM \<rparr>
      ((unit_record_new (Service ''a.service'' unit_section_default demo_forking))
         \<lparr> state := Deactivating, stop_requested := True, control_pid := Some 100 \<rparr>) [] = (Inr True, r', lg')
     \<and> state r' = Active \<and> stop_requested r' \<and> control_pid r' = None"
  by (rule stop_during_forking_start [where name = "''a.service''" and us = unit_section_default
        and sec = demo_forking])
    (simp_all add: unit_record_new_def demo_forking_def service_section_default_def service_keys_default_def)

end
