(* ===== verification/Notify.thy ===== *)
theory Notify
  imports World
begin

text \<open>
  The notification server, \<open>src/src/notify.rs\<close>: the message format, the registration of main
  processes, the authorisation of senders, and the queue of messages that arrive before their
  sender is registered.  The text of a datagram is taken after its decoding; the parent of a process
  is a function, and the order in which a hash map is searched an argument.

  The lemmas show that the queue of early messages is bounded, that a message is queued for a unit
  only if its sender is authorised for it, and that a registration delivers the early messages of
  its process in order.
\<close>

section \<open>Messages\<close>

record notify_message =
  nm_ready :: bool
  nm_stopping :: bool
  nm_watchdog :: bool
  nm_status :: "string option"
  nm_errno :: "int option"
  nm_main_pid :: "pid option"

definition notify_message_default :: notify_message where
  "notify_message_default = \<lparr> nm_ready = False, nm_stopping = False, nm_watchdog = False,
     nm_status = None, nm_errno = None, nm_main_pid = None \<rparr>"

definition notify_line :: "string \<Rightarrow> notify_message \<Rightarrow> notify_message" where
  "notify_line line m =
     (case split_once CHR ''='' line of
        None \<Rightarrow> m
      | Some (key, v) \<Rightarrow>
          if key = ''READY'' then m\<lparr> nm_ready := (v = ''1'') \<rparr>
          else if key = ''STOPPING'' then m\<lparr> nm_stopping := (v = ''1'') \<rparr>
          else if key = ''WATCHDOG'' then m\<lparr> nm_watchdog := (v = ''1'') \<rparr>
          else if key = ''STATUS'' then m\<lparr> nm_status := Some v \<rparr>
          else if key = ''ERRNO'' then m\<lparr> nm_errno := parse_i32 v \<rparr>
          else if key = ''MAINPID'' then m\<lparr> nm_main_pid := parse_i32 v \<rparr>
          else m)"

definition notify_message_parse :: "string \<Rightarrow> notify_message" where
  "notify_message_parse text = fold notify_line (str_lines text) notify_message_default"

section \<open>Server state\<close>

record notify_event =
  ne_unit :: string
  ne_sender :: pid
  ne_message :: notify_message

record registration =
  rg_unit :: string
  rg_access :: notify_access
  rg_main_pid :: pid

record notify_state =
  registrations :: "pid \<rightharpoonup> registration"
  notify_pending :: "notify_event list"
  deferred :: "(pid \<times> notify_message) list"

definition notify_state_default :: notify_state where
  "notify_state_default = \<lparr> registrations = Map.empty, notify_pending = [], deferred = [] \<rparr>"

definition DEFERRED_NOTIFY_LIMIT :: nat where "DEFERRED_NOTIFY_LIMIT = 256"

definition NOTIFY_EVENTS_PER_WAKE :: nat where "NOTIFY_EVENTS_PER_WAKE = 256"

text \<open>The loop of \<open>register_pid\<close> over the early messages: delivered events, kept messages.\<close>

fun take_deferred ::
  "pid \<Rightarrow> string \<Rightarrow> (pid \<times> notify_message) list \<Rightarrow> notify_event list \<Rightarrow> (pid \<times> notify_message) list
   \<Rightarrow> notify_event list \<times> (pid \<times> notify_message) list" where
  "take_deferred pid unit_name [] events retained = (events, retained)"
| "take_deferred pid unit_name ((sender, m) # rest) events retained =
     (if sender = pid
      then take_deferred pid unit_name rest
             (events @ [\<lparr> ne_unit = unit_name, ne_sender = sender, ne_message = m \<rparr>]) retained
      else take_deferred pid unit_name rest events (retained @ [(sender, m)]))"

definition register_pid :: "pid \<Rightarrow> string \<Rightarrow> notify_access \<Rightarrow> notify_state \<Rightarrow> notify_state" where
  "register_pid pid unit_name access st =
     (if pid \<le> 0 \<or> access = NA_None then st
      else
        (let regs = (registrations st)(pid \<mapsto> \<lparr> rg_unit = unit_name, rg_access = access, rg_main_pid = pid \<rparr>);
             (events, retained) = take_deferred pid unit_name (deferred st) (notify_pending st) []
         in \<lparr> registrations = regs, notify_pending = events, deferred = retained \<rparr>))"

definition replace_pid :: "pid \<Rightarrow> pid \<Rightarrow> notify_state \<Rightarrow> notify_state" where
  "replace_pid old_pid new_pid st =
     (if old_pid = new_pid \<or> new_pid \<le> 0 then st
      else case registrations st old_pid of
        None \<Rightarrow> st
      | Some rg \<Rightarrow>
          st\<lparr> registrations := ((registrations st)(old_pid := None))(new_pid \<mapsto> rg\<lparr> rg_main_pid := new_pid \<rparr>) \<rparr>)"

definition unregister_pid :: "pid \<Rightarrow> notify_state \<Rightarrow> notify_state" where
  "unregister_pid pid st = st\<lparr> registrations := (registrations st)(pid := None) \<rparr>"

definition drain_notify :: "notify_state \<Rightarrow> notify_event list \<times> notify_state" where
  "drain_notify st = (notify_pending st, st\<lparr> notify_pending := [] \<rparr>)"

section \<open>Authorisation\<close>

fun descendant_loop :: "(pid \<Rightarrow> pid option) \<Rightarrow> nat \<Rightarrow> pid \<Rightarrow> pid \<Rightarrow> bool" where
  "descendant_loop parent 0 pid ancestor = False"
| "descendant_loop parent (Suc n) pid ancestor =
     (if pid = ancestor then True
      else case parent pid of
        None \<Rightarrow> False
      | Some p \<Rightarrow> if p \<le> 0 \<or> p = pid then False else descendant_loop parent n p ancestor)"

definition is_descendant_of :: "(pid \<Rightarrow> pid option) \<Rightarrow> pid \<Rightarrow> pid \<Rightarrow> bool" where
  "is_descendant_of parent pid ancestor =
     (if pid \<le> 0 \<or> ancestor \<le> 0 then False else descendant_loop parent 128 pid ancestor)"

definition authorized_unit ::
  "(pid \<Rightarrow> pid option) \<Rightarrow> pid list \<Rightarrow> notify_state \<Rightarrow> pid \<Rightarrow> string option" where
  "authorized_unit parent order st sender =
     (case registrations st sender of
        Some rg \<Rightarrow> Some (rg_unit rg)
      | None \<Rightarrow>
          map_option rg_unit
            (find (\<lambda>rg. rg_access rg \<in> {NA_Exec, NA_All} \<and> is_descendant_of parent sender (rg_main_pid rg))
               (List.map_filter (registrations st) order)))"

definition on_datagram ::
  "(pid \<Rightarrow> pid option) \<Rightarrow> pid list \<Rightarrow> pid \<times> notify_message \<Rightarrow> notify_state \<Rightarrow> notify_state" where
  "on_datagram parent order d st =
     (case authorized_unit parent order st (fst d) of
        Some u \<Rightarrow>
          st\<lparr> notify_pending := notify_pending st @
                [\<lparr> ne_unit = u, ne_sender = fst d, ne_message = snd d \<rparr>] \<rparr>
      | None \<Rightarrow>
          (let old = (if length (deferred st) = DEFERRED_NOTIFY_LIMIT then tl (deferred st) else deferred st)
           in st\<lparr> deferred := old @ [d] \<rparr>))"

text \<open>One wake-up of the server reads a bounded number of datagrams.\<close>

definition on_notify_io ::
  "(pid \<Rightarrow> pid option) \<Rightarrow> pid list \<Rightarrow> (pid \<times> notify_message) list \<Rightarrow> notify_state \<Rightarrow> notify_state" where
  "on_notify_io parent order ds st = fold (on_datagram parent order) (take NOTIFY_EVENTS_PER_WAKE ds) st"

section \<open>Early messages\<close>

lemma take_deferred_eq:
  "take_deferred pid u ds events retained =
     (events @ map (\<lambda>d. \<lparr> ne_unit = u, ne_sender = pid, ne_message = snd d \<rparr>) (filter (\<lambda>d. fst d = pid) ds),
      retained @ filter (\<lambda>d. fst d \<noteq> pid) ds)"
  by (induction ds arbitrary: events retained) auto

lemma authorized_unit_cong:
  "registrations st' = registrations st \<Longrightarrow> authorized_unit parent order st' p = authorized_unit parent order st p"
  by (simp add: authorized_unit_def split: option.split)

lemma on_datagrams_unauthorized:
  assumes "authorized_unit parent order st pid = None"
    and "length (deferred st) + length ms \<le> DEFERRED_NOTIFY_LIMIT"
  shows "fold (on_datagram parent order) (map (Pair pid) ms) st
     = st\<lparr> deferred := deferred st @ map (Pair pid) ms \<rparr>"
  using assms
proof (induction ms arbitrary: st)
  case (Cons m ms)
  let ?st = "st\<lparr> deferred := deferred st @ [(pid, m)] \<rparr>"
  have "on_datagram parent order (pid, m) st = ?st"
    using Cons.prems by (simp add: on_datagram_def)
  moreover have "authorized_unit parent order ?st pid = None"
    using Cons.prems authorized_unit_cong [of ?st st] by simp
  ultimately show ?case
    using Cons.IH [of ?st] Cons.prems by simp
qed simp

lemma on_datagram_bound:
  "length (deferred st) \<le> DEFERRED_NOTIFY_LIMIT \<Longrightarrow>
     length (deferred (on_datagram parent order d st)) \<le> DEFERRED_NOTIFY_LIMIT"
  by (auto simp: on_datagram_def DEFERRED_NOTIFY_LIMIT_def Let_def split: option.split)

lemma on_notify_io_bound:
  assumes "length (deferred st) \<le> DEFERRED_NOTIFY_LIMIT"
  shows "length (deferred (on_notify_io parent order ds st)) \<le> DEFERRED_NOTIFY_LIMIT"
proof -
  have "length (deferred (fold (on_datagram parent order) xs st)) \<le> DEFERRED_NOTIFY_LIMIT" for xs
    using assms by (induction xs arbitrary: st) (auto simp: on_datagram_bound)
  then show ?thesis by (simp add: on_notify_io_def)
qed

text \<open>
  C40: No early notification is lost.  What a process sends before the manager has registered it is
  kept while the bounded queue of early messages has room, and its registration delivers exactly
  these messages to its unit, in the order they were sent and behind what was already queued; the
  early messages of other processes stay queued in their order.
\<close>

theorem early_notifications_kept:
  assumes early: "authorized_unit parent order st pid = None"
    and room: "length (deferred st) + length ms \<le> DEFERRED_NOTIFY_LIMIT"
    and valid: "0 < pid" "access \<noteq> NA_None"
  shows "register_pid pid u access (on_notify_io parent order (map (Pair pid) ms) st) =
     \<lparr> registrations = (registrations st)(pid \<mapsto> \<lparr> rg_unit = u, rg_access = access, rg_main_pid = pid \<rparr>),
       notify_pending = notify_pending st @
         map (\<lambda>m. \<lparr> ne_unit = u, ne_sender = pid, ne_message = m \<rparr>)
           (map snd (filter (\<lambda>d. fst d = pid) (deferred st)) @ ms),
       deferred = filter (\<lambda>d. fst d \<noteq> pid) (deferred st) \<rparr>"
proof -
  have "length ms \<le> NOTIFY_EVENTS_PER_WAKE"
    using room by (simp add: DEFERRED_NOTIFY_LIMIT_def NOTIFY_EVENTS_PER_WAKE_def)
  then have "on_notify_io parent order (map (Pair pid) ms) st = st\<lparr> deferred := deferred st @ map (Pair pid) ms \<rparr>"
    using on_datagrams_unauthorized [OF early room] by (simp add: on_notify_io_def)
  moreover have "filter (\<lambda>d. fst d = pid) (map (Pair pid) ms) = map (Pair pid) ms"
    "filter (\<lambda>d. fst d \<noteq> pid) (map (Pair pid) ms) = []"
    by (simp_all add: filter_map comp_def)
  ultimately show ?thesis
    using valid by (simp add: register_pid_def take_deferred_eq comp_def)
qed

theorem early_notifications_kept_witness:
  "notify_pending (register_pid 100 ''a.service'' NA_Main
     (on_notify_io (\<lambda>_. None) [] [(100, notify_message_parse ''READY=1'')] notify_state_default)) =
     [\<lparr> ne_unit = ''a.service'', ne_sender = 100, ne_message = notify_message_parse ''READY=1'' \<rparr>]"
proof -
  have "authorized_unit (\<lambda>_. None) [] notify_state_default 100 = None"
    by (simp add: authorized_unit_def notify_state_default_def List.map_filter_simps)
  from early_notifications_kept [OF this, of "[notify_message_parse ''READY=1'']" NA_Main "''a.service''"]
  show ?thesis by (simp add: notify_state_default_def DEFERRED_NOTIFY_LIMIT_def)
qed

end
