(* ===== verification/Manager.thy ===== *)
theory Manager
  imports ServiceRuns Notify Deps JobSched
begin

text \<open>
  The manager, \<open>src/src/manager.rs\<close>: the registry of units and the handlers of its event loop, which
  compose the service state machine, the job queue, the dependency resolver, the kill policy, the
  timers and the notification server.

  The state is the record \<open>manager\<close>; the job registry lives in \<open>queue\<close> and is shared by \<open>shared\<close>, the
  jobs queued by timers and clients.  Hash maps are partial functions; where a handler iterates over
  one, the order is an argument, \<open>names\<close>.  The unit loader and the defaults applied to what it loads
  are functions of the configuration.  Opening sockets, arming timer units, watching paths, mounting
  and swapping are the effects \<open>E_Unit_On\<close> and \<open>E_Unit_Off\<close>, whose success the operating system
  answers.  The sources that watch control groups, the D-Bus and IPC servers and the published
  snapshots are not part of the state.
\<close>

section \<open>State\<close>

record mconfig =
  default_timeout_start :: nat
  default_timeout_stop :: nat
  system_scope :: bool
  load_file :: "string \<Rightarrow> loaded_unit option"
  apply_defaults :: "loaded_unit \<Rightarrow> loaded_unit"
  backoff :: "nat \<Rightarrow> nat \<Rightarrow> nat \<Rightarrow> nat \<Rightarrow> nat"
  resolve_fuel :: nat

record manager =
  units :: "string \<rightharpoonup> unit_record"
  queue :: job_queue
  shared :: "job list"
  notify :: "notify_state option"
  start_timeouts :: "string \<rightharpoonup> nat"
  stop_timeouts :: "string \<rightharpoonup> nat"
  service_timers :: "nat \<rightharpoonup> string \<times> service_timeout_phase"
  restart_timers :: "nat \<rightharpoonup> string"
  next_source :: nat
  timeout_events :: "service_timeout_event list"
  restart_pending :: "string set"
  isolate_jobs :: "nat \<rightharpoonup> string list"
  oom_events :: "string list"
  oom_stopping :: "string set"
  oom_recent :: "string \<rightharpoonup> int"
  cgroup_empty_events :: "string list"
  dbus_ready_events :: "string list"
  published :: "job_event list"
  unit_load_requests :: "string list"
  reset_failed_requests :: "string list list"
  reload_requested :: bool
  mlog :: "effect list"

definition manager_new :: "notify_state option \<Rightarrow> manager" where
  "manager_new server =
     \<lparr> units = Map.empty, queue = with_registry registry_default, shared = [], notify = server,
       start_timeouts = Map.empty, stop_timeouts = Map.empty, service_timers = Map.empty,
       restart_timers = Map.empty, next_source = 1, timeout_events = [], restart_pending = {},
       isolate_jobs = Map.empty, oom_events = [], oom_stopping = {}, oom_recent = Map.empty,
       cgroup_empty_events = [], dbus_ready_events = [], published = [],
       unit_load_requests = [], reset_failed_requests = [], reload_requested = False, mlog = [] \<rparr>"

datatype manager_error =
  ME_Service service_error | ME_Not_Registered string | ME_Resources string | ME_Random | ME_Timer
| ME_Unit string | ME_Isolate_Context | ME_Not_Target string | ME_No_Isolate string
| ME_Load string | ME_Deps deps_error | ME_Fuel

type_synonym 'a mresult = "manager_error + 'a"

text \<open>Timers and clients see a queue of their own on the registry of the manager.\<close>

definition shared_queue :: "manager \<Rightarrow> job_queue" where
  "shared_queue m = (queue m)\<lparr> pending := shared m \<rparr>"

text \<open>Change the record of a unit, with or without effects.\<close>

definition upd_unit :: "string \<Rightarrow> (unit_record \<Rightarrow> unit_record) \<Rightarrow> manager \<Rightarrow> manager" where
  "upd_unit name f m =
     (case units m name of
        None \<Rightarrow> m
      | Some r \<Rightarrow> m\<lparr> units := (units m)(name \<mapsto> f r) \<rparr>)"

definition run_unit ::
  "string \<Rightarrow> (unit_record \<Rightarrow> effect list \<Rightarrow> 'a \<times> unit_record \<times> effect list) \<Rightarrow> 'a \<Rightarrow> manager
   \<Rightarrow> 'a \<times> manager" where
  "run_unit name f d m =
     (case units m name of
        None \<Rightarrow> (d, m)
      | Some r \<Rightarrow>
          (let (x, r', lg) = f r (mlog m)
           in (x, m\<lparr> units := (units m)(name \<mapsto> r'), mlog := lg \<rparr>)))"

definition with_notify :: "(notify_state \<Rightarrow> notify_state) \<Rightarrow> manager \<Rightarrow> manager" where
  "with_notify f m = m\<lparr> notify := map_option f (notify m) \<rparr>"

section \<open>Registry of units\<close>

definition new_unit_record :: "mconfig \<Rightarrow> loaded_unit \<Rightarrow> unit_record" where
  "new_unit_record cfg l = unit_record_new (apply_defaults cfg l)"

definition load_unit :: "mconfig \<Rightarrow> string \<Rightarrow> manager \<Rightarrow> unit mresult \<times> manager" where
  "load_unit cfg name m =
     (if units m name \<noteq> None then (Inr (), m)
      else case load_file cfg name of
        None \<Rightarrow> (Inl (ME_Load name), m)
      | Some l \<Rightarrow> (Inr (), m\<lparr> units := (units m)(name \<mapsto> new_unit_record cfg l) \<rparr>))"

section \<open>Helpers on records\<close>

definition effective_notify_access :: "service_section \<Rightarrow> notify_access option" where
  "effective_notify_access section =
     (let na = notify_access_of (svc section)
      in if na = NA_None \<and> watchdog_sec (svc section) = None
            \<and> service_type_of (svc section) \<notin> {Notify, NotifyReload}
         then None
         else Some (if na = NA_None then NA_Main else na))"

definition record_notify_access :: "unit_record \<Rightarrow> notify_access option" where
  "record_notify_access r = Option.bind (service_of (loaded r)) effective_notify_access"

definition reset_failed_record :: "unit_record \<Rightarrow> unit_record" where
  "reset_failed_record r =
     (let r = (if state r \<in> {Failed, Maintenance} then r\<lparr> state := Inactive \<rparr> else r)
      in r\<lparr> restart_count := 0, last_start_ns := 0, start_limit_window_ns := 0, start_limit_count := 0,
            watchdog_triggered := False, service_result := ''success'', exec_main_code := 0,
            exec_main_status := 0 \<rparr>)"

definition unit_cgroup_must_remain_realized :: "unit_record \<Rightarrow> bool" where
  "unit_cgroup_must_remain_realized r \<longleftrightarrow>
     state r \<in> {Activating, Deactivating, Failed, Maintenance} \<or> active_pid r \<noteq> None \<or> control_pid r \<noteq> None"

definition or_else :: "'a option \<Rightarrow> 'a option \<Rightarrow> 'a option" where
  "or_else x y = (case x of Some v \<Rightarrow> Some v | None \<Rightarrow> y)"

definition stop_timeout_for_record :: "unit_record \<Rightarrow> nat \<Rightarrow> (pid \<times> nat) option" where
  "stop_timeout_for_record r default_stop =
     (case or_else (active_pid r) (control_pid r) of
        None \<Rightarrow> None
      | Some pid \<Rightarrow>
          Some (pid, unwrap_or (Option.bind (service_of (loaded r)) (\<lambda>s. timeout_stop_sec (svc s))) default_stop))"

definition to_i64 :: "nat \<Rightarrow> int" where
  "to_i64 n = (if int n \<le> i64_max then int n else i64_max)"

definition watchdog_interval_ns :: "unit_record \<Rightarrow> int option" where
  "watchdog_interval_ns r =
     Option.bind (service_of (loaded r)) (\<lambda>s. map_option (\<lambda>d. to_i64 (as_nanos d)) (watchdog_sec (svc s)))"

definition sat_i64 :: "int \<Rightarrow> int" where
  "sat_i64 n = max (- i64_max - 1) (min i64_max n)"

section \<open>Automatic restarts\<close>

definition restart_delay_for :: "mconfig \<Rightarrow> service_section \<Rightarrow> nat \<Rightarrow> nat" where
  "restart_delay_for cfg section next_restart =
     (let initial = unwrap_or (restart_sec (svc section)) 100000;
          steps = unwrap_or (restart_steps (svc section)) 0
      in case restart_max_delay_sec (svc section) of
           None \<Rightarrow> initial
         | Some maximum \<Rightarrow>
             if next_restart \<le> 1 \<or> steps = 0 \<or> initial = 0 \<or> initial \<ge> maximum then initial
             else if next_restart > steps then maximum
             else backoff cfg initial maximum (next_restart - 1) steps)"

definition automatic_restart_delay_at ::
  "mconfig \<Rightarrow> child_exit \<Rightarrow> int \<Rightarrow> unit_record \<Rightarrow> nat option \<times> unit_record" where
  "automatic_restart_delay_at cfg e now r =
     (case service_of (loaded r) of
        None \<Rightarrow> (None, r)
      | Some section \<Rightarrow>
          if \<not> restart_requested section e (service_result r) then (None, r)
          else
            (let next_restart = sat_add u32_max (restart_count r) 1;
                 us = unit_section_of (loaded r);
                 burst = unwrap_or (start_limit_burst us) 5;
                 interval = unwrap_or (start_limit_interval_sec us) 10000000
             in if burst > 0 \<and> interval \<noteq> 0 then
                  (let r = (if start_limit_window_ns r = 0
                               \<or> sat_i64 (now - start_limit_window_ns r) \<ge> to_i64 (as_nanos interval)
                            then r\<lparr> start_limit_window_ns := now, start_limit_count := 0 \<rparr> else r);
                       next_start = sat_add u32_max (start_limit_count r) 1
                   in if next_start > burst
                      then (None, r\<lparr> state := Failed, service_result := ''start-limit-hit'' \<rparr>)
                      else (Some (restart_delay_for cfg section next_restart),
                            r\<lparr> start_limit_count := next_start, restart_count := next_restart \<rparr>))
                else (Some (restart_delay_for cfg section next_restart), r\<lparr> restart_count := next_restart \<rparr>)))"

definition automatic_restart_delay ::
  "os \<Rightarrow> mconfig \<Rightarrow> child_exit \<Rightarrow> unit_record \<Rightarrow> effect list \<Rightarrow> nat option \<times> unit_record" where
  "automatic_restart_delay os cfg e r lg =
     automatic_restart_delay_at cfg e (unwrap_or (os_monotonic os lg) 0) r"

section \<open>Timers\<close>

definition add_timer :: "os \<Rightarrow> int \<Rightarrow> manager \<Rightarrow> nat option \<times> manager" where
  "add_timer os ns m =
     (let src = next_source m;
          e = E_Arm_Timer src ns
      in (if os_ok os (mlog m) e then Some src else None,
          m\<lparr> next_source := Suc src, mlog := mlog m @ [e] \<rparr>))"

definition arm_service_timeout_event ::
  "os \<Rightarrow> nat \<Rightarrow> string \<Rightarrow> service_timeout_phase \<Rightarrow> manager \<Rightarrow> nat option \<times> manager" where
  "arm_service_timeout_event os timeout name phase m =
     (case add_timer os (service_timeout_ns timeout) m of
        (None, m) \<Rightarrow> (None, m)
      | (Some src, m) \<Rightarrow> (Some src, m\<lparr> service_timers := (service_timers m)(src \<mapsto> (name, phase)) \<rparr>))"

definition cancel_start_timeout :: "string \<Rightarrow> manager \<Rightarrow> manager" where
  "cancel_start_timeout name m =
     (case start_timeouts m name of
        None \<Rightarrow> m
      | Some src \<Rightarrow> m\<lparr> start_timeouts := (start_timeouts m)(name := None),
                       service_timers := (service_timers m)(src := None) \<rparr>)"

definition cancel_stop_timeout :: "string \<Rightarrow> manager \<Rightarrow> manager" where
  "cancel_stop_timeout name m =
     (case stop_timeouts m name of
        None \<Rightarrow> m
      | Some src \<Rightarrow> m\<lparr> stop_timeouts := (stop_timeouts m)(name := None),
                       service_timers := (service_timers m)(src := None) \<rparr>)"

text \<open>A restart after a delay; a timer that cannot be armed starts the unit at once.\<close>

definition schedule_restart :: "os \<Rightarrow> nat \<Rightarrow> string \<Rightarrow> manager \<Rightarrow> manager" where
  "schedule_restart os delay name m =
     (case add_timer os (schedule_restart_ns delay) m of
        (None, m) \<Rightarrow> m\<lparr> queue := enqueue_internal Start name (queue m) \<rparr>
      | (Some src, m) \<Rightarrow> m\<lparr> restart_timers := (restart_timers m)(src \<mapsto> name) \<rparr>)"

text \<open>What the event loop does when a timer of either kind expires.\<close>

definition on_timer :: "nat \<Rightarrow> manager \<Rightarrow> manager" where
  "on_timer src m =
     (case service_timers m src of
        Some (name, phase) \<Rightarrow> m\<lparr> timeout_events := on_service_timeout name phase src (timeout_events m) \<rparr>
      | None \<Rightarrow>
          (case restart_timers m src of
             Some name \<Rightarrow>
               m\<lparr> restart_timers := (restart_timers m)(src := None),
                  shared := shared m @ [\<lparr> job_id = 0, job_kind = Start, job_unit = name \<rparr>] \<rparr>
           | None \<Rightarrow> m))"

section \<open>Timeouts\<close>

definition service_kill_policy :: "string \<Rightarrow> manager \<Rightarrow> (kill_policy \<times> pid option \<times> pid option) option" where
  "service_kill_policy name m =
     (case units m name of
        None \<Rightarrow> None
      | Some r \<Rightarrow>
          map_option (\<lambda>s. (kill_policy_from_service (svc s), active_pid r, control_pid r)) (service_of (loaded r)))"

record timeout_policy =
  tp_start_mode :: string
  tp_stop_mode :: string
  tp_stop :: nat
  tp_abort :: nat

definition timeout_policy_of :: "mconfig \<Rightarrow> string \<Rightarrow> manager \<Rightarrow> timeout_policy option" where
  "timeout_policy_of cfg name m =
     (case units m name of
        None \<Rightarrow> None
      | Some r \<Rightarrow>
          map_option (\<lambda>s.
            (let stop = unwrap_or (timeout_stop_sec (svc s)) (default_timeout_stop cfg)
             in \<lparr> tp_start_mode = timeout_start_failure_mode (svc s),
                  tp_stop_mode = timeout_stop_failure_mode (svc s), tp_stop = stop,
                  tp_abort = unwrap_or (timeout_abort_sec (svc s)) stop \<rparr>)) (service_of (loaded r)))"

definition signal_timeout_operation :: "os \<Rightarrow> string \<Rightarrow> kill_operation \<Rightarrow> manager \<Rightarrow> nat \<times> manager" where
  "signal_timeout_operation os name op m =
     (case service_kill_policy name m of
        None \<Rightarrow> (0, m)
      | Some (policy, mpid, cpid) \<Rightarrow>
          (let (sent, lg) = signal_primary os policy mpid cpid op (mlog m);
               (r, lg) = signal_cgroup_members os name policy mpid cpid op lg
           in (case r of Some group_sent \<Rightarrow> sat_add u64_max sent group_sent | None \<Rightarrow> sent,
               m\<lparr> mlog := lg \<rparr>)))"

definition mark_timeout_deactivating :: "string \<Rightarrow> string \<Rightarrow> manager \<Rightarrow> manager" where
  "mark_timeout_deactivating name result m =
     upd_unit name (\<lambda>r. r\<lparr> service_result := result, stop_requested := False, state := Deactivating,
       watchdog_timestamp_ns := None, watchdog_timestamp_realtime_ns := None \<rparr>) m"

definition unregister_main :: "string \<Rightarrow> manager \<Rightarrow> manager" where
  "unregister_main name m =
     (case units m name of
        None \<Rightarrow> m
      | Some r \<Rightarrow> (case active_pid r of None \<Rightarrow> m | Some pid \<Rightarrow> with_notify (unregister_pid pid) m))"

definition finalize_timeout_without_exit :: "os \<Rightarrow> string \<Rightarrow> string \<Rightarrow> manager \<Rightarrow> manager" where
  "finalize_timeout_without_exit os name result m =
     (let m = cancel_stop_timeout name (cancel_start_timeout name m);
          m = unregister_main name m
      in snd (run_unit name (\<lambda>r lg. ((), finish_timeout_failure os result r lg)) () m))"

definition apply_final_kill :: "os \<Rightarrow> string \<Rightarrow> manager \<Rightarrow> manager" where
  "apply_final_kill os name m =
     (let result = (case units m name of
                      None \<Rightarrow> ''timeout''
                    | Some r \<Rightarrow> if service_result r = ''watchdog'' then ''watchdog'' else ''timeout'');
          (sent, m) = signal_timeout_operation os name KO_Kill m
      in if sent = 0 then finalize_timeout_without_exit os name result m else m)"

definition arm_service_stop_timeout ::
  "os \<Rightarrow> string \<Rightarrow> nat \<Rightarrow> service_timeout_phase \<Rightarrow> manager \<Rightarrow> manager" where
  "arm_service_stop_timeout os name timeout phase m =
     (case arm_service_timeout_event os timeout name phase (cancel_stop_timeout name m) of
        (Some src, m) \<Rightarrow> m\<lparr> stop_timeouts := (stop_timeouts m)(name \<mapsto> src) \<rparr>
      | (None, m) \<Rightarrow> apply_final_kill os name m)"

text \<open>Signal the processes; finish at once if there was none to signal, else wait for them.\<close>

definition signal_and_wait ::
  "os \<Rightarrow> string \<Rightarrow> kill_operation \<Rightarrow> string \<Rightarrow> nat \<Rightarrow> service_timeout_phase \<Rightarrow> manager \<Rightarrow> manager" where
  "signal_and_wait os name op result timeout phase m =
     (let (sent, m) = signal_timeout_operation os name op m
      in if sent = 0 then finalize_timeout_without_exit os name result m
         else arm_service_stop_timeout os name timeout phase m)"

definition unit_in_state :: "string \<Rightarrow> unit_state \<Rightarrow> manager \<Rightarrow> bool" where
  "unit_in_state name st m = (case units m name of Some r \<Rightarrow> state r = st | None \<Rightarrow> False)"

definition apply_start_deadline :: "os \<Rightarrow> mconfig \<Rightarrow> string \<Rightarrow> manager \<Rightarrow> manager" where
  "apply_start_deadline os cfg name m =
     (if \<not> unit_in_state name Activating m then m
      else case timeout_policy_of cfg name m of
        None \<Rightarrow> m
      | Some p \<Rightarrow>
          (let m = mark_timeout_deactivating name ''timeout'' m
           in if tp_start_mode p = ''kill'' then apply_final_kill os name m
              else if tp_start_mode p = ''abort''
              then signal_and_wait os name KO_Watchdog ''timeout'' (tp_abort p) Phase_Abort m
              else signal_and_wait os name KO_Terminate ''timeout'' (tp_stop p) Phase_Stop m))"

definition apply_stop_deadline :: "os \<Rightarrow> mconfig \<Rightarrow> string \<Rightarrow> manager \<Rightarrow> manager" where
  "apply_stop_deadline os cfg name m =
     (case timeout_policy_of cfg name m of
        None \<Rightarrow> m
      | Some p \<Rightarrow>
          if \<not> unit_in_state name Deactivating m then m
          else
            (let m = upd_unit name (\<lambda>r. r\<lparr> service_result := ''timeout'' \<rparr>) m
             in if tp_stop_mode p = ''abort''
                then signal_and_wait os name KO_Watchdog ''timeout'' (tp_abort p) Phase_Abort m
                else apply_final_kill os name m))"

definition apply_abort_deadline :: "os \<Rightarrow> string \<Rightarrow> manager \<Rightarrow> manager" where
  "apply_abort_deadline os name m =
     (if unit_in_state name Deactivating m then apply_final_kill os name m else m)"

definition apply_service_timeout_event ::
  "os \<Rightarrow> mconfig \<Rightarrow> service_timeout_event \<Rightarrow> manager \<Rightarrow> manager" where
  "apply_service_timeout_event os cfg ev m =
     (let name = te_unit_name ev;
          armed = (case te_phase ev of Phase_Start \<Rightarrow> start_timeouts m name | _ \<Rightarrow> stop_timeouts m name);
          m = (case te_phase ev of
                 Phase_Start \<Rightarrow> m\<lparr> start_timeouts := (start_timeouts m)(name := None) \<rparr>
               | _ \<Rightarrow> m\<lparr> stop_timeouts := (stop_timeouts m)(name := None) \<rparr>)
      in if armed \<noteq> Some (te_source_id ev) then m
         else
           (let m = m\<lparr> service_timers := (service_timers m)(te_source_id ev := None) \<rparr>
            in case te_phase ev of
                 Phase_Start \<Rightarrow> apply_start_deadline os cfg name m
               | Phase_Stop \<Rightarrow> apply_stop_deadline os cfg name m
               | Phase_Abort \<Rightarrow> apply_abort_deadline os name m))"

definition apply_service_timeout_events :: "os \<Rightarrow> mconfig \<Rightarrow> manager \<Rightarrow> manager" where
  "apply_service_timeout_events os cfg m =
     fold (apply_service_timeout_event os cfg) (timeout_events m) (m\<lparr> timeout_events := [] \<rparr>)"

section \<open>Control groups\<close>

definition forget_oom :: "string \<Rightarrow> manager \<Rightarrow> manager" where
  "forget_oom name m =
     m\<lparr> oom_stopping := oom_stopping m - {name}, oom_recent := (oom_recent m)(name := None) \<rparr>"

definition cleanup_unit_cgroup_if_empty :: "os \<Rightarrow> string \<Rightarrow> manager \<Rightarrow> manager" where
  "cleanup_unit_cgroup_if_empty os name m =
     (if (case units m name of Some r \<Rightarrow> unit_cgroup_must_remain_realized r | None \<Rightarrow> False) then m
      else case os_populated os (mlog m) name of
        Inr True \<Rightarrow> m
      | Inr False \<Rightarrow> (forget_oom name m)\<lparr> mlog := mlog m @ [E_Remove_Cgroup name] \<rparr>
      | Inl NotFound \<Rightarrow> forget_oom name m
      | Inl _ \<Rightarrow> m)"

definition fail_resources :: "string \<Rightarrow> manager \<Rightarrow> manager" where
  "fail_resources name m = upd_unit name (\<lambda>r. r\<lparr> state := Failed, service_result := ''resources'' \<rparr>) m"

definition prepare_service_cgroup ::
  "os \<Rightarrow> string \<Rightarrow> manager \<Rightarrow> (bool \<times> string option) mresult \<times> manager" where
  "prepare_service_cgroup os name m =
     (let requested = (case units m name of
                         None \<Rightarrow> False
                       | Some r \<Rightarrow> (case service_of (loaded r) of
                                      None \<Rightarrow> False
                                    | Some s \<Rightarrow> is_configured (resource_control_of s)));
          created = os_ok os (mlog m) (E_Create_Cgroup name);
          m = m\<lparr> mlog := mlog m @ [E_Create_Cgroup name] \<rparr>
      in if \<not> created then
           (if requested then (Inl (ME_Resources name), fail_resources name m) else (Inr (requested, None), m))
         else
           (let applied = os_ok os (mlog m) (E_Apply_Control name);
                m = m\<lparr> mlog := mlog m @ [E_Apply_Control name] \<rparr>
            in if \<not> applied then
                 (let m = cleanup_unit_cgroup_if_empty os name m
                  in if requested then (Inl (ME_Resources name), fail_resources name m)
                     else (Inr (requested, None), m))
               else (Inr (requested, os_procs os (mlog m) name), m)))"

section \<open>Starting and stopping services\<close>

text \<open>The fields a start resets before the activation.\<close>

definition prepare_start :: "os \<Rightarrow> effect list \<Rightarrow> unit_record \<Rightarrow> unit_record" where
  "prepare_start os lg r =
     (let now = unwrap_or (os_monotonic os lg) 0
      in r\<lparr> status_text := None, status_errno := None, last_start_ns := now,
            exec_main_start_monotonic_ns := Some now, exec_main_start_realtime_ns := os_realtime os lg,
            exec_main_exit_realtime_ns := None, exec_main_exit_monotonic_ns := None,
            watchdog_timestamp_ns := None, watchdog_timestamp_realtime_ns := None,
            watchdog_triggered := False \<rparr>)"

text \<open>The end of a start whose activation returned without an error.\<close>

definition finish_start ::
  "os \<Rightarrow> string \<Rightarrow> notify_access option \<Rightarrow> nat option \<Rightarrow> nat \<Rightarrow> bool \<Rightarrow> string option \<Rightarrow> manager
   \<Rightarrow> unit mresult \<times> manager" where
  "finish_start os name access watchdog start_timeout requested procs m =
     (let (apid, cpid, st) = (case units m name of
                                None \<Rightarrow> (None, None, Failed)
                              | Some r \<Rightarrow> (active_pid r, control_pid r, state r))
      in case or_else apid cpid of
           None \<Rightarrow> (Inr (), cleanup_unit_cgroup_if_empty os name m)
         | Some pid \<Rightarrow>
             (let m = (case (apid, access) of
                         (Some p, Some a) \<Rightarrow> with_notify (register_pid p name a) m
                       | _ \<Rightarrow> m);
                  attached = (procs \<noteq> None \<or> os_ok os (mlog m) (E_Attach_Pid name pid));
                  m = (if procs = None then m\<lparr> mlog := mlog m @ [E_Attach_Pid name pid] \<rparr> else m)
              in if \<not> attached \<and> requested then
                   (let m = fail_resources name m;
                        m = with_notify (unregister_pid pid) m
                    in (Inl (ME_Resources name), m\<lparr> mlog := mlog m @ [E_Kill pid SIGTERM] \<rparr>))
                 else if st = Activating then
                   (case arm_service_timeout_event os start_timeout name Phase_Start m of
                      (None, m) \<Rightarrow> (Inl ME_Timer, m)
                    | (Some src, m) \<Rightarrow> (Inr (), m\<lparr> start_timeouts := (start_timeouts m)(name \<mapsto> src) \<rparr>))
                 else if st = Active \<and> watchdog \<noteq> None then
                   (Inr (), upd_unit name (\<lambda>r. r\<lparr> watchdog_timestamp_ns := os_monotonic os (mlog m),
                                watchdog_timestamp_realtime_ns := os_realtime os (mlog m) \<rparr>) m)
                 else (Inr (), m)))"

definition start_service ::
  "os \<Rightarrow> string \<Rightarrow> notify_access option \<Rightarrow> nat option \<Rightarrow> nat \<Rightarrow> manager \<Rightarrow> unit mresult \<times> manager" where
  "start_service os name access watchdog start_timeout m =
     (if \<not> (unit_in_state name Inactive m \<or> unit_in_state name Failed m) then (Inr (), m)
      else
        (let m = cancel_start_timeout name m;
             m = upd_unit name (\<lambda>r. r\<lparr> state := Activating \<rparr>) m
         in case prepare_service_cgroup os name m of
              (Inl e, m) \<Rightarrow> (Inl e, m)
            | (Inr (requested, procs), m) \<Rightarrow>
                (let m = upd_unit name (prepare_start os (mlog m)) m
                 in case os_random os (mlog m) of
                      None \<Rightarrow> (Inl ME_Random, m\<lparr> mlog := mlog m @ [E_Random] \<rparr>)
                    | Some bytes \<Rightarrow>
                        (let m = (upd_unit name (assign_invocation_id bytes) m)\<lparr> mlog := mlog m @ [E_Random] \<rparr>
                         in case run_unit name (activate os) (Inr ()) m of
                              (Inl e, m) \<Rightarrow> (Inl (ME_Service e), cleanup_unit_cgroup_if_empty os name m)
                            | (Inr _, m) \<Rightarrow>
                                finish_start os name access watchdog start_timeout requested procs m))))"

definition clear_watchdog :: "unit_record \<Rightarrow> unit_record" where
  "clear_watchdog r =
     r\<lparr> watchdog_timestamp_ns := None, watchdog_timestamp_realtime_ns := None, watchdog_triggered := False \<rparr>"

definition stop_service :: "os \<Rightarrow> mconfig \<Rightarrow> string \<Rightarrow> manager \<Rightarrow> manager" where
  "stop_service os cfg name m =
     (let m = cancel_stop_timeout name (cancel_start_timeout name m);
          old_pid = (case units m name of None \<Rightarrow> None | Some r \<Rightarrow> or_else (active_pid r) (control_pid r));
          kill_context = service_kill_policy name m;
          op = (if name \<in> restart_pending m then KO_Restart else KO_Terminate);
          m = upd_unit name clear_watchdog m;
          m = snd (run_unit name (\<lambda>r lg. ((), deactivate os op r lg)) () m);
          stopped_without_pid = (case units m name of
                                   None \<Rightarrow> True
                                 | Some r \<Rightarrow> active_pid r = None \<and> control_pid r = None);
          m = (case kill_context of
                 Some (policy, mpid, cpid) \<Rightarrow>
                   if stopped_without_pid then m
                   else m\<lparr> mlog := snd (signal_cgroup_members os name policy mpid cpid op (mlog m)) \<rparr>
               | None \<Rightarrow> m)
      in if stopped_without_pid then
           (let m = (case old_pid of Some pid \<Rightarrow> with_notify (unregister_pid pid) m | None \<Rightarrow> m)
            in upd_unit name clear_watchdog m)
         else if old_pid \<noteq> None then
           (let timeout = (case units m name of
                             None \<Rightarrow> default_timeout_stop cfg
                           | Some r \<Rightarrow> (case stop_timeout_for_record r (default_timeout_stop cfg) of
                                          None \<Rightarrow> default_timeout_stop cfg
                                        | Some (_, t) \<Rightarrow> t))
            in arm_service_stop_timeout os name timeout Phase_Stop m)
         else m)"

section \<open>Jobs\<close>

definition run_service_job :: "os \<Rightarrow> mconfig \<Rightarrow> job_kind \<Rightarrow> string \<Rightarrow> manager \<Rightarrow> unit mresult \<times> manager" where
  "run_service_job os cfg kind name m =
     (case units m name of
        None \<Rightarrow> (Inl (ME_Not_Registered name), m)
      | Some r \<Rightarrow>
          (case service_of (loaded r) of
             None \<Rightarrow> (Inl (ME_Not_Registered name), m)
           | Some s \<Rightarrow>
               (case kind of
                  Start \<Rightarrow> start_service os name (effective_notify_access s) (watchdog_sec (svc s))
                             (unwrap_or (timeout_start_sec (svc s)) (default_timeout_start cfg)) m
                | Stop \<Rightarrow> (Inr (), stop_service os cfg name m)
                | Reload \<Rightarrow>
                    (case reload os r (mlog m) of
                       (Inl e, lg) \<Rightarrow> (Inl (ME_Service e), m\<lparr> mlog := lg \<rparr>)
                     | (Inr _, lg) \<Rightarrow> (Inr (), m\<lparr> mlog := lg \<rparr>))
                | _ \<Rightarrow> (Inr (), m))))"

definition unit_effect :: "os \<Rightarrow> effect \<Rightarrow> string \<Rightarrow> unit_state \<Rightarrow> manager \<Rightarrow> unit mresult \<times> manager" where
  "unit_effect os e name st m =
     (let ok = os_ok os (mlog m) e;
          m = m\<lparr> mlog := mlog m @ [e] \<rparr>
      in if ok then (Inr (), upd_unit name (\<lambda>r. r\<lparr> state := st \<rparr>) m) else (Inl (ME_Unit name), m))"

text \<open>Start and stop of the other unit kinds.\<close>

definition start_other :: "os \<Rightarrow> string \<Rightarrow> unit_record \<Rightarrow> manager \<Rightarrow> unit mresult \<times> manager" where
  "start_other os name r m =
     (case loaded r of
        Socket _ _ _ \<Rightarrow>
          if state r = Inactive \<or> state r = Failed then unit_effect os (E_Unit_On name) name Active m
          else (Inr (), m)
      | Target _ _ \<Rightarrow> (Inr (), upd_unit name (\<lambda>r. r\<lparr> state := Activating \<rparr>) m)
      | Timer _ _ _ \<Rightarrow> unit_effect os (E_Unit_On name) name Active m
      | Mount _ _ _ \<Rightarrow> unit_effect os (E_Unit_On name) name Active m
      | Swap _ _ _ \<Rightarrow> unit_effect os (E_Unit_On name) name Active m
      | PathUnit _ _ _ \<Rightarrow> unit_effect os (E_Unit_On name) name Active m
      | Automount _ _ _ \<Rightarrow> (Inl (ME_Unit name), m)
      | _ \<Rightarrow> (Inr (), upd_unit name (\<lambda>r. r\<lparr> state := Active \<rparr>) m))"

definition stop_other :: "os \<Rightarrow> string \<Rightarrow> unit_record \<Rightarrow> manager \<Rightarrow> unit mresult \<times> manager" where
  "stop_other os name r m =
     (case loaded r of
        Mount _ _ _ \<Rightarrow> unit_effect os (E_Unit_Off name) name Inactive m
      | Swap _ _ _ \<Rightarrow> unit_effect os (E_Unit_Off name) name Inactive m
      | PathUnit _ _ _ \<Rightarrow> unit_effect os (E_Unit_Off name) name Inactive m
      | Socket _ _ _ \<Rightarrow>
          (Inr (), upd_unit name (\<lambda>r. r\<lparr> state := Inactive \<rparr>) (m\<lparr> mlog := mlog m @ [E_Unit_Off name] \<rparr>))
      | _ \<Rightarrow> (Inr (), upd_unit name (\<lambda>r. r\<lparr> state := Inactive \<rparr>) m))"

text \<open>A job that is neither a restart nor an isolation.\<close>

definition run_plain_job :: "os \<Rightarrow> mconfig \<Rightarrow> job_kind \<Rightarrow> string \<Rightarrow> manager \<Rightarrow> unit mresult \<times> manager" where
  "run_plain_job os cfg kind name m =
     (case units m name of
        None \<Rightarrow> (Inl (ME_Not_Registered name), m)
      | Some r \<Rightarrow>
          if service_of (loaded r) \<noteq> None then run_service_job os cfg kind name m
          else (case kind of
                  Start \<Rightarrow> start_other os name r m
                | Stop \<Rightarrow> stop_other os name r m
                | _ \<Rightarrow> (Inl (ME_Unit name), m)))"

definition restart_unit :: "os \<Rightarrow> mconfig \<Rightarrow> string \<Rightarrow> manager \<Rightarrow> unit mresult \<times> manager" where
  "restart_unit os cfg name m =
     (case load_unit cfg name m of
        (Inl e, m) \<Rightarrow> (Inl e, m)
      | (Inr _, m) \<Rightarrow>
          if \<not> (case units m name of Some r \<Rightarrow> service_of (loaded r) \<noteq> None | None \<Rightarrow> False) then
            (case run_plain_job os cfg Stop name m of
               (Inl e, m) \<Rightarrow> (Inl e, m)
             | (Inr _, m) \<Rightarrow> run_plain_job os cfg Start name m)
          else
            (let st = (case units m name of Some r \<Rightarrow> state r | None \<Rightarrow> Inactive)
             in if st \<in> {Inactive, Failed, Maintenance} then run_plain_job os cfg Start name m
                else
                  (let m = m\<lparr> restart_pending := insert name (restart_pending m) \<rparr>;
                       (res, m) = (if st = Deactivating then (Inr (), m) else run_plain_job os cfg Stop name m)
                   in case res of
                        Inl e \<Rightarrow> (Inl e, m)
                      | Inr _ \<Rightarrow>
                          if (case units m name of
                                Some r \<Rightarrow> active_pid r \<noteq> None \<or> control_pid r \<noteq> None | None \<Rightarrow> False)
                          then (Inr (), m)
                          else run_plain_job os cfg Start name
                                 (m\<lparr> restart_pending := restart_pending m - {name} \<rparr>))))"

definition run_job :: "os \<Rightarrow> mconfig \<Rightarrow> job_kind \<Rightarrow> string \<Rightarrow> manager \<Rightarrow> unit mresult \<times> manager" where
  "run_job os cfg kind name m =
     (case kind of
        Nop \<Rightarrow> (Inr (), m)
      | Restart \<Rightarrow> restart_unit os cfg name m
      | Isolate \<Rightarrow> (Inl ME_Isolate_Context, m)
      | _ \<Rightarrow> run_plain_job os cfg kind name m)"

section \<open>Transactions\<close>

definition known_units :: "manager \<Rightarrow> string \<rightharpoonup> dep_unit" where
  "known_units m =
     (\<lambda>n. map_option (\<lambda>r. \<lparr> du_section = unit_section_of (loaded r), du_state = state r \<rparr>) (units m n))"

definition load_section :: "mconfig \<Rightarrow> string \<Rightarrow> unit_section option" where
  "load_section cfg name = map_option unit_section_of (load_file cfg name)"

text \<open>Load a unit found by the resolver; a failure is ignored.\<close>

definition load_quietly :: "mconfig \<Rightarrow> string \<Rightarrow> manager \<Rightarrow> manager" where
  "load_quietly cfg name m = snd (load_unit cfg name m)"

definition enqueue_job :: "job_kind \<Rightarrow> string \<Rightarrow> manager \<Rightarrow> manager" where
  "enqueue_job kind name m =
     (case enqueue kind name (queue m) of None \<Rightarrow> m | Some (_, q) \<Rightarrow> m\<lparr> queue := q \<rparr>)"

definition enqueue_internal_job :: "job_kind \<Rightarrow> string \<Rightarrow> manager \<Rightarrow> manager" where
  "enqueue_internal_job kind name m = m\<lparr> queue := enqueue_internal kind name (queue m) \<rparr>"

definition enqueue_start :: "mconfig \<Rightarrow> string \<Rightarrow> manager \<Rightarrow> unit mresult \<times> manager" where
  "enqueue_start cfg target m =
     (case load_unit cfg target m of
        (Inl e, m) \<Rightarrow> (Inl e, m)
      | (Inr _, m) \<Rightarrow>
          (case resolve_start_order (resolve_fuel cfg) target (known_units m) (load_section cfg) of
             None \<Rightarrow> (Inl ME_Fuel, m)
           | Some (Inl e) \<Rightarrow> (Inl (ME_Deps e), m)
           | Some (Inr names) \<Rightarrow>
               (Inr (), fold (\<lambda>name m. enqueue_job Start name (load_quietly cfg name m)) names m)))"

definition keeps_on_isolate :: "manager \<Rightarrow> string \<Rightarrow> bool" where
  "keeps_on_isolate m name =
     (case units m name of Some r \<Rightarrow> ignore_on_isolate (unit_section_of (loaded r)) | None \<Rightarrow> False)"

definition wants_stop :: "string list \<Rightarrow> manager \<Rightarrow> string \<Rightarrow> bool" where
  "wants_stop keep m name \<longleftrightarrow>
     name \<notin> set keep \<and> (case units m name of Some r \<Rightarrow> state r \<in> {Active, Activating, Failed} | None \<Rightarrow> False)"

definition enqueue_isolate ::
  "mconfig \<Rightarrow> (manager \<Rightarrow> string list) \<Rightarrow> nat \<Rightarrow> string \<Rightarrow> manager \<Rightarrow> unit mresult \<times> manager" where
  "enqueue_isolate cfg iter jid target m =
     (case load_unit cfg target m of
        (Inl e, m) \<Rightarrow> (Inl e, m)
      | (Inr _, m) \<Rightarrow>
          (case units m target of
             None \<Rightarrow> (Inl (ME_Not_Registered target), m)
           | Some r \<Rightarrow>
               if \<not> (case loaded r of Target _ _ \<Rightarrow> True | _ \<Rightarrow> False) then (Inl (ME_Not_Target target), m)
               else if \<not> allow_isolate (unit_section_of (loaded r)) then (Inl (ME_No_Isolate target), m)
               else case resolve_start_order (resolve_fuel cfg) target (known_units m) (load_section cfg) of
                 None \<Rightarrow> (Inl ME_Fuel, m)
               | Some (Inl e) \<Rightarrow> (Inl (ME_Deps e), m)
               | Some (Inr start_order) \<Rightarrow>
                   (let m = fold (load_quietly cfg) start_order m;
                        keep = start_order @ filter (keeps_on_isolate m) (iter m);
                        m = (if jid \<noteq> 0 then m\<lparr> isolate_jobs := (isolate_jobs m)(jid \<mapsto> keep) \<rparr> else m);
                        m = upd_unit target (\<lambda>r. r\<lparr> state := Activating \<rparr>) m;
                        m = fold (enqueue_internal_job Stop) (filter (wants_stop keep m) (iter m)) m
                    in (Inr (), fold (enqueue_internal_job Start) start_order m))))"

definition begin_shutdown_transaction :: "mconfig \<Rightarrow> (manager \<Rightarrow> string list) \<Rightarrow> manager \<Rightarrow> manager" where
  "begin_shutdown_transaction cfg iter m =
     (case enqueue_isolate cfg iter 0 ''shutdown.target'' m of
        (Inr _, m) \<Rightarrow> m
      | (Inl _, m) \<Rightarrow> fold (enqueue_internal_job Stop) (filter (wants_stop [] m) (iter m)) m)"

section \<open>Results of jobs\<close>

definition start_restart_result :: "unit_state \<Rightarrow> job_result option" where
  "start_restart_result st =
     (if st \<in> {Active, Inactive} then Some JR_Done
      else if st \<in> {Failed, Maintenance} then Some JR_Failed
      else None)"

definition stop_result :: "unit_state \<Rightarrow> job_result option" where
  "stop_result st =
     (if st = Inactive then Some JR_Done
      else if st \<in> {Failed, Maintenance} then Some JR_Failed
      else None)"

definition immediate_job_result :: "job \<Rightarrow> manager \<Rightarrow> job_result option" where
  "immediate_job_result j m =
     (if job_kind j = Nop then Some JR_Done
      else case units m (job_unit j) of
        None \<Rightarrow> None
      | Some r \<Rightarrow>
          (case job_kind j of
             Start \<Rightarrow> start_restart_result (state r)
           | Stop \<Rightarrow> stop_result (state r)
           | Restart \<Rightarrow> start_restart_result (state r)
           | Isolate \<Rightarrow> if state r \<in> {Failed, Maintenance} then Some JR_Failed else None
           | _ \<Rightarrow> Some JR_Done))"

definition settled_job_result :: "job_info \<Rightarrow> manager \<Rightarrow> job_result option" where
  "settled_job_result j m =
     (if ji_kind j = Nop then Some JR_Done
      else
        (let st = (case units m (ji_unit j) of Some r \<Rightarrow> state r | None \<Rightarrow> Failed)
         in case ji_kind j of
              Start \<Rightarrow> if st = Active then Some JR_Done
                        else if st \<in> {Inactive, Failed, Maintenance} then Some JR_Failed else None
            | Stop \<Rightarrow> stop_result st
            | Reload \<Rightarrow> Some JR_Done
            | Restart \<Rightarrow> start_restart_result st
            | _ \<Rightarrow> None))"

definition unit_state_in :: "unit_state list \<Rightarrow> manager \<Rightarrow> string \<Rightarrow> bool" where
  "unit_state_in sts m name = (case units m name of Some r \<Rightarrow> state r \<in> set sts | None \<Rightarrow> False)"

definition isolate_job_result :: "string list \<Rightarrow> job_info \<Rightarrow> manager \<Rightarrow> job_result option" where
  "isolate_job_result names j m =
     (case isolate_jobs m (ji_id j) of
        None \<Rightarrow> None
      | Some keep \<Rightarrow>
          (let st = (case units m (ji_unit j) of Some r \<Rightarrow> state r | None \<Rightarrow> Failed)
           in if st \<in> {Failed, Maintenance} then Some JR_Failed
              else if list_ex (\<lambda>n. n \<noteq> ji_unit j \<and> unit_state_in [Failed, Maintenance] m n) keep
              then Some JR_Dependency
              else if st = Active
                   \<and> \<not> list_ex (\<lambda>n. n \<notin> set keep \<and> unit_state_in [Active, Activating, Deactivating] m n) names
              then Some JR_Done
              else None))"

definition finish_job :: "nat \<Rightarrow> job_result \<Rightarrow> manager \<Rightarrow> manager" where
  "finish_job jid result m =
     m\<lparr> queue := (queue m)\<lparr> registry := snd (finish jid result (registry (queue m))) \<rparr>,
        isolate_jobs := (isolate_jobs m)(jid := None) \<rparr>"

definition mark_job_running :: "nat \<Rightarrow> manager \<Rightarrow> manager" where
  "mark_job_running jid m =
     m\<lparr> queue := (queue m)\<lparr> registry := snd (mark_running jid (registry (queue m))) \<rparr> \<rparr>"

definition run_ready_job :: "os \<Rightarrow> mconfig \<Rightarrow> (manager \<Rightarrow> string list) \<Rightarrow> job \<Rightarrow> manager \<Rightarrow> manager" where
  "run_ready_job os cfg iter j m =
     (if job_id j \<noteq> 0 \<and> \<not> is_live (registry (queue m)) (job_id j) then m
      else
        (let m = (if job_id j \<noteq> 0 then mark_job_running (job_id j) m else m);
             (res, m) = (if job_kind j = Isolate then enqueue_isolate cfg iter (job_id j) (job_unit j) m
                         else run_job os cfg (job_kind j) (job_unit j) m)
         in if job_id j = 0 then m
            else case res of
              Inl _ \<Rightarrow> finish_job (job_id j) JR_Failed m
            | Inr _ \<Rightarrow>
                (case immediate_job_result j m of
                   Some result \<Rightarrow> finish_job (job_id j) result m
                 | None \<Rightarrow> m)))"

definition release_idle_services_after_dispatch :: "(manager \<Rightarrow> string list) \<Rightarrow> manager \<Rightarrow> manager" where
  "release_idle_services_after_dispatch iter m =
     (if \<not> queue_is_empty (queue m) \<or> \<not> queue_is_empty (shared_queue m) then m
      else fold (\<lambda>name m. snd (run_unit name (\<lambda>r lg. ((), release_idle_gate r lg)) () m)) (iter m) m)"

definition run_ready_jobs :: "os \<Rightarrow> mconfig \<Rightarrow> (manager \<Rightarrow> string list) \<Rightarrow> job list \<Rightarrow> manager \<Rightarrow> manager" where
  "run_ready_jobs os cfg iter jobs m =
     release_idle_services_after_dispatch iter (fold (run_ready_job os cfg iter) jobs m)"

definition job_outcome :: "string list \<Rightarrow> manager \<Rightarrow> job_info \<Rightarrow> (nat \<times> job_result) option" where
  "job_outcome names m j =
     map_option (Pair (ji_id j))
       (if ji_kind j = Isolate then isolate_job_result names j m else settled_job_result j m)"

definition complete_running_jobs :: "string list \<Rightarrow> manager \<Rightarrow> manager" where
  "complete_running_jobs names m =
     (let running = filter (\<lambda>j. ji_state j = Running) (registry_list (registry (queue m)));
          completed = List.map_filter (job_outcome names m) running;
          m = fold (\<lambda>(jid, result). finish_job jid result) completed m
      in m\<lparr> isolate_jobs := (\<lambda>jid. if is_live (registry (queue m)) jid then isolate_jobs m jid else None) \<rparr>)"

section \<open>Child exits\<close>

definition oom_related :: "os \<Rightarrow> string \<Rightarrow> manager \<Rightarrow> bool" where
  "oom_related os name m \<longleftrightarrow>
     name \<in> oom_stopping m
     \<or> (case oom_recent m name of Some t \<Rightarrow> unwrap_or (os_monotonic os (mlog m)) 0 < t | None \<Rightarrow> False)"

definition mark_oom :: "unit_record \<Rightarrow> unit_record" where
  "mark_oom r =
     r\<lparr> service_result := ''oom-kill'', state := (if state r \<noteq> Active then Failed else state r) \<rparr>"

text \<open>Ask for an automatic restart of a unit and schedule it.\<close>

definition auto_restart :: "os \<Rightarrow> mconfig \<Rightarrow> child_exit \<Rightarrow> string \<Rightarrow> manager \<Rightarrow> manager" where
  "auto_restart os cfg e name m =
     (case units m name of
        None \<Rightarrow> m
      | Some r \<Rightarrow>
          (let (delay, r) = automatic_restart_delay os cfg e r (mlog m);
               m = m\<lparr> units := (units m)(name \<mapsto> r) \<rparr>
           in case delay of None \<Rightarrow> m | Some d \<Rightarrow> schedule_restart os d name m))"

definition remove_start_timeout_if_settled :: "string \<Rightarrow> manager \<Rightarrow> manager" where
  "remove_start_timeout_if_settled name m =
     (if unit_in_state name Activating m then m else cancel_start_timeout name m)"

text \<open>The exit of a control process: adoption, failure, restart.\<close>

definition exit_control :: "os \<Rightarrow> mconfig \<Rightarrow> child_exit \<Rightarrow> string \<Rightarrow> unit_record \<Rightarrow> manager \<Rightarrow> manager" where
  "exit_control os cfg e name r m =
     (let oom = oom_related os name m;
          stopping = stop_requested r \<and> \<not> oom;
          procs = os_procs os (mlog m) name;
          m = snd (run_unit name (on_forking_control_exit os procs e) (Inr False) m);
          m = remove_start_timeout_if_settled name m;
          m = (if stopping then cancel_stop_timeout name m else m);
          m = (if oom then upd_unit name mark_oom m else m)
      in if unit_in_state name Failed m \<and> \<not> stopping then auto_restart os cfg e name m else m)"

text \<open>The exit of a main process.\<close>

definition exit_main :: "os \<Rightarrow> mconfig \<Rightarrow> child_exit \<Rightarrow> string \<Rightarrow> unit_record \<Rightarrow> manager \<Rightarrow> manager" where
  "exit_main os cfg e name r m =
     (let oom = oom_related os name m;
          stopping = stop_requested r \<and> \<not> oom;
          realtime = os_realtime os (mlog m);
          monotonic = os_monotonic os (mlog m);
          procs = os_procs os (mlog m) name;
          m = snd (run_unit name (on_child_exit os procs e) False m);
          m = upd_unit name (\<lambda>r. r\<lparr> exec_main_exit_realtime_ns := realtime,
                                     exec_main_exit_monotonic_ns := monotonic \<rparr>) m;
          m = (if oom then upd_unit name mark_oom m else m);
          m = cancel_stop_timeout name (cancel_start_timeout name m);
          m = with_notify (unregister_pid (exit_pid e)) m;
          m = upd_unit name clear_watchdog m
      in if name \<in> restart_pending m
         then m\<lparr> restart_pending := restart_pending m - {name},
                 queue := enqueue_internal Start name (queue m) \<rparr>
         else if \<not> stopping then auto_restart os cfg e name m
         else m)"

definition exit_done :: "os \<Rightarrow> string \<Rightarrow> manager \<Rightarrow> manager" where
  "exit_done os name m =
     (let m = (if name \<in> oom_stopping m then m else m\<lparr> oom_recent := (oom_recent m)(name := None) \<rparr>)
      in cleanup_unit_cgroup_if_empty os name m)"

text \<open>The loop over the units, which ends at the first one the process belongs to.\<close>

fun apply_child_exit :: "os \<Rightarrow> mconfig \<Rightarrow> string list \<Rightarrow> child_exit \<Rightarrow> manager \<Rightarrow> manager" where
  "apply_child_exit os cfg [] e m = m"
| "apply_child_exit os cfg (name # names) e m =
     (case units m name of
        None \<Rightarrow> apply_child_exit os cfg names e m
      | Some r \<Rightarrow>
          if control_pid r = Some (exit_pid e) then exit_done os name (exit_control os cfg e name r m)
          else if active_pid r = Some (exit_pid e) \<and> service_of (loaded r) \<noteq> None
          then exit_done os name (exit_main os cfg e name r m)
          else apply_child_exit os cfg names e m)"

definition apply_child_exits :: "os \<Rightarrow> mconfig \<Rightarrow> string list \<Rightarrow> child_exit list \<Rightarrow> manager \<Rightarrow> manager" where
  "apply_child_exits os cfg names exits m = fold (apply_child_exit os cfg names) exits m"

section \<open>Empty control groups\<close>

text \<open>The three handlers of an empty control group, each tried if the one before did not apply.\<close>

definition on_cgroup_empty ::
  "os \<Rightarrow> string option \<Rightarrow> unit_record \<Rightarrow> effect list \<Rightarrow> bool \<times> unit_record \<times> effect list" where
  "on_cgroup_empty os procs r lg =
     (case on_service_cgroup_empty os procs r lg of
        (True, r, lg) \<Rightarrow> (True, r, lg)
      | (False, r, lg) \<Rightarrow>
          (case on_timeout_cgroup_empty os r lg of
             (True, r, lg) \<Rightarrow> (False, r, lg)
           | (False, r, lg) \<Rightarrow> (False, snd (on_forking_cgroup_empty os r lg))))"

definition cleanup_empty_cgroup :: "os \<Rightarrow> mconfig \<Rightarrow> string \<Rightarrow> manager \<Rightarrow> manager" where
  "cleanup_empty_cgroup os cfg name m =
     (let procs = os_procs os (mlog m) name;
          (completed, m) = run_unit name (on_cgroup_empty os procs) False m;
          m = (case units m name of
                 None \<Rightarrow> m
               | Some r \<Rightarrow>
                   if completed \<and> \<not> stop_requested r
                   then auto_restart os cfg \<lparr> exit_pid = 0, exit_code = exec_main_code r,
                                              exit_status = exec_main_status r \<rparr> name m
                   else m)
      in cleanup_unit_cgroup_if_empty os name m)"

definition cleanup_empty_cgroups :: "os \<Rightarrow> mconfig \<Rightarrow> manager \<Rightarrow> manager" where
  "cleanup_empty_cgroups os cfg m =
     fold (cleanup_empty_cgroup os cfg) (cgroup_empty_events m) (m\<lparr> cgroup_empty_events := [] \<rparr>)"

section \<open>Notifications and readiness\<close>

definition apply_notify_pid_change :: "string \<Rightarrow> pid option \<Rightarrow> pid \<Rightarrow> manager \<Rightarrow> manager" where
  "apply_notify_pid_change name old_pid new_pid m =
     (let m = (case old_pid of
                 Some p \<Rightarrow> with_notify (replace_pid p new_pid) m
               | None \<Rightarrow>
                   (case Option.bind (units m name) record_notify_access of
                      Some access \<Rightarrow> with_notify (register_pid new_pid name access) m
                    | None \<Rightarrow> m))
      in m\<lparr> mlog := mlog m @ [E_Attach_Pid name new_pid] \<rparr>)"

text \<open>The assignments a message makes to the record of its unit.\<close>

definition notify_status :: "notify_message \<Rightarrow> unit_record \<Rightarrow> unit_record" where
  "notify_status msg r =
     (let r = (case nm_status msg of Some s \<Rightarrow> r\<lparr> status_text := Some s \<rparr> | None \<Rightarrow> r)
      in case nm_errno msg of Some n \<Rightarrow> r\<lparr> status_errno := Some n \<rparr> | None \<Rightarrow> r)"

definition notify_new_pid :: "notify_message \<Rightarrow> unit_record \<Rightarrow> pid option" where
  "notify_new_pid msg r =
     (case nm_main_pid msg of
        Some pid \<Rightarrow> if 0 < pid \<and> active_pid r \<noteq> Some pid then Some pid else None
      | None \<Rightarrow> None)"

definition touch_watchdog :: "int option \<Rightarrow> int option \<Rightarrow> unit_record \<Rightarrow> unit_record" where
  "touch_watchdog now realtime r =
     (if watchdog_interval_ns r \<noteq> None
      then r\<lparr> watchdog_timestamp_ns := now, watchdog_timestamp_realtime_ns := realtime, watchdog_triggered := False \<rparr>
      else r)"

definition apply_notify_event :: "os \<Rightarrow> mconfig \<Rightarrow> notify_event \<Rightarrow> manager \<Rightarrow> manager" where
  "apply_notify_event os cfg ev m =
     (let name = ne_unit ev;
          msg = ne_message ev;
          now = os_monotonic os (mlog m);
          realtime = os_realtime os (mlog m)
      in case units m name of
           None \<Rightarrow> m
         | Some r \<Rightarrow>
             (let r = notify_status msg r;
                  old_pid = active_pid r;
                  new_pid = notify_new_pid msg r;
                  r = (case new_pid of Some pid \<Rightarrow> r\<lparr> active_pid := Some pid \<rparr> | None \<Rightarrow> r);
                  ready = (nm_ready msg \<and> state r = Activating);
                  r = (if nm_watchdog msg then touch_watchdog now realtime r else r);
                  stopping = (nm_stopping msg \<and> state r \<in> {Active, Activating});
                  r = (if stopping then (clear_watchdog r)\<lparr> state := Deactivating \<rparr> else r);
                  stop_timeout = (if stopping then stop_timeout_for_record r (default_timeout_stop cfg) else None);
                  m = m\<lparr> units := (units m)(name \<mapsto> r) \<rparr>;
                  (cancelled, m) =
                    (if ready \<and> \<not> stopping then
                       (case run_unit name (complete_notify_start os) (Inr False) m of
                          (Inr True, m) \<Rightarrow> (True, upd_unit name (touch_watchdog now realtime) m)
                        | (Inr False, m) \<Rightarrow> (False, m)
                        | (Inl _, m) \<Rightarrow> (True, m))
                     else (stopping, m));
                  m = (if cancelled then cancel_start_timeout name m else m);
                  m = (case stop_timeout of
                         Some (_, t) \<Rightarrow> arm_service_stop_timeout os name t Phase_Stop m
                       | None \<Rightarrow> m)
              in case new_pid of
                   Some pid \<Rightarrow> apply_notify_pid_change name old_pid pid m
                 | None \<Rightarrow> m))"

definition apply_notify_events :: "os \<Rightarrow> mconfig \<Rightarrow> manager \<Rightarrow> manager" where
  "apply_notify_events os cfg m =
     (case notify m of
        None \<Rightarrow> m
      | Some server \<Rightarrow>
          (let (events, server) = drain_notify server
           in fold (apply_notify_event os cfg) events (m\<lparr> notify := Some server \<rparr>)))"

definition apply_dbus_ready :: "os \<Rightarrow> string \<Rightarrow> manager \<Rightarrow> manager" where
  "apply_dbus_ready os name m =
     (case run_unit name (complete_dbus_start os) (Inr False) m of
        (Inr False, m) \<Rightarrow> m
      | (_, m) \<Rightarrow> cancel_start_timeout name m)"

definition apply_dbus_ready_events :: "os \<Rightarrow> manager \<Rightarrow> manager" where
  "apply_dbus_ready_events os m =
     fold (apply_dbus_ready os) (dbus_ready_events m) (m\<lparr> dbus_ready_events := [] \<rparr>)"

definition retry_pid_file :: "os \<Rightarrow> string \<Rightarrow> manager \<Rightarrow> manager" where
  "retry_pid_file os name m =
     (let procs = os_procs os (mlog m) name
      in case run_unit name (retry_forking_pid_file os procs) (Inr False) m of
           (Inr False, m) \<Rightarrow> m
         | (Inl _, m) \<Rightarrow> cancel_start_timeout name m
         | (Inr True, m) \<Rightarrow>
             (let m = cancel_start_timeout name m
              in case units m name of
                   None \<Rightarrow> m
                 | Some r \<Rightarrow>
                     (case (record_notify_access r, active_pid r) of
                        (Some access, Some pid) \<Rightarrow> with_notify (register_pid pid name access) m
                      | _ \<Rightarrow> m)))"

definition retry_pending_forking_pid_files :: "os \<Rightarrow> string list \<Rightarrow> manager \<Rightarrow> manager" where
  "retry_pending_forking_pid_files os names m =
     fold (retry_pid_file os)
       (filter (\<lambda>n. case units m n of Some r \<Rightarrow> forking_pid_file_pending r | None \<Rightarrow> False) names) m"

section \<open>Watchdogs and out-of-memory events\<close>

definition watchdog_expired :: "int \<Rightarrow> unit_record \<Rightarrow> bool" where
  "watchdog_expired now r \<longleftrightarrow>
     \<not> watchdog_triggered r
     \<and> (case (watchdog_interval_ns r, watchdog_timestamp_ns r, active_pid r) of
          (Some interval, Some prev, Some _) \<Rightarrow> interval \<le> sat_i64 (now - prev)
        | _ \<Rightarrow> False)"

definition trip_watchdog :: "unit_record \<Rightarrow> unit_record" where
  "trip_watchdog r =
     r\<lparr> watchdog_triggered := True, status_text := Some ''Watchdog timeout'', service_result := ''watchdog'',
        stop_requested := False, state := Deactivating \<rparr>"

definition watchdog_abort :: "os \<Rightarrow> mconfig \<Rightarrow> string \<Rightarrow> manager \<Rightarrow> manager" where
  "watchdog_abort os cfg name m =
     (let abort = (case timeout_policy_of cfg name m of
                     None \<Rightarrow> default_timeout_stop cfg
                   | Some p \<Rightarrow> tp_abort p)
      in signal_and_wait os name KO_Watchdog ''watchdog'' abort Phase_Abort m)"

definition expire_watchdogs :: "os \<Rightarrow> mconfig \<Rightarrow> string list \<Rightarrow> manager \<Rightarrow> manager" where
  "expire_watchdogs os cfg names m =
     (case os_monotonic os (mlog m) of
        None \<Rightarrow> m
      | Some now \<Rightarrow>
          (let expired = filter (\<lambda>n. case units m n of Some r \<Rightarrow> watchdog_expired now r | None \<Rightarrow> False) names;
               m = fold (\<lambda>n. upd_unit n trip_watchdog) expired m
           in fold (watchdog_abort os cfg) expired m))"

definition poll_ns :: "int \<Rightarrow> unit_record \<Rightarrow> int \<Rightarrow> int" where
  "poll_ns now r nearest =
     (if watchdog_triggered r then nearest
      else case (watchdog_interval_ns r, watchdog_timestamp_ns r) of
        (Some interval, Some prev) \<Rightarrow> min nearest (max 0 (sat_i64 (sat_i64 (prev + interval) - now)))
      | _ \<Rightarrow> nearest)"

definition next_poll_timeout_ms :: "os \<Rightarrow> string list \<Rightarrow> manager \<Rightarrow> int" where
  "next_poll_timeout_ms os names m =
     (case os_monotonic os (mlog m) of
        None \<Rightarrow> 30000
      | Some now \<Rightarrow>
          (let records = List.map_filter (units m) names;
               nearest = (if list_ex forking_pid_file_pending records then min 30000000000 50000000
                          else 30000000000);
               nearest = fold (poll_ns now) records nearest
           in min (sat_i64 (nearest + 999999) div 1000000) 30000))"

datatype oom_policy_kind = OomContinue | OomStop | OomKill

definition oom_resolve :: "bool \<Rightarrow> string \<Rightarrow> oom_policy_kind" where
  "oom_resolve system configured =
     (let c = trim configured
      in if c = ''continue'' then OomContinue
         else if c = ''stop'' then OomStop
         else if c = ''kill'' then OomKill
         else if system then OomStop
         else OomContinue)"

definition apply_oom_event :: "os \<Rightarrow> mconfig \<Rightarrow> string \<Rightarrow> manager \<Rightarrow> manager" where
  "apply_oom_event os cfg name m =
     (case units m name of
        None \<Rightarrow> m
      | Some r \<Rightarrow>
          (case service_of (loaded r) of
             None \<Rightarrow> m
           | Some s \<Rightarrow>
               (let policy = oom_resolve (system_scope cfg) (oom_policy (sbx s));
                    m = upd_unit name (\<lambda>r. r\<lparr> service_result := ''oom-kill'' \<rparr>) m;
                    m = m\<lparr> oom_recent := (oom_recent m)
                             (name \<mapsto> unwrap_or (os_monotonic os (mlog m)) 0 + 2000000000) \<rparr>
                in if policy = OomContinue then m
                   else
                     (let m = m\<lparr> oom_stopping := insert name (oom_stopping m) \<rparr>;
                          m = stop_service os cfg name m
                      in if policy = OomKill then m\<lparr> mlog := mlog m @ [E_Kill_Group name SIGKILL []] \<rparr>
                         else m))))"

definition apply_oom_events :: "os \<Rightarrow> mconfig \<Rightarrow> manager \<Rightarrow> manager" where
  "apply_oom_events os cfg m =
     fold (apply_oom_event os cfg) (oom_events m) (m\<lparr> oom_events := [] \<rparr>)"

section \<open>Requests\<close>

definition reset_failed_unit :: "os \<Rightarrow> string \<Rightarrow> manager \<Rightarrow> manager" where
  "reset_failed_unit os name m =
     (let m = m\<lparr> restart_pending := restart_pending m - {name} \<rparr>;
          m = upd_unit name reset_failed_record m
      in cleanup_unit_cgroup_if_empty os name m)"

definition apply_reset_failed_request :: "os \<Rightarrow> string list \<Rightarrow> string list \<Rightarrow> manager \<Rightarrow> manager" where
  "apply_reset_failed_request os names requested m =
     fold (reset_failed_unit os) (if requested = [] then names else requested) m"

definition apply_reset_failed_requests :: "os \<Rightarrow> (manager \<Rightarrow> string list) \<Rightarrow> manager \<Rightarrow> manager" where
  "apply_reset_failed_requests os iter m =
     fold (\<lambda>req m. apply_reset_failed_request os (iter m) req m) (reset_failed_requests m)
       (m\<lparr> reset_failed_requests := [] \<rparr>)"

definition apply_unit_load_requests :: "mconfig \<Rightarrow> manager \<Rightarrow> manager" where
  "apply_unit_load_requests cfg m =
     fold (load_quietly cfg) (unit_load_requests m) (m\<lparr> unit_load_requests := [] \<rparr>)"

text \<open>Jobs of timers and clients move to the queue of the manager; their units are loaded first.\<close>

definition take_shared_job :: "mconfig \<Rightarrow> job \<Rightarrow> manager \<Rightarrow> manager" where
  "take_shared_job cfg j m =
     (let m = load_quietly cfg (job_unit j) m
      in m\<lparr> queue := push_existing j (queue m) \<rparr>)"

definition drain_shared_queue :: "mconfig \<Rightarrow> manager \<Rightarrow> manager" where
  "drain_shared_queue cfg m =
     fold (take_shared_job cfg) (filter (job_kept (registry (queue m))) (shared m)) (m\<lparr> shared := [] \<rparr>)"

section \<open>Targets\<close>

text \<open>\<open>try_activate_target\<close> of \<open>src/src/target.rs\<close>: the loop over the required units.\<close>

fun target_state :: "(string \<Rightarrow> unit_state option) \<Rightarrow> string list \<Rightarrow> unit_state \<Rightarrow> unit_state" where
  "target_state sts [] st = Active"
| "target_state sts (dep # deps) st =
     (case sts dep of
        None \<Rightarrow> target_state sts deps st
      | Some s \<Rightarrow>
          if s \<in> {Active, Inactive} then target_state sts deps st
          else if s \<in> {Failed, Maintenance} then Failed
          else st)"

definition try_activate_target :: "(string \<Rightarrow> unit_state option) \<Rightarrow> unit_record \<Rightarrow> unit_record" where
  "try_activate_target sts r =
     (case loaded r of
        Target _ us \<Rightarrow> r\<lparr> state := target_state sts (requires us) (state r) \<rparr>
      | _ \<Rightarrow> r)"

definition activate_target :: "string \<Rightarrow> manager \<Rightarrow> manager" where
  "activate_target name m =
     upd_unit name (try_activate_target ((\<lambda>n. map_option state (units m n))(name := None))) m"

definition pending_target :: "manager \<Rightarrow> string \<Rightarrow> bool" where
  "pending_target m name =
     (case units m name of
        Some r \<Rightarrow> (case loaded r of Target _ _ \<Rightarrow> state r = Activating | _ \<Rightarrow> False)
      | None \<Rightarrow> False)"

definition activate_targets :: "string list \<Rightarrow> manager \<Rightarrow> manager" where
  "activate_targets names m = fold activate_target (filter (pending_target m) names) m"

section \<open>One round of the event loop\<close>

text \<open>The ordering relation handed to the queue: \<open>After=\<close> together with the inverse of \<open>Before=\<close>.\<close>

definition afters_of :: "string list \<Rightarrow> manager \<Rightarrow> string \<rightharpoonup> string list" where
  "afters_of names m name =
     (let own = (case units m name of Some r \<Rightarrow> unit_after (unit_section_of (loaded r)) | None \<Rightarrow> []);
          others = concat (map (\<lambda>n. case units m n of
                     Some r \<Rightarrow> map (\<lambda>_. n) (filter (\<lambda>l. l = name) (unit_before (unit_section_of (loaded r))))
                   | None \<Rightarrow> []) names)
      in if units m name = None \<and> others = [] then None
         else Some (remdups_adj (sort (own @ others))))"

text \<open>
  The choice of the next job.  A build with \<open>ml-weave\<close>, the default, asks a scorer about every
  runnable job; the scorer of \<open>src/src/ml_weave.rs\<close> is the argument, any function of the unit, of
  whether the job is critical and of the number of calls so far.
\<close>

type_synonym weave = "string \<Rightarrow> bool \<Rightarrow> nat \<Rightarrow> f64 \<times> nat"

definition job_critical :: "job \<Rightarrow> bool" where
  "job_critical j \<longleftrightarrow> job_kind j \<in> {Stop, Restart, Isolate} \<or> ends_with (job_unit j) ''.target''"

definition take_ready ::
  "weave option \<Rightarrow> (string \<rightharpoonup> unit_state) \<Rightarrow> (string \<rightharpoonup> string list) \<Rightarrow> job_queue \<Rightarrow> job option \<times> job_queue" where
  "take_ready weave states afters q =
     (case weave of
        None \<Rightarrow> pop_ready states afters q
      | Some score_job \<Rightarrow>
          fst (pop_ready_by states afters (\<lambda>j. score_job (job_unit j) (job_critical j)) q 0))"

definition dispatch_one ::
  "os \<Rightarrow> mconfig \<Rightarrow> (manager \<Rightarrow> string list) \<Rightarrow> weave option \<Rightarrow> manager \<Rightarrow> bool \<times> manager" where
  "dispatch_one os cfg iter weave m =
     (let afters = afters_of (iter m) m;
          m = m\<lparr> queue := queue_refresh_ordering afters (queue m) \<rparr>;
          (ready, q) = take_ready weave (\<lambda>n. map_option state (units m n)) afters (queue m);
          m = m\<lparr> queue := q \<rparr>;
          jobs = (case ready of None \<Rightarrow> [] | Some j \<Rightarrow> [j])
      in (jobs \<noteq> [], run_ready_jobs os cfg iter jobs m))"

definition publish_job_events :: "manager \<Rightarrow> manager" where
  "publish_job_events m =
     (let (es, r) = drain_events (registry (queue m))
      in m\<lparr> queue := (queue m)\<lparr> registry := r \<rparr>, published := published m @ es \<rparr>)"

text \<open>Records of past kills expire; \<open>ooms\<close> are the units whose counters grew.\<close>

definition sync_oom_counters :: "os \<Rightarrow> string list \<Rightarrow> manager \<Rightarrow> manager" where
  "sync_oom_counters os ooms m =
     (let now = unwrap_or (os_monotonic os (mlog m)) 0
      in m\<lparr> oom_recent := (\<lambda>n. case oom_recent m n of
                               Some t \<Rightarrow> if t > now then Some t else None
                             | None \<Rightarrow> None),
            oom_events := oom_events m @ ooms \<rparr>)"

text \<open>The handling of children, done before the jobs and again after the poll.\<close>

definition apply_exits ::
  "os \<Rightarrow> mconfig \<Rightarrow> (manager \<Rightarrow> string list) \<Rightarrow> string list \<Rightarrow> child_exit list \<Rightarrow> manager \<Rightarrow> manager" where
  "apply_exits os cfg iter ooms exits m =
     (let m = sync_oom_counters os ooms m;
          m = apply_oom_events os cfg m;
          m = apply_child_exits os cfg (iter m) exits m
      in cleanup_empty_cgroups os cfg m)"

text \<open>What the kernel reported since the last round.\<close>

record round_input =
  reaped :: "child_exit list"
  oom_reports :: "string list"

definition run_round ::
  "os \<Rightarrow> mconfig \<Rightarrow> (manager \<Rightarrow> string list) \<Rightarrow> weave option \<Rightarrow> round_input \<Rightarrow> manager \<Rightarrow> bool \<times> manager" where
  "run_round os cfg iter weave inp m =
     (let m = drain_shared_queue cfg m;
          m = apply_unit_load_requests cfg m;
          m = apply_reset_failed_requests os iter m;
          m = publish_job_events m;
          m = apply_exits os cfg iter (oom_reports inp) (reaped inp) m;
          m = retry_pending_forking_pid_files os (iter m) m;
          m = apply_service_timeout_events os cfg m;
          m = apply_notify_events os cfg m;
          m = apply_dbus_ready_events os m;
          m = expire_watchdogs os cfg (iter m) m;
          (dispatched, m) = dispatch_one os cfg iter weave m;
          m = activate_targets (iter m) m;
          m = complete_running_jobs (iter m) m
      in (dispatched, publish_job_events m))"

definition unit_settled :: "unit_record \<Rightarrow> bool" where
  "unit_settled r \<longleftrightarrow> state r \<notin> {Activating, Deactivating}"

definition all_settled :: "string list \<Rightarrow> manager \<Rightarrow> bool" where
  "all_settled names m = list_all (\<lambda>n. case units m n of Some r \<Rightarrow> unit_settled r | None \<Rightarrow> True) names"

definition is_idle :: "string list \<Rightarrow> manager \<Rightarrow> bool" where
  "is_idle names m \<longleftrightarrow>
     queue_is_empty (queue m) \<and> queue_is_empty (shared_queue m) \<and> unit_load_requests m = []
     \<and> registry_is_empty (registry (queue m)) \<and> all_settled names m"

section \<open>Leaving the loop\<close>

datatype loop_result = Continue | Exit | Reboot | Poweroff | Halt | Kexec | Reexecute

record lifecycle =
  pending_shutdown_result :: "loop_result option"
  reexecute_requested :: bool
  exit_requested :: bool
  shutdown_action :: nat

definition take_when_idle :: "string list \<Rightarrow> manager \<Rightarrow> lifecycle \<Rightarrow> loop_result option \<times> lifecycle" where
  "take_when_idle names m l =
     (if is_idle names m then (pending_shutdown_result l, l\<lparr> pending_shutdown_result := None \<rparr>) else (None, l))"

definition queue_shutdown_transaction ::
  "mconfig \<Rightarrow> (manager \<Rightarrow> string list) \<Rightarrow> loop_result \<Rightarrow> manager \<times> lifecycle
   \<Rightarrow> loop_result option \<times> manager \<times> lifecycle" where
  "queue_shutdown_transaction cfg iter result s =
     (let m = begin_shutdown_transaction cfg iter (fst s);
          (r, l) = take_when_idle (iter m) m ((snd s)\<lparr> pending_shutdown_result := Some result \<rparr>)
      in (r, m, l))"

definition shutdown_result :: "nat \<Rightarrow> loop_result option" where
  "shutdown_result action =
     (if action = 1 then Some Reboot else if action = 2 then Some Poweroff
      else if action = 3 then Some Halt else if action = 4 then Some Kexec else None)"

definition requested_lifecycle_result ::
  "mconfig \<Rightarrow> (manager \<Rightarrow> string list) \<Rightarrow> manager \<times> lifecycle \<Rightarrow> loop_result option \<times> manager \<times> lifecycle" where
  "requested_lifecycle_result cfg iter s =
     (let (m, l) = s
      in if pending_shutdown_result l \<noteq> None then
           (let (r, l) = take_when_idle (iter m) m l in (r, m, l))
         else if reexecute_requested l then (Some Reexecute, m, l\<lparr> reexecute_requested := False \<rparr>)
         else if exit_requested l then (Some Exit, m, l\<lparr> exit_requested := False \<rparr>)
         else
           (let requested = shutdown_result (shutdown_action l);
                l = l\<lparr> shutdown_action := 0 \<rparr>
            in case requested of
                 Some result \<Rightarrow> queue_shutdown_transaction cfg iter result (m, l)
               | None \<Rightarrow> (None, m, l)))"

end
