(* ===== verification/Clients.thy ===== *)
theory Clients
  imports Manager
begin

text \<open>
  The clients of the manager: the native control socket, \<open>src/src/ipc.rs\<close> and
  \<open>src/src/ipc_server.rs\<close>, and the job methods of the D-Bus interfaces,
  \<open>src/src/dbus/manager_iface.rs\<close>, \<open>unit_iface.rs\<close>, \<open>job_iface.rs\<close> and \<open>auth.rs\<close>.  Both run on
  threads of their own and act on the manager only through the shared job queue, the list of
  reset-failed requests and the reload flag.

  The JSON decoder, the answer of PolicyKit and the credentials of the peer are arguments.  A panic
  (an exhausted identifier space) is the result \<open>None\<close>; poisoned locks do not occur.  The wake-up of
  the event loop may fail, which only changes the answer.
\<close>

section \<open>The shared queue\<close>

definition set_shared_queue :: "job_queue \<Rightarrow> manager \<Rightarrow> manager" where
  "set_shared_queue q m = m\<lparr> queue := (queue m)\<lparr> registry := registry q \<rparr>, shared := pending q \<rparr>"

definition client_enqueue :: "job_kind \<Rightarrow> string \<Rightarrow> string option \<Rightarrow> manager \<Rightarrow> (job \<times> manager) option" where
  "client_enqueue kind name owner m =
     map_option (\<lambda>(j, q). (j, set_shared_queue q m)) (enqueue_owned kind name owner (shared_queue m))"

definition client_cancel :: "nat \<Rightarrow> manager \<Rightarrow> bool \<times> manager" where
  "client_cancel jid m = (let (b, q) = cancel jid (shared_queue m) in (b, set_shared_queue q m))"

definition client_cancel_all :: "manager \<Rightarrow> nat \<times> manager" where
  "client_cancel_all m = (let (n, q) = cancel_all (shared_queue m) in (n, set_shared_queue q m))"

section \<open>Snapshots\<close>

record service_runtime_info =
  ri_invocation_id :: "8 word list option"
  ri_restart_count :: nat
  ri_bus_name :: "string option"
  ri_control_pid :: "pid option"
  ri_status_text :: "string option"
  ri_status_errno :: "int option"
  ri_watchdog_timestamp_ns :: "int option"
  ri_watchdog_timestamp_realtime_ns :: "int option"
  ri_exec_main_start_realtime_ns :: "int option"
  ri_exec_main_start_monotonic_ns :: "int option"
  ri_exec_main_exit_realtime_ns :: "int option"
  ri_exec_main_exit_monotonic_ns :: "int option"
  ri_result :: string
  ri_exec_main_code :: int
  ri_exec_main_status :: int
  ri_dynamic_uid :: "nat option"
  ri_file_descriptor_store_max :: nat

record unit_info =
  ui_name :: string
  ui_load_state :: string
  ui_active_state :: string
  ui_sub_state :: string
  ui_description :: string
  ui_main_pid :: "pid option"
  ui_unit_type :: string
  ui_service_type :: "string option"
  ui_restart_policy :: "string option"
  ui_service_runtime :: service_runtime_info

fun unit_type_str :: "loaded_unit \<Rightarrow> string" where
  "unit_type_str (Service _ _ _) = ''service''"
| "unit_type_str (Socket _ _ _) = ''socket''"
| "unit_type_str (Automount _ _ _) = ''automount''"
| "unit_type_str (Timer _ _ _) = ''timer''"
| "unit_type_str (PathUnit _ _ _) = ''path''"
| "unit_type_str (Mount _ _ _) = ''mount''"
| "unit_type_str (Swap _ _ _) = ''swap''"
| "unit_type_str (Target _ _) = ''target''"
| "unit_type_str (Slice _ _ _) = ''slice''"
| "unit_type_str (Scope _ _) = ''scope''"

fun active_state_str :: "unit_state \<Rightarrow> string" where
  "active_state_str Inactive = ''inactive''"
| "active_state_str Activating = ''activating''"
| "active_state_str Active = ''active''"
| "active_state_str Deactivating = ''deactivating''"
| "active_state_str Failed = ''failed''"
| "active_state_str Maintenance = ''maintenance''"

fun service_type_str :: "service_type \<Rightarrow> string" where
  "service_type_str Simple = ''simple''"
| "service_type_str ExecType = ''exec''"
| "service_type_str Forking = ''forking''"
| "service_type_str Oneshot = ''oneshot''"
| "service_type_str Dbus = ''dbus''"
| "service_type_str Notify = ''notify''"
| "service_type_str NotifyReload = ''notify-reload''"
| "service_type_str Idle = ''idle''"

fun restart_policy_str :: "restart_policy \<Rightarrow> string" where
  "restart_policy_str RestartNo = ''no''"
| "restart_policy_str OnSuccess = ''on-success''"
| "restart_policy_str OnFailure = ''on-failure''"
| "restart_policy_str OnAbnormal = ''on-abnormal''"
| "restart_policy_str OnWatchdog = ''on-watchdog''"
| "restart_policy_str OnAbort = ''on-abort''"
| "restart_policy_str Always = ''always''"

definition unit_record_to_info :: "unit_record \<Rightarrow> unit_info" where
  "unit_record_to_info r =
     (let sec = service_of (loaded r);
          active_state = active_state_str (state r)
      in \<lparr> ui_name = unit_name (loaded r), ui_load_state = ''loaded'', ui_active_state = active_state,
           ui_sub_state = active_state, ui_description = description (unit_section_of (loaded r)),
           ui_main_pid = active_pid r, ui_unit_type = unit_type_str (loaded r),
           ui_service_type = map_option (\<lambda>s. service_type_str (service_type_of (svc s))) sec,
           ui_restart_policy = map_option (\<lambda>s. restart_policy_str (restart_of (svc s))) sec,
           ui_service_runtime =
             \<lparr> ri_invocation_id = invocation_id r, ri_restart_count = restart_count r,
               ri_bus_name = Option.bind sec (\<lambda>s. if bus_name (svc s) = [] then None else Some (bus_name (svc s))),
               ri_control_pid = control_pid r, ri_status_text = status_text r,
               ri_status_errno = status_errno r, ri_watchdog_timestamp_ns = watchdog_timestamp_ns r,
               ri_watchdog_timestamp_realtime_ns = watchdog_timestamp_realtime_ns r,
               ri_exec_main_start_realtime_ns = exec_main_start_realtime_ns r,
               ri_exec_main_start_monotonic_ns = exec_main_start_monotonic_ns r,
               ri_exec_main_exit_realtime_ns = exec_main_exit_realtime_ns r,
               ri_exec_main_exit_monotonic_ns = exec_main_exit_monotonic_ns r,
               ri_result = service_result r, ri_exec_main_code = exec_main_code r,
               ri_exec_main_status = exec_main_status r, ri_dynamic_uid = dynamic_user_of r,
               ri_file_descriptor_store_max =
                 (case sec of Some s \<Rightarrow> file_descriptor_store_max (svc s) | None \<Rightarrow> 0) \<rparr> \<rparr>)"

type_synonym snapshot = "unit_info list"

definition publish_snapshot :: "string list \<Rightarrow> manager \<Rightarrow> snapshot" where
  "publish_snapshot names m = map unit_record_to_info (List.map_filter (units m) names)"
section \<open>The control socket\<close>

datatype ipc_request =
  ListUnits | ListJobs | Status string | Req_Start string | Req_Stop string | Req_Restart string
| Req_Reload string | Req_Isolate string | Enable string | Disable string | IsEnabled string
| IsActive string | IsFailed string | ResetFailed "string list" | DaemonReload | Cancel "nat option"

record ipc_job_info =
  ij_id :: nat
  ij_unit_name :: string
  ij_job_type :: string
  ij_state :: string

datatype ipc_data =
  Data_Units snapshot | Data_Unit unit_info | Data_Jobs "ipc_job_info list" | Data_Text string

record ipc_response =
  resp_ok :: bool
  resp_error :: "string option"
  resp_data :: "ipc_data option"

definition response_ok :: ipc_response where
  "response_ok = \<lparr> resp_ok = True, resp_error = None, resp_data = None \<rparr>"

definition response_data :: "ipc_data \<Rightarrow> ipc_response" where
  "response_data d = \<lparr> resp_ok = True, resp_error = None, resp_data = Some d \<rparr>"

definition response_err :: "string \<Rightarrow> ipc_response" where
  "response_err msg = \<lparr> resp_ok = False, resp_error = Some msg, resp_data = None \<rparr>"

text \<open>\<open>wake\<close> is the answer of the wake-up of the event loop: an error, if it failed.\<close>

definition wake_response :: "string option \<Rightarrow> ipc_response" where
  "wake_response wake =
     (case wake of
        None \<Rightarrow> response_ok
      | Some error \<Rightarrow> response_err (''internal: event loop wake failed: '' @ error))"

fun allowed_for_unprivileged :: "ipc_request \<Rightarrow> bool" where
  "allowed_for_unprivileged ListUnits = True"
| "allowed_for_unprivileged ListJobs = True"
| "allowed_for_unprivileged (Status _) = True"
| "allowed_for_unprivileged (IsEnabled _) = True"
| "allowed_for_unprivileged (IsActive _) = True"
| "allowed_for_unprivileged (IsFailed _) = True"
| "allowed_for_unprivileged _ = False"

definition ipc_enqueue_job ::
  "string option \<Rightarrow> job_kind \<Rightarrow> string \<Rightarrow> manager \<Rightarrow> (ipc_response \<times> manager) option" where
  "ipc_enqueue_job wake kind name m =
     map_option (\<lambda>(_, m). (wake_response wake, m)) (client_enqueue kind name None m)"

definition find_info :: "snapshot \<Rightarrow> string \<Rightarrow> unit_info option" where
  "find_info snap name = List.find (\<lambda>u. ui_name u = name) snap"

definition not_loaded :: "string \<Rightarrow> ipc_response" where
  "not_loaded name = response_err (''unit '' @ [CHR 0x27] @ name @ [CHR 0x27] @ '' not loaded'')"

definition ipc_list_jobs :: "manager \<Rightarrow> ipc_response" where
  "ipc_list_jobs m =
     response_data (Data_Jobs (map (\<lambda>j. \<lparr> ij_id = ji_id j, ij_unit_name = ji_unit j,
       ij_job_type = job_kind_as_str (ji_kind j), ij_state = job_state_as_str (ji_state j) \<rparr>)
       (registry_list (registry (queue m)))))"

definition ipc_cancel :: "string option \<Rightarrow> nat option \<Rightarrow> manager \<Rightarrow> ipc_response \<times> manager" where
  "ipc_cancel wake which m =
     (let (canceled, m) = (case which of
                             Some jid \<Rightarrow> client_cancel jid m
                           | None \<Rightarrow> (let (n, m) = client_cancel_all m in (n > 0, m)))
      in if canceled then (wake_response wake, m)
         else case which of
           Some jid \<Rightarrow> (response_err (''job '' @ show_nat jid @ '' does not exist''), m)
         | None \<Rightarrow> (response_ok, m))"

definition ipc_dispatch ::
  "bool \<Rightarrow> nat \<Rightarrow> snapshot \<Rightarrow> string option \<Rightarrow> ipc_request \<Rightarrow> manager \<Rightarrow> (ipc_response \<times> manager) option" where
  "ipc_dispatch system peer_uid snap wake req m =
     (if system \<and> peer_uid \<noteq> 0 \<and> \<not> allowed_for_unprivileged req
      then Some (response_err ''permission denied: system-manager mutation requires root'', m)
      else case req of
        ListUnits \<Rightarrow> Some (response_data (Data_Units snap), m)
      | ListJobs \<Rightarrow> Some (ipc_list_jobs m, m)
      | Status name \<Rightarrow>
          Some (case find_info snap name of
                  Some info \<Rightarrow> response_data (Data_Unit info)
                | None \<Rightarrow> not_loaded name, m)
      | Req_Start name \<Rightarrow> ipc_enqueue_job wake Start name m
      | Req_Stop name \<Rightarrow> ipc_enqueue_job wake Stop name m
      | Req_Restart name \<Rightarrow> ipc_enqueue_job wake Restart name m
      | Req_Reload name \<Rightarrow> ipc_enqueue_job wake Reload name m
      | Req_Isolate name \<Rightarrow> ipc_enqueue_job wake Isolate name m
      | IsActive name \<Rightarrow>
          Some (case find_info snap name of
                  Some info \<Rightarrow> response_data (Data_Text (ui_active_state info))
                | None \<Rightarrow> not_loaded name, m)
      | IsFailed name \<Rightarrow>
          Some (case find_info snap name of
                  Some info \<Rightarrow> response_data (Data_Text (ui_active_state info))
                | None \<Rightarrow> not_loaded name, m)
      | ResetFailed names \<Rightarrow> Some (wake_response wake, m\<lparr> reset_failed_requests := reset_failed_requests m @ [names] \<rparr>)
      | DaemonReload \<Rightarrow> Some (wake_response wake, m\<lparr> reload_requested := True \<rparr>)
      | Cancel which \<Rightarrow> Some (ipc_cancel wake which m)
      | _ \<Rightarrow> Some (response_err ''enable/disable are client-side file operations'', m))"

section \<open>Reading a request\<close>

text \<open>
  One \<open>read\<close> on the stream: bytes that have arrived, the end of the stream, an interruption or a
  failure.  Bytes that do not fit the buffer stay for the next read; when nothing more arrives the
  read fails with the timeout of the socket.  \<open>decode\<close> is the JSON decoder, which tells an incomplete
  frame from a bad one.  A frame starts empty and never grows past \<open>FRAME_MAX\<close>, so the first test is
  the equality of the source.
\<close>

datatype arrival = Bytes "8 word list" | Closed | Interrupted | Read_Failed string

datatype decoded = Complete ipc_request | Incomplete | Malformed string

definition FRAME_MAX :: nat where
  "FRAME_MAX = 65536"

definition IPC_READ_CHUNK :: nat where
  "IPC_READ_CHUNK = 4096"

fun arrival_size :: "arrival \<Rightarrow> nat" where
  "arrival_size (Bytes bs) = Suc (length bs)"
| "arrival_size _ = 1"

function read_request_frame ::
  "(8 word list \<Rightarrow> decoded) \<Rightarrow> 8 word list \<Rightarrow> arrival list \<Rightarrow> string + ipc_request" where
  "read_request_frame decode frame arrivals =
     (if FRAME_MAX \<le> length frame then Inl ''request exceeds 65536-byte frame limit''
      else
        (let limit = min (FRAME_MAX - length frame) IPC_READ_CHUNK
         in case arrivals of
              [] \<Rightarrow> Inl ''request read failed: timed out''
            | Closed # _ \<Rightarrow> Inl ''connection closed before a complete request''
            | Interrupted # rest \<Rightarrow> read_request_frame decode frame rest
            | Read_Failed error # _ \<Rightarrow> Inl (''request read failed: '' @ error)
            | Bytes [] # rest \<Rightarrow> read_request_frame decode frame rest
            | Bytes (b # bs) # rest \<Rightarrow>
                (let arrived = b # bs;
                     frame' = frame @ take limit arrived
                 in case decode frame' of
                      Complete request \<Rightarrow> Inr request
                    | Incomplete \<Rightarrow> read_request_frame decode frame' (Bytes (drop limit arrived) # rest)
                    | Malformed error \<Rightarrow> Inl (''bad request: '' @ error))))"
  by pat_completeness auto

termination
  by (relation "measure (\<lambda>(_, _, as). sum_list (map arrival_size as))")
     (auto simp: FRAME_MAX_def IPC_READ_CHUNK_def)

declare read_request_frame.simps [simp del]
section \<open>Authorization on the bus\<close>

text \<open>
  What is known of the caller of a method: the user behind the connection, if the bus can name it, the
  unique name of the sender and the answer of PolicyKit for an action, authorized and challenge, or
  why it could not be asked.
\<close>

record bus_call =
  bc_sender :: "string option"
  bc_uid :: "nat option"
  bc_polkit :: "string \<Rightarrow> string + (bool \<times> bool)"

datatype bus_error =
  Access_Denied string | Invalid_Args string | No_Such_Unit string | No_Such_Job nat | Bus_Failed string
| Not_Supported string | Limits_Exceeded string

definition sender_has_manager_privilege :: "nat \<Rightarrow> nat \<Rightarrow> bool" where
  "sender_has_manager_privilege manager_uid sender_uid \<longleftrightarrow>
     sender_uid = manager_uid \<or> (manager_uid \<noteq> 0 \<and> sender_uid = 0)"

definition manager_action_for_member :: "string option \<Rightarrow> string" where
  "manager_action_for_member mem =
     (case mem of
        None \<Rightarrow> ''io.rustd.manager.units''
      | Some s \<Rightarrow>
          if s = ''Reload'' \<or> s = ''Reexecute'' then ''io.rustd.manager.reload''
          else if s = ''SetEnvironment'' \<or> s = ''UnsetEnvironment'' \<or> s = ''UnsetAndSetEnvironment''
          then ''io.rustd.manager.environment''
          else ''io.rustd.manager.units'')"

definition authorize_privileged_caller :: "nat \<Rightarrow> string option \<Rightarrow> bus_call \<Rightarrow> bus_error + unit" where
  "authorize_privileged_caller manager_uid mem call =
     (case (bc_sender call, bc_uid call) of
        (None, _) \<Rightarrow> Inl (Access_Denied ''unable to determine D-Bus caller identity'')
      | (Some _, None) \<Rightarrow> Inl (Access_Denied ''unable to query D-Bus caller credentials'')
      | (Some _, Some uid) \<Rightarrow>
          if sender_has_manager_privilege manager_uid uid then Inr ()
          else case bc_polkit call (manager_action_for_member mem) of
            Inl error \<Rightarrow> Inl (Access_Denied error)
          | Inr (authorized, challenge) \<Rightarrow>
              if authorized then Inr ()
              else if challenge
              then Inl (Access_Denied ''polkit authorization challenge was not satisfied'')
              else Inl (Access_Denied ''polkit authorization denied''))"

section \<open>Jobs over the bus\<close>

datatype job_mode =
  Mode_Fail | Mode_Lenient | Mode_Replace | Mode_ReplaceIrreversibly | Mode_Isolate | Mode_Flush
| Mode_IgnoreDependencies | Mode_IgnoreRequirements | Mode_Triggering | Mode_RestartDependencies

definition job_mode_parse :: "string \<Rightarrow> job_mode option" where
  "job_mode_parse s =
     (if s = ''fail'' then Some Mode_Fail
      else if s = ''lenient'' then Some Mode_Lenient
      else if s = ''replace'' then Some Mode_Replace
      else if s = ''replace-irreversibly'' then Some Mode_ReplaceIrreversibly
      else if s = ''isolate'' then Some Mode_Isolate
      else if s = ''flush'' then Some Mode_Flush
      else if s = ''ignore-dependencies'' then Some Mode_IgnoreDependencies
      else if s = ''ignore-requirements'' then Some Mode_IgnoreRequirements
      else if s = ''triggering'' then Some Mode_Triggering
      else if s = ''restart-dependencies'' then Some Mode_RestartDependencies
      else None)"

definition validate_job_mode_for_request :: "job_mode \<Rightarrow> bus_error + unit" where
  "validate_job_mode_for_request mode =
     (case mode of
        Mode_Isolate \<Rightarrow> Inl (Invalid_Args ''Isolate is only valid for start.'')
      | Mode_Triggering \<Rightarrow> Inl (Invalid_Args ''--job-mode=triggering is only valid for stop.'')
      | Mode_RestartDependencies \<Rightarrow>
          Inl (Invalid_Args ''--job-mode=restart-dependencies is only valid for start.'')
      | _ \<Rightarrow> Inr ())"

text \<open>The modes of the methods of one unit.\<close>

definition validate_mode :: "string \<Rightarrow> string \<Rightarrow> bus_error + unit" where
  "validate_mode mode request =
     (if job_mode_parse mode = None then Inl (Invalid_Args (''Job mode '' @ mode @ '' invalid''))
      else if request \<noteq> ''start'' \<and> mode = ''isolate''
      then Inl (Invalid_Args ''Isolate is only valid for start.'')
      else if request \<noteq> ''stop'' \<and> mode = ''triggering''
      then Inl (Invalid_Args ''--job-mode=triggering is only valid for stop.'')
      else if request \<noteq> ''start'' \<and> mode = ''restart-dependencies''
      then Inl (Invalid_Args ''--job-mode=restart-dependencies is only valid for start.'')
      else Inr ())"

definition parse_enqueued_job_type :: "string \<Rightarrow> bus_error + job_kind" where
  "parse_enqueued_job_type s =
     (if s = ''nop'' then Inr Nop
      else if s = ''start'' then Inr Start
      else if s = ''stop'' then Inr Stop
      else if s = ''reload'' then Inr Reload
      else if s = ''restart'' then Inr Restart
      else Inl (Invalid_Args (''Job type '' @ s @ '' invalid'')))"

definition validate_start_unit_with_flags :: "string \<Rightarrow> nat \<Rightarrow> bus_error + unit" where
  "validate_start_unit_with_flags mode flags =
     (if job_mode_parse mode = None then Inl (Invalid_Args (''Job mode '' @ mode @ '' invalid''))
      else if flags \<noteq> 0
      then Inl (Invalid_Args (''Invalid '' @ [CHR 0x27] @ ''flags'' @ [CHR 0x27] @ '' parameter ''
                              @ [CHR 0x27] @ show_nat flags @ [CHR 0x27]))
      else Inr ())"

datatype manager_job_request = MR_Reload | MR_TryRestart | MR_ReloadOrRestart | MR_ReloadOrTryRestart

fun collapse_manager_job_request :: "manager_job_request \<Rightarrow> bool \<Rightarrow> bool \<Rightarrow> bool \<Rightarrow> job_kind" where
  "collapse_manager_job_request MR_Reload active_or_activating active_or_reloading can_reload = Reload"
| "collapse_manager_job_request MR_TryRestart active_or_activating active_or_reloading can_reload =
     (if active_or_activating then Restart else Nop)"
| "collapse_manager_job_request MR_ReloadOrRestart active_or_activating active_or_reloading can_reload =
     (if can_reload then (if active_or_reloading then Reload else Start) else Restart)"
| "collapse_manager_job_request MR_ReloadOrTryRestart active_or_activating active_or_reloading can_reload =
     (if can_reload then (if active_or_reloading then Reload else Nop)
      else if active_or_activating then Restart
      else Nop)"

definition rsplit_once :: "char \<Rightarrow> string \<Rightarrow> (string \<times> string) option" where
  "rsplit_once c s = map_option (\<lambda>(a, b). (rev b, rev a)) (split_once c (rev s))"

definition valid_unit_name :: "string \<Rightarrow> bool" where
  "valid_unit_name name \<longleftrightarrow>
     name \<noteq> [] \<and> length name < 256
     \<and> (case rsplit_once CHR ''.'' name of
          None \<Rightarrow> False
        | Some (pre, kind) \<Rightarrow>
            pre \<noteq> []
            \<and> kind \<in> {''service'', ''socket'', ''target'', ''device'', ''mount'', ''automount'', ''swap'',
                      ''timer'', ''path'', ''slice'', ''scope''}
            \<and> list_all (\<lambda>c. is_ascii_alnum c
                          \<or> c \<in> {CHR '':'', CHR ''-'', CHR ''_'', CHR ''.'', CHR 0x5C, CHR ''@''}) pre
            \<and> hd pre \<noteq> CHR ''@'')"

definition unit_has_state :: "snapshot \<Rightarrow> string \<Rightarrow> string list \<Rightarrow> bool" where
  "unit_has_state snap name states =
     (case find_info snap name of Some u \<Rightarrow> ui_active_state u \<in> set states | None \<Rightarrow> False)"

definition unit_can_reload :: "mconfig \<Rightarrow> string \<Rightarrow> bool" where
  "unit_can_reload cfg name =
     (case Option.bind (load_file cfg name) service_of of
        Some s \<Rightarrow> exec_reload (svc s) \<noteq> []
      | None \<Rightarrow> False)"

definition manager_job_kind ::
  "mconfig \<Rightarrow> snapshot \<Rightarrow> manager_job_request \<Rightarrow> string \<Rightarrow> string \<Rightarrow> bus_error + job_kind" where
  "manager_job_kind cfg snap request name mode =
     (if \<not> valid_unit_name name then Inl (Invalid_Args (''Unit name '' @ name @ '' is not valid.''))
      else case job_mode_parse mode of
        None \<Rightarrow> Inl (Invalid_Args (''Job mode '' @ mode @ '' invalid''))
      | Some parsed \<Rightarrow>
          (case validate_job_mode_for_request parsed of
             Inl e \<Rightarrow> Inl e
           | Inr _ \<Rightarrow>
               Inr (collapse_manager_job_request request
                      (unit_has_state snap name [''active'', ''activating''])
                      (unit_has_state snap name [''active'', ''reloading'']) (unit_can_reload cfg name))))"
text \<open>A request for a job: its kind, the unit and whether the caller becomes the owner of the job.\<close>

type_synonym job_order = "job_kind \<times> string \<times> bool"

definition get_explicit_unit :: "snapshot \<Rightarrow> string \<Rightarrow> bus_error + unit" where
  "get_explicit_unit snap name =
     (if find_info snap name = None then Inl (No_Such_Unit (''Unit '' @ name @ '' not loaded.'')) else Inr ())"

datatype manager_request =
  StartUnit string string | StopUnit string string | RestartUnit string string
| StartUnitReplace string string string | StartUnitWithFlags string string nat
| ConditionalJob manager_job_request string string | EnqueueUnitJob string string string

definition start_unit_replace_order :: "snapshot \<Rightarrow> string \<Rightarrow> string \<Rightarrow> string \<Rightarrow> bus_error + job_order" where
  "start_unit_replace_order snap old new mode =
     (case validate_start_unit_with_flags mode 0 of
        Inl e \<Rightarrow> Inl (case e of Invalid_Args msg \<Rightarrow> Bus_Failed msg | _ \<Rightarrow> e)
      | Inr _ \<Rightarrow>
          (case get_explicit_unit snap old of Inl e \<Rightarrow> Inl e | Inr _ \<Rightarrow> Inr (Start, new, True)))"

definition start_unit_with_flags_order :: "string \<Rightarrow> string \<Rightarrow> nat \<Rightarrow> bus_error + job_order" where
  "start_unit_with_flags_order name mode flags =
     (case validate_start_unit_with_flags mode flags of Inl e \<Rightarrow> Inl e | Inr _ \<Rightarrow> Inr (Start, name, True))"

fun manager_order :: "mconfig \<Rightarrow> snapshot \<Rightarrow> manager_request \<Rightarrow> bus_error + job_order" where
  "manager_order cfg snap (StartUnit name mode) = Inr (Start, name, True)"
| "manager_order cfg snap (StopUnit name mode) = Inr (Stop, name, True)"
| "manager_order cfg snap (RestartUnit name mode) = Inr (Restart, name, True)"
| "manager_order cfg snap (ConditionalJob request name mode) =
     (case manager_job_kind cfg snap request name mode of Inl e \<Rightarrow> Inl e | Inr kind \<Rightarrow> Inr (kind, name, True))"
| "manager_order cfg snap (EnqueueUnitJob name job_type mode) =
     (case parse_enqueued_job_type job_type of
        Inl e \<Rightarrow> Inl e
      | Inr kind \<Rightarrow>
          (case job_mode_parse mode of
             None \<Rightarrow> Inl (Invalid_Args (''Job mode '' @ mode @ '' invalid''))
           | Some parsed \<Rightarrow>
               (case validate_job_mode_for_request parsed of
                  Inl e \<Rightarrow> Inl e
                | Inr _ \<Rightarrow>
                    (case get_explicit_unit snap name of Inl e \<Rightarrow> Inl e | Inr _ \<Rightarrow> Inr (kind, name, True)))))"
| "manager_order cfg snap (StartUnitReplace old new mode) = start_unit_replace_order snap old new mode"
| "manager_order cfg snap (StartUnitWithFlags name mode flags) = start_unit_with_flags_order name mode flags"

text \<open>The methods of the object of one unit; the jobs they make have no owner.\<close>

datatype unit_request =
  Unit_Start | Unit_Stop | Unit_Restart | Unit_Reload | Unit_TryRestart | Unit_ReloadOrRestart
| Unit_ReloadOrTryRestart

fun unit_request_name :: "unit_request \<Rightarrow> string" where
  "unit_request_name Unit_Start = ''start''"
| "unit_request_name Unit_Stop = ''stop''"
| "unit_request_name Unit_Restart = ''restart''"
| "unit_request_name Unit_Reload = ''reload''"
| "unit_request_name Unit_TryRestart = ''try-restart''"
| "unit_request_name Unit_ReloadOrRestart = ''reload-or-restart''"
| "unit_request_name Unit_ReloadOrTryRestart = ''reload-or-try-restart''"

fun unit_request_kind :: "mconfig \<Rightarrow> snapshot \<Rightarrow> string \<Rightarrow> unit_request \<Rightarrow> job_kind" where
  "unit_request_kind cfg snap name Unit_Start = Start"
| "unit_request_kind cfg snap name Unit_Stop = Stop"
| "unit_request_kind cfg snap name Unit_Restart = Restart"
| "unit_request_kind cfg snap name Unit_Reload = Reload"
| "unit_request_kind cfg snap name Unit_TryRestart =
     (if unit_has_state snap name [''active'', ''activating''] then Restart else Nop)"
| "unit_request_kind cfg snap name Unit_ReloadOrRestart =
     (if unit_can_reload cfg name
      then (if unit_has_state snap name [''active'', ''reloading''] then Reload else Start)
      else Restart)"
| "unit_request_kind cfg snap name Unit_ReloadOrTryRestart =
     (if unit_can_reload cfg name
      then (if unit_has_state snap name [''active'', ''reloading''] then Reload else Nop)
      else if unit_has_state snap name [''active'', ''activating''] then Restart
      else Nop)"

definition unit_order ::
  "mconfig \<Rightarrow> snapshot \<Rightarrow> string \<Rightarrow> unit_request \<Rightarrow> string \<Rightarrow> bus_error + job_order" where
  "unit_order cfg snap name request mode =
     (case validate_mode mode (unit_request_name request) of
        Inl e \<Rightarrow> Inl e
      | Inr _ \<Rightarrow> Inr (unit_request_kind cfg snap name request, name, False))"

text \<open>The wake-up after a change of the queue.\<close>

definition woken :: "string option \<Rightarrow> 'a \<Rightarrow> bus_error + 'a" where
  "woken wake x =
     (case wake of
        None \<Rightarrow> Inr x
      | Some error \<Rightarrow> Inl (Bus_Failed (''internal: event loop wake failed: '' @ error)))"

definition bus_enqueue ::
  "string option \<Rightarrow> job_kind \<Rightarrow> string \<Rightarrow> string option \<Rightarrow> manager \<Rightarrow> ((bus_error + nat) \<times> manager) option" where
  "bus_enqueue wake kind name owner m =
     map_option (\<lambda>(j, m). (woken wake (job_id j), m)) (client_enqueue kind name owner m)"

text \<open>Validation comes first, then the authorization, then the job.\<close>

definition bus_job ::
  "nat \<Rightarrow> bus_call \<Rightarrow> string option \<Rightarrow> bus_error + job_order \<Rightarrow> manager
   \<Rightarrow> ((bus_error + nat) \<times> manager) option" where
  "bus_job manager_uid call wake req m =
     (case req of
        Inl e \<Rightarrow> Some (Inl e, m)
      | Inr (kind, name, owned) \<Rightarrow>
          (case authorize_privileged_caller manager_uid (Some ''StartUnit'') call of
             Inl e \<Rightarrow> Some (Inl e, m)
           | Inr _ \<Rightarrow> bus_enqueue wake kind name (if owned then bc_sender call else None) m))"

definition owns_job :: "bus_call \<Rightarrow> nat \<Rightarrow> manager \<Rightarrow> bool" where
  "owns_job call jid m =
     (case bc_sender call of Some sender \<Rightarrow> is_owner (registry (queue m)) jid sender | None \<Rightarrow> False)"

definition cancel_live_job :: "string option \<Rightarrow> nat \<Rightarrow> manager \<Rightarrow> (bus_error + unit) \<times> manager" where
  "cancel_live_job wake jid m =
     (let (canceled, m) = client_cancel jid m
      in if \<not> canceled then (Inl (No_Such_Job jid), m) else (woken wake (), m))"

definition cancel_authorized :: "nat \<Rightarrow> bus_call \<Rightarrow> nat \<Rightarrow> manager \<Rightarrow> bus_error + unit" where
  "cancel_authorized manager_uid call jid m =
     (if owns_job call jid m then Inr ()
      else authorize_privileged_caller manager_uid (Some ''CancelJob'') call)"

definition bus_cancel_job ::
  "nat \<Rightarrow> bus_call \<Rightarrow> string option \<Rightarrow> nat \<Rightarrow> manager \<Rightarrow> (bus_error + unit) \<times> manager" where
  "bus_cancel_job manager_uid call wake jid m =
     (if \<not> is_live (registry (queue m)) jid then (Inl (No_Such_Job jid), m)
      else case cancel_authorized manager_uid call jid m of
        Inl e \<Rightarrow> (Inl e, m)
      | Inr _ \<Rightarrow> cancel_live_job wake jid m)"

text \<open>\<open>Cancel\<close> of the object of a job, which may have ended since the object was made.\<close>

definition job_object_cancel ::
  "nat \<Rightarrow> bus_call \<Rightarrow> string option \<Rightarrow> nat \<Rightarrow> manager \<Rightarrow> (bus_error + unit) \<times> manager" where
  "job_object_cancel manager_uid call wake jid m =
     (case cancel_authorized manager_uid call jid m of
        Inl e \<Rightarrow> (Inl e, m)
      | Inr _ \<Rightarrow>
          (let (canceled, m) = client_cancel jid m
           in if \<not> canceled then (Inl (Bus_Failed (''Job '' @ show_nat jid @ '' does not exist.'')), m)
              else (woken wake (), m)))"

definition bus_clear_jobs ::
  "nat \<Rightarrow> bus_call \<Rightarrow> string option \<Rightarrow> manager \<Rightarrow> (bus_error + unit) \<times> manager" where
  "bus_clear_jobs manager_uid call wake m =
     (case authorize_privileged_caller manager_uid (Some ''ClearJobs'') call of
        Inl e \<Rightarrow> (Inl e, m)
      | Inr _ \<Rightarrow>
          (let (canceled, m) = client_cancel_all m
           in if canceled = 0 then (Inr (), m) else (woken wake (), m)))"

text \<open>\<open>inhibited\<close> is the answer of the login manager.\<close>

definition request_system_shutdown ::
  "bool \<Rightarrow> nat \<Rightarrow> bus_call \<Rightarrow> bus_error + unit \<Rightarrow> string option \<Rightarrow> string \<Rightarrow> nat \<Rightarrow> lifecycle
   \<Rightarrow> (bus_error + unit) \<times> lifecycle" where
  "request_system_shutdown system manager_uid call inhibited wake operation action l =
     (if \<not> system then (Inl (Not_Supported (operation @ '' is only supported by system manager.'')), l)
      else case authorize_privileged_caller manager_uid (Some operation) call of
        Inl e \<Rightarrow> (Inl e, l)
      | Inr _ \<Rightarrow>
          (case inhibited of
             Inl e \<Rightarrow> (Inl e, l)
           | Inr _ \<Rightarrow> (case wake of None \<Rightarrow> Inr () | Some error \<Rightarrow> Inl (Bus_Failed error),
                       l\<lparr> shutdown_action := action \<rparr>)))"


end
