(* ===== verification/ManagerRuns.thy ===== *)
theory ManagerRuns
  imports Clients
begin

text \<open>
  The life of the manager.  Every handler of \<open>src/src/manager.rs\<close> and every request of a client is a
  sequence of primitive steps \<open>mstep\<close>: a record moves by the operations of a service, the queue and
  its registry move by the operations of the queue, a timer is armed, cancelled or expires.  The
  invariant \<open>manager_ok\<close> is proved once for the primitive steps and so holds after any handlers in
  any order; in particular the manager refines the job system of \<open>JobSched\<close> and the service records
  of \<open>ServiceRuns\<close>.
\<close>

named_theorems mreach

section \<open>Steps of a record\<close>

definition moves :: "unit_record \<Rightarrow> unit_record \<Rightarrow> bool" where
  "moves r r' \<longleftrightarrow> (\<exists>lg lg'. service_step\<^sup>*\<^sup>* (r, lg) (r', lg'))"

lemma moves_step: "service_step (r, lg) (r', lg') \<Longrightarrow> moves r r'"
  unfolding moves_def by blast

lemma moves_touch: "core r' = core r \<Longrightarrow> moves r r'"
  by (rule moves_step [OF service_step.touch])

lemma moves_refl [simp]: "moves r r"
  by (rule moves_touch) simp

lemma moves_trans: "moves r r' \<Longrightarrow> moves r' r'' \<Longrightarrow> moves r r''"
proof -
  assume "moves r r'" "moves r' r''"
  then obtain a b c d where 1: "service_step\<^sup>*\<^sup>* (r, a) (r', b)" and 2: "service_step\<^sup>*\<^sup>* (r', c) (r'', d)"
    by (auto simp: moves_def)
  have "service_step (r', b) (r', c)" by (rule service_step.touch) simp
  then have "service_step\<^sup>*\<^sup>* (r, a) (r'', d)" using 1 2 by (meson rtranclp.rtrancl_into_rtrancl rtranclp_trans)
  then show ?thesis by (auto simp: moves_def)
qed

text \<open>A state the manager may assign to any unit.\<close>

lemma moves_state: "st \<in> {Deactivating, Failed, Inactive} \<Longrightarrow> moves r (r\<lparr> state := st \<rparr>)"
  using moves_step [OF service_step.stopping] moves_step [OF service_step.fail]
    moves_step [OF service_step.reset] by auto

lemma moves_set_state:
  assumes "st \<in> {Deactivating, Failed, Inactive}" "core r' = core (r\<lparr> state := st \<rparr>)"
  shows "moves r r'"
  using moves_trans [OF moves_state [OF assms(1)] moves_touch [OF assms(2)]] .

lemma moves_step2: "(\<And>r' lg'. p = (r', lg') \<Longrightarrow> service_step (r, lg) (r', lg')) \<Longrightarrow> moves r (fst p)"
  by (cases p) (auto intro: moves_step)

lemma moves_step3:
  "(\<And>x r' lg'. p = (x, r', lg') \<Longrightarrow> service_step (r, lg) (r', lg')) \<Longrightarrow> moves r (fst (snd p))"
  by (cases p) (auto intro: moves_step)

lemma moves_ops:
  "moves r (fst (snd (activate os r lg)))"
  "moves r (fst (deactivate os op r lg))"
  "moves r (fst (snd (complete_notify_start os r lg)))"
  "moves r (fst (snd (complete_dbus_start os r lg)))"
  "moves r (fst (snd (on_child_exit os cg e r lg)))"
  "moves r (fst (snd (on_forking_control_exit os cg e r lg)))"
  "moves r (fst (snd (retry_forking_pid_file os cg r lg)))"
  "moves r (fst (snd (on_service_cgroup_empty os cg r lg)))"
  "moves r (fst (snd (on_timeout_cgroup_empty os r lg)))"
  "moves r (fst (snd (on_forking_cgroup_empty os r lg)))"
  "moves r (fst (finish_timeout_failure os result r lg))"
  "moves r (fst (release_idle_gate r lg))"
  by (rule moves_step2 moves_step3; erule service_step.start service_step.stop service_step.ready
      service_step.bus_name service_step.main_exit service_step.control_exit service_step.pid_file
      service_step.cgroup_empty service_step.timeout_empty service_step.forking_empty
      service_step.timeout service_step.open_gate)+

lemma moves_record_ok: "moves r r' \<Longrightarrow> record_ok r \<Longrightarrow> record_ok r'"
  using records.sinv_steps by (fastforce simp: moves_def)

section \<open>Steps of the manager\<close>

text \<open>The fields the invariant is about.\<close>

definition mcore ::
  "manager \<Rightarrow> (string \<rightharpoonup> unit_record) \<times> job_queue \<times> job_event list \<times> job list
     \<times> (string \<rightharpoonup> nat) \<times> (string \<rightharpoonup> nat) \<times> (nat \<rightharpoonup> string \<times> service_timeout_phase) \<times> nat" where
  "mcore m = (units m, queue m, published m, shared m, start_timeouts m, stop_timeouts m,
     service_timers m, next_source m)"

inductive mstep :: "manager \<Rightarrow> manager \<Rightarrow> bool" where
  ms_misc: "mcore m' = mcore m \<Longrightarrow> mstep m m'"
| ms_unit: "units m n = Some r \<Longrightarrow> moves r r' \<Longrightarrow> mstep m (m\<lparr> units := (units m)(n \<mapsto> r') \<rparr>)"
| ms_load: "units m n = None \<Longrightarrow> mstep m (m\<lparr> units := (units m)(n \<mapsto> unit_record_new l) \<rparr>)"
| ms_jobs: "job_system_step (queue m, published m) (q, p) \<Longrightarrow> mstep m (m\<lparr> queue := q, published := p \<rparr>)"
| ms_take: "j \<in> set (shared m) \<Longrightarrow> mstep m (m\<lparr> queue := push_existing j (queue m) \<rparr>)"
| ms_shared: "(\<And>j. j \<in> set js \<Longrightarrow> j \<in> set (shared m) \<or> job_id j = 0) \<Longrightarrow> mstep m (m\<lparr> shared := js \<rparr>)"
| ms_client: "allocate kind n ow (registry (queue m)) = Some (j, r) \<Longrightarrow>
     mstep m (m\<lparr> queue := (queue m)\<lparr> registry := r \<rparr>, shared := shared m @ [j] \<rparr>)"
| ms_source: "next_source m \<le> n \<Longrightarrow> mstep m (m\<lparr> next_source := n \<rparr>)"
| ms_arm: "src = next_source m \<Longrightarrow>
     mstep m (m\<lparr> next_source := Suc src, service_timers := (service_timers m)(src \<mapsto> x) \<rparr>)"
| ms_start_entry: "service_timers m src = Some (n, Phase_Start) \<Longrightarrow>
     mstep m (m\<lparr> start_timeouts := (start_timeouts m)(n \<mapsto> src) \<rparr>)"
| ms_stop_entry: "service_timers m src = Some (n, phase) \<Longrightarrow> phase \<noteq> Phase_Start \<Longrightarrow>
     mstep m (m\<lparr> stop_timeouts := (stop_timeouts m)(n \<mapsto> src) \<rparr>)"
| ms_cancel_start: "start_timeouts m n = Some src \<Longrightarrow>
     mstep m (m\<lparr> start_timeouts := (start_timeouts m)(n := None),
       service_timers := (service_timers m)(src := None) \<rparr>)"
| ms_cancel_stop: "stop_timeouts m n = Some src \<Longrightarrow>
     mstep m (m\<lparr> stop_timeouts := (stop_timeouts m)(n := None),
       service_timers := (service_timers m)(src := None) \<rparr>)"
| ms_drop_start: "mstep m (m\<lparr> start_timeouts := (start_timeouts m)(n := None) \<rparr>)"
| ms_drop_stop: "mstep m (m\<lparr> stop_timeouts := (stop_timeouts m)(n := None) \<rparr>)"

abbreviation reaches :: "manager \<Rightarrow> manager \<Rightarrow> bool" where
  "reaches \<equiv> mstep\<^sup>*\<^sup>*"

section \<open>The invariant\<close>

text \<open>
  Every record satisfies its invariant; the queue is a reachable queue and the events published so
  far are its history; queued jobs of timers and clients carry the identity the registry knows; and
  the entry of a unit in a table of timeouts names a live timer of that unit and of that phase.
\<close>

definition units_ok :: "manager \<Rightarrow> bool" where
  "units_ok m \<longleftrightarrow> (\<forall>n r. units m n = Some r \<longrightarrow> record_ok r)"

definition jobs_ok :: "manager \<Rightarrow> bool" where
  "jobs_ok m \<longleftrightarrow> job_system_inv (queue m, published m)
     \<and> (\<forall>j \<in> set (shared m). job_matches (registry (queue m)) j)"

definition timers_ok :: "manager \<Rightarrow> bool" where
  "timers_ok m \<longleftrightarrow>
     (\<forall>n src. start_timeouts m n = Some src \<longrightarrow> service_timers m src = Some (n, Phase_Start))
     \<and> (\<forall>n src. stop_timeouts m n = Some src \<longrightarrow>
          (\<exists>phase. service_timers m src = Some (n, phase) \<and> phase \<noteq> Phase_Start))
     \<and> (\<forall>src x. service_timers m src = Some x \<longrightarrow> src < next_source m)"

definition manager_ok :: "manager \<Rightarrow> bool" where
  "manager_ok m \<longleftrightarrow> units_ok m \<and> jobs_ok m \<and> timers_ok m"

lemma manager_ok_core: "mcore m' = mcore m \<Longrightarrow> manager_ok m' = manager_ok m"
  by (simp add: mcore_def manager_ok_def units_ok_def jobs_ok_def timers_ok_def)

lemma job_system_inv_queue: "job_system_inv (q, h) \<Longrightarrow> queue_inv q"
  by (simp add: job_system_inv_alt)

lemma job_matches_internal: "queue_inv q \<Longrightarrow> job_id j = 0 \<Longrightarrow> job_matches (registry q) j"
  by (auto simp: queue_inv_def job_matches_def registry_inv_def counters_ok_def dest: live_okD(2))
lemma identity_kept_cancel: "identity_kept (registry q) (registry (snd (cancel jid q)))"
  using identity_kept_finish by (simp add: cancel_def Let_def case_prod_unfold)

lemma identity_kept_trans:
  assumes ab: "identity_kept a b" and bc: "identity_kept b c"
  shows "identity_kept a c"
  unfolding identity_kept_def
proof (intro conjI allI impI)
  show "next_id a \<le> next_id c" using ab bc by (simp add: identity_kept_def)
  fix k i'
  assume k: "k < next_id a" and c: "bt_get (live c) k = Some i'"
  have "k < next_id b" using k ab by (simp add: identity_kept_def)
  then obtain i where b: "bt_get (live b) k = Some i" "ji_kind i = ji_kind i'" "ji_unit i = ji_unit i'"
    using bc c unfolding identity_kept_def by blast
  then obtain h where "bt_get (live a) k = Some h" "ji_kind h = ji_kind i" "ji_unit h = ji_unit i"
    using ab k unfolding identity_kept_def by blast
  then show "\<exists>i. bt_get (live a) k = Some i \<and> ji_kind i = ji_kind i' \<and> ji_unit i = ji_unit i'"
    using b by auto
qed

lemma identity_kept_cancel_ids: "identity_kept (registry q) (registry (snd (cancel_ids is q)))"
proof (induction "is" arbitrary: q)
  case (Cons i "is")
  then show ?case
    using identity_kept_trans [OF identity_kept_cancel Cons, of q i] by (simp add: case_prod_unfold Let_def)
qed simp

lemma identity_kept_step:
  assumes "queue_step q l q'" "queue_inv q"
  shows "identity_kept (registry q) (registry q')"
proof -
  have r: "registry_inv (registry q)" using assms(2) by (simp add: queue_inv_def)
  show ?thesis using assms(1)
  proof cases
    case (qs_enqueue kind u ow j)
    then show ?thesis using identity_kept_allocate [OF r]
      by (auto simp: enqueue_owned_def split: option.splits)
  next
    case (qs_allocate kind u ow j r')
    then show ?thesis using identity_kept_allocate [OF r] by simp
  next
    case (qs_pop_front res)
    then show ?thesis using pop_subset(1) [of q] by simp
  next
    case (qs_pop_ready states afters res)
    then show ?thesis using pop_subset(3) [of states afters q] by simp
  next
    case (qs_pop_ready_by states afters score c res c')
    then show ?thesis using pop_subset(5) [of states afters score q c] by simp
  next
    case (qs_refresh afters)
    then show ?thesis using identity_kept_refresh by (simp add: queue_refresh_ordering_def)
  next
    case (qs_mark_running i b r')
    then show ?thesis using identity_kept_mark_running [OF r, of i] by simp
  next
    case (qs_finish i result res r')
    then show ?thesis using identity_kept_finish [of "registry q" i result] by simp
  next
    case (qs_cancel i b)
    then show ?thesis using identity_kept_cancel [of q i] by simp
  next
    case (qs_cancel_all n)
    then show ?thesis using identity_kept_cancel_ids by (metis cancel_all_def snd_conv)
  next
    case (qs_drain_events r')
    then show ?thesis using identity_kept_drain [of "registry q"] by simp
  qed (simp_all add: enqueue_internal_def push_existing_def)
qed

lemma jobs_ok_step:
  assumes "jobs_ok m" "job_system_step (queue m, published m) (q, p)"
  shows "jobs_ok (m\<lparr> queue := q, published := p \<rparr>)"
proof -
  have inv: "job_system_inv (queue m, published m)" using assms(1) by (simp add: jobs_ok_def)
  then have "job_system_inv (q, p)" using jobsys.sinv_trans assms(2) by blast
  moreover have "identity_kept (registry (queue m)) (registry q)"
    using assms(2) identity_kept_step job_system_inv_queue [OF inv] by (auto simp: job_system_step_def)
  ultimately show ?thesis using assms(1) job_matches_kept by (auto simp: jobs_ok_def)
qed

lemma jobs_ok_take:
  assumes "jobs_ok m" "j \<in> set (shared m)"
  shows "jobs_ok (m\<lparr> queue := push_existing j (queue m) \<rparr>)"
proof -
  have "queue_step (queue m) [] (push_existing j (queue m))"
    using assms by (auto simp: jobs_ok_def intro: qs_push)
  then have "job_system_step (queue m, published m) (push_existing j (queue m), published m)"
    by (auto simp: job_system_step_def)
  then have "jobs_ok (m\<lparr> queue := push_existing j (queue m), published := published m \<rparr>)"
    by (rule jobs_ok_step [OF assms(1)])
  then show ?thesis by (simp add: jobs_ok_def)
qed

lemma jobs_ok_shared:
  assumes "jobs_ok m"
    and "\<And>j. j \<in> set js \<Longrightarrow> j \<in> set (shared m) \<or> job_id j = 0"
  shows "jobs_ok (m\<lparr> shared := js \<rparr>)"
  using assms job_matches_internal [OF job_system_inv_queue] by (fastforce simp: jobs_ok_def)

lemma allocate_matches: "registry_inv r \<Longrightarrow> allocate kind u ow r = Some (j, r') \<Longrightarrow> job_matches r' j"
  using allocate_fields [of kind u ow r j r'] by (simp add: job_matches_def bt_get_insert)

lemma jobs_ok_client:
  assumes "jobs_ok m" and a: "allocate kind n ow (registry (queue m)) = Some (j, r)"
  shows "jobs_ok (m\<lparr> queue := (queue m)\<lparr> registry := r \<rparr>, shared := shared m @ [j] \<rparr>)"
proof -
  let ?q = "(queue m)\<lparr> registry := r \<rparr>"
  have "registry_inv (registry (queue m))"
    using assms(1) job_system_inv_queue by (auto simp: jobs_ok_def queue_inv_def)
  then have "job_matches r j" using allocate_matches a by blast
  moreover have "job_system_step (queue m, published m) (?q, published m)"
    using qs_allocate [OF a] by (auto simp: job_system_step_def)
  from jobs_ok_step [OF assms(1) this]
  have "jobs_ok (m\<lparr> queue := ?q \<rparr>)" by (simp add: jobs_ok_def)
  ultimately show ?thesis by (simp add: jobs_ok_def)
qed

text \<open>The parts of the invariant a step does not touch.\<close>

lemma ok_frames [simp]:
  "units_ok (m\<lparr> queue := q \<rparr>) = units_ok m" "units_ok (m\<lparr> published := p \<rparr>) = units_ok m"
  "units_ok (m\<lparr> shared := js \<rparr>) = units_ok m" "units_ok (m\<lparr> next_source := n \<rparr>) = units_ok m"
  "units_ok (m\<lparr> service_timers := t \<rparr>) = units_ok m" "units_ok (m\<lparr> start_timeouts := a \<rparr>) = units_ok m"
  "units_ok (m\<lparr> stop_timeouts := b \<rparr>) = units_ok m"
  "jobs_ok (m\<lparr> units := u \<rparr>) = jobs_ok m" "jobs_ok (m\<lparr> next_source := n \<rparr>) = jobs_ok m"
  "jobs_ok (m\<lparr> service_timers := t \<rparr>) = jobs_ok m" "jobs_ok (m\<lparr> start_timeouts := a \<rparr>) = jobs_ok m"
  "jobs_ok (m\<lparr> stop_timeouts := b \<rparr>) = jobs_ok m"
  "timers_ok (m\<lparr> units := u \<rparr>) = timers_ok m" "timers_ok (m\<lparr> queue := q \<rparr>) = timers_ok m"
  "timers_ok (m\<lparr> published := p \<rparr>) = timers_ok m" "timers_ok (m\<lparr> shared := js \<rparr>) = timers_ok m"
  by (simp_all add: units_ok_def jobs_ok_def timers_ok_def)

lemma mstep_timers_ok:
  assumes "mstep m m'" "timers_ok m"
  shows "timers_ok m'"
  using assms
proof cases
  case ms_misc
  then show ?thesis using assms(2) by (simp add: mcore_def timers_ok_def)
next
  case (ms_source n)
  then show ?thesis using assms(2) by (fastforce simp: timers_ok_def)
next
  case (ms_arm src x)
  then show ?thesis using assms(2)
    by (simp add: timers_ok_def less_Suc_eq) (metis less_irrefl_nat)
next
  case (ms_cancel_start n src)
  then show ?thesis using assms(2)
    by (simp add: timers_ok_def) (metis option.inject prod.inject)
next
  case (ms_cancel_stop n src)
  then show ?thesis using assms(2)
    by (simp add: timers_ok_def) (metis option.inject prod.inject)
qed (use assms(2) in \<open>simp_all add: timers_ok_def\<close>)

lemma mstep_manager_ok:
  assumes "mstep m m'" "manager_ok m"
  shows "manager_ok m'"
proof -
  have t: "timers_ok m'" using mstep_timers_ok assms by (simp add: manager_ok_def)
  from assms show ?thesis
  proof cases
    case ms_misc
    then show ?thesis using assms(2) manager_ok_core by blast
  next
    case (ms_unit n r r')
    then show ?thesis using assms(2) t moves_record_ok by (auto simp: manager_ok_def units_ok_def)
  next
    case (ms_load n l)
    then show ?thesis using assms(2) t record_ok_new by (auto simp: manager_ok_def units_ok_def)
  next
    case (ms_jobs q p)
    then show ?thesis using assms(2) t jobs_ok_step by (auto simp: manager_ok_def)
  next
    case (ms_take j)
    then show ?thesis using assms(2) t jobs_ok_take by (auto simp: manager_ok_def)
  next
    case (ms_shared js)
    then show ?thesis using assms(2) t jobs_ok_shared [of m js] by (auto simp: manager_ok_def)
  next
    case (ms_client kind n ow j r)
    then show ?thesis using assms(2) t jobs_ok_client [of m kind n ow j r] by (auto simp: manager_ok_def)
  qed (use assms(2) t in \<open>simp_all add: manager_ok_def\<close>)
qed

lemma manager_ok_new: "manager_ok (manager_new server)"
  using jobsys.sinv_initial [OF refl]
  by (simp add: manager_ok_def units_ok_def jobs_ok_def timers_ok_def manager_new_def job_system_init_def)

interpretation managers: invariant_system "\<lambda>m. \<exists>server. m = manager_new server" mstep manager_ok
  by unfold_locales (auto simp: manager_ok_new dest: mstep_manager_ok)
section \<open>Handlers are sequences of steps\<close>

lemma reach_step: "reaches m0 m \<Longrightarrow> mstep m m' \<Longrightarrow> reaches m0 m'"
  by (rule rtranclp.rtrancl_into_rtrancl)

lemma reach_misc: "reaches m0 m \<Longrightarrow> mcore m' = mcore m \<Longrightarrow> reaches m0 m'"
  by (rule reach_step [OF _ ms_misc])

lemma reach_fields [mreach]:
  "reaches m0 m \<Longrightarrow> reaches m0 (m\<lparr> mlog := a1 \<rparr>)"
  "reaches m0 m \<Longrightarrow> reaches m0 (m\<lparr> notify := a2 \<rparr>)"
  "reaches m0 m \<Longrightarrow> reaches m0 (m\<lparr> restart_timers := a3 \<rparr>)"
  "reaches m0 m \<Longrightarrow> reaches m0 (m\<lparr> timeout_events := a4 \<rparr>)"
  "reaches m0 m \<Longrightarrow> reaches m0 (m\<lparr> restart_pending := a5 \<rparr>)"
  "reaches m0 m \<Longrightarrow> reaches m0 (m\<lparr> isolate_jobs := a6 \<rparr>)"
  "reaches m0 m \<Longrightarrow> reaches m0 (m\<lparr> oom_events := a7 \<rparr>)"
  "reaches m0 m \<Longrightarrow> reaches m0 (m\<lparr> oom_stopping := a8 \<rparr>)"
  "reaches m0 m \<Longrightarrow> reaches m0 (m\<lparr> oom_recent := a9 \<rparr>)"
  "reaches m0 m \<Longrightarrow> reaches m0 (m\<lparr> cgroup_empty_events := a10 \<rparr>)"
  "reaches m0 m \<Longrightarrow> reaches m0 (m\<lparr> dbus_ready_events := a11 \<rparr>)"
  "reaches m0 m \<Longrightarrow> reaches m0 (m\<lparr> unit_load_requests := a12 \<rparr>)"
  "reaches m0 m \<Longrightarrow> reaches m0 (m\<lparr> reset_failed_requests := a13 \<rparr>)"
  "reaches m0 m \<Longrightarrow> reaches m0 (m\<lparr> reload_requested := a14 \<rparr>)"
  by (erule reach_misc, simp add: mcore_def)+

lemma reach_fold: "(\<And>x m. reaches m0 m \<Longrightarrow> reaches m0 (f x m)) \<Longrightarrow> reaches m0 m \<Longrightarrow> reaches m0 (fold f xs m)"
  by (induction xs arbitrary: m) auto

lemma reach_upd_unit:
  assumes "reaches m0 m" "\<And>r. units m name = Some r \<Longrightarrow> moves r (f r)"
  shows "reaches m0 (upd_unit name f m)"
  using assms reach_step [OF _ ms_unit] by (auto simp: upd_unit_def split: option.split)

lemma reach_run_unit:
  assumes "reaches m0 m" "\<And>r. moves r (fst (snd (f r (mlog m))))"
  shows "reaches m0 (snd (run_unit name f d m))"
  using assms reach_step [OF _ ms_unit] reach_fields(1)
  by (auto simp: run_unit_def case_prod_unfold Let_def split: option.split)

lemma reach_with_notify [mreach]: "reaches m0 m \<Longrightarrow> reaches m0 (with_notify f m)"
  by (simp add: with_notify_def mreach)

lemma reach_load_unit [mreach]: "reaches m0 m \<Longrightarrow> reaches m0 (snd (load_unit cfg name m))"
  by (auto simp: load_unit_def new_unit_record_def intro!: reach_step [OF _ ms_load] split: option.split)

lemma reach_load_quietly [mreach]: "reaches m0 m \<Longrightarrow> reaches m0 (load_quietly cfg name m)"
  by (simp add: load_quietly_def mreach)

subsection \<open>Jobs\<close>

lemma reach_queue:
  assumes "reaches m0 m" "queue_step (queue m) [] q"
  shows "reaches m0 (m\<lparr> queue := q \<rparr>)"
proof -
  have "job_system_step (queue m, published m) (q, published m)"
    using assms(2) by (auto simp: job_system_step_def)
  from reach_step [OF assms(1) ms_jobs [OF this]] show ?thesis by simp
qed

lemma reach_enqueue_internal [mreach]:
  "reaches m0 m \<Longrightarrow> q = queue m \<Longrightarrow> reaches m0 (m\<lparr> queue := enqueue_internal kind name q \<rparr>)"
  by (simp add: reach_queue qs_internal)

lemma reach_enqueue_internal_job [mreach]: "reaches m0 m \<Longrightarrow> reaches m0 (enqueue_internal_job kind name m)"
  by (simp add: enqueue_internal_job_def mreach)

lemma reach_enqueue_job [mreach]: "reaches m0 m \<Longrightarrow> reaches m0 (enqueue_job kind name m)"
  by (auto simp: enqueue_job_def enqueue_def intro: reach_queue qs_enqueue split: option.split)

lemma reach_finish_job [mreach]: "reaches m0 m \<Longrightarrow> reaches m0 (finish_job jid result m)"
  unfolding finish_job_def
  by (rule reach_fields, rule reach_queue, assumption, rule qs_finish, rule prod.collapse [symmetric])

lemma reach_mark_job_running [mreach]: "reaches m0 m \<Longrightarrow> reaches m0 (mark_job_running jid m)"
  unfolding mark_job_running_def
  by (rule reach_queue, assumption, rule qs_mark_running, rule prod.collapse [symmetric])

lemma reach_publish [mreach]:
  assumes "reaches m0 m" shows "reaches m0 (publish_job_events m)"
proof -
  obtain es r where d: "drain_events (registry (queue m)) = (es, r)" by (cases "drain_events (registry (queue m))")
  then have "job_system_step (queue m, published m) ((queue m)\<lparr> registry := r \<rparr>, published m @ es)"
    by (auto simp: job_system_step_def intro: qs_drain_events)
  from reach_step [OF assms ms_jobs [OF this]] show ?thesis by (simp add: publish_job_events_def d)
qed

subsection \<open>Timers\<close>

lemma reach_cancel_start [mreach]: "reaches m0 m \<Longrightarrow> reaches m0 (cancel_start_timeout name m)"
  by (auto simp: cancel_start_timeout_def intro: reach_step ms_cancel_start split: option.split)

lemma reach_cancel_stop [mreach]: "reaches m0 m \<Longrightarrow> reaches m0 (cancel_stop_timeout name m)"
  by (auto simp: cancel_stop_timeout_def intro: reach_step ms_cancel_stop split: option.split)

lemma reach_add_timer [mreach]: "reaches m0 m \<Longrightarrow> reaches m0 (snd (add_timer os ns m))"
  by (auto simp: add_timer_def Let_def intro!: reach_fields(1) reach_step [OF _ ms_source])

lemma reach_arm_timer:
  assumes "reaches m0 m" "arm_service_timeout_event os t name phase m = (res, m')"
  shows "reaches m0 m' \<and> (\<forall>src. res = Some src \<longrightarrow> service_timers m' src = Some (name, phase))"
proof (cases "os_ok os (mlog m) (E_Arm_Timer (next_source m) (service_timeout_ns t))")
  case True
  then have m': "m' = m\<lparr> next_source := Suc (next_source m),
      service_timers := (service_timers m)(next_source m \<mapsto> (name, phase)),
      mlog := mlog m @ [E_Arm_Timer (next_source m) (service_timeout_ns t)] \<rparr>" "res = Some (next_source m)"
    using assms(2) by (auto simp: arm_service_timeout_event_def add_timer_def Let_def)
  have "reaches m0 (m\<lparr> next_source := Suc (next_source m),
      service_timers := (service_timers m)(next_source m \<mapsto> (name, phase)) \<rparr>)"
    by (rule reach_step [OF assms(1) ms_arm]) simp
  from reach_fields(1) [OF this] show ?thesis using m' by simp
next
  case False
  then show ?thesis
    using assms reach_add_timer [OF assms(1), of os "service_timeout_ns t"]
    by (auto simp: arm_service_timeout_event_def add_timer_def Let_def)
qed

lemma reach_schedule_restart [mreach]: "reaches m0 m \<Longrightarrow> reaches m0 (schedule_restart os delay name m)"
  by (auto simp: schedule_restart_def case_prod_unfold intro!: mreach split: option.split)

lemma reach_on_timer: "reaches m0 m \<Longrightarrow> reaches m0 (on_timer src m)"
  by (auto simp: on_timer_def intro!: mreach reach_step [OF _ ms_shared] split: option.split)

subsection \<open>Records\<close>

lemma reach_touch: "reaches m0 m \<Longrightarrow> (\<And>r. core (f r) = core r) \<Longrightarrow> reaches m0 (upd_unit name f m)"
  by (rule reach_upd_unit) (auto intro: moves_touch)

lemma reach_fail_resources [mreach]: "reaches m0 m \<Longrightarrow> reaches m0 (fail_resources name m)"
  unfolding fail_resources_def
  by (erule reach_upd_unit) (rule moves_set_state [of Failed], simp_all add: core_def)

lemma reach_unregister_main [mreach]: "reaches m0 m \<Longrightarrow> reaches m0 (unregister_main name m)"
  by (auto simp: unregister_main_def intro: mreach split: option.split)

lemma reach_forget_oom [mreach]: "reaches m0 m \<Longrightarrow> reaches m0 (forget_oom name m)"
  by (simp add: forget_oom_def mreach)

lemma reach_cleanup [mreach]: "reaches m0 m \<Longrightarrow> reaches m0 (cleanup_unit_cgroup_if_empty os name m)"
  by (auto simp: cleanup_unit_cgroup_if_empty_def intro: mreach split: sum.split bool.split io_kind.split)
section \<open>Timeouts\<close>

lemma reach_signal [mreach]: "reaches m0 m \<Longrightarrow> reaches m0 (snd (signal_timeout_operation os name op m))"
  by (auto simp: signal_timeout_operation_def case_prod_unfold Let_def intro: mreach split: option.split)

lemma reach_finalize [mreach]: "reaches m0 m \<Longrightarrow> reaches m0 (finalize_timeout_without_exit os name result m)"
  unfolding finalize_timeout_without_exit_def Let_def
  by (rule reach_run_unit) (auto intro!: mreach moves_ops)

lemma reach_final_kill [mreach]: "reaches m0 m \<Longrightarrow> reaches m0 (apply_final_kill os name m)"
  unfolding apply_final_kill_def Let_def case_prod_unfold by (simp add: mreach)

lemma reach_arm_stop:
  assumes "reaches m0 m" "phase \<noteq> Phase_Start"
  shows "reaches m0 (arm_service_stop_timeout os name timeout phase m)"
proof -
  obtain res m' where a: "arm_service_timeout_event os timeout name phase (cancel_stop_timeout name m) = (res, m')"
    by (cases "arm_service_timeout_event os timeout name phase (cancel_stop_timeout name m)")
  from reach_arm_timer [OF reach_cancel_stop [OF assms(1)] a]
  show ?thesis using assms(2)
    by (auto simp: arm_service_stop_timeout_def a intro: mreach reach_step ms_stop_entry split: option.split)
qed

lemma reach_signal_and_wait:
  "reaches m0 m \<Longrightarrow> phase \<noteq> Phase_Start \<Longrightarrow> reaches m0 (signal_and_wait os name op result timeout phase m)"
  by (auto simp: signal_and_wait_def case_prod_unfold Let_def intro!: mreach reach_arm_stop)

lemma reach_mark_deactivating [mreach]: "reaches m0 m \<Longrightarrow> reaches m0 (mark_timeout_deactivating name result m)"
  unfolding mark_timeout_deactivating_def
  by (erule reach_upd_unit) (rule moves_set_state [of Deactivating], simp_all add: core_def)

lemma reach_start_deadline [mreach]: "reaches m0 m \<Longrightarrow> reaches m0 (apply_start_deadline os cfg name m)"
  by (auto simp: apply_start_deadline_def Let_def intro!: mreach reach_signal_and_wait split: option.split)

lemma reach_stop_deadline [mreach]: "reaches m0 m \<Longrightarrow> reaches m0 (apply_stop_deadline os cfg name m)"
  by (auto simp: apply_stop_deadline_def Let_def core_def intro!: mreach reach_signal_and_wait reach_touch
      split: option.split)

lemma reach_abort_deadline [mreach]: "reaches m0 m \<Longrightarrow> reaches m0 (apply_abort_deadline os name m)"
  by (simp add: apply_abort_deadline_def mreach)

lemma reach_timeout_event [mreach]:
  assumes "reaches m0 m" shows "reaches m0 (apply_service_timeout_event os cfg ev m)"
proof (cases "te_phase ev = Phase_Start")
  case True
  then show ?thesis
    using reach_step [OF assms ms_cancel_start, of "te_unit_name ev"] reach_step [OF assms ms_drop_start]
    by (auto simp: apply_service_timeout_event_def Let_def intro: mreach)
next
  case False
  then show ?thesis
    using reach_step [OF assms ms_cancel_stop, of "te_unit_name ev"] reach_step [OF assms ms_drop_stop]
    by (cases "te_phase ev") (auto simp: apply_service_timeout_event_def Let_def intro: mreach)
qed

lemma reach_timeout_events [mreach]: "reaches m0 m \<Longrightarrow> reaches m0 (apply_service_timeout_events os cfg m)"
  unfolding apply_service_timeout_events_def by (auto intro!: reach_fold mreach)

section \<open>Starts and stops\<close>

lemma reach_prepare_cgroup [mreach]: "reaches m0 m \<Longrightarrow> reaches m0 (snd (prepare_service_cgroup os name m))"
  by (auto simp: prepare_service_cgroup_def Let_def intro!: mreach)

lemma reach_arm_start:
  assumes "reaches m0 m"
  shows "reaches m0 (snd (case arm_service_timeout_event os timeout name Phase_Start m of
      (None, m) \<Rightarrow> (Inl ME_Timer, m)
    | (Some src, m) \<Rightarrow> (Inr (), m\<lparr> start_timeouts := (start_timeouts m)(name \<mapsto> src) \<rparr>)))"
proof -
  obtain res m' where a: "arm_service_timeout_event os timeout name Phase_Start m = (res, m')"
    by (cases "arm_service_timeout_event os timeout name Phase_Start m")
  from reach_arm_timer [OF assms a] show ?thesis
    by (auto simp: a intro: reach_step ms_start_entry split: option.split)
qed

lemma reach_finish_start [mreach]:
  assumes "reaches m0 m"
  shows "reaches m0 (snd (finish_start os name access watchdog start_timeout requested procs m))"
proof -
  define apid where "apid = (case units m name of None \<Rightarrow> None | Some r \<Rightarrow> active_pid r)"
  define cpid where "cpid = (case units m name of None \<Rightarrow> None | Some r \<Rightarrow> control_pid r)"
  define st where "st = (case units m name of None \<Rightarrow> Failed | Some r \<Rightarrow> state r)"
  define m1 where "m1 = (case (apid, access) of (Some p, Some a) \<Rightarrow> with_notify (register_pid p name a) m | _ \<Rightarrow> m)"
  have m1: "reaches m0 m1" using assms by (auto simp: m1_def intro: mreach split: option.split)
  define m2 where "m2 pid = (if procs = None then m1\<lparr> mlog := mlog m1 @ [E_Attach_Pid name pid] \<rparr> else m1)" for pid
  have m2: "reaches m0 (m2 pid)" for pid using m1 by (auto simp: m2_def intro: mreach)
  have eq: "(case units m name of None \<Rightarrow> (None, None, Failed) | Some r \<Rightarrow> (active_pid r, control_pid r, state r))
      = (apid, cpid, st)"
    by (simp add: apid_def cpid_def st_def split: option.split)
  show ?thesis
    unfolding finish_start_def eq Let_def prod.case m1_def [symmetric] m2_def [symmetric]
    using assms m2
    by (auto simp: core_def intro!: mreach reach_touch reach_arm_start split: option.split)
qed

lemma reach_start_service [mreach]:
  assumes "reaches m0 m"
  shows "reaches m0 (snd (start_service os name access watchdog start_timeout m))"
proof (cases "unit_in_state name Inactive m \<or> unit_in_state name Failed m")
  case True
  define m1 where "m1 = upd_unit name (\<lambda>r. r\<lparr> state := Activating \<rparr>) (cancel_start_timeout name m)"
  have m1: "reaches m0 m1"
    using True unfolding m1_def
    by (intro reach_upd_unit mreach assms moves_step [OF service_step.mark])
       (auto simp: unit_in_state_def cancel_start_timeout_def split: option.splits)
  show ?thesis
    using True unfolding start_service_def Let_def m1_def [symmetric]
    by (auto simp: case_prod_unfold core_def prepare_start_def assign_invocation_id_def Let_def
        intro!: mreach m1 reach_touch reach_run_unit moves_ops split: sum.split option.split)
qed (simp add: start_service_def assms)
lemma core_clear_watchdog [simp]: "core (clear_watchdog r) = core r"
  by (simp add: clear_watchdog_def core_def)

lemma reach_stop_service [mreach]:
  assumes "reaches m0 m" shows "reaches m0 (stop_service os cfg name m)"
proof -
  define m1 where "m1 = snd (run_unit name (\<lambda>r lg. ((), deactivate os
      (if name \<in> restart_pending (cancel_stop_timeout name (cancel_start_timeout name m))
       then KO_Restart else KO_Terminate) r lg)) ()
      (upd_unit name clear_watchdog (cancel_stop_timeout name (cancel_start_timeout name m))))"
  have m1: "reaches m0 m1"
    unfolding m1_def by (rule reach_run_unit) (auto intro!: mreach assms reach_touch moves_ops)
  show ?thesis
    unfolding stop_service_def Let_def m1_def [symmetric]
    using m1 by (auto intro!: mreach reach_touch reach_arm_stop split: option.split)
qed

section \<open>Jobs\<close>

lemma reach_run_service_job [mreach]: "reaches m0 m \<Longrightarrow> reaches m0 (snd (run_service_job os cfg kind name m))"
  by (auto simp: run_service_job_def intro!: mreach split: option.split job_kind.split prod.split sum.split)

lemma reach_other:
  assumes "reaches m0 m" "\<And>r. units m name = Some r \<Longrightarrow> service_of (loaded r) = None"
  shows "reaches m0 (upd_unit name (\<lambda>r. r\<lparr> state := st \<rparr>) m)"
  using assms by (intro reach_upd_unit moves_step [OF service_step.other]) auto

lemma reach_unit_effect:
  assumes "reaches m0 m" "\<And>r. units m name = Some r \<Longrightarrow> service_of (loaded r) = None"
  shows "reaches m0 (snd (unit_effect os e name st m))"
  using assms by (auto simp: unit_effect_def Let_def intro!: mreach reach_other)

lemma reach_other_jobs:
  assumes "reaches m0 m" "units m name = Some r" "service_of (loaded r) = None"
  shows "reaches m0 (snd (start_other os name r m))" "reaches m0 (snd (stop_other os name r m))"
  using assms
  by (cases "loaded r"; auto simp: start_other_def stop_other_def intro!: mreach reach_other reach_unit_effect)+

lemma reach_run_plain_job [mreach]: "reaches m0 m \<Longrightarrow> reaches m0 (snd (run_plain_job os cfg kind name m))"
  by (auto simp: run_plain_job_def intro!: mreach reach_other_jobs split: option.split job_kind.split)

lemma reach_restart_unit [mreach]: "reaches m0 m \<Longrightarrow> reaches m0 (snd (restart_unit os cfg name m))"
  by (auto simp: restart_unit_def Let_def case_prod_unfold intro!: mreach split: sum.split)

lemma reach_run_job [mreach]: "reaches m0 m \<Longrightarrow> reaches m0 (snd (run_job os cfg kind name m))"
  by (auto simp: run_job_def intro!: mreach split: job_kind.split)

lemma load_quietly_keeps: "units m n = Some r \<Longrightarrow> units (load_quietly cfg name m) n = Some r"
  by (auto simp: load_quietly_def load_unit_def split: option.split)

lemma fold_load_keeps: "units m n = Some r \<Longrightarrow> units (fold (load_quietly cfg) names m) n = Some r"
  by (induction names arbitrary: m) (auto simp: load_quietly_keeps)

lemma reach_enqueue_start [mreach]: "reaches m0 m \<Longrightarrow> reaches m0 (snd (enqueue_start cfg target m))"
  by (auto simp: enqueue_start_def case_prod_unfold intro!: mreach reach_fold split: sum.split option.split)

lemma reach_enqueue_isolate [mreach]:
  assumes "reaches m0 m" shows "reaches m0 (snd (enqueue_isolate cfg iter jid target m))"
proof -
  define m1 where "m1 = snd (load_unit cfg target m)"
  have m1: "reaches m0 m1" using assms by (simp add: m1_def mreach)
  show ?thesis
  proof (cases "units m1 target")
    case (Some r)
    have keep: "units (fold (load_quietly cfg) names m1) target = Some r" for names
      by (rule fold_load_keeps [OF Some])
    have mark: "reaches m0 (upd_unit target (\<lambda>r. r\<lparr> state := Activating \<rparr>) m')"
      if "units m' target = Some r" "case loaded r of Target _ _ \<Rightarrow> True | _ \<Rightarrow> False" "reaches m0 m'" for m'
      using that by (intro reach_other) (auto split: loaded_unit.splits)
    show ?thesis
      using m1 Some keep
      by (auto simp: enqueue_isolate_def case_prod_unfold Let_def m1_def [symmetric]
          intro!: mreach reach_fold mark split: sum.split option.split)
  qed (use m1 in \<open>auto simp: enqueue_isolate_def case_prod_unfold m1_def [symmetric] split: sum.split\<close>)
qed

lemma reach_begin_shutdown [mreach]: "reaches m0 m \<Longrightarrow> reaches m0 (begin_shutdown_transaction cfg iter m)"
  by (auto simp: begin_shutdown_transaction_def case_prod_unfold intro!: mreach reach_fold split: sum.split)

lemma reach_run_ready_job [mreach]: "reaches m0 m \<Longrightarrow> reaches m0 (run_ready_job os cfg iter j m)"
  by (auto simp: run_ready_job_def Let_def case_prod_unfold intro!: mreach split: sum.split option.split)

lemma reach_release_idle [mreach]: "reaches m0 m \<Longrightarrow> reaches m0 (release_idle_services_after_dispatch iter m)"
  by (auto simp: release_idle_services_after_dispatch_def intro!: reach_fold reach_run_unit moves_ops)

lemma reach_run_ready_jobs [mreach]: "reaches m0 m \<Longrightarrow> reaches m0 (run_ready_jobs os cfg iter jobs m)"
  by (auto simp: run_ready_jobs_def intro!: mreach reach_fold)

lemma reach_complete_running [mreach]: "reaches m0 m \<Longrightarrow> reaches m0 (complete_running_jobs names m)"
  by (auto simp: complete_running_jobs_def Let_def intro!: mreach reach_fold)

section \<open>Exits\<close>

lemma moves_restart_delay: "moves r (snd (automatic_restart_delay os cfg e r lg))"
proof -
  let ?r' = "snd (automatic_restart_delay os cfg e r lg)"
  have "core ?r' = core r \<or> core ?r' = core (r\<lparr> state := Failed \<rparr>)"
    by (auto simp: automatic_restart_delay_def automatic_restart_delay_at_def Let_def core_def
        split: option.split)
  then show ?thesis using moves_touch moves_set_state [of Failed] by blast
qed

lemma reach_auto_restart [mreach]:
  assumes "reaches m0 m" shows "reaches m0 (auto_restart os cfg e name m)"
proof (cases "units m name")
  case (Some r)
  have "reaches m0 (m\<lparr> units := (units m)(name \<mapsto> snd (automatic_restart_delay os cfg e r (mlog m))) \<rparr>)"
    by (rule reach_step [OF assms ms_unit [OF Some moves_restart_delay]])
  then show ?thesis
    by (auto simp: auto_restart_def Some Let_def case_prod_unfold intro!: mreach split: option.split)
qed (simp add: auto_restart_def assms)

lemma reach_mark_oom: "reaches m0 m \<Longrightarrow> reaches m0 (upd_unit name mark_oom m)"
proof (erule reach_upd_unit)
  fix r
  have "core (mark_oom r) = core r \<or> core (mark_oom r) = core (r\<lparr> state := Failed \<rparr>)"
    by (auto simp: mark_oom_def core_def)
  then show "moves r (mark_oom r)" using moves_touch moves_set_state [of Failed] by blast
qed

lemma reach_exit_control: "reaches m0 m \<Longrightarrow> reaches m0 (exit_control os cfg e name r m)"
  by (auto simp: exit_control_def remove_start_timeout_if_settled_def Let_def
      intro!: mreach reach_mark_oom reach_run_unit moves_ops)

lemma reach_exit_main:
  assumes "reaches m0 m" shows "reaches m0 (exit_main os cfg e name r m)"
proof -
  define m1 where "m1 = upd_unit name (\<lambda>r. r\<lparr> exec_main_exit_realtime_ns := os_realtime os (mlog m),
      exec_main_exit_monotonic_ns := os_monotonic os (mlog m) \<rparr>)
      (snd (run_unit name (on_child_exit os (os_procs os (mlog m) name) e) False m))"
  have m1: "reaches m0 m1"
    unfolding m1_def by (intro reach_touch reach_run_unit moves_ops assms) (simp add: core_def)
  define m2 where "m2 = upd_unit name clear_watchdog (with_notify (unregister_pid (exit_pid e))
      (cancel_stop_timeout name (cancel_start_timeout name
        (if oom_related os name m then upd_unit name mark_oom m1 else m1))))"
  have "reaches m0 m2"
    unfolding m2_def using m1 by (intro reach_touch mreach) (auto intro: reach_mark_oom)
  then show ?thesis
    unfolding exit_main_def Let_def m1_def [symmetric] m2_def [symmetric] by (auto intro!: mreach)
qed

lemma reach_exit_done: "reaches m0 m \<Longrightarrow> reaches m0 (exit_done os name m)"
  by (auto simp: exit_done_def intro!: mreach)

lemma reach_apply_child_exit: "reaches m0 m \<Longrightarrow> reaches m0 (apply_child_exit os cfg names e m)"
  by (induction names) (auto intro!: reach_exit_done reach_exit_control reach_exit_main split: option.split)

lemma reach_apply_child_exits [mreach]: "reaches m0 m \<Longrightarrow> reaches m0 (apply_child_exits os cfg names exits m)"
  by (simp add: apply_child_exits_def reach_fold reach_apply_child_exit)
section \<open>Control groups, notifications, watchdogs\<close>

lemma moves_cgroup_empty: "moves r (fst (snd (on_cgroup_empty os procs r lg)))"
  using moves_ops(8) [of r os procs lg]
    moves_trans [OF moves_ops(8) [of r os procs lg] moves_ops(9)]
    moves_trans [OF moves_trans [OF moves_ops(8) [of r os procs lg] moves_ops(9)] moves_ops(10)]
  by (auto simp: on_cgroup_empty_def case_prod_unfold split: bool.split)

lemma reach_cleanup_cgroup: "reaches m0 m \<Longrightarrow> reaches m0 (cleanup_empty_cgroup os cfg name m)"
  by (auto simp: cleanup_empty_cgroup_def Let_def case_prod_unfold
      intro!: mreach reach_run_unit moves_cgroup_empty split: option.split)

lemma reach_cleanup_cgroups [mreach]: "reaches m0 m \<Longrightarrow> reaches m0 (cleanup_empty_cgroups os cfg m)"
  by (auto simp: cleanup_empty_cgroups_def intro!: reach_fold mreach reach_cleanup_cgroup)

lemma reach_pid_change [mreach]: "reaches m0 m \<Longrightarrow> reaches m0 (apply_notify_pid_change name old new m)"
  by (auto simp: apply_notify_pid_change_def Let_def intro!: mreach split: option.split)

lemma core_notify [simp]:
  "core (notify_status msg r) = core r" "core (touch_watchdog now realtime r) = core r"
  by (auto simp: notify_status_def touch_watchdog_def Let_def core_def split: option.split)

lemma moves_main_pid: "moves r r' \<Longrightarrow> moves r (r'\<lparr> active_pid := Some pid \<rparr>)"
  by (rule moves_trans [OF _ moves_step [OF service_step.main_pid]])

text \<open>The assignments of one message are steps of the record.\<close>

lemma moves_notify:
  assumes "r1 = (case new_pid of Some pid \<Rightarrow> (notify_status msg r)\<lparr> active_pid := Some pid \<rparr>
                               | None \<Rightarrow> notify_status msg r)"
    and "r2 = (if w then touch_watchdog now realtime r1 else r1)"
    and "r3 = (if s then (clear_watchdog r2)\<lparr> state := Deactivating \<rparr> else r2)"
  shows "moves r r3"
proof -
  have "moves r r1"
    using moves_touch [OF core_notify(1), of r msg] by (auto simp: assms(1) moves_main_pid split: option.split)
  moreover have "moves r1 r2" by (auto simp: assms(2) intro: moves_touch)
  moreover have "moves r2 r3"
    using moves_trans [OF moves_touch [OF core_clear_watchdog] moves_state] by (simp add: assms(3))
  ultimately show ?thesis by (meson moves_trans)
qed

lemma reach_notify_ready:
  assumes "reaches m0 m"
  shows "reaches m0 (snd (if ready then
       (case run_unit name (complete_notify_start os) (Inr False) m of
          (Inr True, m) \<Rightarrow> (True, upd_unit name (touch_watchdog now realtime) m)
        | (Inr False, m) \<Rightarrow> (False, m)
        | (Inl _, m) \<Rightarrow> (True, m))
     else (stopping, m)))"
  using reach_run_unit [OF assms moves_ops(3)] assms
  by (auto simp: case_prod_unfold intro!: reach_touch split: sum.split bool.split)

lemma reach_notify_event:
  assumes "reaches m0 m" shows "reaches m0 (apply_notify_event os cfg ev m)"
proof (cases "units m (ne_unit ev)")
  case (Some r)
  let ?name = "ne_unit ev" and ?msg = "ne_message ev"
  let ?now = "os_monotonic os (mlog m)" and ?realtime = "os_realtime os (mlog m)"
  define r0 where "r0 = notify_status ?msg r"
  define new_pid where "new_pid = notify_new_pid ?msg r0"
  define r1 where "r1 = (case new_pid of Some pid \<Rightarrow> r0\<lparr> active_pid := Some pid \<rparr> | None \<Rightarrow> r0)"
  define r2 where "r2 = (if nm_watchdog ?msg then touch_watchdog ?now ?realtime r1 else r1)"
  define stopping where "stopping \<longleftrightarrow> nm_stopping ?msg \<and> state r2 \<in> {Active, Activating}"
  define r3 where "r3 = (if stopping then (clear_watchdog r2)\<lparr> state := Deactivating \<rparr> else r2)"
  define m1 where "m1 = m\<lparr> units := (units m)(?name \<mapsto> r3) \<rparr>"
  have "moves r r3" by (rule moves_notify [OF r1_def [unfolded r0_def] r2_def r3_def])
  then have m1: "reaches m0 m1" unfolding m1_def by (rule reach_step [OF assms ms_unit [OF Some]])
  define p where "p = (if (nm_ready ?msg \<and> state r1 = Activating) \<and> \<not> stopping then
       (case run_unit ?name (complete_notify_start os) (Inr False) m1 of
          (Inr True, m) \<Rightarrow> (True, upd_unit ?name (touch_watchdog ?now ?realtime) m)
        | (Inr False, m) \<Rightarrow> (False, m)
        | (Inl _, m) \<Rightarrow> (True, m))
     else (stopping, m1))"
  have p: "reaches m0 (snd p)" unfolding p_def by (rule reach_notify_ready [OF m1])
  show ?thesis
    unfolding apply_notify_event_def Let_def Some option.case r0_def [symmetric] new_pid_def [symmetric]
      r1_def [symmetric] r2_def [symmetric] stopping_def [symmetric] r3_def [symmetric] m1_def [symmetric]
      p_def [symmetric]
    unfolding case_prod_unfold
    using p by (auto intro!: mreach reach_arm_stop split: option.split)
qed (simp add: apply_notify_event_def assms)

lemma reach_notify_events [mreach]: "reaches m0 m \<Longrightarrow> reaches m0 (apply_notify_events os cfg m)"
  by (auto simp: apply_notify_events_def case_prod_unfold Let_def
      intro!: reach_fold reach_notify_event mreach split: option.split)

lemma reach_dbus_ready: "reaches m0 m \<Longrightarrow> reaches m0 (apply_dbus_ready os name m)"
  by (auto simp: apply_dbus_ready_def case_prod_unfold intro!: mreach reach_run_unit moves_ops
      split: sum.split bool.split)

lemma reach_dbus_ready_events [mreach]: "reaches m0 m \<Longrightarrow> reaches m0 (apply_dbus_ready_events os m)"
  by (auto simp: apply_dbus_ready_events_def intro!: reach_fold reach_dbus_ready mreach)

lemma reach_retry_pid_file: "reaches m0 m \<Longrightarrow> reaches m0 (retry_pid_file os name m)"
  by (auto simp: retry_pid_file_def Let_def case_prod_unfold intro!: mreach reach_run_unit moves_ops
      split: sum.split bool.split option.split)

lemma reach_retry_pid_files [mreach]: "reaches m0 m \<Longrightarrow> reaches m0 (retry_pending_forking_pid_files os names m)"
  by (simp add: retry_pending_forking_pid_files_def reach_fold reach_retry_pid_file)

lemma reach_trip: "reaches m0 m \<Longrightarrow> reaches m0 (upd_unit name trip_watchdog m)"
  by (erule reach_upd_unit)
     (rule moves_set_state [of Deactivating], simp_all add: trip_watchdog_def core_def)

lemma reach_watchdog_abort: "reaches m0 m \<Longrightarrow> reaches m0 (watchdog_abort os cfg name m)"
  by (simp add: watchdog_abort_def Let_def reach_signal_and_wait)

lemma reach_expire_watchdogs [mreach]: "reaches m0 m \<Longrightarrow> reaches m0 (expire_watchdogs os cfg names m)"
  by (auto simp: expire_watchdogs_def Let_def intro!: reach_fold reach_watchdog_abort reach_trip
      split: option.split)

lemma reach_oom_event: "reaches m0 m \<Longrightarrow> reaches m0 (apply_oom_event os cfg name m)"
  by (auto simp: apply_oom_event_def Let_def core_def intro!: mreach reach_touch split: option.split)

lemma reach_oom_events [mreach]: "reaches m0 m \<Longrightarrow> reaches m0 (apply_oom_events os cfg m)"
  by (auto simp: apply_oom_events_def intro!: reach_fold reach_oom_event mreach)

section \<open>Requests and targets\<close>

lemma moves_reset: "moves r (reset_failed_record r)"
proof -
  have "core (reset_failed_record r) = core r \<or> core (reset_failed_record r) = core (r\<lparr> state := Inactive \<rparr>)"
    by (auto simp: reset_failed_record_def Let_def core_def)
  then show ?thesis using moves_touch moves_set_state [of Inactive] by blast
qed

lemma reach_reset_failed: "reaches m0 m \<Longrightarrow> reaches m0 (apply_reset_failed_request os names requested m)"
  by (auto simp: apply_reset_failed_request_def reset_failed_unit_def Let_def
      intro!: mreach reach_fold reach_upd_unit moves_reset)

lemma reach_reset_requests [mreach]: "reaches m0 m \<Longrightarrow> reaches m0 (apply_reset_failed_requests os iter m)"
  by (auto simp: apply_reset_failed_requests_def intro!: reach_fold reach_reset_failed mreach)

lemma reach_load_requests [mreach]: "reaches m0 m \<Longrightarrow> reaches m0 (apply_unit_load_requests cfg m)"
  by (auto simp: apply_unit_load_requests_def intro!: reach_fold mreach)
lemma take_shared_frame:
  "take_shared_job cfg j (m\<lparr> shared := s \<rparr>) = (take_shared_job cfg j m)\<lparr> shared := s \<rparr>"
  by (auto simp: take_shared_job_def load_quietly_def load_unit_def Let_def split: option.split)

lemma fold_take_shared_frame:
  "fold (take_shared_job cfg) js (m\<lparr> shared := s \<rparr>) = (fold (take_shared_job cfg) js m)\<lparr> shared := s \<rparr>"
  by (induction js arbitrary: m) (simp_all add: take_shared_frame)

lemma load_quietly_frame [simp]:
  "shared (load_quietly cfg name m) = shared m" "queue (load_quietly cfg name m) = queue m"
  by (auto simp: load_quietly_def load_unit_def split: option.split)

lemma take_shared_keeps [simp]: "shared (take_shared_job cfg j m) = shared m"
  by (simp add: take_shared_job_def Let_def)

lemma reach_take_shared:
  "reaches m0 m \<Longrightarrow> j \<in> set (shared m) \<Longrightarrow> reaches m0 (take_shared_job cfg j m)"
  using reach_step [OF reach_load_quietly ms_take, of m0 m j cfg "job_unit j"]
  by (simp add: take_shared_job_def Let_def)

lemma reach_fold_take:
  "reaches m0 m \<Longrightarrow> set js \<subseteq> set (shared m) \<Longrightarrow> reaches m0 (fold (take_shared_job cfg) js m)"
proof (induction js arbitrary: m)
  case (Cons j js)
  then show ?case using Cons.IH [OF reach_take_shared [of m0 m j cfg]] by simp
qed simp

lemma reach_drain_shared [mreach]: "reaches m0 m \<Longrightarrow> reaches m0 (drain_shared_queue cfg m)"
  unfolding drain_shared_queue_def fold_take_shared_frame
  by (rule reach_step [OF reach_fold_take ms_shared]) auto

lemma reach_activate_target: "reaches m0 m \<Longrightarrow> reaches m0 (activate_target name m)"
  unfolding activate_target_def
  by (erule reach_upd_unit)
     (auto simp: try_activate_target_def intro!: moves_step [OF service_step.other] split: loaded_unit.split)

lemma reach_activate_targets [mreach]: "reaches m0 m \<Longrightarrow> reaches m0 (activate_targets names m)"
  by (simp add: activate_targets_def reach_fold reach_activate_target)

lemma reach_take_ready:
  assumes "reaches m0 m" "take_ready weave states afters (queue m) = (ready, q)"
  shows "reaches m0 (m\<lparr> queue := q \<rparr>)"
proof (cases weave)
  case None
  then show ?thesis using assms by (auto simp: take_ready_def intro!: reach_queue qs_pop_ready)
next
  case (Some score)
  obtain c' where "pop_ready_by states afters (\<lambda>j. score (job_unit j) (job_critical j)) (queue m) 0 = ((ready, q), c')"
    using assms(2) Some by (cases "pop_ready_by states afters (\<lambda>j. score (job_unit j) (job_critical j)) (queue m) 0")
      (simp add: take_ready_def)
  then show ?thesis using assms(1) by (auto intro: reach_queue qs_pop_ready_by)
qed

lemma reach_dispatch [mreach]:
  assumes "reaches m0 m" shows "reaches m0 (snd (dispatch_one os cfg iter weave m))"
proof -
  define m1 where "m1 = m\<lparr> queue := queue_refresh_ordering (afters_of (iter m) m) (queue m) \<rparr>"
  have m1: "reaches m0 m1" unfolding m1_def by (rule reach_queue [OF assms qs_refresh])
  obtain ready q where t: "take_ready weave (\<lambda>n. map_option state (units m1 n)) (afters_of (iter m) m) (queue m1) = (ready, q)"
    by (cases "take_ready weave (\<lambda>n. map_option state (units m1 n)) (afters_of (iter m) m) (queue m1)")
  have "snd (dispatch_one os cfg iter weave m)
      = run_ready_jobs os cfg iter (case ready of None \<Rightarrow> [] | Some j \<Rightarrow> [j]) (m1\<lparr> queue := q \<rparr>)"
    unfolding dispatch_one_def Let_def m1_def [symmetric] t by simp
  with reach_take_ready [OF m1 t] show ?thesis by (simp only: mreach)
qed

lemma reach_apply_exits [mreach]: "reaches m0 m \<Longrightarrow> reaches m0 (apply_exits os cfg iter ooms exits m)"
  by (simp add: apply_exits_def sync_oom_counters_def Let_def mreach)

lemma reach_run_round [mreach]: "reaches m0 m \<Longrightarrow> reaches m0 (snd (run_round os cfg iter weave inp m))"
  unfolding run_round_def Let_def case_prod_unfold snd_conv by (intro mreach)

section \<open>Clients\<close>

lemma reach_client_enqueue:
  assumes "reaches m0 m" "client_enqueue kind name owner m = Some (j, m')"
  shows "reaches m0 m'"
proof -
  obtain r where a: "allocate kind name owner (registry (queue m)) = Some (j, r)"
    and m': "m' = m\<lparr> queue := (queue m)\<lparr> registry := r \<rparr>, shared := shared m @ [j] \<rparr>"
    using assms(2)
    by (auto simp: client_enqueue_def set_shared_queue_def shared_queue_def enqueue_owned_def split: option.splits)
  show ?thesis unfolding m' by (rule reach_step [OF assms(1) ms_client [OF a]])
qed

lemma reach_set_shared:
  assumes "reaches m0 m" "queue_step (queue m) [] ((queue m)\<lparr> registry := registry q \<rparr>)"
    and "set (pending q) \<subseteq> set (shared m)"
  shows "reaches m0 (set_shared_queue q m)"
  unfolding set_shared_queue_def
  using reach_queue [OF assms(1,2)] assms(3) by (intro reach_step [OF _ ms_shared]) auto

lemma reach_client_cancel [mreach]:
  assumes "reaches m0 m" shows "reaches m0 (snd (client_cancel jid m))"
proof (cases "jid = 0")
  case True
  then show ?thesis
    using reach_misc [OF assms, of m]
    by (simp add: client_cancel_def cancel_def shared_queue_def set_shared_queue_def assms)
next
  case False
  obtain res r where f: "finish jid JR_Canceled (registry (queue m)) = (res, r)"
    by (cases "finish jid JR_Canceled (registry (queue m))")
  have "reaches m0 (set_shared_queue (snd (cancel jid (shared_queue m))) m)"
  proof (rule reach_set_shared [OF assms])
    show "queue_step (queue m) [] ((queue m)\<lparr> registry := registry (snd (cancel jid (shared_queue m))) \<rparr>)"
      using qs_finish [OF f] False f by (simp add: cancel_def shared_queue_def Let_def)
    show "set (pending (snd (cancel jid (shared_queue m)))) \<subseteq> set (shared m)"
      using False f by (auto simp: cancel_def shared_queue_def Let_def)
  qed
  then show ?thesis by (simp add: client_cancel_def case_prod_unfold Let_def)
qed
lemma shared_queue_set [simp]:
  "shared_queue (set_shared_queue q m) = q" "set_shared_queue p (set_shared_queue q m) = set_shared_queue p m"
  by (simp_all add: shared_queue_def set_shared_queue_def)

lemma reach_cancel_ids:
  "reaches m0 m \<Longrightarrow> reaches m0 (set_shared_queue (snd (cancel_ids is (shared_queue m))) m)"
proof (induction "is" arbitrary: m)
  case Nil
  then show ?case by (simp add: set_shared_queue_def shared_queue_def)
next
  case (Cons i "is")
  let ?m = "set_shared_queue (snd (cancel i (shared_queue m))) m"
  have "reaches m0 ?m"
    using reach_client_cancel [OF Cons.prems, of i] by (simp add: client_cancel_def case_prod_unfold Let_def)
  from Cons.IH [OF this] show ?case by (simp add: case_prod_unfold Let_def)
qed

lemma reach_client_cancel_all [mreach]: "reaches m0 m \<Longrightarrow> reaches m0 (snd (client_cancel_all m))"
  using reach_cancel_ids by (simp add: client_cancel_all_def cancel_all_def case_prod_unfold Let_def)

lemma reach_ipc_enqueue: "reaches m0 m \<Longrightarrow> ipc_enqueue_job wake kind name m = Some (resp, m') \<Longrightarrow> reaches m0 m'"
  by (auto simp: ipc_enqueue_job_def intro: reach_client_enqueue)

lemma reach_ipc_cancel: "reaches m0 m \<Longrightarrow> ipc_cancel wake which m = (resp, m') \<Longrightarrow> reaches m0 m'"
  by (auto simp: ipc_cancel_def Let_def case_prod_unfold intro!: mreach split: option.splits if_splits)

lemma reach_ipc_dispatch:
  assumes "reaches m0 m" "ipc_dispatch system uid snap wake req m = Some (resp, m')"
  shows "reaches m0 m'"
proof (cases "system \<and> uid \<noteq> 0 \<and> \<not> allowed_for_unprivileged req")
  case False
  then show ?thesis
    using assms reach_ipc_enqueue [OF assms(1)] reach_ipc_cancel [OF assms(1)]
    by (cases req) (auto simp: ipc_dispatch_def mreach)
qed (use assms in \<open>simp add: ipc_dispatch_def\<close>)

lemma reach_bus_job:
  "reaches m0 m \<Longrightarrow> bus_job manager_uid call wake req m = Some (res, m') \<Longrightarrow> reaches m0 m'"
  by (auto simp: bus_job_def bus_enqueue_def intro: reach_client_enqueue split: sum.splits prod.splits)

lemma reach_bus_cancels [mreach]:
  "reaches m0 m \<Longrightarrow> reaches m0 (snd (bus_cancel_job manager_uid call wake jid m))"
  "reaches m0 m \<Longrightarrow> reaches m0 (snd (job_object_cancel manager_uid call wake jid m))"
  "reaches m0 m \<Longrightarrow> reaches m0 (snd (bus_clear_jobs manager_uid call wake m))"
  by (auto simp: bus_cancel_job_def job_object_cancel_def bus_clear_jobs_def cancel_live_job_def Let_def
      case_prod_unfold intro!: mreach split: sum.split)

section \<open>Any handlers, in any order\<close>

text \<open>
  Everything that happens to the manager between two reloads of the unit files.  The operating system,
  the configuration, the order in which maps are traversed, the scorer and all arguments are arbitrary
  in every event.  \<open>arrives\<close> stands for the watchers and the notification socket, which only fill the
  lists the next round reads.
\<close>

inductive manager_event :: "manager \<Rightarrow> manager \<Rightarrow> bool" where
  round: "manager_event m (snd (run_round os cfg iter weave inp m))"
| children: "manager_event m (apply_exits os cfg iter ooms exits m)"
| timer: "manager_event m (on_timer src m)"
| boot: "manager_event m (snd (enqueue_start cfg target m))"
| shutdown: "manager_event m (begin_shutdown_transaction cfg iter m)"
| ipc: "ipc_dispatch system uid snap wake req m = Some (resp, m') \<Longrightarrow> manager_event m m'"
| bus_job: "bus_job manager_uid call wake req m = Some (res, m') \<Longrightarrow> manager_event m m'"
| bus_cancel: "manager_event m (snd (bus_cancel_job manager_uid call wake jid m))"
| object_cancel: "manager_event m (snd (job_object_cancel manager_uid call wake jid m))"
| bus_clear: "manager_event m (snd (bus_clear_jobs manager_uid call wake m))"
| arrives: "manager_event m (m\<lparr> notify := server, cgroup_empty_events := groups,
     dbus_ready_events := names, unit_load_requests := loads \<rparr>)"

lemma manager_event_reaches: "manager_event m m' \<Longrightarrow> reaches m m'"
proof (induction rule: manager_event.induct)
  case (ipc system uid snap wake req m resp m')
  then show ?case by (rule reach_ipc_dispatch [OF rtranclp.rtrancl_refl])
next
  case (bus_job manager_uid call wake req m res m')
  then show ?case by (rule reach_bus_job [OF rtranclp.rtrancl_refl])
next
  case (timer m src)
  then show ?case by (rule reach_on_timer [OF rtranclp.rtrancl_refl])
qed (intro mreach rtranclp.rtrancl_refl)+

lemma manager_events_ok:
  assumes "manager_event\<^sup>*\<^sup>* (manager_new server) m"
  shows "manager_ok m"
proof -
  have "reaches (manager_new server) m"
    using assms by (induction rule: rtranclp_induct) (auto dest: manager_event_reaches intro: rtranclp_trans)
  then show ?thesis using managers.sinv_reachable by blast
qed


end
