(* ===== verification/ManagerFacts.thy ===== *)
theory ManagerFacts
  imports ManagerRuns
begin

text \<open>
  What the handlers of the manager guarantee: the invariant of a running manager, the limit on
  automatic restarts, restarts and isolation as sequences of jobs, the escalation of timeouts, the
  conditions under which the loop is left, and what clients may change.
\<close>

section \<open>What the handlers of one service leave alone\<close>

text \<open>The queue and the bookkeeping of restarts and transactions.\<close>

definition jframe :: "manager \<Rightarrow> job_queue \<times> job list \<times> job_event list \<times> string set
    \<times> (nat \<rightharpoonup> string) \<times> (nat \<rightharpoonup> string list)" where
  "jframe m = (queue m, shared m, published m, restart_pending m, restart_timers m, isolate_jobs m)"


lemma jframe_basic [simp]:
  "jframe (upd_unit name f m) = jframe m"
  "jframe (snd (run_unit name g d m)) = jframe m"
  "jframe (with_notify h m) = jframe m"
  "jframe (m\<lparr> mlog := lg \<rparr>) = jframe m"
  "jframe (m\<lparr> units := u \<rparr>) = jframe m"
  "jframe (m\<lparr> start_timeouts := a \<rparr>) = jframe m"
  "jframe (m\<lparr> stop_timeouts := b \<rparr>) = jframe m"
  "jframe (m\<lparr> service_timers := t \<rparr>) = jframe m"
  "jframe (m\<lparr> oom_stopping := s \<rparr>) = jframe m"
  "jframe (m\<lparr> oom_recent := r \<rparr>) = jframe m"
  by (simp_all add: jframe_def upd_unit_def run_unit_def with_notify_def case_prod_unfold Let_def
      split: option.split)

lemma jframe_timers [simp]:
  "jframe (cancel_start_timeout name m) = jframe m"
  "jframe (cancel_stop_timeout name m) = jframe m"
  "jframe (snd (add_timer os ns m)) = jframe m"
  "jframe (snd (arm_service_timeout_event os t name phase m)) = jframe m"
  by (simp_all add: cancel_start_timeout_def cancel_stop_timeout_def add_timer_def
      arm_service_timeout_event_def Let_def jframe_def split: option.split)

lemma jframe_kill [simp]:
  "jframe (snd (signal_timeout_operation os name op m)) = jframe m"
  "jframe (unregister_main name m) = jframe m"
  "jframe (finalize_timeout_without_exit os name result m) = jframe m"
  "jframe (apply_final_kill os name m) = jframe m"
proof -
  show s: "jframe (snd (signal_timeout_operation os name op m)) = jframe m" for op m
    by (simp add: signal_timeout_operation_def case_prod_unfold Let_def split: option.split)
  show u: "jframe (unregister_main name m) = jframe m" for m
    by (simp add: unregister_main_def split: option.split)
  show f: "jframe (finalize_timeout_without_exit os name result m) = jframe m" for result m
    by (simp add: finalize_timeout_without_exit_def u)
  show "jframe (apply_final_kill os name m) = jframe m"
    by (simp add: apply_final_kill_def Let_def case_prod_unfold s f)
qed

lemma jframe_stop [simp]:
  "jframe (arm_service_stop_timeout os name t phase m) = jframe m"
  "jframe (stop_service os cfg name m) = jframe m"
proof -
  show a: "jframe (arm_service_stop_timeout os name t phase m) = jframe m" for t phase m
    using jframe_timers(4) [of os t name phase "cancel_stop_timeout name m"]
    by (cases "arm_service_timeout_event os t name phase (cancel_stop_timeout name m)")
       (auto simp: arm_service_stop_timeout_def simp del: jframe_timers(4) split: option.split)
  show "jframe (stop_service os cfg name m) = jframe m"
    by (simp add: stop_service_def Let_def a split: option.split)
qed

lemma jframe_cleanup [simp]: "jframe (cleanup_unit_cgroup_if_empty os name m) = jframe m"
  by (auto simp: cleanup_unit_cgroup_if_empty_def forget_oom_def split: sum.split bool.split io_kind.split)

section \<open>The running manager\<close>




section \<open>Automatic restarts\<close>





lemma sat_i64_small: "\<bar>n\<bar> \<le> i64_max \<Longrightarrow> sat_i64 n = n"
  by (simp add: sat_i64_def)



text \<open>A loader that knows one target, which may be isolated.\<close>

definition demo_config :: mconfig where
  "demo_config =
     \<lparr> default_timeout_start = 90000000, default_timeout_stop = 90000000, system_scope = True,
       load_file = [''t.target'' \<mapsto> Target ''t.target'' (unit_section_default\<lparr> allow_isolate := True \<rparr>)],
       apply_defaults = id, backoff = (\<lambda>initial _ _ _. initial), resolve_fuel = 3 \<rparr>"




section \<open>Restart jobs\<close>


lemma jframe_exit_done [simp]: "jframe (exit_done os name m) = jframe m"
  by (simp add: exit_done_def Let_def)

lemma jframe_resources [simp]:
  "jframe (fail_resources name m) = jframe m"
  "jframe (snd (prepare_service_cgroup os name m)) = jframe m"
  by (simp_all add: fail_resources_def prepare_service_cgroup_def Let_def)

lemma jframe_arm_start:
  "jframe (snd (case arm_service_timeout_event os t name Phase_Start m of
      (None, m) \<Rightarrow> (Inl ME_Timer, m)
    | (Some src, m) \<Rightarrow> (Inr (), m\<lparr> start_timeouts := (start_timeouts m)(name \<mapsto> src) \<rparr>))) = jframe m"
  using jframe_timers(4) [of os t name Phase_Start m]
  by (cases "arm_service_timeout_event os t name Phase_Start m")
     (auto simp del: jframe_timers(4) split: option.split)

lemma jframe_start [simp]:
  "jframe (snd (finish_start os name access watchdog t requested procs m)) = jframe m"
  "jframe (snd (start_service os name access watchdog t m)) = jframe m"
proof -
  show f: "jframe (snd (finish_start os name access watchdog t requested procs m)) = jframe m"
    for requested procs m
    by (auto simp: finish_start_def Let_def jframe_arm_start split: option.split)
  show "jframe (snd (start_service os name access watchdog t m)) = jframe m"
    by (auto simp: start_service_def Let_def case_prod_unfold f split: sum.split option.split)
qed




section \<open>Isolation\<close>

abbreviation internal :: "job_kind \<Rightarrow> string \<Rightarrow> job" where
  "internal kind name \<equiv> \<lparr> job_id = 0, job_kind = kind, job_unit = name \<rparr>"

lemma fold_enqueue_internal:
  "fold (enqueue_internal_job kind) names m =
     m\<lparr> queue := (queue m)\<lparr> pending := pending (queue m) @ map (internal kind) names \<rparr> \<rparr>"
  by (induction names arbitrary: m) (simp_all add: enqueue_internal_job_def enqueue_internal_def)

lemma fold_load_queue [simp]: "queue (fold (load_quietly cfg) names m) = queue m"
  by (induction names arbitrary: m) simp_all

lemma load_unit_Inr:
  "load_unit cfg name m = (Inr x, m') \<Longrightarrow> queue m' = queue m \<and> units m' name \<noteq> None"
  by (auto simp: load_unit_def split: if_splits option.splits)

lemma load_unit_finite: "finite (dom (units m)) \<Longrightarrow> finite (dom (units (snd (load_unit cfg name m))))"
  by (auto simp: load_unit_def split: option.split)

lemma fold_load_finite: "finite (dom (units m)) \<Longrightarrow> finite (dom (units (fold (load_quietly cfg) names m)))"
  by (induction names arbitrary: m) (simp_all add: load_quietly_def load_unit_finite)

text \<open>
  C15: Isolating a target.  When it succeeds, the queue gains first a stop of every unit that is active,
  activating or failed, is not in the start order of the target and does not set
  \<open>IgnoreOnIsolate=\<close>, and of no other unit, then a start of every unit of the start order in that
  order; nothing else is queued and no identifier is used up.  The target is activating.  The names
  of the units are traversed in any order, once each.
\<close>

theorem isolate_exact:
  assumes run: "enqueue_isolate cfg iter jid target m = (Inr x, m')"
    and iter: "\<And>m. finite (dom (units m)) \<Longrightarrow> distinct (iter m) \<and> set (iter m) = dom (units m)"
    and fin: "finite (dom (units m))"
  shows "\<exists>m1 start_order stops. load_unit cfg target m = (Inr (), m1)
    \<and> resolve_start_order (resolve_fuel cfg) target (known_units m1) (load_section cfg) = Some (Inr start_order)
    \<and> pending (queue m') = pending (queue m) @ map (internal Stop) stops @ map (internal Start) start_order
    \<and> registry (queue m') = registry (queue m)
    \<and> distinct stops
    \<and> (\<forall>name. name \<in> set stops \<longleftrightarrow>
         (\<exists>r. units m' name = Some r \<and> state r \<in> {Active, Activating, Failed}
            \<and> \<not> ignore_on_isolate (unit_section_of (loaded r)) \<and> name \<notin> set start_order))
    \<and> unit_in_state target Activating m'"
proof -
  obtain m1 where m1: "load_unit cfg target m = (Inr (), m1)"
    using run by (cases "load_unit cfg target m"; cases "fst (load_unit cfg target m)") (auto simp: enqueue_isolate_def)
  then obtain r where r: "units m1 target = Some r" and q1: "queue m1 = queue m"
    using load_unit_Inr by blast
  obtain order where ord: "resolve_start_order (resolve_fuel cfg) target (known_units m1) (load_section cfg) = Some (Inr order)"
    using run m1 r by (auto simp: enqueue_isolate_def split: if_splits option.splits sum.splits)
  define m2 where "m2 = fold (load_quietly cfg) order m1"
  define keep where "keep = order @ filter (keeps_on_isolate m2) (iter m2)"
  define m3 where "m3 = upd_unit target (\<lambda>r. r\<lparr> state := Activating \<rparr>)
      (if jid \<noteq> 0 then m2\<lparr> isolate_jobs := (isolate_jobs m2)(jid \<mapsto> keep) \<rparr> else m2)"
  define stops where "stops = filter (wants_stop keep m3) (iter m3)"
  have m': "m' = fold (enqueue_internal_job Start) order (fold (enqueue_internal_job Stop) stops m3)"
    using run m1 r ord
    by (auto simp: enqueue_isolate_def Let_def m2_def keep_def m3_def stops_def split: if_splits)
  have r2: "units m2 target = Some r" unfolding m2_def by (rule fold_load_keeps [OF r])
  have u3: "units m3 = (units m2)(target \<mapsto> r\<lparr> state := Activating \<rparr>)" and q3: "queue m3 = queue m"
    using r2 q1 by (auto simp: m3_def upd_unit_def m2_def)
  have u': "units m' = units m3" unfolding m' fold_enqueue_internal by simp
  have fin2: "finite (dom (units m2))"
    unfolding m2_def using fin load_unit_finite [OF fin] m1 by (intro fold_load_finite) (metis snd_conv)
  have fin3: "finite (dom (units m3))" using fin2 by (simp add: u3)
  have ign: "keeps_on_isolate m3 name \<longleftrightarrow> (\<exists>r. units m3 name = Some r \<and> ignore_on_isolate (unit_section_of (loaded r)))"
    for name by (simp add: keeps_on_isolate_def split: option.split)
  have "keeps_on_isolate m2 name = keeps_on_isolate m3 name" for name
    using r2 by (simp add: keeps_on_isolate_def u3)
  moreover have "name \<in> set (iter m2) \<longleftrightarrow> units m3 name \<noteq> None" for name
    using iter [OF fin2] r2 by (auto simp: u3)
  ultimately have keep: "name \<in> set keep \<longleftrightarrow> name \<in> set order \<or> keeps_on_isolate m3 name" for name
    using ign by (auto simp: keep_def)
  have stops: "name \<in> set stops \<longleftrightarrow> units m3 name \<noteq> None \<and> wants_stop keep m3 name" for name
    using iter [OF fin3] by (auto simp: stops_def)
  have "name \<in> set stops \<longleftrightarrow> (\<exists>r. units m' name = Some r \<and> state r \<in> {Active, Activating, Failed}
            \<and> \<not> ignore_on_isolate (unit_section_of (loaded r)) \<and> name \<notin> set order)" for name
    unfolding stops u' wants_stop_def keep ign by (cases "units m3 name") auto
  moreover have "distinct stops" unfolding stops_def using iter [OF fin3] by simp
  moreover have "unit_in_state target Activating m'" by (simp add: unit_in_state_def u' u3)
  moreover have "pending (queue m') = pending (queue m) @ map (internal Stop) stops @ map (internal Start) order"
    "registry (queue m') = registry (queue m)"
    unfolding m' fold_enqueue_internal by (simp_all add: q3)
  ultimately show ?thesis using ord m1 by blast
qed

theorem isolate_exact_witness:
  "\<exists>m'. enqueue_isolate demo_config (\<lambda>m. sorted_list_of_set (dom (units m))) 0 ''t.target''
        (manager_new None \<lparr> units := [''a.service'' \<mapsto> demo_record\<lparr> state := Active \<rparr>] \<rparr>) = (Inr (), m')
     \<and> internal Stop ''a.service'' \<in> set (pending (queue m'))"
proof -
  let ?u = "Target ''t.target'' (unit_section_default\<lparr> allow_isolate := True \<rparr>)"
  let ?m = "manager_new None \<lparr> units := [''a.service'' \<mapsto> demo_record\<lparr> state := Active \<rparr>] \<rparr>"
  let ?m1 = "?m\<lparr> units := (units ?m)(''t.target'' \<mapsto> unit_record_new ?u) \<rparr>"
  let ?iter = "\<lambda>m. sorted_list_of_set (dom (units m))"
  have load: "load_unit demo_config ''t.target'' ?m = (Inr (), ?m1)"
    by (simp add: load_unit_def demo_config_def new_unit_record_def)
  have ord: "resolve_start_order 3 ''t.target'' (known_units ?m1) (load_section demo_config) = Some (Inr [''t.target''])"
    by (simp add: resolve_start_order_def resolver_new_def deps_for_def known_units_def unit_record_new_def
        unit_section_default_def and_then_def ensure_loaded_def is_loaded_def report_cycle_def eval_nat_numeral)
  have t: "loaded (unit_record_new ?u) = ?u" "resolve_fuel demo_config = 3"
    by (simp_all add: unit_record_new_def demo_config_def)
  obtain m' where run: "enqueue_isolate demo_config ?iter 0 ''t.target'' ?m = (Inr (), m')"
    unfolding enqueue_isolate_def load Let_def prod.case sum.case t(2) ord by (simp add: t(1))
  have u: "units m' ''a.service'' = Some (demo_record\<lparr> state := Active \<rparr>)"
    using run unfolding enqueue_isolate_def load Let_def prod.case sum.case t(2) ord fold_enqueue_internal
    by (auto simp: t(1) load_quietly_def load_unit_def upd_unit_def)
  obtain start_order stops where s: "Some (Inr [''t.target'']) = Some (Inr start_order)"
      "pending (queue m') = pending (queue ?m) @ map (internal Stop) stops @ map (internal Start) start_order"
      "''a.service'' \<in> set stops"
    using isolate_exact [OF run] load ord u t(2)
    by (auto simp: demo_record_def unit_record_new_def unit_section_default_def)
  then show ?thesis using run by auto
qed
section \<open>Deadlines\<close>

text \<open>
  C18: A second stop can lose its deadline.  While the expiry of an earlier stop timer of the unit is
  still waiting to be handled, a new stop arms a fresh timer; handling the old expiry then removes the
  entry of the fresh timer without any other effect, so that when the fresh timer expires nothing
  happens either: no signal is sent and the record does not change, although the service may still be
  deactivating.
\<close>

theorem second_stop_loses_deadline:
  assumes armed: "os_ok os (mlog m) (E_Arm_Timer (next_source m) (service_timeout_ns t))"
    and old: "s < next_source m" "phase \<noteq> Phase_Start"
    and m1: "m1 = arm_service_stop_timeout os name t Phase_Stop m"
    and m2: "m2 = apply_service_timeout_event os cfg \<lparr> te_unit_name = name, te_phase = phase, te_source_id = s \<rparr> m1"
    and ev: "ev = \<lparr> te_unit_name = name, te_phase = Phase_Stop, te_source_id = next_source m \<rparr>"
  shows "stop_timeouts m1 name = Some (next_source m)
    \<and> service_timers m2 (next_source m) = Some (name, Phase_Stop)
    \<and> apply_service_timeout_event os cfg ev m2 = m2
    \<and> units m2 = units m \<and> mlog m2 = mlog m @ [E_Arm_Timer (next_source m) (service_timeout_ns t)]"
proof -
  define m0 where "m0 = cancel_stop_timeout name m"
  have m0: "next_source m0 = next_source m" "mlog m0 = mlog m" "units m0 = units m"
    by (simp_all add: m0_def cancel_stop_timeout_def split: option.split)
  have m1': "m1 = m0\<lparr> next_source := Suc (next_source m), mlog := mlog m @ [E_Arm_Timer (next_source m) (service_timeout_ns t)],
      service_timers := (service_timers m0)(next_source m \<mapsto> (name, Phase_Stop)),
      stop_timeouts := (stop_timeouts m0)(name \<mapsto> next_source m) \<rparr>"
    using armed m0
    by (simp add: m1 arm_service_stop_timeout_def m0_def [symmetric] arm_service_timeout_event_def add_timer_def Let_def)
  have m2': "m2 = m1\<lparr> stop_timeouts := (stop_timeouts m1)(name := None) \<rparr>"
    using old m1' by (cases phase) (simp_all add: m2 apply_service_timeout_event_def Let_def)
  have "apply_service_timeout_event os cfg ev m2 = m2\<lparr> stop_timeouts := (stop_timeouts m2)(name := None) \<rparr>"
    using m2' by (simp add: ev apply_service_timeout_event_def Let_def)
  also have "\<dots> = m2" unfolding m2' by simp
  finally show ?thesis using m0 m1' m2' by simp
qed

theorem second_stop_loses_deadline_witness:
  "apply_service_timeout_event quiet_os demo_config
     \<lparr> te_unit_name = ''a.service'', te_phase = Phase_Stop, te_source_id = 1 \<rparr>
     (apply_service_timeout_event quiet_os demo_config
       \<lparr> te_unit_name = ''a.service'', te_phase = Phase_Stop, te_source_id = 0 \<rparr>
       (arm_service_stop_timeout quiet_os ''a.service'' 5 Phase_Stop (manager_new None)))
   = apply_service_timeout_event quiet_os demo_config
       \<lparr> te_unit_name = ''a.service'', te_phase = Phase_Stop, te_source_id = 0 \<rparr>
       (arm_service_stop_timeout quiet_os ''a.service'' 5 Phase_Stop (manager_new None))"
  using second_stop_loses_deadline [of quiet_os "manager_new None" 5 0 Phase_Stop _ "''a.service''" _ demo_config,
      OF _ _ _ refl refl refl]
  by (simp add: quiet_os_def manager_new_def)

section \<open>Leaving the loop\<close>




end
