(* ===== verification/UnitFile.thy ===== *)
theory UnitFile
  imports RustStr
begin

text \<open>
  Unit files as text: the tokeniser \<open>src/src/unit/ini.rs\<close>, the specifiers of
  \<open>src/src/unit/specifier.rs\<close> and the escaping of paths in unit names of
  \<open>src/src/unit/loader.rs\<close>.  The strings of a specifier context that come from the machine are fields of
  the context.  Bytes are numbers below 256; a string has code points up to U+00FF, so a UTF-8
  sequence has one or two bytes.
\<close>

section \<open>The tokeniser\<close>

record raw_entry =
  re_section :: string
  re_key :: string
  re_value :: string
  re_line :: nat

definition is_comment :: "string \<Rightarrow> bool" where
  "is_comment s \<longleftrightarrow> starts_with s ''#'' \<or> starts_with s '';''"

text \<open>The inner loop: lines are joined while the value ends in a backslash; the rest follows.\<close>

fun continuation :: "string \<Rightarrow> string list \<Rightarrow> string \<times> string list" where
  "continuation v [] = (if ends_with v [CHR 0x5C] then butlast v else v, [])"
| "continuation v (l # ls) =
     (if ends_with v [CHR 0x5C] then
        (let cont = trim l
         in if is_comment cont then continuation (butlast v) ls else continuation (butlast v @ cont) ls)
      else (v, l # ls))"

lemma continuation_shorter: "length (snd (continuation v ls)) \<le> length ls"
  by (induction v ls rule: continuation.induct) (auto simp: Let_def)

lemma continuation_rest: "(x, rest) = continuation v ls \<Longrightarrow> length rest < Suc (length ls)"
  using continuation_shorter [of v ls] by (metis le_imp_less_Suc snd_conv)

text \<open>The outer loop, at line number \<open>n\<close> and in a section.\<close>

function parse_lines :: "nat \<Rightarrow> string \<Rightarrow> string list \<Rightarrow> raw_entry list" where
  "parse_lines n sec [] = []"
| "parse_lines n sec (l # ls) =
     (let trimmed = trim l
      in if trimmed = [] \<or> is_comment trimmed then parse_lines (Suc n) sec ls
         else case strip_prefix trimmed ''['' of
           Some inner \<Rightarrow>
             parse_lines (Suc n) (case strip_suffix inner '']'' of Some name \<Rightarrow> trim name | None \<Rightarrow> sec) ls
         | None \<Rightarrow>
             (case str_find (CHR ''='') trimmed of
                None \<Rightarrow> parse_lines (Suc n) sec ls
              | Some pos \<Rightarrow>
                  (let key = trim (take pos trimmed);
                       (v, rest) = continuation (drop (Suc pos) trimmed) ls;
                       n' = Suc n + (length ls - length rest);
                       entry = \<lparr> re_section = sec, re_key = key, re_value = trim v, re_line = n \<rparr>
                   in if sec \<noteq> [] \<and> key \<noteq> [] then entry # parse_lines n' sec rest
                      else parse_lines n' sec rest)))"
  by pat_completeness auto

termination
  by (relation "measure (\<lambda>(_, _, ls). length ls)") (auto dest: continuation_rest)

declare parse_lines.simps(2) [simp del]

definition parse_unit_text :: "string \<Rightarrow> raw_entry list" where
  "parse_unit_text text = parse_lines 1 [] (str_lines text)"

section \<open>Specifiers\<close>

record specifier_context =
  sc_unit_name :: string
  sc_prefix :: string
  sc_instance :: string
  sc_suffix :: string
  sc_runtime_dir :: string
  sc_state_dir :: string
  sc_cache_dir :: string
  sc_logs_dir :: string
  sc_config_dir :: string
  sc_machine_id :: string
  sc_boot_id :: string
  sc_hostname :: string
  sc_kernel_release :: string
  sc_user_name :: string
  sc_uid :: nat
  sc_group_name :: string
  sc_gid :: nat
  sc_home_dir :: string
  sc_shell :: string

definition str_rfind :: "char \<Rightarrow> string \<Rightarrow> nat option" where
  "str_rfind c s = map_option (\<lambda>i. length s - Suc i) (str_find c (rev s))"

definition split_unit_name :: "string \<Rightarrow> string \<times> string \<times> string" where
  "split_unit_name name =
     (let (base, suff) = (case str_rfind (CHR ''.'') name of
                            Some dot \<Rightarrow> (take dot name, drop (Suc dot) name)
                          | None \<Rightarrow> (name, []))
      in case str_find (CHR ''@'') base of
           Some i \<Rightarrow> (take i base, drop (Suc i) base, suff)
         | None \<Rightarrow> (base, [], suff))"

text \<open>The context of the system manager; \<open>machine\<close> is what it reads from the machine.\<close>

record machine_facts =
  mf_machine_id :: string
  mf_boot_id :: string
  mf_hostname :: string
  mf_kernel_release :: string

definition for_system_unit :: "machine_facts \<Rightarrow> string \<Rightarrow> specifier_context" where
  "for_system_unit machine name =
     (let (pre, inst, suff) = split_unit_name name
      in \<lparr> sc_unit_name = name, sc_prefix = pre, sc_instance = inst, sc_suffix = suff,
           sc_runtime_dir = ''/run'', sc_state_dir = ''/var/lib'', sc_cache_dir = ''/var/cache'',
           sc_logs_dir = ''/var/log'', sc_config_dir = ''/etc'',
           sc_machine_id = trim (mf_machine_id machine),
           sc_boot_id = str_replace (CHR ''-'') [] (trim (mf_boot_id machine)),
           sc_hostname = trim (mf_hostname machine), sc_kernel_release = mf_kernel_release machine,
           sc_user_name = ''root'', sc_uid = 0, sc_group_name = ''root'', sc_gid = 0,
           sc_home_dir = ''/root'', sc_shell = ''/bin/sh'' \<rparr>)"

definition unescape_name :: "string \<Rightarrow> string" where
  "unescape_name s = str_replace (CHR ''-'') ''/'' s"

definition replacement :: "specifier_context \<Rightarrow> char \<Rightarrow> string option" where
  "replacement ctx c =
     (if c = CHR ''n'' then Some (sc_unit_name ctx)
      else if c = CHR ''N'' then Some (unescape_name (sc_unit_name ctx))
      else if c = CHR ''p'' then Some (sc_prefix ctx)
      else if c = CHR ''P'' then Some (unescape_name (sc_prefix ctx))
      else if c = CHR ''i'' then Some (sc_instance ctx)
      else if c = CHR ''I'' then Some (unescape_name (sc_instance ctx))
      else if c = CHR ''f'' then
        Some (CHR ''/'' # unescape_name (if sc_instance ctx = [] then sc_prefix ctx else sc_instance ctx))
      else if c = CHR ''t'' then Some (sc_runtime_dir ctx)
      else if c = CHR ''S'' then Some (sc_state_dir ctx)
      else if c = CHR ''C'' then Some (sc_cache_dir ctx)
      else if c = CHR ''L'' then Some (sc_logs_dir ctx)
      else if c = CHR ''E'' then Some (sc_config_dir ctx)
      else if c = CHR ''m'' then Some (sc_machine_id ctx)
      else if c = CHR ''b'' then Some (sc_boot_id ctx)
      else if c = CHR ''H'' then Some (sc_hostname ctx)
      else if c = CHR ''v'' then Some (sc_kernel_release ctx)
      else if c = CHR ''u'' then Some (sc_user_name ctx)
      else if c = CHR ''U'' then Some (show_nat (sc_uid ctx))
      else if c = CHR ''g'' then Some (sc_group_name ctx)
      else if c = CHR ''G'' then Some (show_nat (sc_gid ctx))
      else if c = CHR ''h'' then Some (sc_home_dir ctx)
      else if c = CHR ''s'' then Some (sc_shell ctx)
      else if c = CHR ''%'' then Some ''%''
      else None)"

fun expand :: "specifier_context \<Rightarrow> string \<Rightarrow> string" where
  "expand ctx [] = []"
| "expand ctx [c] = [c]"
| "expand ctx (c # s # rest) =
     (if c \<noteq> CHR ''%'' then c # expand ctx (s # rest)
      else case replacement ctx s of
        Some r \<Rightarrow> r @ expand ctx rest
      | None \<Rightarrow> CHR ''%'' # expand ctx (s # rest))"
section \<open>Paths in unit names\<close>

definition utf8 :: "string \<Rightarrow> nat list" where
  "utf8 s = concat (map (\<lambda>c. let n = of_char c :: nat
                            in if n < 128 then [n] else [192 + n div 64, 128 + n mod 64]) s)"

fun from_utf8 :: "nat list \<Rightarrow> string option" where
  "from_utf8 [] = Some []"
| "from_utf8 (b # bs) =
     (if b < 128 then map_option ((#) (char_of b)) (from_utf8 bs)
      else case bs of
        b' # bs' \<Rightarrow>
          if 194 \<le> b \<and> b \<le> 195 \<and> 128 \<le> b' \<and> b' < 192
          then map_option ((#) (char_of ((b - 192) * 64 + (b' - 128)))) (from_utf8 bs')
          else None
      | [] \<Rightarrow> None)"

datatype path_error = Not_Absolute | Empty_Stem | Bad_Escape | Not_Utf8 | Wrong_Suffix

definition join_path :: "string list \<Rightarrow> string" where
  "join_path cs = concat (map ((#) (CHR ''/'')) cs)"

fun simplify_components :: "string list \<Rightarrow> string list \<Rightarrow> string list" where
  "simplify_components acc [] = acc"
| "simplify_components acc (c # cs) =
     (if c = [] \<or> c = ''.'' then simplify_components acc cs
      else if c = ''..'' then simplify_components (butlast acc) cs
      else simplify_components (acc @ [c]) cs)"

definition simplify_absolute_path :: "string \<Rightarrow> string option" where
  "simplify_absolute_path path =
     (if \<not> starts_with path ''/'' then None
      else
        (let components = simplify_components [] (split_on (\<lambda>c. c = CHR ''/'') path)
         in Some (if components = [] then ''/'' else join_path components)))"

definition hex_value :: "nat \<Rightarrow> nat option" where
  "hex_value b =
     (if 48 \<le> b \<and> b \<le> 57 then Some (b - 48)
      else if 97 \<le> b \<and> b \<le> 102 then Some (b - 87)
      else if 65 \<le> b \<and> b \<le> 70 then Some (b - 55)
      else None)"

text \<open>The loop over the bytes of a stem.\<close>

fun decode_bytes :: "nat list \<Rightarrow> path_error + nat list" where
  "decode_bytes [] = Inr []"
| "decode_bytes (b # bs) =
     (if b = 45 then map_sum id ((#) 47) (decode_bytes bs)
      else if b = 92 then
        (case bs of
           x # h # l # rest \<Rightarrow>
             if x = 120 then
               (case (hex_value h, hex_value l) of
                  (Some high, Some low) \<Rightarrow> map_sum id ((#) (high * 16 + low)) (decode_bytes rest)
                | _ \<Rightarrow> Inl Bad_Escape)
             else Inl Bad_Escape
         | _ \<Rightarrow> Inl Bad_Escape)
      else map_sum id ((#) b) (decode_bytes bs))"

definition decode_unit_path_stem :: "string \<Rightarrow> path_error + string" where
  "decode_unit_path_stem stem =
     (if stem = [] then Inl Empty_Stem
      else if stem = ''-'' then Inr ''/''
      else case decode_bytes (utf8 stem) of
        Inl e \<Rightarrow> Inl e
      | Inr bs \<Rightarrow> (case from_utf8 (47 # bs) of Some s \<Rightarrow> Inr s | None \<Rightarrow> Inl Not_Utf8))"

definition path_from_unit_name :: "string \<Rightarrow> string \<Rightarrow> path_error + string" where
  "path_from_unit_name name suff =
     (case strip_suffix name suff of None \<Rightarrow> Inl Wrong_Suffix | Some stem \<Rightarrow> decode_unit_path_stem stem)"

definition hex_char :: "nat \<Rightarrow> char" where
  "hex_char d = char_of (if d < 10 then 48 + d else 87 + d)"

definition plain_byte :: "nat \<Rightarrow> bool" where
  "plain_byte b \<longleftrightarrow> 65 \<le> b \<and> b \<le> 90 \<or> 97 \<le> b \<and> b \<le> 122 \<or> 48 \<le> b \<and> b \<le> 57 \<or> b \<in> {58, 95, 46}"

definition escape_byte :: "nat \<Rightarrow> string" where
  "escape_byte b =
     (if b = 47 then ''-''
      else if plain_byte b then [char_of b]
      else [CHR 0x5C, CHR ''x'', hex_char (b div 16), hex_char (b mod 16)])"

definition escape_path_for_unit :: "string \<Rightarrow> string \<Rightarrow> path_error + string" where
  "escape_path_for_unit path suff =
     (case simplify_absolute_path path of
        None \<Rightarrow> Inl Not_Absolute
      | Some p \<Rightarrow>
          if p = ''/'' then Inr (CHR ''-'' # suff)
          else Inr (concat (map escape_byte (tl (utf8 p))) @ suff))"

section \<open>Properties\<close>

lemma of_char_bound: "of_char c < (256::nat)"
  by simp

lemma utf8_Nil [simp]: "utf8 [] = []"
  by (simp add: utf8_def)

lemma utf8_Cons: "utf8 (c # s) =
    (if (of_char c :: nat) < 128 then [of_char c] else [192 + of_char c div 64, 128 + of_char c mod 64]) @ utf8 s"
  by (simp add: utf8_def Let_def)

lemma utf8_append: "utf8 (s @ t) = utf8 s @ utf8 t"
  by (simp add: utf8_def)

lemma from_utf8_utf8 [simp]: "from_utf8 (utf8 s) = Some s"
proof (induction s)
  case (Cons c s)
  have c: "of_char c < (256::nat)" by (rule of_char_bound)
  show ?case
  proof (cases "(of_char c :: nat) < 128")
    case False
    define n where "n = (of_char c :: nat)"
    have n: "128 \<le> n" "n < 256" using False c by (simp_all add: n_def)
    have "194 \<le> 192 + n div 64" "192 + n div 64 \<le> 195" using n by auto
    moreover have "char_of ((192 + n div 64 - 192) * 64 + (128 + n mod 64 - 128)) = c"
      by (simp add: n_def)
    ultimately show ?thesis using n Cons by (simp add: utf8_Cons n_def [symmetric])
  qed (simp add: utf8_Cons Cons)
qed simp

lemma utf8_bound: "b \<in> set (utf8 s) \<Longrightarrow> b < 256"
proof (induction s)
  case (Cons c s)
  have "(of_char c :: nat) div 64 < 4" by (rule less_mult_imp_div_less) simp
  then show ?case using Cons by (auto simp: utf8_Cons split: if_splits)
qed simp

lemma utf8_ascii: "\<forall>c \<in> set s. (of_char c :: nat) < 128 \<Longrightarrow> utf8 s = map of_char s"
  by (induction s) (simp_all add: utf8_Cons)
lemma hex_value_char: "d < 16 \<Longrightarrow> hex_value (of_char (hex_char d)) = Some d"
  by (auto simp: hex_value_def hex_char_def of_char_of)

lemma hex_char_ascii: "d < 16 \<Longrightarrow> (of_char (hex_char d) :: nat) < 128"
  by (auto simp: hex_char_def of_char_of)

lemma plain_byte_ascii: "plain_byte b \<Longrightarrow> b < 128"
  by (auto simp: plain_byte_def)

lemma escape_byte_ascii: "b < 256 \<Longrightarrow> c \<in> set (escape_byte b) \<Longrightarrow> (of_char c :: nat) < 128"
  using hex_char_ascii [of "b div 16"] hex_char_ascii [of "b mod 16"] plain_byte_ascii [of b]
  by (cases "b = 47"; cases "plain_byte b") (auto simp: escape_byte_def of_char_of)

lemma escape_byte_hd:
  assumes "b \<noteq> 47" obtains c t where "escape_byte b = c # t" "c \<noteq> CHR ''-''"
proof (cases "plain_byte b")
  case True
  then have "(of_char (char_of b) :: nat) \<noteq> of_char (CHR ''-'')"
    using plain_byte_ascii [OF True] by (auto simp: of_char_of plain_byte_def)
  then have "char_of b \<noteq> CHR ''-''" by metis
  then show ?thesis using that True assms by (simp add: escape_byte_def)
qed (use that assms in \<open>simp add: escape_byte_def\<close>)

lemma decode_escape_byte:
  "b < 256 \<Longrightarrow> decode_bytes (map of_char (escape_byte b) @ bs) = map_sum id ((#) b) (decode_bytes bs)"
  using hex_value_char [of "b div 16"] hex_value_char [of "b mod 16"]
  by (auto simp: escape_byte_def plain_byte_def of_char_of)

lemma decode_escape_bytes:
  "\<forall>b \<in> set bs. b < 256 \<Longrightarrow> decode_bytes (map of_char (concat (map escape_byte bs))) = Inr bs"
  by (induction bs) (simp_all add: decode_escape_byte)

lemma simplify_components_ok:
  "\<forall>c \<in> set acc \<union> set cs. CHR ''/'' \<notin> set c \<Longrightarrow> \<forall>c \<in> set acc. c \<noteq> [] \<Longrightarrow>
     c \<in> set (simplify_components acc cs) \<Longrightarrow> c \<noteq> [] \<and> CHR ''/'' \<notin> set c"
proof (induction acc cs rule: simplify_components.induct)
  case (2 acc c' cs)
  then show ?case by (auto split: if_splits dest: in_set_butlastD)
qed auto

lemma escaped_path_decodes:
  assumes "simplify_absolute_path path = Some p"
  shows "\<exists>name. escape_path_for_unit path suff = Inr name \<and> path_from_unit_name name suff = Inr p"
proof (cases "p = ''/''")
  case True
  have "strip_suffix (CHR ''-'' # suff) suff = Some ''-''"
    using strip_suffix_Some [of "CHR ''-'' # suff" suff "''-''"] by simp
  then show ?thesis
    using assms True by (auto simp: escape_path_for_unit_def path_from_unit_name_def decode_unit_path_stem_def)
next
  case False
  define cs where "cs = simplify_components [] (split_on (\<lambda>c. c = CHR ''/'') path)"
  have p: "p = join_path cs" "cs \<noteq> []"
    using assms False by (auto simp: simplify_absolute_path_def Let_def cs_def split: if_splits)
  have ok: "c \<noteq> [] \<and> CHR ''/'' \<notin> set c" if "c \<in> set cs" for c
    by (rule simplify_components_ok [of "[]"]) (use that in \<open>auto simp: cs_def dest: split_on_words\<close>)
  obtain c q where pq: "p = CHR ''/'' # c # q" "c \<noteq> CHR ''/''"
  proof (cases cs)
    case (Cons w ws)
    then obtain c w' where w: "w = c # w'" "c \<noteq> CHR ''/''" using ok [of w] by (cases w) auto
    then have "p = CHR ''/'' # c # (w' @ join_path ws)" using p Cons by (simp add: join_path_def)
    then show ?thesis using w that by blast
  qed (use p in simp)
  define bs where "bs = utf8 (c # q)"
  define stem where "stem = concat (map escape_byte bs)"
  have b: "\<forall>b \<in> set bs. b < 256" using utf8_bound by (auto simp: bs_def)
  have ascii: "\<forall>c \<in> set stem. (of_char c :: nat) < 128" using b escape_byte_ascii by (auto simp: stem_def)
  have u: "utf8 p = 47 # bs" by (simp add: pq utf8_Cons bs_def)
  obtain b1 bs' where b1: "bs = b1 # bs'" "b1 \<noteq> 47"
  proof -
    have "(of_char c :: nat) \<noteq> of_char (CHR ''/'')" using pq(2) by (simp only: of_char_eq_iff not_False_eq_True)
    then have "(of_char c :: nat) \<noteq> 47" by simp
    then show ?thesis
      using that [of "of_char c" "utf8 q"] that [of "192 + of_char c div 64" "(128 + of_char c mod 64) # utf8 q"]
      by (cases "(of_char c :: nat) < 128") (simp_all add: bs_def utf8_Cons)
  qed
  obtain c' t where "escape_byte b1 = c' # t" "c' \<noteq> CHR ''-''" using escape_byte_hd [OF b1(2)] by blast
  then have "stem \<noteq> []" "stem \<noteq> ''-''" by (simp_all add: stem_def b1(1))
  moreover have "decode_bytes (utf8 stem) = Inr bs"
    using decode_escape_bytes [OF b] utf8_ascii [OF ascii] by (simp add: stem_def)
  moreover have "from_utf8 (47 # bs) = Some p" using from_utf8_utf8 [of p] u by metis
  ultimately have "decode_unit_path_stem stem = Inr p"
    by (simp add: decode_unit_path_stem_def del: from_utf8.simps)
  moreover have "strip_suffix (stem @ suff) suff = Some stem" using strip_suffix_Some by blast
  ultimately show ?thesis
    using assms False u by (simp add: escape_path_for_unit_def path_from_unit_name_def stem_def)
qed

text \<open>
  The name of the unit of a path gives the path back: escaping any absolute path and reading the
  path from the resulting unit name returns the simplified path, whatever characters it contains.
\<close>

theorem unit_path_round_trip:
  assumes "simplify_absolute_path path = Some p"
  shows "\<exists>name. escape_path_for_unit path suff = Inr name \<and> path_from_unit_name name suff = Inr p"
  by (rule escaped_path_decodes [OF assms])

theorem unit_path_round_trip_witness:
  "\<exists>name. escape_path_for_unit ''/mnt//my-disk/'' ''.mount'' = Inr name
     \<and> path_from_unit_name name ''.mount'' = Inr ''/mnt/my-disk''"
  by (rule unit_path_round_trip) (simp add: simplify_absolute_path_def starts_with_def join_path_def)
section \<open>Files\<close>

text \<open>An entry written as a section header and an assignment.\<close>

definition print_entry :: "string \<times> string \<times> string \<Rightarrow> string" where
  "print_entry e = (case e of (sec, key, value) \<Rightarrow>
     CHR ''['' # sec @ '']'' @ [CHR 0x0A] @ key @ CHR ''='' # value @ [CHR 0x0A])"

definition printable :: "string \<times> string \<times> string \<Rightarrow> bool" where
  "printable e \<longleftrightarrow> (case e of (sec, key, value) \<Rightarrow>
     sec \<noteq> [] \<and> key \<noteq> [] \<and> trim sec = sec \<and> trim key = key \<and> trim value = value
     \<and> CHR 0x0A \<notin> set sec \<union> set key \<union> set value
     \<and> CHR ''='' \<notin> set key \<and> hd key \<notin> {CHR ''['', CHR ''#'', CHR '';''}
     \<and> \<not> ends_with value [CHR 0x5C])"

definition entry_of :: "raw_entry \<Rightarrow> string \<times> string \<times> string" where
  "entry_of e = (re_section e, re_key e, re_value e)"

lemma trim_no_ws_ends: "trim s = s \<Longrightarrow> s \<noteq> [] \<Longrightarrow> \<not> is_ws (hd s) \<and> \<not> is_ws (last s)"
  using trim_ends [of s] by auto

lemma trim_wrap: "\<not> is_ws a \<Longrightarrow> \<not> is_ws z \<Longrightarrow> trim (a # s @ [z]) = a # s @ [z]"
  by (rule trim_id) simp

lemma trim_assignment:
  assumes "key \<noteq> []" "trim key = key" "trim value = value"
  shows "trim (key @ CHR ''='' # value) = key @ CHR ''='' # value"
proof (rule trim_id)
  have "\<not> is_ws (CHR ''='')" by (simp add: is_ws_def)
  then show "key @ CHR ''='' # value = [] \<or>
      (\<not> is_ws (hd (key @ CHR ''='' # value)) \<and> \<not> is_ws (last (key @ CHR ''='' # value)))"
    using trim_no_ws_ends [OF assms(2,1)] trim_no_ws_ends [OF assms(3)] assms(1)
    by (cases "value = []") (auto simp: hd_append)
qed

lemma str_find_append: "c \<notin> set a \<Longrightarrow> str_find c (a @ c # b) = Some (length a)"
  unfolding str_find_def position_Some by (auto simp: nth_append in_set_conv_nth)

lemma parse_header:
  assumes "trim sec = sec" "sec \<noteq> []"
  shows "parse_lines n s (((CHR ''['' # sec) @ '']'') # ls) = parse_lines (Suc n) sec ls"
proof -
  let ?l = "CHR ''['' # sec @ '']''"
  have t: "trim ?l = ?l" by (rule trim_wrap) (simp_all add: is_ws_def)
  have "strip_prefix ?l ''['' = Some (sec @ '']'')" using strip_prefix_Some by simp
  moreover have "strip_suffix (sec @ '']'') '']'' = Some sec" using strip_suffix_Some by blast
  moreover have "\<not> is_comment ?l" by (simp add: is_comment_def starts_with_def)
  ultimately show ?thesis using assms t by (simp add: parse_lines.simps(2) Let_def)
qed

lemma parse_assignment:
  assumes "printable (sec, key, value)"
  shows "parse_lines n sec ((key @ CHR ''='' # value) # ls) =
    \<lparr> re_section = sec, re_key = key, re_value = value, re_line = n \<rparr> # parse_lines (Suc n) sec ls"
proof -
  let ?l = "key @ CHR ''='' # value"
  have p: "sec \<noteq> []" "key \<noteq> []" "trim key = key" "trim value = value" "CHR ''='' \<notin> set key"
      "hd key \<notin> {CHR ''['', CHR ''#'', CHR '';''}" "\<not> ends_with value [CHR 0x5C]"
    using assms by (auto simp: printable_def)
  obtain k ks where key: "key = k # ks" using p(2) by (cases key) auto
  have t: "trim ?l = ?l" by (rule trim_assignment [OF p(2-4)])
  have "strip_prefix ?l ''['' = None" "\<not> is_comment ?l"
    using p(6) key by (simp_all add: strip_prefix_def starts_with_def is_comment_def)
  moreover have "str_find (CHR ''='') ?l = Some (length key)" by (rule str_find_append [OF p(5)])
  moreover have "continuation value ls = (value, ls)" using p(7) by (cases ls) simp_all
  ultimately show ?thesis using p t by (simp add: parse_lines.simps(2) Let_def)
qed
lemma str_lines_Cons:
  assumes "CHR 0x0A \<notin> set a"
  shows "str_lines (a @ CHR 0x0A # t) = chomp_cr a # str_lines t"
proof -
  let ?P = "\<lambda>c. c = CHR 0x0A"
  have "split_on ?P (a @ CHR 0x0A # t) = a # split_on ?P t" by (rule split_on_append) (use assms in auto)
  moreover obtain l ls where "split_on ?P t = l # ls" by (cases "split_on ?P t") auto
  ultimately show ?thesis by (simp add: str_lines_def)
qed

lemma chomp_cr_id: "a \<noteq> [] \<Longrightarrow> \<not> is_ws (last a) \<Longrightarrow> chomp_cr a = a"
proof -
  assume "a \<noteq> []" "\<not> is_ws (last a)"
  moreover have "is_ws (CHR 0x0D)" by (simp add: is_ws_def)
  ultimately have "strip_suffix a [CHR 0x0D] = None"
    by (metis last_snoc not_None_eq strip_suffix_Some)
  then show ?thesis by (simp add: chomp_cr_def)
qed

lemma str_lines_print_entry:
  assumes "printable (sec, key, value)"
  shows "str_lines (print_entry (sec, key, value) @ t) =
    (CHR ''['' # sec @ '']'') # (key @ CHR ''='' # value) # str_lines t"
proof -
  let ?h = "CHR ''['' # sec @ '']''" and ?l = "key @ CHR ''='' # value"
  have p: "key \<noteq> []" "trim key = key" "trim value = value"
      "CHR 0x0A \<notin> set sec" "CHR 0x0A \<notin> set key" "CHR 0x0A \<notin> set value"
    using assms by (auto simp: printable_def)
  have "\<not> is_ws (last ?l)" using trim_no_ws_ends [OF trim_assignment [OF p(1-3)]] by simp
  then have "chomp_cr ?l = ?l" by (intro chomp_cr_id) simp_all
  moreover have "chomp_cr ?h = ?h" by (rule chomp_cr_id) (simp_all add: is_ws_def)
  moreover have "print_entry (sec, key, value) @ t = ?h @ CHR 0x0A # ?l @ CHR 0x0A # t"
    by (simp add: print_entry_def)
  ultimately show ?thesis using p(4-6) str_lines_Cons [of ?h] str_lines_Cons [of ?l t] by simp
qed

lemma parse_printed:
  "list_all printable es \<Longrightarrow>
     map entry_of (parse_lines n s (str_lines (concat (map print_entry es)))) = es"
proof (induction es arbitrary: n s)
  case Nil
  then show ?case by (simp add: str_lines_def)
next
  case (Cons e es)
  obtain sec key v where e: "e = (sec, key, v)" by (cases e)
  have p: "printable (sec, key, v)" using Cons.prems e by simp
  then have "trim sec = sec" "sec \<noteq> []" by (auto simp: printable_def)
  then have "parse_lines n s (str_lines (concat (map print_entry (e # es)))) =
      \<lparr> re_section = sec, re_key = key, re_value = v, re_line = Suc n \<rparr>
      # parse_lines (Suc (Suc n)) sec (str_lines (concat (map print_entry es)))"
    using str_lines_print_entry [OF p] parse_header parse_assignment [OF p] e by simp
  then show ?case using Cons e by (simp add: entry_of_def)
qed

text \<open>
  C38: A unit file is read back exactly.  Entries with a section and a key, trimmed, on one line each,
  whose key does not contain an equals sign or start like a header or a comment and whose value does
  not end in a backslash, are the entries of the file they are printed to, in the same order.
\<close>

theorem unit_text_round_trip:
  assumes "list_all printable es"
  shows "map entry_of (parse_unit_text (concat (map print_entry es))) = es"
  using parse_printed [OF assms] by (simp add: parse_unit_text_def)

theorem unit_text_round_trip_witness:
  "map entry_of (parse_unit_text (concat (map print_entry
     [(''Unit'', ''After'', ''a.target''), (''Service'', ''ExecStart'', [])])))
   = [(''Unit'', ''After'', ''a.target''), (''Service'', ''ExecStart'', [])]"
  by (rule unit_text_round_trip)
     (simp add: printable_def trim_def trim_start_def trim_end_def is_ws_def ends_with_def)



section \<open>Templates\<close>

text \<open>A value as literal text and known specifiers; a percent sign of the text is doubled.\<close>

datatype piece = Lit string | Spec char

fun print_piece :: "piece \<Rightarrow> string" where
  "print_piece (Lit s) = str_replace (CHR ''%'') ''%%'' s"
| "print_piece (Spec c) = [CHR ''%'', c]"

fun piece_value :: "specifier_context \<Rightarrow> piece \<Rightarrow> string" where
  "piece_value ctx (Lit s) = s"
| "piece_value ctx (Spec c) = (case replacement ctx c of Some r \<Rightarrow> r | None \<Rightarrow> [])"

lemma expand_percent: "replacement ctx c = Some r \<Longrightarrow> expand ctx (CHR ''%'' # c # t) = r @ expand ctx t"
  by simp

lemma expand_plain: "c \<noteq> CHR ''%'' \<Longrightarrow> expand ctx (c # t) = c # expand ctx t"
  by (cases t) simp_all

lemma replacement_percent: "replacement ctx (CHR ''%'') = Some ''%''"
  by (simp add: replacement_def)

lemma expand_lit: "expand ctx (str_replace (CHR ''%'') ''%%'' s @ t) = s @ expand ctx t"
proof (induction s)
  case (Cons c s)
  then show ?case
    by (cases "c = CHR ''%''")
       (simp_all add: str_replace_def expand_percent [OF replacement_percent] expand_plain del: expand.simps)
qed (simp add: str_replace_def)

text \<open>
  Specifiers are substituted once.  A value written as literal text, with every percent sign
  doubled, and known specifiers expands to the text and the values of the specifiers; what a specifier
  stands for is not expanded again, even if it contains percent signs.
\<close>

theorem specifiers_expand:
  assumes "\<forall>c. Spec c \<in> set ps \<longrightarrow> replacement ctx c \<noteq> None"
  shows "expand ctx (concat (map print_piece ps)) = concat (map (piece_value ctx) ps)"
  using assms
proof (induction ps)
  case (Cons p ps)
  then have IH: "expand ctx (concat (map print_piece ps)) = concat (map (piece_value ctx) ps)" by simp
  show ?case
  proof (cases p)
    case (Spec c)
    then obtain r where "replacement ctx c = Some r" using Cons.prems by auto
    then show ?thesis using Spec IH expand_percent by simp
  qed (simp add: expand_lit IH)
qed simp

theorem specifiers_expand_witness:
  "\<exists>ctx. expand ctx (concat (map print_piece [Lit ''50% of '', Spec (CHR ''i'')])) = ''50% of %n''"
proof -
  let ?ctx = "for_system_unit \<lparr> mf_machine_id = [], mf_boot_id = [], mf_hostname = [], mf_kernel_release = [] \<rparr> ''a@%n.service''"
  have i: "sc_instance ?ctx = ''%n''"
    by (simp add: for_system_unit_def split_unit_name_def str_rfind_def str_find_def)
  have "expand ?ctx (concat (map print_piece [Lit ''50% of '', Spec (CHR ''i'')])) = ''50% of %n''"
    using specifiers_expand [of "[Lit ''50% of '', Spec (CHR ''i'')]" ?ctx] i by (simp add: replacement_def)
  then show ?thesis by blast
qed


end
