(* ===== verification/Loader.thy ===== *)
theory Loader
  imports Service UnitFile
begin

text \<open>
  The unit loader, \<open>src/src/unit/loader.rs\<close>: the search path, masks and templates, drop-ins, the
  sections of each kind of unit and the dependency directories.  The file system and the environment
  of the process are arguments, records of functions that answer the calls of the loader.  Names in the
  file system are strings as in \<open>RustStr\<close>, so every name is valid UTF-8.
\<close>

section \<open>Paths\<close>

definition path_join :: "string \<Rightarrow> string \<Rightarrow> string" where
  "path_join dir name =
     (if starts_with name ''/'' \<or> dir = [] then name
      else if ends_with dir ''/'' then dir @ name
      else dir @ ''/'' @ name)"

text \<open>Components of a path; paths are equal when their components are.\<close>

definition path_components :: "string \<Rightarrow> string list" where
  "path_components p =
     (case split_on (\<lambda>c. c = CHR ''/'') p of
        [] \<Rightarrow> []
      | c # cs \<Rightarrow>
          (if p = [] then [] else if c = [] then [''/''] else [c])
          @ filter (\<lambda>c. c \<noteq> [] \<and> c \<noteq> ''.'') cs)"

definition file_name :: "string \<Rightarrow> string option" where
  "file_name p =
     (case rev (path_components p) of
        [] \<Rightarrow> None
      | c # _ \<Rightarrow> if c \<in> {''/'', ''.'', ''..''} then None else Some c)"

definition extension :: "string \<Rightarrow> string option" where
  "extension name =
     (case str_rfind (CHR ''.'') name of
        None \<Rightarrow> None
      | Some i \<Rightarrow> if i = 0 then None else Some (drop (Suc i) name))"

section \<open>Search paths\<close>

definition standard_unit_search_dirs :: "string list" where
  "standard_unit_search_dirs =
     [''/run/rustd/generator.early'', ''/etc/rustd/system'', ''/etc/systemd/system'',
      ''/run/rustd/system'', ''/run/systemd/system'', ''/run/rustd/generator'',
      ''/usr/local/lib/rustd/system'', ''/usr/local/lib/systemd/system'', ''/usr/lib/rustd/system'',
      ''/usr/lib/systemd/system'', ''/run/rustd/generator.late'']"

text \<open>The environment of the process and the identifiers of its owner.\<close>

record process_env =
  pe_var :: "string \<Rightarrow> string option"
  pe_uid :: nat
  pe_gid :: nat

definition unit_control_dirs :: "process_env \<Rightarrow> string list" where
  "unit_control_dirs env =
     [unwrap_or (pe_var env ''RUSTD_SYSTEM_CONTROL_PATH'') ''/etc/rustd/system.control'',
      unwrap_or (pe_var env ''RUSTD_RUNTIME_CONTROL_PATH'') ''/run/rustd/system.control'']"

definition split_paths :: "string \<Rightarrow> string list" where
  "split_paths v = filter (\<lambda>p. p \<noteq> []) (split_on (\<lambda>c. c = CHR '':'') v)"

text \<open>An override replaces the defaults unless it ends in a colon.\<close>

definition override_search_dirs :: "string list \<Rightarrow> string option \<Rightarrow> string list" where
  "override_search_dirs defaults override =
     (case override of
        None \<Rightarrow> defaults
      | Some v \<Rightarrow> split_paths v @ (if ends_with v '':'' then defaults else []))"

definition unit_search_dirs :: "string option \<Rightarrow> string list" where
  "unit_search_dirs override = override_search_dirs standard_unit_search_dirs override"

definition user_home_dir :: "process_env \<Rightarrow> string" where
  "user_home_dir env = unwrap_or (pe_var env ''HOME'') (''/home/'' @ show_nat (pe_uid env))"

definition user_config_home :: "process_env \<Rightarrow> string" where
  "user_config_home env =
     unwrap_or (pe_var env ''XDG_CONFIG_HOME'') (path_join (user_home_dir env) ''.config'')"

definition user_data_home :: "process_env \<Rightarrow> string" where
  "user_data_home env =
     unwrap_or (pe_var env ''XDG_DATA_HOME'') (path_join (user_home_dir env) ''.local/share'')"

definition user_runtime_dir :: "process_env \<Rightarrow> string option" where
  "user_runtime_dir env = pe_var env ''XDG_RUNTIME_DIR''"

definition xdg_search_dirs :: "process_env \<Rightarrow> string \<Rightarrow> string \<Rightarrow> string \<Rightarrow> string list" where
  "xdg_search_dirs env var dflt suff =
     map (\<lambda>p. path_join p suff) (split_paths (unwrap_or (pe_var env var) dflt))"

fun dedup_paths :: "string list \<Rightarrow> string list" where
  "dedup_paths (p # q # ps) =
     (if path_components p = path_components q then dedup_paths (p # ps) else p # dedup_paths (q # ps))"
| "dedup_paths ps = ps"

definition standard_user_unit_search_dirs :: "process_env \<Rightarrow> string list" where
  "standard_user_unit_search_dirs env =
     (let config_home = user_config_home env;
          in_runtime = (\<lambda>names. case user_runtime_dir env of
                                 None \<Rightarrow> []
                               | Some r \<Rightarrow> map (path_join r) names)
      in dedup_paths
           ([path_join config_home ''rustd/user.control'']
            @ in_runtime [''rustd/user.control'', ''rustd/transient'', ''rustd/generator.early'']
            @ [path_join config_home ''rustd/user'', path_join config_home ''rustd/user.attached'']
            @ xdg_search_dirs env ''XDG_CONFIG_DIRS'' ''/etc/xdg'' ''rustd/user''
            @ [''/etc/rustd/user'', ''/etc/systemd/user'']
            @ in_runtime [''rustd/user'', ''rustd/user.attached'']
            @ [''/run/rustd/user'', ''/run/systemd/user'']
            @ in_runtime [''rustd/generator'']
            @ [path_join (user_data_home env) ''rustd/user'']
            @ xdg_search_dirs env ''XDG_DATA_DIRS'' ''/usr/local/share:/usr/share'' ''rustd/user''
            @ [''/usr/local/lib/rustd/user'', ''/usr/local/share/rustd/user'', ''/usr/lib/rustd/user'',
               ''/usr/share/rustd/user'', ''/usr/local/lib/systemd/user'',
               ''/usr/local/share/systemd/user'', ''/usr/lib/systemd/user'', ''/usr/share/systemd/user'']
            @ in_runtime [''rustd/generator.late'']))"

definition user_unit_control_dirs :: "process_env \<Rightarrow> string list" where
  "user_unit_control_dirs env =
     unwrap_or (pe_var env ''RUSTD_SYSTEM_CONTROL_PATH'')
       (path_join (user_config_home env) ''rustd/user.control'')
     # (case (pe_var env ''RUSTD_RUNTIME_CONTROL_PATH'', user_runtime_dir env) of
          (Some p, _) \<Rightarrow> [p]
        | (None, Some r) \<Rightarrow> [path_join r ''rustd/user.control'']
        | (None, None) \<Rightarrow> [])"

definition user_unit_search_dirs :: "process_env \<Rightarrow> string option \<Rightarrow> string list" where
  "user_unit_search_dirs env override = override_search_dirs (standard_user_unit_search_dirs env) override"

datatype manager_scope = System_Scope | User_Scope

record unit_loader =
  search_dirs :: "string list"
  control_dirs :: "string list"
  loader_scope :: manager_scope

definition loader_for_scope :: "process_env \<Rightarrow> manager_scope \<Rightarrow> unit_loader" where
  "loader_for_scope env scope =
     (case scope of
        System_Scope \<Rightarrow>
          \<lparr> search_dirs = unit_search_dirs (pe_var env ''RUSTD_UNIT_PATH''),
            control_dirs = unit_control_dirs env, loader_scope = System_Scope \<rparr>
      | User_Scope \<Rightarrow>
          \<lparr> search_dirs = user_unit_search_dirs env (pe_var env ''RUSTD_UNIT_PATH''),
            control_dirs = user_unit_control_dirs env, loader_scope = User_Scope \<rparr>)"

section \<open>Finding a unit\<close>

text \<open>
  The file system: the text of a file, whether a path exists (links followed), is a symbolic link or a
  directory, the entries of a directory in the order it is read, and the canonical form of a path.
\<close>

record file_system =
  fs_read :: "string \<Rightarrow> string option"
  fs_exists :: "string \<Rightarrow> bool"
  fs_symlink :: "string \<Rightarrow> bool"
  fs_is_dir :: "string \<Rightarrow> bool"
  fs_entries :: "string \<Rightarrow> string list option"
  fs_canonical :: "string \<Rightarrow> string option"

datatype load_error =
  Masked string | File_Not_Found string | Unreadable string | Unknown_Suffix string
| Oneshot_Cgroup string | Invalid_Automount_Name string | Automount_Template string
| Automount_Where string | Automount_Root string | Automount_Mismatch string string
| Reserved_Option | Invalid_Slice_Name string | Invalid_Path path_error | No_Mount_Unit string string

definition is_masked_unit_path :: "file_system \<Rightarrow> string \<Rightarrow> bool" where
  "is_masked_unit_path fs p \<longleftrightarrow> fs_symlink fs p \<and> fs_canonical fs p = Some ''/dev/null''"

text \<open>The loop over the search path for one file name.\<close>

fun search_file :: "file_system \<Rightarrow> string \<Rightarrow> string \<Rightarrow> string list \<Rightarrow> (load_error + string) option" where
  "search_file fs name file [] = None"
| "search_file fs name file (dir # dirs) =
     (let p = path_join dir file
      in if is_masked_unit_path fs p then Some (Inl (Masked name))
         else if fs_exists fs p then Some (Inr p)
         else search_file fs name file dirs)"

definition template_name :: "string \<Rightarrow> string" where
  "template_name name = (let (pre, inst, suff) = split_unit_name name in pre @ ''@.'' @ suff)"

definition find_unit_file ::
  "file_system \<Rightarrow> unit_loader \<Rightarrow> string \<Rightarrow> load_error + (string \<times> string option)" where
  "find_unit_file fs ld name =
     (case search_file fs name name (search_dirs ld) of
        Some (Inl e) \<Rightarrow> Inl e
      | Some (Inr p) \<Rightarrow> Inr (p, None)
      | None \<Rightarrow>
          (let (pre, inst, suff) = split_unit_name name
           in if inst = [] then Inl (File_Not_Found name)
              else case search_file fs name (template_name name) (search_dirs ld) of
                Some (Inl e) \<Rightarrow> Inl e
              | Some (Inr p) \<Rightarrow> Inr (p, Some inst)
              | None \<Rightarrow> Inl (File_Not_Found name)))"

definition builtin_slice :: "unit_loader \<Rightarrow> string \<Rightarrow> loaded_unit option" where
  "builtin_slice ld name =
     map_option (\<lambda>text. Slice name (unit_section_default\<lparr> description := text, default_dependencies := False,
         ignore_on_isolate := True \<rparr>) slice_section_default)
       (if name = ''-.slice'' then Some ''Root Slice''
        else if name = ''system.slice'' \<and> loader_scope ld = System_Scope then Some ''System Slice''
        else None)"

definition for_user_unit :: "machine_facts \<Rightarrow> process_env \<Rightarrow> string \<Rightarrow> specifier_context" where
  "for_user_unit machine env name =
     (let user_name = (case (pe_var env ''USER'', pe_var env ''LOGNAME'') of
                         (Some u, _) \<Rightarrow> u
                       | (None, Some u) \<Rightarrow> u
                       | (None, None) \<Rightarrow> show_nat (pe_uid env));
          home = unwrap_or (pe_var env ''HOME'') (''/home/'' @ user_name);
          state_home = unwrap_or (pe_var env ''XDG_STATE_HOME'') (path_join home ''.local/state'')
      in (for_system_unit machine name)\<lparr>
           sc_runtime_dir := unwrap_or (pe_var env ''XDG_RUNTIME_DIR'') (''/run/user/'' @ show_nat (pe_uid env)),
           sc_state_dir := state_home,
           sc_cache_dir := unwrap_or (pe_var env ''XDG_CACHE_HOME'') (path_join home ''.cache''),
           sc_logs_dir := path_join state_home ''log'',
           sc_config_dir := unwrap_or (pe_var env ''XDG_CONFIG_HOME'') (path_join home ''.config''),
           sc_user_name := user_name, sc_uid := pe_uid env,
           sc_group_name := show_nat (pe_gid env), sc_gid := pe_gid env,
           sc_home_dir := home, sc_shell := unwrap_or (pe_var env ''SHELL'') ''/bin/sh'' \<rparr>)"

definition build_context ::
  "machine_facts \<Rightarrow> process_env \<Rightarrow> unit_loader \<Rightarrow> string \<Rightarrow> string option \<Rightarrow> specifier_context" where
  "build_context machine env ld name inst =
     (let ctx = (case loader_scope ld of
                   System_Scope \<Rightarrow> for_system_unit machine name
                 | User_Scope \<Rightarrow> for_user_unit machine env name)
      in case inst of Some i \<Rightarrow> ctx\<lparr> sc_instance := i \<rparr> | None \<Rightarrow> ctx)"

section \<open>Drop-ins\<close>

definition dropin_dirs :: "file_system \<Rightarrow> string \<Rightarrow> string \<Rightarrow> string list" where
  "dropin_dirs fs name dir =
     (let (_, inst, _) = split_unit_name name
      in filter (\<lambda>p. p \<noteq> [] \<and> fs_is_dir fs p)
           [path_join dir (name @ ''.d''),
            if inst = [] then [] else path_join dir (template_name name @ ''.d'')])"

definition dropin_files :: "file_system \<Rightarrow> string \<Rightarrow> string list" where
  "dropin_files fs dir =
     map (path_join dir) (sort (filter (\<lambda>f. extension f = Some ''conf'') (unwrap_or (fs_entries fs dir) [])))"

definition dropin_paths :: "file_system \<Rightarrow> unit_loader \<Rightarrow> string \<Rightarrow> string list" where
  "dropin_paths fs ld name =
     concat (map (dropin_files fs) (concat (map (dropin_dirs fs name) (rev (search_dirs ld) @ control_dirs ld))))"

definition collect_dropins :: "file_system \<Rightarrow> unit_loader \<Rightarrow> string \<Rightarrow> raw_entry list" where
  "collect_dropins fs ld name =
     concat (map parse_unit_text (List.map_filter (fs_read fs) (dropin_paths fs ld name)))"

section \<open>Sections\<close>

definition section_entries :: "string \<Rightarrow> raw_entry list \<Rightarrow> (string \<times> string) list" where
  "section_entries sec entries =
     map (\<lambda>e. (re_key e, re_value e)) (filter (\<lambda>e. re_section e = sec) entries)"

definition apply_entries :: "(string \<Rightarrow> string \<Rightarrow> 'a \<Rightarrow> 'a) \<Rightarrow> (string \<times> string) list \<Rightarrow> 'a \<Rightarrow> 'a" where
  "apply_entries f kvs s = fold (\<lambda>(k, v). f k v) kvs s"

definition add_unique :: "string list \<Rightarrow> string \<Rightarrow> string list" where
  "add_unique values v = (if v \<in> set values then values else values @ [v])"

definition expand_exec_command :: "specifier_context \<Rightarrow> exec_command \<Rightarrow> exec_command" where
  "expand_exec_command ctx c = c\<lparr> cmd_path := expand ctx (cmd_path c), cmd_argv := map (expand ctx) (cmd_argv c) \<rparr>"

definition expand_exec_list :: "specifier_context \<Rightarrow> exec_command list \<Rightarrow> exec_command list" where
  "expand_exec_list ctx cs = map (expand_exec_command ctx) cs"

definition expand_service_specifiers :: "specifier_context \<Rightarrow> service_section \<Rightarrow> service_section" where
  "expand_service_specifiers ctx s =
     s\<lparr> svc := (svc s)\<lparr>
           exec_condition := expand_exec_list ctx (exec_condition (svc s)),
           exec_start_pre := expand_exec_list ctx (exec_start_pre (svc s)),
           exec_start := expand_exec_list ctx (exec_start (svc s)),
           exec_start_post := expand_exec_list ctx (exec_start_post (svc s)),
           exec_reload := expand_exec_list ctx (exec_reload (svc s)),
           exec_stop := expand_exec_list ctx (exec_stop (svc s)),
           exec_stop_post := expand_exec_list ctx (exec_stop_post (svc s)),
           pid_file := expand ctx (pid_file (svc s)),
           bus_name := expand ctx (bus_name (svc s)) \<rparr>,
         exc := (exc s)\<lparr>
           working_directory := expand ctx (working_directory (exc s)),
           root_directory := expand ctx (root_directory (exc s)),
           tty_path := expand ctx (tty_path (exc s)),
           environment_of := map (expand ctx) (environment_of (exc s)) \<rparr> \<rparr>"

definition expand_socket_specifiers :: "specifier_context \<Rightarrow> socket_section \<Rightarrow> socket_section" where
  "expand_socket_specifiers ctx s =
     s\<lparr> so_listen := map (\<lambda>l. l\<lparr> ls_address := expand ctx (ls_address l) \<rparr>) (so_listen s),
        so_exec_start_pre := map (expand ctx) (so_exec_start_pre s),
        so_exec_start_post := map (expand ctx) (so_exec_start_post s),
        so_exec_stop_pre := map (expand ctx) (so_exec_stop_pre s),
        so_exec_stop_post := map (expand ctx) (so_exec_stop_post s),
        so_service := expand ctx (so_service s) \<rparr>"

definition expand_path_specifiers :: "specifier_context \<Rightarrow> path_section \<Rightarrow> path_section" where
  "expand_path_specifiers ctx s =
     s\<lparr> pa_watches := map (\<lambda>w. w\<lparr> ps_path := expand ctx (ps_path w) \<rparr>) (pa_watches s),
        pa_unit := expand ctx (pa_unit s) \<rparr>"

text \<open>The name of a mount option, without its value.\<close>

definition option_name :: "string \<Rightarrow> string" where
  "option_name opt = (case split_once (CHR ''='') (trim opt) of Some (name, _) \<Rightarrow> name | None \<Rightarrow> trim opt)"

definition reserved_options :: "string list" where
  "reserved_options = [''fd'', ''pgrp'', ''minproto'', ''maxproto'', ''direct'', ''indirect'']"

definition automount_where :: "specifier_context \<Rightarrow> string \<Rightarrow> string \<Rightarrow> load_error + string" where
  "automount_where ctx name configured =
     (case path_from_unit_name name ''.automount'' of
        Inl e \<Rightarrow> Inl (Invalid_Path e)
      | Inr derived \<Rightarrow>
          (let configured = expand ctx configured
           in if configured = [] then Inr derived
              else case simplify_absolute_path configured of
                None \<Rightarrow> Inl (Automount_Where name)
              | Some w \<Rightarrow> Inr w))"

definition finalize_automount ::
  "specifier_context \<Rightarrow> string \<Rightarrow> automount_section \<Rightarrow> load_error + automount_section" where
  "finalize_automount ctx name s =
     (case strip_suffix name ''.automount'' of
        None \<Rightarrow> Inl (Invalid_Automount_Name name)
      | Some stem \<Rightarrow>
          if CHR ''@'' \<in> set stem then Inl (Automount_Template name)
          else case automount_where ctx name (am_where s) of
            Inl e \<Rightarrow> Inl e
          | Inr w \<Rightarrow>
              if w = ''/'' then Inl (Automount_Root name)
              else case escape_path_for_unit w ''.automount'' of
                Inl e \<Rightarrow> Inl (Invalid_Path e)
              | Inr expected \<Rightarrow>
                  if name \<noteq> expected then Inl (Automount_Mismatch name expected)
                  else
                    (let opts = expand ctx (am_extra_options s)
                     in if list_ex (\<lambda>opt. option_name opt \<in> set reserved_options)
                             (split_on (\<lambda>c. c = CHR '','') opts)
                        then Inl Reserved_Option
                        else Inr (s\<lparr> am_where := w, am_extra_options := opts,
                                    am_trigger_unit := stem @ ''.mount'' \<rparr>)))"

definition add_automount_dependencies ::
  "manager_scope \<Rightarrow> automount_section \<Rightarrow> unit_section \<Rightarrow> unit_section" where
  "add_automount_dependencies scope am u =
     (let u = u\<lparr> unit_before := add_unique (unit_before u) (am_trigger_unit am) \<rparr>
      in if default_dependencies u \<and> scope = System_Scope then
           u\<lparr> unit_before := add_unique (add_unique (unit_before u) ''local-fs.target'') ''umount.target'',
              unit_after := add_unique (unit_after u) ''local-fs-pre.target'',
              conflicts := add_unique (conflicts u) ''umount.target'' \<rparr>
         else u)"

fun valid_escaped_bytes :: "nat list \<Rightarrow> bool" where
  "valid_escaped_bytes [] = True"
| "valid_escaped_bytes (b # bs) =
     (if plain_byte b \<or> b = 45 then valid_escaped_bytes bs
      else if b = 92 then
        (case bs of
           x # h # l # rest \<Rightarrow>
             x = 120 \<and> hex_value h \<noteq> None \<and> hex_value l \<noteq> None \<and> valid_escaped_bytes rest
         | _ \<Rightarrow> False)
      else False)"

definition valid_escaped_unit_stem :: "string \<Rightarrow> bool" where
  "valid_escaped_unit_stem stem = valid_escaped_bytes (utf8 stem)"

definition slice_parent_name :: "string \<Rightarrow> load_error + string option" where
  "slice_parent_name name =
     (case strip_suffix name ''.slice'' of
        None \<Rightarrow> Inl (Invalid_Slice_Name name)
      | Some stem \<Rightarrow>
          if stem = ''-'' then Inr None
          else if stem = [] \<or> CHR ''@'' \<in> set stem \<or> starts_with stem ''-'' \<or> ends_with stem ''-''
                  \<or> [] \<in> set (split_on (\<lambda>c. c = CHR ''-'') stem) \<or> \<not> valid_escaped_unit_stem stem
          then Inl (Invalid_Slice_Name name)
          else Inr (Some (case str_rfind (CHR ''-'') stem of
                            None \<Rightarrow> ''-.slice''
                          | Some i \<Rightarrow> take i stem @ ''.slice'')))"

definition finalize_slice :: "string \<Rightarrow> unit_section \<Rightarrow> load_error + unit_section" where
  "finalize_slice name u =
     (case slice_parent_name name of
        Inl e \<Rightarrow> Inl e
      | Inr parent \<Rightarrow>
          (let u = (case parent of
                      Some p \<Rightarrow> u\<lparr> requires := add_unique (requires u) p, unit_after := add_unique (unit_after u) p \<rparr>
                    | None \<Rightarrow> u);
               u = (if default_dependencies u then
                      u\<lparr> unit_before := add_unique (unit_before u) ''shutdown.target'',
                         conflicts := add_unique (conflicts u) ''shutdown.target'' \<rparr>
                    else u)
           in if description u \<noteq> [] then Inr u
              else case path_from_unit_name name ''.slice'' of
                Inl e \<Rightarrow> Inl (Invalid_Path e)
              | Inr p \<Rightarrow> Inr (u\<lparr> description := ''Slice '' @ p \<rparr>)))"

section \<open>Loading\<close>

definition common_section :: "string \<Rightarrow> string \<Rightarrow> raw_entry list \<Rightarrow> specifier_context \<Rightarrow> unit_section" where
  "common_section path suff entries ctx =
     (let u = unit_section_apply_all (section_entries ''Unit'' entries)
                (unit_section_default\<lparr> default_dependencies := True,
                   ignore_on_isolate := (suff = ''automount'' \<or> suff = ''slice'') \<rparr>)
      in u\<lparr> source_path := path, description := expand ctx (description u) \<rparr>)"

definition install_entries :: "raw_entry list \<Rightarrow> install_section" where
  "install_entries entries =
     apply_entries install_section_apply (section_entries ''Install'' entries) install_section_default"

definition build_service ::
  "(string \<Rightarrow> string option) \<Rightarrow> string \<Rightarrow> raw_entry list \<Rightarrow> specifier_context \<Rightarrow> unit_section \<Rightarrow> load_error + loaded_unit" where
  "build_service read_file name entries ctx u =
     (let s = apply_entries (service_section_apply read_file) (section_entries ''Service'' entries)
                (service_section_default\<lparr> svc := (svc service_section_default)\<lparr> guess_main_pid := True \<rparr> \<rparr>)
      in if service_type_of (svc s) = Oneshot \<and> exit_type (svc s) = ''cgroup'' then Inl (Oneshot_Cgroup name)
         else Inr (Service name u (expand_service_specifiers ctx s)))"

definition build_automount ::
  "manager_scope \<Rightarrow> string \<Rightarrow> raw_entry list \<Rightarrow> specifier_context \<Rightarrow> unit_section \<Rightarrow> load_error + loaded_unit" where
  "build_automount scope name entries ctx u =
     (case finalize_automount ctx name
             (apply_entries automount_section_apply (section_entries ''Automount'' entries) automount_section_default) of
        Inl e \<Rightarrow> Inl e
      | Inr s \<Rightarrow> Inr (Automount name (add_automount_dependencies scope s u) s))"

definition build_slice ::
  "(string \<Rightarrow> string option) \<Rightarrow> string \<Rightarrow> raw_entry list \<Rightarrow> unit_section \<Rightarrow> load_error + loaded_unit" where
  "build_slice read_file name entries u =
     (case finalize_slice name u of
        Inl e \<Rightarrow> Inl e
      | Inr u \<Rightarrow> Inr (Slice name u
          (apply_entries (slice_section_apply read_file) (section_entries ''Slice'' entries) slice_section_default)))"

definition build_loaded_unit ::
  "(string \<Rightarrow> string option) \<Rightarrow> manager_scope \<Rightarrow> string \<Rightarrow> string \<Rightarrow> string \<Rightarrow> raw_entry list \<Rightarrow> specifier_context
   \<Rightarrow> load_error + loaded_unit" where
  "build_loaded_unit read_file scope name path suff entries ctx =
     (let u = common_section path suff entries ctx
      in if suff = ''service'' then build_service read_file name entries ctx u
         else if suff = ''socket'' then
           Inr (Socket name u (expand_socket_specifiers ctx
             (apply_entries socket_section_apply (section_entries ''Socket'' entries) socket_section_default)))
         else if suff = ''automount'' then build_automount scope name entries ctx u
         else if suff = ''timer'' then
           Inr (Timer name u (apply_entries timer_section_apply (section_entries ''Timer'' entries) timer_section_default))
         else if suff = ''path'' then
           Inr (PathUnit name u (expand_path_specifiers ctx
             (apply_entries path_section_apply (section_entries ''Path'' entries) path_section_default)))
         else if suff = ''mount'' then
           Inr (Mount name u (apply_entries mount_section_apply (section_entries ''Mount'' entries) mount_section_default))
         else if suff = ''swap'' then
           Inr (Swap name u (apply_entries swap_section_apply (section_entries ''Swap'' entries) swap_section_default))
         else if suff = ''slice'' then build_slice read_file name entries u
         else if suff = ''scope'' then Inr (Scope name u)
         else if suff = ''target'' then Inr (Target name u)
         else Inl (Unknown_Suffix suff))"

definition collect_dependency_links :: "file_system \<Rightarrow> string \<Rightarrow> string \<Rightarrow> string \<Rightarrow> string list \<Rightarrow> string list" where
  "collect_dependency_links fs kind name dir into =
     fold (\<lambda>f acc. if f = [] \<or> starts_with f ''.'' then acc else add_unique acc f)
       (unwrap_or (fs_entries fs (path_join dir (name @ ''.'' @ kind))) []) into"

definition dependency_names :: "file_system \<Rightarrow> string \<Rightarrow> string \<Rightarrow> string list" where
  "dependency_names fs name path =
     name # (case Option.bind (fs_canonical fs path) file_name of
               Some n \<Rightarrow> if n \<noteq> name then [n] else []
             | None \<Rightarrow> [])"

definition dependency_links :: "file_system \<Rightarrow> unit_loader \<Rightarrow> string \<Rightarrow> string \<Rightarrow> string \<Rightarrow> string list" where
  "dependency_links fs ld kind name path =
     fold (\<lambda>n acc. fold (collect_dependency_links fs kind n) (search_dirs ld) acc)
       (dependency_names fs name path) []"

fun map_unit_section :: "(unit_section \<Rightarrow> unit_section) \<Rightarrow> loaded_unit \<Rightarrow> loaded_unit" where
  "map_unit_section f (Service n u s) = Service n (f u) s"
| "map_unit_section f (Socket n u s) = Socket n (f u) s"
| "map_unit_section f (Automount n u s) = Automount n (f u) s"
| "map_unit_section f (Timer n u s) = Timer n (f u) s"
| "map_unit_section f (PathUnit n u s) = PathUnit n (f u) s"
| "map_unit_section f (Mount n u s) = Mount n (f u) s"
| "map_unit_section f (Swap n u s) = Swap n (f u) s"
| "map_unit_section f (Target n u) = Target n (f u)"
| "map_unit_section f (Slice n u s) = Slice n (f u) s"
| "map_unit_section f (Scope n u) = Scope n (f u)"

definition apply_dependency_directories ::
  "file_system \<Rightarrow> unit_loader \<Rightarrow> string \<Rightarrow> string \<Rightarrow> loaded_unit \<Rightarrow> loaded_unit" where
  "apply_dependency_directories fs ld name path lu =
     map_unit_section (\<lambda>u. u\<lparr> wants := fold (\<lambda>n acc. add_unique acc n) (dependency_links fs ld ''wants'' name path) (wants u),
         requires := fold (\<lambda>n acc. add_unique acc n) (dependency_links fs ld ''requires'' name path) (requires u) \<rparr>) lu"

text \<open>What the loader needs of the machine besides the unit files.\<close>

record load_env =
  le_fs :: file_system
  le_machine :: machine_facts
  le_process :: process_env

definition load_found ::
  "load_env \<Rightarrow> unit_loader \<Rightarrow> string \<Rightarrow> string \<Rightarrow> string option \<Rightarrow> string \<Rightarrow> load_error + (loaded_unit \<times> install_section)" where
  "load_found env ld name path inst text =
     (let fs = le_fs env;
          entries = parse_unit_text text @ collect_dropins fs ld name;
          suff = unwrap_or (Option.bind (file_name path) extension) [];
          ctx = build_context (le_machine env) (le_process env) ld name inst
      in case build_loaded_unit (fs_read fs) (loader_scope ld) name path suff entries ctx of
           Inl e \<Rightarrow> Inl e
         | Inr lu \<Rightarrow>
             (let result = Inr (apply_dependency_directories fs ld name path lu, install_entries entries)
              in case lu of
                   Automount _ _ am \<Rightarrow>
                     (case find_unit_file fs ld (am_trigger_unit am) of
                        Inl _ \<Rightarrow> Inl (No_Mount_Unit name (am_trigger_unit am))
                      | Inr _ \<Rightarrow> result)
                 | _ \<Rightarrow> result))"

definition load :: "load_env \<Rightarrow> unit_loader \<Rightarrow> string \<Rightarrow> load_error + (loaded_unit \<times> install_section)" where
  "load env ld name =
     (case builtin_slice ld name of
        Some lu \<Rightarrow> Inr (lu, install_section_default)
      | None \<Rightarrow>
          (case find_unit_file (le_fs env) ld name of
             Inl e \<Rightarrow> Inl e
           | Inr (path, inst) \<Rightarrow>
               (case fs_read (le_fs env) path of
                  None \<Rightarrow> Inl (Unreadable path)
                | Some text \<Rightarrow> load_found env ld name path inst text)))"

end
