(* ===== verification/LoaderFacts.thy ===== *)
theory LoaderFacts
  imports Loader
begin

text \<open>
  Properties of the unit loader: which file is loaded, what the dependency directories add, the order of
  drop-ins, the agreement of automount units with their names and the tree of slices.
\<close>

section \<open>The search path\<close>

text \<open>A directory answers for a file when it masks it or has it; the first to answer decides.\<close>

definition answers :: "file_system \<Rightarrow> string \<Rightarrow> bool" where
  "answers fs p \<longleftrightarrow> is_masked_unit_path fs p \<or> fs_exists fs p"

definition first_hit :: "file_system \<Rightarrow> string list \<Rightarrow> string \<Rightarrow> string \<Rightarrow> bool" where
  "first_hit fs dirs file p \<longleftrightarrow>
     (\<exists>before d rest. dirs = before @ d # rest \<and> p = path_join d file \<and> answers fs p
        \<and> (\<forall>e \<in> set before. \<not> answers fs (path_join e file)))"

lemma first_hit_Nil [simp]: "\<not> first_hit fs [] file p"
  by (simp add: first_hit_def)

lemma first_hit_Cons:
  "first_hit fs (d # dirs) file p \<longleftrightarrow>
     (if answers fs (path_join d file) then p = path_join d file else first_hit fs dirs file p)"
proof (cases "answers fs (path_join d file)")
  case True
  have "first_hit fs (d # dirs) file (path_join d file)"
    unfolding first_hit_def using True by (intro exI [of _ "[]"] exI [of _ d] exI [of _ dirs]) auto
  moreover have "p = path_join d file" if "first_hit fs (d # dirs) file p"
    using that True by (auto simp: first_hit_def Cons_eq_append_conv)
  ultimately show ?thesis using True by auto
next
  case False
  have "first_hit fs (d # dirs) file p" if h: "first_hit fs dirs file p"
  proof -
    obtain b e r where "dirs = b @ e # r" "p = path_join e file" "answers fs p"
      "\<forall>e \<in> set b. \<not> answers fs (path_join e file)" using h unfolding first_hit_def by blast
    then show ?thesis unfolding first_hit_def using False by (intro exI [of _ "d # b"] exI [of _ e] exI [of _ r]) auto
  qed
  moreover have "first_hit fs dirs file p" if h: "first_hit fs (d # dirs) file p"
  proof -
    obtain b e r where b: "d # dirs = b @ e # r" "p = path_join e file" "answers fs p"
      "\<forall>e \<in> set b. \<not> answers fs (path_join e file)" using h unfolding first_hit_def by blast
    then show ?thesis unfolding first_hit_def using False by (cases b) auto
  qed
  ultimately show ?thesis using False by auto
qed

lemma search_file_first:
  "first_hit fs dirs file p \<Longrightarrow>
     search_file fs name file dirs = Some (if is_masked_unit_path fs p then Inl (Masked name) else Inr p)"
  by (induction dirs) (auto simp: first_hit_Cons answers_def Let_def split: if_splits)

lemma search_file_none: "\<nexists>p. first_hit fs dirs file p \<Longrightarrow> search_file fs name file dirs = None"
  by (induction dirs) (auto simp: first_hit_Cons answers_def Let_def split: if_splits)

text \<open>
  C24: Which file a unit name stands for.  The first directory of the search path that masks the name or
  has a file of that name decides: a mask there makes the unit masked, whatever later directories and the
  template hold, and otherwise that file is loaded.  The template of an instance is looked for, in the
  same way, only when no directory has the full name.  A unit is not found exactly when neither search
  ends.
\<close>

theorem unit_file_precedence:
  fixes fs ld name
  defines "inst \<equiv> fst (snd (split_unit_name name))"
  shows "(\<forall>p. first_hit fs (search_dirs ld) name p \<longrightarrow>
            find_unit_file fs ld name = (if is_masked_unit_path fs p then Inl (Masked name) else Inr (p, None)))
    \<and> ((\<nexists>p. first_hit fs (search_dirs ld) name p) \<and> inst \<noteq> [] \<longrightarrow>
        (\<forall>p. first_hit fs (search_dirs ld) (template_name name) p \<longrightarrow>
           find_unit_file fs ld name = (if is_masked_unit_path fs p then Inl (Masked name) else Inr (p, Some inst))))
    \<and> (find_unit_file fs ld name = Inl (File_Not_Found name) \<longleftrightarrow>
        (\<nexists>p. first_hit fs (search_dirs ld) name p)
        \<and> (inst = [] \<or> (\<nexists>p. first_hit fs (search_dirs ld) (template_name name) p)))"
    (is "?own \<and> ?template \<and> ?missing")
proof -
  let ?none = "\<nexists>p. first_hit fs (search_dirs ld) name p"
  have own: "find_unit_file fs ld name = (if is_masked_unit_path fs p then Inl (Masked name) else Inr (p, None))"
    if "first_hit fs (search_dirs ld) name p" for p
    using search_file_first [OF that] by (simp add: find_unit_file_def)
  have step: "find_unit_file fs ld name =
      (if inst = [] then Inl (File_Not_Found name)
       else case search_file fs name (template_name name) (search_dirs ld) of
         Some (Inl e) \<Rightarrow> Inl e | Some (Inr p) \<Rightarrow> Inr (p, Some inst) | None \<Rightarrow> Inl (File_Not_Found name))" if ?none
    using search_file_none [OF that] unfolding find_unit_file_def inst_def case_prod_unfold Let_def by simp
  have template: "find_unit_file fs ld name = (if is_masked_unit_path fs p then Inl (Masked name) else Inr (p, Some inst))"
    if ?none "inst \<noteq> []" "first_hit fs (search_dirs ld) (template_name name) p" for p
    using step search_file_first that by simp
  have absent: "find_unit_file fs ld name = Inl (File_Not_Found name)"
    if ?none "inst = [] \<or> (\<nexists>p. first_hit fs (search_dirs ld) (template_name name) p)"
    using step [OF that(1)] search_file_none that(2) by (cases "inst = []") simp_all
  have ?missing
  proof
    assume l: "find_unit_file fs ld name = Inl (File_Not_Found name)"
    then have n: ?none using own by (metis Inl_Inr_False load_error.distinct(1) sum.inject(1))
    then show "?none \<and> (inst = [] \<or> (\<nexists>p. first_hit fs (search_dirs ld) (template_name name) p))"
      using l template [OF n] by (metis Inl_Inr_False load_error.distinct(1) sum.inject(1))
  qed (use absent in blast)
  then show ?thesis using own template by blast
qed

text \<open>A small file system: \<open>a.service\<close> is masked above its file, \<open>g@.service\<close> is a template.\<close>

definition demo_fs :: file_system where
  "demo_fs =
     \<lparr> fs_read = (\<lambda>p. if p = ''/u/a.service'' then Some ''[Service]'' else None),
       fs_exists = (\<lambda>p. p \<in> {''/u/a.service'', ''/u/g@.service''}),
       fs_symlink = (\<lambda>p. p = ''/e/a.service''), fs_is_dir = (\<lambda>_. False), fs_entries = (\<lambda>_. None),
       fs_canonical = (\<lambda>p. if p = ''/e/a.service'' then Some ''/dev/null'' else None) \<rparr>"

definition demo_loader :: unit_loader where
  "demo_loader = \<lparr> search_dirs = [''/e'', ''/u''], control_dirs = [], loader_scope = System_Scope \<rparr>"

theorem unit_file_precedence_witness:
  "find_unit_file demo_fs demo_loader ''a.service'' = Inl (Masked ''a.service'')
   \<and> find_unit_file demo_fs demo_loader ''g@x.service'' = Inr (''/u/g@.service'', Some ''x'')
   \<and> find_unit_file demo_fs demo_loader ''b.service'' = Inl (File_Not_Found ''b.service'')"
proof -
  note d = demo_fs_def demo_loader_def first_hit_Cons answers_def is_masked_unit_path_def path_join_def
    starts_with_def ends_with_def
  have inst: "split_unit_name ''g@x.service'' = (''g'', ''x'', ''service'')"
    "split_unit_name ''b.service'' = (''b'', [], ''service'')"
    by (simp_all add: split_unit_name_def str_rfind_def str_find_def)
  have "first_hit demo_fs (search_dirs demo_loader) ''a.service'' ''/e/a.service''"
    "first_hit demo_fs (search_dirs demo_loader) ''g@.service'' ''/u/g@.service''"
    "\<not> first_hit demo_fs (search_dirs demo_loader) ''g@x.service'' p"
    "\<not> first_hit demo_fs (search_dirs demo_loader) ''b.service'' p" for p
    by (simp_all add: d)
  then show ?thesis
    using unit_file_precedence [of demo_fs demo_loader "''a.service''"]
      unit_file_precedence [of demo_fs demo_loader "''g@x.service''"]
      unit_file_precedence [of demo_fs demo_loader "''b.service''"]
    by (simp add: inst template_name_def demo_fs_def is_masked_unit_path_def)
qed

section \<open>Dependency directories\<close>

lemma add_unique_set [simp]: "set (add_unique xs v) = insert v (set xs)"
  by (auto simp: add_unique_def)

lemma fold_add_unique:
  "\<exists>links. fold (\<lambda>n acc. add_unique acc n) ns acc = acc @ links \<and> distinct links \<and> set links = set ns - set acc"
proof (induction ns arbitrary: acc)
  case (Cons n ns)
  obtain links where l: "fold (\<lambda>n acc. add_unique acc n) ns (add_unique acc n) = add_unique acc n @ links"
    "distinct links" "set links = set ns - set (add_unique acc n)" using Cons by blast
  show ?case
  proof (cases "n \<in> set acc")
    case True
    then show ?thesis using l by (auto simp: add_unique_def)
  next
    case False
    then show ?thesis using l by (intro exI [of _ "n # links"]) (auto simp: add_unique_def)
  qed
qed simp

text \<open>The links of a dependency directory: all names but hidden ones.\<close>

definition linked :: "file_system \<Rightarrow> string \<Rightarrow> string \<Rightarrow> string \<Rightarrow> string set" where
  "linked fs kind name dir =
     {f \<in> set (unwrap_or (fs_entries fs (path_join dir (name @ ''.'' @ kind))) []). f \<noteq> [] \<and> \<not> starts_with f ''.''}"

lemma set_collect_dependency_links:
  "set (collect_dependency_links fs kind name dir into) = set into \<union> linked fs kind name dir"
proof -
  have "set (fold (\<lambda>f acc. if f = [] \<or> starts_with f ''.'' then acc else add_unique acc f) es into)
      = set into \<union> {f \<in> set es. f \<noteq> [] \<and> \<not> starts_with f ''.''}" for es
    by (induction es arbitrary: into) auto
  then show ?thesis by (simp add: collect_dependency_links_def linked_def)
qed

lemma set_fold_links:
  "set (fold (collect_dependency_links fs kind name) dirs into) = set into \<union> (\<Union>d \<in> set dirs. linked fs kind name d)"
  by (induction dirs arbitrary: into) (auto simp: set_collect_dependency_links)

lemma set_dependency_links:
  "set (dependency_links fs ld kind name path) =
     (\<Union>n \<in> set (dependency_names fs name path). \<Union>d \<in> set (search_dirs ld). linked fs kind n d)"
proof -
  have "set (fold (\<lambda>n acc. fold (collect_dependency_links fs kind n) (search_dirs ld) acc) ns into)
      = set into \<union> (\<Union>n \<in> set ns. \<Union>d \<in> set (search_dirs ld). linked fs kind n d)" for ns into
    by (induction ns arbitrary: into) (auto simp: set_fold_links)
  then show ?thesis by (simp add: dependency_links_def)
qed

lemma unit_section_of_map [simp]: "unit_section_of (map_unit_section f lu) = f (unit_section_of lu)"
  by (cases lu) simp_all

definition loaded_entries :: "load_env \<Rightarrow> unit_loader \<Rightarrow> string \<Rightarrow> string \<Rightarrow> raw_entry list" where
  "loaded_entries env ld name body = parse_unit_text body @ collect_dropins (le_fs env) ld name"

lemma load_cases:
  assumes "load env ld name = Inr (lu, ins)" "builtin_slice ld name = None"
  obtains path inst body lu' where "find_unit_file (le_fs env) ld name = Inr (path, inst)"
    "fs_read (le_fs env) path = Some body"
    "build_loaded_unit (fs_read (le_fs env)) (loader_scope ld) name path
       (unwrap_or (Option.bind (file_name path) extension) []) (loaded_entries env ld name body)
       (build_context (le_machine env) (le_process env) ld name inst) = Inr lu'"
    "lu = apply_dependency_directories (le_fs env) ld name path lu'"
    "\<And>n u am. lu' = Automount n u am \<Longrightarrow> \<exists>r. find_unit_file (le_fs env) ld (am_trigger_unit am) = Inr r"
proof -
  obtain path inst body where f: "find_unit_file (le_fs env) ld name = Inr (path, inst)"
    "fs_read (le_fs env) path = Some body" "load_found env ld name path inst body = Inr (lu, ins)"
    using assms by (auto simp: load_def split: sum.splits option.splits)
  show ?thesis
    using f(3) that [OF f(1,2)] unfolding load_found_def Let_def loaded_entries_def
    by (auto split: sum.splits loaded_unit.splits)
qed

lemma build_loaded_unit_wants:
  assumes "build_loaded_unit rf scope name path suff entries ctx = Inr lu"
  shows "wants (unit_section_of lu) = wants (common_section path suff entries ctx)"
  using assms unfolding build_loaded_unit_def Let_def
  by (auto simp: build_service_def build_automount_def build_slice_def finalize_slice_def
        add_automount_dependencies_def Let_def split: if_splits sum.splits option.splits)

lemma common_section_wants:
  "wants (common_section path suff entries ctx)
     = fold apply_list (values_of ''Wants'' (section_entries ''Unit'' entries)) []"
proof -
  have "(''Wants'', wants) \<in> set list_fields" by (simp add: list_fields_def)
  then show ?thesis
    by (simp add: common_section_def Let_def list_field_fold unit_section_default_def)
qed

text \<open>
  C23: The units wanted by a loaded unit.  They are the names of its own \<open>Wants=\<close> settings, file first and
  then drop-ins, followed by the visible entries of the \<open>.wants\<close> directories of its name and of the file
  behind an alias, over the whole search path.  A name that is already wanted is not added again.
\<close>

theorem loaded_wants:
  assumes "load env ld name = Inr (lu, ins)" "builtin_slice ld name = None"
  shows "\<exists>path inst body links. find_unit_file (le_fs env) ld name = Inr (path, inst)
    \<and> fs_read (le_fs env) path = Some body
    \<and> (let configured = fold apply_list (values_of ''Wants''
             (section_entries ''Unit'' (parse_unit_text body @ collect_dropins (le_fs env) ld name))) []
       in wants (unit_section_of lu) = configured @ links \<and> distinct links
          \<and> set links = (\<Union>n \<in> set (dependency_names (le_fs env) name path). \<Union>d \<in> set (search_dirs ld).
               linked (le_fs env) ''wants'' n d) - set configured)"
proof -
  obtain path inst body lu' where l: "find_unit_file (le_fs env) ld name = Inr (path, inst)"
    "fs_read (le_fs env) path = Some body"
    "build_loaded_unit (fs_read (le_fs env)) (loader_scope ld) name path
       (unwrap_or (Option.bind (file_name path) extension) []) (loaded_entries env ld name body)
       (build_context (le_machine env) (le_process env) ld name inst) = Inr lu'"
    "lu = apply_dependency_directories (le_fs env) ld name path lu'"
    using load_cases [OF assms] by metis
  define configured where "configured = fold apply_list (values_of ''Wants''
     (section_entries ''Unit'' (parse_unit_text body @ collect_dropins (le_fs env) ld name))) []"
  have "wants (unit_section_of lu') = configured"
    using build_loaded_unit_wants [OF l(3)] by (simp add: common_section_wants loaded_entries_def configured_def)
  then have "wants (unit_section_of lu) =
      fold (\<lambda>n acc. add_unique acc n) (dependency_links (le_fs env) ld ''wants'' name path) configured"
    by (simp add: l(4) apply_dependency_directories_def)
  then obtain links where "wants (unit_section_of lu) = configured @ links" "distinct links"
    "set links = set (dependency_links (le_fs env) ld ''wants'' name path) - set configured"
    using fold_add_unique by metis
  then show ?thesis
    using l(1,2) unfolding configured_def Let_def set_dependency_links by blast
qed

text \<open>The text of a unit file with given entries, and the entries of a section in it.\<close>

definition file_text :: "(string \<times> string \<times> string) list \<Rightarrow> string" where
  "file_text es = concat (map print_entry es)"

lemma section_entries_file_text:
  "list_all printable es \<Longrightarrow> section_entries sec (parse_unit_text (file_text es)) = map snd (filter (\<lambda>e. fst e = sec) es)"
proof -
  assume p: "list_all printable es"
  have "section_entries sec xs = map snd (filter (\<lambda>e. fst e = sec) (map entry_of xs))" for xs
    by (induction xs) (simp_all add: section_entries_def entry_of_def)
  then show ?thesis using parse_printed [OF p] by (simp add: parse_unit_text_def file_text_def)
qed

lemma section_entries_append: "section_entries sec (xs @ ys) = section_entries sec xs @ section_entries sec ys"
  by (simp add: section_entries_def)

definition wants_fs :: file_system where
  "wants_fs =
     \<lparr> fs_read = (\<lambda>p. if p = ''/u/a.target'' then Some (file_text [(''Unit'', ''Wants'', ''b'')]) else None),
       fs_exists = (\<lambda>p. p = ''/u/a.target''), fs_symlink = (\<lambda>_. False), fs_is_dir = (\<lambda>_. False),
       fs_entries = (\<lambda>p. if p = ''/e/a.target.wants'' then Some [''b'', ''.x'', ''c''] else None),
       fs_canonical = (\<lambda>_. None) \<rparr>"

definition demo_env :: "file_system \<Rightarrow> load_env" where
  "demo_env fs =
     \<lparr> le_fs = fs,
       le_machine = \<lparr> mf_machine_id = [], mf_boot_id = [], mf_hostname = [], mf_kernel_release = [] \<rparr>,
       le_process = \<lparr> pe_var = (\<lambda>_. None), pe_uid = 0, pe_gid = 0 \<rparr> \<rparr>"

lemma demo_env_fs [simp]: "le_fs (demo_env fs) = fs"
  by (simp add: demo_env_def)

lemma wants_fs_entries:
  "fold apply_list (values_of ''Wants'' (section_entries ''Unit'' (parse_unit_text (file_text [(''Unit'', ''Wants'', ''b'')])
      @ collect_dropins wants_fs demo_loader ''a.target''))) [] = [''b'']"
proof -
  have p: "list_all printable [(''Unit'', ''Wants'', ''b'')]"
    by (simp add: printable_def trim_def trim_start_def trim_end_def is_ws_def ends_with_def)
  have "collect_dropins wants_fs demo_loader ''a.target'' = []"
    by (simp add: collect_dropins_def dropin_paths_def dropin_dirs_def case_prod_unfold wants_fs_def demo_loader_def
        map_filter_def)
  moreover have "apply_list ''b'' [] = [''b'']"
    by (simp add: apply_list_def split_units_def split_whitespace_def is_ws_def)
  ultimately show ?thesis
    using section_entries_file_text [OF p, of "''Unit''"] by (simp add: section_entries_append values_of_def section_entries_def [of _ "[]"])
qed

lemma wants_fs_links:
  "(\<Union>n \<in> set (dependency_names wants_fs ''a.target'' ''/u/a.target'').
      \<Union>d \<in> set (search_dirs demo_loader). linked wants_fs ''wants'' n d) = {''b'', ''c''}"
  by (auto simp: dependency_names_def linked_def wants_fs_def demo_loader_def unwrap_or_def path_join_def
      starts_with_def ends_with_def)

theorem loaded_wants_witness:
  "\<exists>lu ins. load (demo_env wants_fs) demo_loader ''a.target'' = Inr (lu, ins)
     \<and> set (wants (unit_section_of lu)) = {''b'', ''c''}"
proof -
  have f: "find_unit_file wants_fs demo_loader ''a.target'' = Inr (''/u/a.target'', None)"
    by (simp add: find_unit_file_def wants_fs_def demo_loader_def is_masked_unit_path_def path_join_def
        starts_with_def ends_with_def)
  have b: "builtin_slice demo_loader ''a.target'' = None" by (simp add: builtin_slice_def)
  have suff: "unwrap_or (Option.bind (file_name ''/u/a.target'') extension) [] = ''target''"
    by (simp add: file_name_def path_components_def extension_def str_rfind_def str_find_def unwrap_or_def)
  have r: "fs_read wants_fs ''/u/a.target'' = Some (file_text [(''Unit'', ''Wants'', ''b'')])"
    by (simp add: wants_fs_def)
  have "\<exists>x. load (demo_env wants_fs) demo_loader ''a.target'' = Inr x"
    unfolding load_def b option.case demo_env_fs f sum.case prod.case r load_found_def suff Let_def
      build_loaded_unit_def by simp
  then obtain lu ins where l: "load (demo_env wants_fs) demo_loader ''a.target'' = Inr (lu, ins)"
    by (metis prod.collapse)
  obtain path inst body links where w: "find_unit_file wants_fs demo_loader ''a.target'' = Inr (path, inst)"
    "fs_read wants_fs path = Some body"
    "let configured = fold apply_list (values_of ''Wants''
         (section_entries ''Unit'' (parse_unit_text body @ collect_dropins wants_fs demo_loader ''a.target''))) []
     in wants (unit_section_of lu) = configured @ links \<and> distinct links
        \<and> set links = (\<Union>n \<in> set (dependency_names wants_fs ''a.target'' path). \<Union>d \<in> set (search_dirs demo_loader).
             linked wants_fs ''wants'' n d) - set configured"
    using loaded_wants [OF l b] unfolding demo_env_fs by blast
  have p: "path = ''/u/a.target''" using w(1) unfolding f by simp
  have body: "body = file_text [(''Unit'', ''Wants'', ''b'')]" using w(2) unfolding p r by simp
  have "set (wants (unit_section_of lu)) = {''b'', ''c''}"
    using w(3) unfolding p body wants_fs_entries wants_fs_links Let_def by auto
  then show ?thesis using l by blast
qed

section \<open>Drop-ins of a template\<close>






definition template_loader :: unit_loader where
  "template_loader = \<lparr> search_dirs = [''/u''], control_dirs = [], loader_scope = System_Scope \<rparr>"





section \<open>Automount units\<close>

lemma split_on_join_path:
  "\<forall>c \<in> set cs. CHR ''/'' \<notin> set c \<Longrightarrow> split_on (\<lambda>c. c = CHR ''/'') (join_path cs) = [] # cs"
proof (induction cs)
  case Nil
  then show ?case by (simp add: join_path_def)
next
  case (Cons w ws)
  have "join_path (w # ws) = CHR ''/'' # w @ join_path ws" by (simp add: join_path_def)
  moreover have "split_on (\<lambda>c. c = CHR ''/'') (w @ join_path ws) = w # ws"
  proof (cases ws)
    case Nil
    then show ?thesis using Cons.prems by (auto simp: join_path_def intro: split_on_free)
  next
    case (Cons v vs)
    then have "join_path ws = CHR ''/'' # v @ join_path vs" by (simp add: join_path_def)
    then show ?thesis using Cons.IH Cons.prems split_on_append [of w "\<lambda>c. c = CHR ''/''" "CHR ''/''" "v @ join_path vs"]
      by auto
  qed
  ultimately show ?case by simp
qed

lemma simplify_components_plain:
  "\<forall>c \<in> set cs. c \<noteq> [] \<and> c \<noteq> ''.'' \<and> c \<noteq> ''..'' \<Longrightarrow> simplify_components acc cs = acc @ cs"
  by (induction cs arbitrary: acc) auto

lemma simplify_components_names:
  "\<forall>c \<in> set acc. c \<noteq> [] \<and> c \<noteq> ''.'' \<and> c \<noteq> ''..'' \<Longrightarrow> c \<in> set (simplify_components acc cs)
     \<Longrightarrow> c \<noteq> [] \<and> c \<noteq> ''.'' \<and> c \<noteq> ''..''"
proof (induction acc cs rule: simplify_components.induct)
  case (2 acc c' cs)
  then show ?case by (auto split: if_splits dest: in_set_butlastD)
qed auto

lemma simplify_absolute_idem:
  assumes "simplify_absolute_path path = Some p"
  shows "simplify_absolute_path p = Some p"
proof -
  define cs where "cs = simplify_components [] (split_on (\<lambda>c. c = CHR ''/'') path)"
  have p: "p = (if cs = [] then ''/'' else join_path cs)"
    using assms by (simp add: simplify_absolute_path_def cs_def Let_def split: if_splits)
  have sl: "\<forall>c \<in> set cs. CHR ''/'' \<notin> set c"
    using simplify_components_ok [of "[]" "split_on (\<lambda>c. c = CHR ''/'') path"]
    by (auto simp: cs_def dest: split_on_words)
  have nm: "\<forall>c \<in> set cs. c \<noteq> [] \<and> c \<noteq> ''.'' \<and> c \<noteq> ''..''"
    using simplify_components_names [of "[]"] unfolding cs_def by fastforce
  show ?thesis
  proof (cases cs)
    case Nil
    then show ?thesis by (simp add: p simplify_absolute_path_def starts_with_def)
  next
    case (Cons w ws)
    then have "p = join_path cs" "starts_with p ''/''" by (simp_all add: p join_path_def starts_with_def)
    then show ?thesis
      using split_on_join_path [OF sl] simplify_components_plain [OF nm, of "[]"] Cons
      by (simp add: simplify_absolute_path_def)
  qed
qed

lemma path_from_unit_name_append: "path_from_unit_name (stem @ suff) suff = decode_unit_path_stem stem"
proof -
  have "strip_suffix (stem @ suff) suff = Some stem" using strip_suffix_Some by blast
  then show ?thesis by (simp add: path_from_unit_name_def)
qed

lemma finalize_automount_ok:
  assumes "finalize_automount ctx name s = Inr am"
  shows "path_from_unit_name name ''.automount'' = Inr (am_where am)"
    and "path_from_unit_name (am_trigger_unit am) ''.mount'' = Inr (am_where am)"
    and "am_where am \<noteq> ''/''"
    and "\<forall>opt \<in> set (split_on (\<lambda>c. c = CHR '','') (am_extra_options am)). option_name opt \<notin> set reserved_options"
proof -
  obtain stem w where f: "strip_suffix name ''.automount'' = Some stem"
    "automount_where ctx name (am_where s) = Inr w" "w \<noteq> ''/''" "escape_path_for_unit w ''.automount'' = Inr name"
    "am_where am = w" "am_trigger_unit am = stem @ ''.mount''"
    "\<not> list_ex (\<lambda>opt. option_name opt \<in> set reserved_options) (split_on (\<lambda>c. c = CHR '','') (am_extra_options am))"
    using assms unfolding finalize_automount_def Let_def
    by (auto split: option.splits sum.splits if_splits)
  have name: "name = stem @ ''.automount''" using f(1) strip_suffix_Some by blast
  have w: "path_from_unit_name name ''.automount'' = Inr w"
  proof (cases "expand ctx (am_where s) = []")
    case True
    then show ?thesis using f(2) unfolding automount_where_def Let_def by (auto split: sum.splits)
  next
    case False
    then have "simplify_absolute_path (expand ctx (am_where s)) = Some w"
      using f(2) unfolding automount_where_def Let_def by (auto split: sum.splits option.splits)
    then have "simplify_absolute_path w = Some w" by (rule simplify_absolute_idem)
    from escaped_path_decodes [OF this, of "''.automount''"] show ?thesis using f(4) by auto
  qed
  then show "path_from_unit_name name ''.automount'' = Inr (am_where am)" by (simp add: f(5))
  show "path_from_unit_name (am_trigger_unit am) ''.mount'' = Inr (am_where am)"
    using w unfolding name f(5,6) path_from_unit_name_append .
  show "am_where am \<noteq> ''/''"
    "\<forall>opt \<in> set (split_on (\<lambda>c. c = CHR '','') (am_extra_options am)). option_name opt \<notin> set reserved_options"
    using f(3,5,7) by (simp_all add: list_ex_iff)
qed

lemma build_loaded_unit_automount:
  assumes "build_loaded_unit rf scope name path suff entries ctx = Inr (Automount n u am)"
  obtains s where "n = name" "finalize_automount ctx name s = Inr am" "am_trigger_unit am \<in> set (unit_before u)"
proof -
  have "build_automount scope name entries ctx (common_section path suff entries ctx) = Inr (Automount n u am)"
    using assms unfolding build_loaded_unit_def Let_def
    by (auto simp: build_service_def build_slice_def Let_def split: if_splits sum.splits)
  then show ?thesis
    using that unfolding build_automount_def by (auto simp: add_automount_dependencies_def Let_def split: sum.splits)
qed

text \<open>
  A loaded automount unit agrees with its name.  Its mount point is the path its name stands for, is
  not the root directory and is the path of the mount unit it triggers, which can be found and is ordered
  after it.  None of its options is one the manager sets itself.
\<close>

theorem automount_agrees:
  assumes "load env ld name = Inr (Automount n u am, ins)"
  shows "n = name
    \<and> path_from_unit_name name ''.automount'' = Inr (am_where am) \<and> am_where am \<noteq> ''/''
    \<and> path_from_unit_name (am_trigger_unit am) ''.mount'' = Inr (am_where am)
    \<and> (\<exists>r. find_unit_file (le_fs env) ld (am_trigger_unit am) = Inr r)
    \<and> am_trigger_unit am \<in> set (unit_before u)
    \<and> (\<forall>opt \<in> set (split_on (\<lambda>c. c = CHR '','') (am_extra_options am)). option_name opt \<notin> set reserved_options)"
proof -
  have "builtin_slice ld name = None" using assms by (cases "builtin_slice ld name") (auto simp: load_def builtin_slice_def)
  from load_cases [OF assms this] obtain path inst body lu' where l:
    "build_loaded_unit (fs_read (le_fs env)) (loader_scope ld) name path
       (unwrap_or (Option.bind (file_name path) extension) []) (loaded_entries env ld name body)
       (build_context (le_machine env) (le_process env) ld name inst) = Inr lu'"
    "Automount n u am = apply_dependency_directories (le_fs env) ld name path lu'"
    "\<And>n u am. lu' = Automount n u am \<Longrightarrow> \<exists>r. find_unit_file (le_fs env) ld (am_trigger_unit am) = Inr r"
    by metis
  obtain u' where lu': "lu' = Automount n u' am" and u: "unit_before u = unit_before u'"
    using l(2) unfolding apply_dependency_directories_def by (cases lu') auto
  obtain s where s: "n = name" "finalize_automount (build_context (le_machine env) (le_process env) ld name inst) name s = Inr am"
    "am_trigger_unit am \<in> set (unit_before u')"
    by (rule build_loaded_unit_automount [OF l(1) [unfolded lu']])
  show ?thesis using finalize_automount_ok [OF s(2)] s(1,3) l(3) [OF lu'] u by simp
qed

definition automount_fs :: file_system where
  "automount_fs =
     \<lparr> fs_read = (\<lambda>p. if p = ''/u/m.automount'' then Some [] else None),
       fs_exists = (\<lambda>p. p \<in> {''/u/m.automount'', ''/u/m.mount''}), fs_symlink = (\<lambda>_. False),
       fs_is_dir = (\<lambda>_. False), fs_entries = (\<lambda>_. None), fs_canonical = (\<lambda>_. None) \<rparr>"

lemma automount_demo_finalize:
  "finalize_automount ctx ''m.automount'' automount_section_default =
     Inr (automount_section_default\<lparr> am_where := ''/m'', am_trigger_unit := ''m.mount'' \<rparr>)"
proof -
  have "strip_suffix ''m.automount'' ''.automount'' = Some ''m''"
    by (simp add: strip_suffix_Some)
  moreover have "path_from_unit_name ''m.automount'' ''.automount'' = Inr ''/m''"
    using path_from_unit_name_append [of "''m''" "''.automount''"]
    by (simp add: decode_unit_path_stem_def utf8_Cons char_of_def bit_Suc_0_iff)
  moreover have "escape_path_for_unit ''/m'' ''.automount'' = Inr ''m.automount''"
    by (simp add: escape_path_for_unit_def simplify_absolute_path_def starts_with_def join_path_def utf8_Cons
        escape_byte_def plain_byte_def char_of_def bit_Suc_0_iff)
  ultimately show ?thesis
    by (simp add: finalize_automount_def automount_where_def automount_section_default_def Let_def option_name_def
        split_once_def str_find_def trim_def trim_start_def trim_end_def reserved_options_def)
qed

lemma automount_demo_loads:
  "\<exists>u am ins. load (demo_env automount_fs) template_loader ''m.automount'' = Inr (Automount ''m.automount'' u am, ins)"
proof -
  have "find_unit_file automount_fs template_loader ''m.automount'' = Inr (''/u/m.automount'', None)"
    "find_unit_file automount_fs template_loader ''m.mount'' = Inr (''/u/m.mount'', None)"
    by (simp_all add: find_unit_file_def automount_fs_def template_loader_def is_masked_unit_path_def path_join_def
        starts_with_def ends_with_def)
  moreover have "builtin_slice template_loader ''m.automount'' = None" by (simp add: builtin_slice_def)
  moreover have "unwrap_or (Option.bind (file_name ''/u/m.automount'') extension) [] = ''automount''"
    by (simp add: file_name_def path_components_def extension_def str_rfind_def str_find_def unwrap_or_def)
  moreover have "fs_read automount_fs ''/u/m.automount'' = Some []" by (simp add: automount_fs_def)
  moreover have "collect_dropins automount_fs template_loader ''m.automount'' = []"
    by (simp add: collect_dropins_def dropin_paths_def dropin_dirs_def case_prod_unfold automount_fs_def
        template_loader_def map_filter_def)
  moreover have "parse_unit_text [] = []" by (simp add: parse_unit_text_def str_lines_def)
  ultimately show ?thesis
    by (simp add: load_def load_found_def build_loaded_unit_def build_automount_def apply_entries_def section_entries_def
        automount_demo_finalize apply_dependency_directories_def Let_def)
qed

theorem automount_agrees_witness:
  "\<exists>u am ins. load (demo_env automount_fs) template_loader ''m.automount'' = Inr (Automount ''m.automount'' u am, ins)
     \<and> path_from_unit_name ''m.automount'' ''.automount'' = Inr (am_where am)"
  using automount_demo_loads automount_agrees by blast

section \<open>The tree of slices\<close>

fun dashed :: "string list \<Rightarrow> string" where
  "dashed [] = []"
| "dashed [w] = w"
| "dashed (w # v # ws) = w @ CHR ''-'' # dashed (v # ws)"

text \<open>The names reached from a slice by going to the parent, at most \<open>k\<close> times.\<close>

fun slice_ancestors :: "nat \<Rightarrow> string \<Rightarrow> string list" where
  "slice_ancestors 0 name = []"
| "slice_ancestors (Suc k) name =
     (case slice_parent_name name of Inr (Some p) \<Rightarrow> p # slice_ancestors k p | _ \<Rightarrow> [])"

definition slice_words :: "string list \<Rightarrow> bool" where
  "slice_words cs \<longleftrightarrow> cs \<noteq> [] \<and> (\<forall>w \<in> set cs. w \<noteq> [] \<and> CHR ''-'' \<notin> set w \<and> valid_escaped_unit_stem w)"

text \<open>A byte that is neither an escape nor a hexadecimal digit ends what precedes it.\<close>

lemma valid_escaped_bytes_sep:
  assumes "d \<notin> {92, 120}" "hex_value d = None"
  shows "valid_escaped_bytes (xs @ d # ys) \<longleftrightarrow>
    valid_escaped_bytes xs \<and> (plain_byte d \<or> d = 45) \<and> valid_escaped_bytes ys"
proof (induction xs rule: valid_escaped_bytes.induct)
  case 1
  show ?case using assms by auto
next
  case (2 b bs)
  show ?case
  proof (cases "plain_byte b \<or> b = 45")
    case True
    then show ?thesis using 2(1) by simp
  next
    case False
    note F = this
    show ?thesis
    proof (cases "b = 92")
      case True
      consider "bs = []" | x where "bs = [x]" | x h where "bs = [x, h]" | x h l rest where "bs = x # h # l # rest"
        by (metis list.exhaust)
      then show ?thesis
      proof cases
        case 4
        then show ?thesis using 2(2) [OF F True] True F by simp
      qed (use assms True F in \<open>cases ys; cases "tl ys"; simp\<close>)+
    next
      case nb: False
      then show ?thesis using F by simp
    qed
  qed
qed

lemma valid_escaped_bytes_dash:
  "valid_escaped_bytes (xs @ 45 # ys) \<longleftrightarrow> valid_escaped_bytes xs \<and> valid_escaped_bytes ys"
  by (subst valid_escaped_bytes_sep) (simp_all add: hex_value_def)

lemma valid_dashed:
  "cs \<noteq> [] \<Longrightarrow> valid_escaped_unit_stem (dashed cs) \<longleftrightarrow> (\<forall>w \<in> set cs. valid_escaped_unit_stem w)"
  by (induction cs rule: dashed.induct)
     (auto simp: valid_escaped_unit_stem_def utf8_append utf8_Cons valid_escaped_bytes_dash)

lemma dashed_split: "dashed (split_on (\<lambda>c. c = CHR ''-'') s) = s"
proof (induction s)
  case (Cons c s)
  have "dashed ((c # w) # ws) = c # dashed (w # ws)" for w ws by (cases ws) simp_all
  then show ?case using Cons by (cases "split_on (\<lambda>c. c = CHR ''-'') s") auto
qed simp

lemma split_dashed:
  "cs \<noteq> [] \<Longrightarrow> \<forall>w \<in> set cs. CHR ''-'' \<notin> set w \<Longrightarrow> split_on (\<lambda>c. c = CHR ''-'') (dashed cs) = cs"
proof (induction cs rule: dashed.induct)
  case (2 w)
  then show ?case by (auto intro: split_on_free)
next
  case (3 w v ws)
  then show ?case using split_on_append [of w "\<lambda>c. c = CHR ''-''" "CHR ''-''" "dashed (v # ws)"] by auto
qed simp

lemma dashed_snoc: "cs \<noteq> [] \<Longrightarrow> dashed (cs @ [w]) = dashed cs @ CHR ''-'' # w"
proof (induction cs rule: dashed.induct)
  case (3 w v ws)
  then show ?case by (cases ws) simp_all
qed simp_all

lemma str_rfind_snoc: "c \<notin> set w \<Longrightarrow> str_rfind c (s @ c # w) = Some (length s)"
  using str_find_append [of c "rev w" "rev s"] by (simp add: str_rfind_def)

lemma str_rfind_none: "c \<notin> set w \<Longrightarrow> str_rfind c w = None"
  by (induction w rule: rev_induct) (auto simp: str_rfind_def str_find_def)

lemma valid_no_at: "valid_escaped_unit_stem s \<Longrightarrow> CHR ''@'' \<notin> set s"
proof
  assume v: "valid_escaped_unit_stem s" and "CHR ''@'' \<in> set s"
  then obtain a b where "s = a @ CHR ''@'' # b" by (meson split_list)
  moreover have "\<not> valid_escaped_bytes (xs @ 64 # ys)" for xs ys
    by (subst valid_escaped_bytes_sep) (simp_all add: hex_value_def plain_byte_def)
  ultimately show False using v by (simp add: valid_escaped_unit_stem_def utf8_append utf8_Cons)
qed

lemma slice_parent_words:
  assumes "slice_words cs"
  shows "slice_parent_name (dashed cs @ ''.slice'') =
    Inr (Some (if length cs = 1 then ''-.slice'' else dashed (butlast cs) @ ''.slice''))"
proof -
  let ?s = "dashed cs"
  have ne: "cs \<noteq> []" and w: "\<forall>w \<in> set cs. w \<noteq> [] \<and> CHR ''-'' \<notin> set w" and v: "valid_escaped_unit_stem ?s"
    using assms by (auto simp: slice_words_def valid_dashed)
  have sp: "split_on (\<lambda>c. c = CHR ''-'') ?s = cs" by (rule split_dashed [OF ne]) (use w in simp)
  have st: "\<not> starts_with ?s ''-''"
  proof
    assume "starts_with ?s ''-''"
    then obtain t where t: "?s = CHR ''-'' # t" by (cases ?s) (auto simp: starts_with_def)
    have "[] # split_on (\<lambda>c. c = CHR ''-'') t = cs" using sp unfolding t by simp
    then have "[] \<in> set cs" by (metis list.set_intros(1))
    then show False using w by blast
  qed
  have nd: "?s \<noteq> []"
  proof
    assume e: "?s = []"
    have "[[]] = cs" using sp unfolding e by simp
    then have "[] \<in> set cs" by (metis list.set_intros(1))
    then show False using w by blast
  qed
  have nd': "?s \<noteq> ''-''" using st by (auto simp: starts_with_def)
  have parent: "(case str_rfind (CHR ''-'') ?s of None \<Rightarrow> ''-.slice'' | Some i \<Rightarrow> take i ?s @ ''.slice'')
      = (if length cs = 1 then ''-.slice'' else dashed (butlast cs) @ ''.slice'')"
    and en: "\<not> ends_with ?s ''-''"
  proof -
    obtain ws x where ws: "cs = ws @ [x]" using ne by (cases cs rule: rev_cases) auto
    have x: "CHR ''-'' \<notin> set x" "x \<noteq> []" using w ws by auto
    show "(case str_rfind (CHR ''-'') ?s of None \<Rightarrow> ''-.slice'' | Some i \<Rightarrow> take i ?s @ ''.slice'')
      = (if length cs = 1 then ''-.slice'' else dashed (butlast cs) @ ''.slice'')"
      using x str_rfind_none str_rfind_snoc dashed_snoc [of ws x] ws by (cases "ws = []") auto
    have "last ?s = last x" using x(2) dashed_snoc [of ws x] ws by (cases "ws = []") auto
    then have "last ?s \<noteq> CHR ''-''" using x last_in_set by metis
    then show "\<not> ends_with ?s ''-''" using nd by (auto simp: ends_with_suffix suffix_def)
  qed
  show ?thesis
    unfolding slice_parent_name_def strip_suffix_Some [of _ _ ?s, THEN iffD2, OF refl] option.case sp
    using nd nd' st en v valid_no_at [OF v] w parent by auto
qed

lemma slice_parent_cases:
  assumes "slice_parent_name name = Inr (Some p)"
  obtains cs where "slice_words cs" "name = dashed cs @ ''.slice''"
proof -
  obtain s where s: "name = s @ ''.slice''" "[] \<notin> set (split_on (\<lambda>c. c = CHR ''-'') s)" "valid_escaped_unit_stem s"
    using assms strip_suffix_Some unfolding slice_parent_name_def by (fastforce split: option.splits if_splits)
  define cs where "cs = split_on (\<lambda>c. c = CHR ''-'') s"
  have cs: "cs \<noteq> []" "dashed cs = s" by (simp_all add: cs_def dashed_split)
  have "\<forall>w \<in> set cs. CHR ''-'' \<notin> set w" using split_on_words unfolding cs_def by blast
  then have "slice_words cs" using cs s(2,3) valid_dashed [OF cs(1)] unfolding slice_words_def cs_def by metis
  then show ?thesis using that s(1) cs(2) by blast
qed

lemma slice_ancestors_words:
  "slice_words cs \<Longrightarrow> slice_ancestors (length cs) (dashed cs @ ''.slice'') =
     map (\<lambda>i. dashed (take i cs) @ ''.slice'') (rev [1..<length cs]) @ [''-.slice'']"
proof (induction cs rule: rev_induct)
  case (snoc x cs)
  show ?case
  proof (cases "cs = []")
    case True
    then show ?thesis using slice_parent_words [OF snoc.prems] by simp
  next
    case False
    then have "slice_words cs" using snoc.prems by (simp add: slice_words_def)
    note ih = snoc.IH [OF this]
    have step: "slice_ancestors (Suc (length cs)) (dashed (cs @ [x]) @ ''.slice'')
        = (dashed cs @ ''.slice'') # slice_ancestors (length cs) (dashed cs @ ''.slice'')"
      using slice_parent_words [OF snoc.prems] False by simp
    have "[1..<Suc (length cs)] = [1..<length cs] @ [length cs]" using False by (cases cs) simp_all
    then have "map (\<lambda>i. dashed (take i (cs @ [x])) @ ''.slice'') (rev [1..<Suc (length cs)])
        = (dashed cs @ ''.slice'') # map (\<lambda>i. dashed (take i cs) @ ''.slice'') (rev [1..<length cs])"
      by (auto simp: rev_map [symmetric])
    then show ?thesis using step ih by simp
  qed
qed (simp add: slice_words_def)

lemma build_loaded_unit_slice:
  assumes "build_loaded_unit rf scope name path suff entries ctx = Inr (Slice n u s)"
  obtains parent where "n = name" "slice_parent_name name = Inr parent"
    "\<And>p. parent = Some p \<Longrightarrow> p \<in> set (requires u) \<inter> set (unit_after u)"
proof -
  have "build_slice rf name entries (common_section path suff entries ctx) = Inr (Slice n u s)"
    using assms unfolding build_loaded_unit_def Let_def
    by (auto simp: build_service_def build_automount_def Let_def split: if_splits sum.splits)
  then show ?thesis
    using that unfolding build_slice_def finalize_slice_def Let_def
    by (auto split: sum.splits option.splits if_splits)
qed

text \<open>
  Slices form a tree.  The name of a loaded slice other than the built-in ones is a sequence of words
  joined by dashes.  Going from parent to parent takes one word off at a time and reaches the root slice
  after as many steps as there are words.  The slice requires its parent and is ordered after it.
\<close>

theorem slice_tree:
  assumes "load env ld name = Inr (Slice n u s, ins)" "builtin_slice ld name = None"
  shows "\<exists>cs. cs \<noteq> [] \<and> name = dashed cs @ ''.slice''
    \<and> slice_ancestors (length cs) name =
        map (\<lambda>i. dashed (take i cs) @ ''.slice'') (rev [1..<length cs]) @ [''-.slice'']
    \<and> hd (slice_ancestors (length cs) name) \<in> set (requires u) \<inter> set (unit_after u)"
proof -
  obtain path inst body lu' where l:
    "build_loaded_unit (fs_read (le_fs env)) (loader_scope ld) name path
       (unwrap_or (Option.bind (file_name path) extension) []) (loaded_entries env ld name body)
       (build_context (le_machine env) (le_process env) ld name inst) = Inr lu'"
    "Slice n u s = apply_dependency_directories (le_fs env) ld name path lu'"
    using load_cases [OF assms] by metis
  obtain u' where lu': "lu' = Slice n u' s" and u: "set (requires u') \<subseteq> set (requires u)" "unit_after u = unit_after u'"
  proof -
    have "set xs \<subseteq> set (fold (\<lambda>n acc. add_unique acc n) ns xs)" for ns xs using fold_add_unique by (metis set_append sup_ge1)
    then show ?thesis using that l(2) unfolding apply_dependency_directories_def by (cases lu') auto
  qed
  obtain parent where p: "slice_parent_name name = Inr parent"
    "\<And>p. parent = Some p \<Longrightarrow> p \<in> set (requires u') \<inter> set (unit_after u')"
    using build_loaded_unit_slice [OF l(1) [unfolded lu']] by metis
  have "parent \<noteq> None"
  proof
    assume "parent = None"
    then have "name = ''-.slice''"
      using p(1) strip_suffix_Some unfolding slice_parent_name_def by (fastforce split: option.splits if_splits)
    then show False using assms(2) by (simp add: builtin_slice_def)
  qed
  then obtain q where q: "parent = Some q" by blast
  obtain cs where cs: "slice_words cs" "name = dashed cs @ ''.slice''"
    using slice_parent_cases p(1) q by blast
  have "hd (slice_ancestors (length cs) name) = q"
    using p(1) q cs(1) by (cases cs) (simp_all add: slice_words_def)
  then show ?thesis
    using slice_ancestors_words [OF cs(1)] cs p(2) [OF q] u by (intro exI [of _ cs]) (auto simp: slice_words_def)
qed

definition slice_fs :: file_system where
  "slice_fs =
     \<lparr> fs_read = (\<lambda>p. if p = ''/u/a-b.slice'' then Some [] else None), fs_exists = (\<lambda>p. p = ''/u/a-b.slice''),
       fs_symlink = (\<lambda>_. False), fs_is_dir = (\<lambda>_. False), fs_entries = (\<lambda>_. None), fs_canonical = (\<lambda>_. None) \<rparr>"

lemma slice_demo_loads:
  "\<exists>u s ins. load (demo_env slice_fs) template_loader ''a-b.slice'' = Inr (Slice ''a-b.slice'' u s, ins)"
proof -
  have f: "find_unit_file slice_fs template_loader ''a-b.slice'' = Inr (''/u/a-b.slice'', None)"
    by (simp add: find_unit_file_def slice_fs_def template_loader_def is_masked_unit_path_def path_join_def
        starts_with_def ends_with_def)
  have b: "builtin_slice template_loader ''a-b.slice'' = None" by (simp add: builtin_slice_def)
  have suff: "unwrap_or (Option.bind (file_name ''/u/a-b.slice'') extension) [] = ''slice''"
    by (simp add: file_name_def path_components_def extension_def str_rfind_def str_find_def unwrap_or_def)
  have r: "fs_read slice_fs ''/u/a-b.slice'' = Some []" by (simp add: slice_fs_def)
  have "slice_words [''a'', ''b'']"
    by (simp add: slice_words_def valid_escaped_unit_stem_def utf8_Cons plain_byte_def)
  from slice_parent_words [OF this] have p: "slice_parent_name ''a-b.slice'' = Inr (Some ''a.slice'')" by simp
  have d: "path_from_unit_name ''a-b.slice'' ''.slice'' = decode_unit_path_stem ''a-b''"
    using path_from_unit_name_append [of "''a-b''" "''.slice''"] by simp
  have "\<exists>x. decode_unit_path_stem ''a-b'' = Inr x" by (simp add: decode_unit_path_stem_def utf8_Cons)
  then have "finalize_slice ''a-b.slice'' u \<noteq> Inl e" for u e
    by (auto simp: finalize_slice_def p d Let_def split: sum.split)
  then show ?thesis
    unfolding load_def b option.case demo_env_fs f sum.case prod.case r load_found_def suff Let_def
      build_loaded_unit_def build_slice_def by (auto simp: apply_dependency_directories_def split: sum.split)
qed

theorem slice_tree_witness:
  "\<exists>u s ins. load (demo_env slice_fs) template_loader ''a-b.slice'' = Inr (Slice ''a-b.slice'' u s, ins)
     \<and> (\<exists>cs. cs \<noteq> [] \<and> ''a-b.slice'' = dashed cs @ ''.slice''
          \<and> hd (slice_ancestors (length cs) ''a-b.slice'') \<in> set (requires u))"
proof -
  have b: "builtin_slice template_loader ''a-b.slice'' = None" by (simp add: builtin_slice_def)
  obtain u s ins where l: "load (demo_env slice_fs) template_loader ''a-b.slice'' = Inr (Slice ''a-b.slice'' u s, ins)"
    using slice_demo_loads by blast
  obtain cs where "cs \<noteq> []" "''a-b.slice'' = dashed cs @ ''.slice''"
    "hd (slice_ancestors (length cs) ''a-b.slice'') \<in> set (requires u) \<inter> set (unit_after u)"
    using slice_tree [OF l b] by (elim exE conjE) (rule that)
  then show ?thesis using l by (intro exI [of _ u] exI [of _ s] exI [of _ ins] conjI exI [of _ cs]) (assumption | rule IntD1)+
qed

end
