(* ===== verification/FileTree.thy ===== *)
theory FileTree
  imports UnitFile
begin

text \<open>
  The part of a file system the installation of unit files uses: directories, regular files and symbolic
  links.  A path is the list of its components from the root.  A tree is an association list, whose order
  is the order in which a directory is read.  Directories are real directories: a link to a directory is
  not followed on the way to an entry.  Calls fail with the kind of error the callers tell apart.
\<close>

section \<open>Paths and trees\<close>

type_synonym path = "string list"

datatype link_target = Abs path | Rel path

datatype node = Dir | Reg string | Link link_target

type_synonym tree = "(path \<times> node) list"

datatype io_error = Io_NotFound | Io_AlreadyExists | Io_Other

definition path_of :: "string \<Rightarrow> path" where
  "path_of s = filter (\<lambda>c. c \<noteq> [] \<and> c \<noteq> ''.'') (split_on (\<lambda>c. c = CHR ''/'') s)"

definition pjoin :: "path \<Rightarrow> string \<Rightarrow> path" where
  "pjoin p s = (if starts_with s ''/'' then path_of s else p @ path_of s)"

definition show_path :: "path \<Rightarrow> string" where
  "show_path p = (if p = [] then ''/'' else join_path p)"

definition leaf :: "path \<Rightarrow> string option" where
  "leaf p = (if p = [] \<or> last p = ''..'' then None else Some (last p))"

definition under :: "path \<Rightarrow> path \<Rightarrow> bool" where
  "under p dir \<longleftrightarrow> take (length dir) p = dir"

definition norm_path :: "path \<Rightarrow> path" where
  "norm_path p = simplify_components [] p"

definition lstat :: "tree \<Rightarrow> path \<Rightarrow> node option" where
  "lstat t p = (if norm_path p = [] then Some Dir else map_of t (norm_path p))"

definition children :: "tree \<Rightarrow> path \<Rightarrow> string list" where
  "children t p = map last (filter (\<lambda>q. q \<noteq> [] \<and> butlast q = norm_path p) (map fst t))"

definition read_dir :: "tree \<Rightarrow> path \<Rightarrow> io_error + string list" where
  "read_dir t p =
     (case lstat t p of
        None \<Rightarrow> Inl Io_NotFound
      | Some Dir \<Rightarrow> Inr (children t p)
      | Some _ \<Rightarrow> Inl Io_Other)"

definition read_link :: "tree \<Rightarrow> path \<Rightarrow> link_target option" where
  "read_link t p = (case lstat t p of Some (Link l) \<Rightarrow> Some l | _ \<Rightarrow> None)"

definition is_symlink :: "tree \<Rightarrow> path \<Rightarrow> bool" where
  "is_symlink t p \<longleftrightarrow> read_link t p \<noteq> None"

text \<open>The kernel follows at most forty links.\<close>

fun follow :: "nat \<Rightarrow> tree \<Rightarrow> path \<Rightarrow> path option" where
  "follow 0 t p = None"
| "follow (Suc n) t p =
     (case lstat t p of
        None \<Rightarrow> None
      | Some (Link (Abs q)) \<Rightarrow> follow n t q
      | Some (Link (Rel q)) \<Rightarrow> follow n t (butlast p @ q)
      | Some _ \<Rightarrow> Some p)"

definition is_dir :: "tree \<Rightarrow> path \<Rightarrow> bool" where
  "is_dir t p = (case follow 40 t p of Some q \<Rightarrow> lstat t q = Some Dir | None \<Rightarrow> False)"

definition is_file :: "tree \<Rightarrow> path \<Rightarrow> bool" where
  "is_file t p = (case follow 40 t p of Some q \<Rightarrow> (case lstat t q of Some (Reg _) \<Rightarrow> True | _ \<Rightarrow> False) | None \<Rightarrow> False)"

definition read_file :: "tree \<Rightarrow> path \<Rightarrow> io_error + string" where
  "read_file t p =
     (case follow 40 t p of
        None \<Rightarrow> Inl Io_NotFound
      | Some q \<Rightarrow> (case lstat t q of Some (Reg s) \<Rightarrow> Inr s | _ \<Rightarrow> Inl Io_Other))"

section \<open>Changes\<close>

definition put :: "path \<Rightarrow> node \<Rightarrow> tree \<Rightarrow> tree" where
  "put p n t = t @ [(norm_path p, n)]"

definition delete :: "path \<Rightarrow> tree \<Rightarrow> tree" where
  "delete p t = filter (\<lambda>(q, _). q \<noteq> norm_path p) t"

fun mkdirs :: "path \<Rightarrow> path \<Rightarrow> tree \<Rightarrow> io_error option \<times> tree" where
  "mkdirs pre [] t = (None, t)"
| "mkdirs pre (c # cs) t =
     (case lstat t (pre @ [c]) of
        None \<Rightarrow> mkdirs (pre @ [c]) cs (put (pre @ [c]) Dir t)
      | Some Dir \<Rightarrow> mkdirs (pre @ [c]) cs t
      | Some _ \<Rightarrow> (Some Io_Other, t))"

definition create_dir_all :: "path \<Rightarrow> tree \<Rightarrow> io_error option \<times> tree" where
  "create_dir_all p t = mkdirs [] (norm_path p) t"

definition make_symlink :: "link_target \<Rightarrow> path \<Rightarrow> tree \<Rightarrow> io_error option \<times> tree" where
  "make_symlink l p t =
     (if lstat t p \<noteq> None then (Some Io_AlreadyExists, t)
      else case lstat t (butlast (norm_path p)) of
        Some Dir \<Rightarrow> (None, put p (Link l) t)
      | None \<Rightarrow> (Some Io_NotFound, t)
      | Some _ \<Rightarrow> (Some Io_Other, t))"

definition remove_file :: "path \<Rightarrow> tree \<Rightarrow> io_error option \<times> tree" where
  "remove_file p t =
     (case lstat t p of
        None \<Rightarrow> (Some Io_NotFound, t)
      | Some Dir \<Rightarrow> (Some Io_Other, t)
      | Some _ \<Rightarrow> (None, delete p t))"

definition remove_dir :: "path \<Rightarrow> tree \<Rightarrow> io_error option \<times> tree" where
  "remove_dir p t =
     (case lstat t p of
        None \<Rightarrow> (Some Io_NotFound, t)
      | Some Dir \<Rightarrow> if norm_path p = [] \<or> children t p \<noteq> [] then (Some Io_Other, t) else (None, delete p t)
      | Some _ \<Rightarrow> (Some Io_Other, t))"

end
