(* ===== verification/Glob.thy ===== *)
theory Glob
  imports UnitFile
begin

text \<open>
  The glob matcher, \<open>src/src/glob.rs\<close>, on bytes as in the source, and its meaning: a pattern is a list of
  tokens and a token stands for a set of byte strings.
\<close>

section \<open>The matcher\<close>

text \<open>The loop over a bracket expression: ranges and single bytes.\<close>

fun class_matches :: "nat list \<Rightarrow> nat \<Rightarrow> bool" where
  "class_matches [] current = False"
| "class_matches (a # rest) current =
     (case rest of
        d # z # rest' \<Rightarrow>
          if d = 45 then (a \<le> current \<and> current \<le> z) \<or> class_matches rest' current
          else a = current \<or> class_matches rest current
      | _ \<Rightarrow> a = current \<or> class_matches rest current)"

definition class_negated :: "nat list \<Rightarrow> bool \<times> nat list" where
  "class_negated cls =
     (case cls of
        c # rest \<Rightarrow> if c = 33 \<or> c = 94 then (True, rest) else (False, cls)
      | [] \<Rightarrow> (False, []))"

definition bracket_matches :: "nat list \<Rightarrow> nat \<Rightarrow> bool" where
  "bracket_matches cls current =
     (let (negated, cls) = class_negated cls in class_matches cls current \<noteq> negated)"

function matches_bytes :: "nat list \<Rightarrow> nat list \<Rightarrow> bool"
  and match_bracket :: "nat list \<Rightarrow> nat list \<Rightarrow> bool" where
  "matches_bytes pattern v =
     (case pattern of
        [] \<Rightarrow> v = []
      | p # rest \<Rightarrow>
          if p = 42 then matches_bytes rest v \<or> (case v of [] \<Rightarrow> False | _ # v' \<Rightarrow> matches_bytes pattern v')
          else if p = 91 then match_bracket rest v
          else case v of [] \<Rightarrow> False | b # v' \<Rightarrow> (p = 63 \<or> b = p) \<and> matches_bytes rest v')"
| "match_bracket pattern v =
     (case v of
        [] \<Rightarrow> False
      | current # v' \<Rightarrow>
          (case position (\<lambda>b. b = 93) pattern of
             None \<Rightarrow> current = 91 \<and> matches_bytes pattern v'
           | Some end_ \<Rightarrow>
               bracket_matches (take end_ pattern) current \<and> matches_bytes (drop (Suc end_) pattern) v'))"
  by pat_completeness auto

termination
  by (relation "measure (\<lambda>x. case x of Inl (p, v) \<Rightarrow> 2 * (length p + length v) | Inr (p, v) \<Rightarrow> Suc (2 * (length p + length v)))")
     auto

declare matches_bytes.simps [simp del] match_bracket.simps [simp del]

definition matches_no_escape :: "string \<Rightarrow> string \<Rightarrow> bool" where
  "matches_no_escape pattern v = matches_bytes (utf8 pattern) (utf8 v)"

section \<open>Meaning of a pattern\<close>

datatype token = Star | One "nat \<Rightarrow> bool"

function tokens :: "nat list \<Rightarrow> token list" where
  "tokens [] = []"
| "tokens (p # rest) =
     (if p = 42 then Star # tokens rest
      else if p = 63 then One (\<lambda>_. True) # tokens rest
      else if p = 91 then
        (case position (\<lambda>b. b = 93) rest of
           None \<Rightarrow> One (\<lambda>b. b = 91) # tokens rest
         | Some e \<Rightarrow>
             One (bracket_matches (take e rest)) # tokens (drop (Suc e) rest))
      else One (\<lambda>b. b = p) # tokens rest)"
  by pat_completeness auto

termination
  by (relation "measure length") auto

text \<open>A byte string is in the language of a pattern when it is cut into pieces, one per token.\<close>

inductive glob_lang :: "token list \<Rightarrow> nat list \<Rightarrow> bool" where
  nil: "glob_lang [] []"
| single: "P b \<Longrightarrow> glob_lang ts v \<Longrightarrow> glob_lang (One P # ts) (b # v)"
| star: "glob_lang ts v \<Longrightarrow> glob_lang (Star # ts) (w @ v)"

inductive_simps glob_lang_simps:
  "glob_lang [] v" "glob_lang (One P # ts) v"

lemma glob_lang_star:
  "glob_lang (Star # ts) v \<longleftrightarrow> glob_lang ts v \<or> (case v of [] \<Rightarrow> False | _ # v' \<Rightarrow> glob_lang (Star # ts) v')"
proof
  assume "glob_lang (Star # ts) v"
  then obtain w u where "v = w @ u" "glob_lang ts u" by (auto elim: glob_lang.cases)
  then show "glob_lang ts v \<or> (case v of [] \<Rightarrow> False | _ # v' \<Rightarrow> glob_lang (Star # ts) v')"
    by (cases w) (auto intro: glob_lang.star)
next
  have "glob_lang (Star # ts) (b # v')" if "glob_lang (Star # ts) v'" for b v'
  proof -
    from that obtain w u where "v' = w @ u" "glob_lang ts u" by (cases rule: glob_lang.cases) auto
    then show ?thesis using glob_lang.star [of ts u "b # w"] by simp
  qed
  moreover have "glob_lang (Star # ts) v" if "glob_lang ts v"
    using glob_lang.star [OF that, of "[]"] by simp
  moreover assume "glob_lang ts v \<or> (case v of [] \<Rightarrow> False | _ # v' \<Rightarrow> glob_lang (Star # ts) v')"
  ultimately show "glob_lang (Star # ts) v" by (auto split: list.splits)
qed

lemma matches_lang:
  "matches_bytes p v \<longleftrightarrow> glob_lang (tokens p) v"
  "match_bracket q v \<longleftrightarrow> glob_lang (tokens (91 # q)) v"
proof (induction p v and q v rule: matches_bytes_match_bracket.induct)
  case (1 pattern v)
  show ?case
  proof (cases pattern)
    case Nil
    then show ?thesis by (subst matches_bytes.simps) (simp add: glob_lang_simps)
  next
    case (Cons p rest)
    show ?thesis
      using 1 Cons glob_lang_star [of "tokens rest" v]
      by (subst matches_bytes.simps) (auto simp: glob_lang_simps split: list.splits if_splits)
  qed
next
  case (2 pattern v)
  show ?case
  proof (cases v)
    case Nil
    then show ?thesis
      by (subst match_bracket.simps) (auto simp: glob_lang_simps split: option.split)
  next
    case (Cons current v')
    show ?thesis
    proof (cases "position (\<lambda>b. b = 93) pattern")
      case None
      show ?thesis using 2(1) [OF Cons None] Cons by (subst match_bracket.simps) (auto simp: None glob_lang_simps)
    next
      case (Some e)
      show ?thesis using 2(2) [OF Cons Some] Cons by (subst match_bracket.simps) (auto simp: Some glob_lang_simps)
    qed
  qed
qed


text \<open>
  A closing bracket cannot be a member of a class: an expression that starts with it, which
  \<open>fnmatch(3)\<close> reads as a class with that byte, matches nothing.
\<close>

lemma bracket_first_never_matches: "\<not> matches_no_escape (''[]'' @ rest) v"
proof -
  have "utf8 (''[]'' @ rest) = 91 # 93 # utf8 rest" by (simp add: utf8_append utf8_Cons)
  then show ?thesis
    by (simp add: matches_no_escape_def matches_lang(1) bracket_matches_def class_negated_def glob_lang_simps)
qed

end
