(* ===== verification/EnableState.thy ===== *)
theory EnableState
  imports FileTree Glob
begin

text \<open>
  The installation of unit files, \<open>src/src/unit/enable_state.rs\<close>: enabling, disabling, masking, linking,
  presets, the default target and the queries of the installed state.  An operation takes the file tree
  and returns its result, an error or a value, with the tree it leaves behind; what was done before an
  error stays done, as in the source.
\<close>

section \<open>Results\<close>

datatype unit_file_error =
  InvalidName string | NotFound string | UnresolvableAlias string | DefaultTargetMasked | UnitMasked path
| UnitExists path "link_target option" | Io io_error

type_synonym 'a fsm = "tree \<Rightarrow> (unit_file_error + 'a) \<times> tree"

definition fs_bind :: "'a fsm \<Rightarrow> ('a \<Rightarrow> 'b fsm) \<Rightarrow> 'b fsm" where
  "fs_bind m f t = (case m t of (Inl e, t') \<Rightarrow> (Inl e, t') | (Inr x, t') \<Rightarrow> f x t')"

definition fs_ret :: "'a \<Rightarrow> 'a fsm" where
  "fs_ret x t = (Inr x, t)"

definition fs_fail :: "unit_file_error \<Rightarrow> 'a fsm" where
  "fs_fail e t = (Inl e, t)"

definition fs_read_only :: "(tree \<Rightarrow> unit_file_error + 'a) \<Rightarrow> 'a fsm" where
  "fs_read_only f t = (f t, t)"

definition fs_io :: "(tree \<Rightarrow> io_error option \<times> tree) \<Rightarrow> unit fsm" where
  "fs_io f t = (case f t of (None, t') \<Rightarrow> (Inr (), t') | (Some e, t') \<Rightarrow> (Inl (Io e), t'))"

fun fs_each :: "('a \<Rightarrow> 'b list fsm) \<Rightarrow> 'a list \<Rightarrow> 'b list fsm" where
  "fs_each f [] = fs_ret []"
| "fs_each f (x # xs) = fs_bind (f x) (\<lambda>ys. fs_bind (fs_each f xs) (\<lambda>zs. fs_ret (ys @ zs)))"

text \<open>A reported change: its kind, the path and the source of a link.\<close>

type_synonym change = "string \<times> string \<times> string"

definition symlinked :: "path \<Rightarrow> path \<Rightarrow> change" where
  "symlinked p source = (''symlink'', show_path p, show_path source)"

definition unlinked :: "path \<Rightarrow> change" where
  "unlinked p = (''unlink'', show_path p, [])"

section \<open>Names and lookups\<close>

definition valid_unit_file_name :: "string \<Rightarrow> bool" where
  "valid_unit_file_name name \<longleftrightarrow>
     name \<noteq> [] \<and> length (utf8 name) < 256
     \<and> (case str_rfind (CHR ''.'') name of
          None \<Rightarrow> False
        | Some i \<Rightarrow>
            (let pre = take i name
             in pre \<noteq> []
                \<and> drop (Suc i) name \<in> {''service'', ''socket'', ''timer'', ''path'', ''mount'', ''automount'',
                     ''swap'', ''target'', ''slice'', ''scope'', ''device''}
                \<and> list_all (\<lambda>c. is_ascii_alnum c
                     \<or> c \<in> {CHR '':'', CHR ''-'', CHR ''_'', CHR ''.'', CHR 0x5C, CHR ''@''}) pre
                \<and> hd pre \<noteq> CHR ''@''))"

fun lookup_unit_file :: "tree \<Rightarrow> string \<Rightarrow> path list \<Rightarrow> (path \<times> path) option" where
  "lookup_unit_file t name [] = None"
| "lookup_unit_file t name (dir # dirs) =
     (if lstat t (pjoin dir name) \<noteq> None then Some (pjoin dir name, dir) else lookup_unit_file t name dirs)"

datatype resolved = Resolved path | R_Masked | R_Dangling

definition MAX_SYMLINK_DEPTH :: nat where
  "MAX_SYMLINK_DEPTH = 40"

fun resolve_links :: "nat \<Rightarrow> tree \<Rightarrow> path \<Rightarrow> path \<Rightarrow> resolved" where
  "resolve_links 0 t rt p = R_Dangling"
| "resolve_links (Suc n) t rt p =
     (case lstat t p of
        None \<Rightarrow> R_Dangling
      | Some (Link l) \<Rightarrow>
          if l = Abs [''dev'', ''null''] then R_Masked
          else resolve_links n t rt (case l of Abs q \<Rightarrow> rt @ q | Rel q \<Rightarrow> butlast p @ q)
      | Some _ \<Rightarrow> Resolved p)"

definition resolve_unit_path :: "tree \<Rightarrow> path \<Rightarrow> path \<Rightarrow> resolved" where
  "resolve_unit_path t rt p = resolve_links MAX_SYMLINK_DEPTH t rt p"

definition is_in_unit_search_path :: "path \<Rightarrow> path list \<Rightarrow> bool" where
  "is_in_unit_search_path p dirs = list_ex (under p) dirs"

definition install_info :: "string \<Rightarrow> (string \<times> string) list" where
  "install_info contents =
     map (\<lambda>e. (re_key e, re_value e))
       (filter (\<lambda>e. re_section e = ''Install'' \<and> trim (re_value e) \<noteq> []
          \<and> re_key e \<in> {''WantedBy'', ''RequiredBy'', ''UpheldBy'', ''Alias'', ''Also''}) (parse_unit_text contents))"

definition read_contents :: "path \<Rightarrow> string fsm" where
  "read_contents p = fs_read_only (\<lambda>t. case read_file t p of Inl e \<Rightarrow> Inl (Io e) | Inr s \<Rightarrow> Inr s)"

section \<open>Links\<close>

definition absolute_target :: "path \<Rightarrow> link_target \<Rightarrow> path" where
  "absolute_target p l = (case l of Abs q \<Rightarrow> q | Rel q \<Rightarrow> butlast p @ q)"

definition symlink_targets_equivalent :: "path \<Rightarrow> link_target \<Rightarrow> path \<Rightarrow> path list \<Rightarrow> bool" where
  "symlink_targets_equivalent destination existing requested dirs =
     (let existing = absolute_target destination existing
      in existing = requested
         \<or> (leaf existing \<noteq> None \<and> leaf existing = leaf requested
            \<and> is_in_unit_search_path existing dirs \<and> is_in_unit_search_path requested dirs))"

definition replace_symlink :: "path \<Rightarrow> path \<Rightarrow> change list fsm" where
  "replace_symlink destination source =
     fs_bind (fs_io (remove_file destination)) (\<lambda>_.
     fs_bind (fs_io (make_symlink (Abs source) destination)) (\<lambda>_.
     fs_ret [unlinked destination, symlinked destination source]))"

definition create_install_symlink :: "path list \<Rightarrow> bool \<Rightarrow> path \<Rightarrow> path \<Rightarrow> change list fsm" where
  "create_install_symlink dirs force destination source =
     fs_bind (fs_io (create_dir_all (butlast destination))) (\<lambda>_ t.
       case make_symlink (Abs source) destination t of
         (None, t') \<Rightarrow> (Inr [symlinked destination source], t')
       | (Some e, t') \<Rightarrow>
           if e \<noteq> Io_AlreadyExists then (Inl (Io e), t')
           else
             (let target = read_link t' destination
              in if (case target of Some l \<Rightarrow> symlink_targets_equivalent destination l source dirs | None \<Rightarrow> False)
                 then (Inr [], t')
                 else if force \<and> target \<noteq> None then replace_symlink destination source t'
                 else (Inl (UnitExists destination target), t')))"

section \<open>Masks\<close>

definition null_link :: link_target where
  "null_link = Abs [''dev'', ''null'']"

definition mask_one :: "path \<Rightarrow> string \<Rightarrow> change list fsm" where
  "mask_one config name t =
     (if \<not> valid_unit_file_name name then (Inl (InvalidName name), t)
      else
        (let p = pjoin config name
         in if lstat t p = None then
              fs_bind (fs_io (make_symlink null_link p)) (\<lambda>_. fs_ret [symlinked p [''dev'', ''null'']]) t
            else if read_link t p = Some null_link then (Inr [], t)
            else (Inl (UnitExists p (read_link t p)), t)))"

definition mask_unit_files :: "path \<Rightarrow> string list \<Rightarrow> change list fsm" where
  "mask_unit_files config names =
     fs_bind (fs_io (create_dir_all config)) (\<lambda>_. fs_each (mask_one config) names)"

definition unmask_one :: "path \<Rightarrow> string \<Rightarrow> change list fsm" where
  "unmask_one config name t =
     (if \<not> valid_unit_file_name name then (Inl (InvalidName name), t)
      else
        (let p = pjoin config name
         in if read_link t p \<noteq> Some null_link then (Inr [], t)
            else fs_bind (fs_io (remove_file p)) (\<lambda>_. fs_ret [unlinked p]) t))"

definition unmask_unit_files :: "path \<Rightarrow> string list \<Rightarrow> change list fsm" where
  "unmask_unit_files config names = fs_each (unmask_one config) names"

section \<open>Enabling\<close>

text \<open>The name, the source and whether the source is outside the search path, for a requested path.\<close>

definition requested_path :: "path list \<Rightarrow> string \<Rightarrow> tree \<Rightarrow> unit_file_error + (string \<times> path)" where
  "requested_path dirs requested t =
     (let p = path_of requested
      in case leaf p of
           None \<Rightarrow> Inl (InvalidName requested)
         | Some name \<Rightarrow>
             if \<not> valid_unit_file_name name then Inl (InvalidName requested)
             else (case lstat t p of
               None \<Rightarrow> Inl (NotFound requested)
             | Some Dir \<Rightarrow> Inl (NotFound requested)
             | Some _ \<Rightarrow>
                 (case resolve_unit_path t [] p of
                    Resolved source \<Rightarrow> Inr (name, source)
                  | R_Masked \<Rightarrow> Inl (UnitMasked p)
                  | R_Dangling \<Rightarrow> Inl (NotFound requested))))"

definition requested_name :: "path list \<Rightarrow> string \<Rightarrow> tree \<Rightarrow> unit_file_error + path" where
  "requested_name dirs name t =
     (if \<not> valid_unit_file_name name then Inl (InvalidName name)
      else case lookup_unit_file t name dirs of
        None \<Rightarrow> Inl (NotFound name)
      | Some (candidate, _) \<Rightarrow>
          (case resolve_unit_path t [] candidate of
             Resolved source \<Rightarrow> Inr source
           | R_Masked \<Rightarrow> Inl (UnitMasked candidate)
           | R_Dangling \<Rightarrow> Inl (NotFound name)))"

definition words_of :: "string \<Rightarrow> (string \<times> string) list \<Rightarrow> string list" where
  "words_of key install = concat (map (\<lambda>(k, v). if k = key then split_whitespace v else []) install)"

definition install_alias :: "path list \<Rightarrow> bool \<Rightarrow> path \<Rightarrow> path \<Rightarrow> string \<Rightarrow> change list fsm" where
  "install_alias dirs force config source alias =
     (if \<not> valid_unit_file_name alias then fs_fail (InvalidName alias)
      else create_install_symlink dirs force (pjoin config alias) source)"

definition relationship :: "string \<Rightarrow> string option" where
  "relationship key =
     (if key = ''WantedBy'' then Some ''wants''
      else if key = ''RequiredBy'' then Some ''requires''
      else if key = ''UpheldBy'' then Some ''upholds''
      else None)"

definition install_relation :: "path list \<Rightarrow> path \<Rightarrow> path \<Rightarrow> string \<Rightarrow> string \<times> string \<Rightarrow> change list fsm" where
  "install_relation dirs config source name rel_target =
     (let (rel, target) = rel_target
      in if \<not> valid_unit_file_name target then fs_fail (InvalidName target)
         else create_install_symlink dirs True (pjoin (pjoin config (target @ ''.'' @ rel)) name) source)"

definition relation_words :: "(string \<times> string) list \<Rightarrow> (string \<times> string) list" where
  "relation_words install =
     concat (map (\<lambda>(k, v). case relationship k of
                             Some rel \<Rightarrow> map (Pair rel) (split_whitespace v)
                           | None \<Rightarrow> []) install)"

text \<open>One unit: the links of its \<open>[Install]\<close> section, and the units it brings along.\<close>

definition enable_unit ::
  "path list \<Rightarrow> bool \<Rightarrow> path \<Rightarrow> string \<Rightarrow> path \<Rightarrow> bool \<Rightarrow> (bool \<times> change list \<times> string list) fsm" where
  "enable_unit dirs force config name source outside =
     fs_bind (read_contents source) (\<lambda>contents.
       (let install = install_info contents;
            destination = pjoin config name;
            link_source = (if outside then destination else source)
        in if install = [] then fs_ret (False, [], [])
           else
             fs_bind (if outside then create_install_symlink dirs force destination source else fs_ret []) (\<lambda>c1.
             fs_bind (fs_each (install_alias dirs force config link_source) (words_of ''Alias'' install)) (\<lambda>c2.
             fs_bind (fs_each (install_relation dirs config source name) (relation_words install)) (\<lambda>c3.
             fs_ret (True, c1 @ c2 @ c3, words_of ''Also'' install))))))"

text \<open>One turn of the loop: nothing for a unit that was seen before.\<close>

definition enable_step ::
  "path list \<Rightarrow> bool \<Rightarrow> path \<Rightarrow> string \<Rightarrow> string list \<Rightarrow> ((bool \<times> change list \<times> string list) \<times> string list) fsm" where
  "enable_step dirs force config requested seen t =
     (if starts_with requested ''/'' then
        (case requested_path dirs requested t of
           Inl e \<Rightarrow> (Inl e, t)
         | Inr (name, source) \<Rightarrow>
             if name \<in> set seen then (Inr ((False, [], []), seen), t)
             else fs_bind (enable_unit dirs force config name source (\<not> is_in_unit_search_path source dirs))
                    (\<lambda>r. fs_ret (r, name # seen)) t)
      else if requested \<in> set seen then (Inr ((False, [], []), seen), t)
      else case requested_name dirs requested t of
        Inl e \<Rightarrow> (Inl e, t)
      | Inr source \<Rightarrow>
          fs_bind (enable_unit dirs force config requested source False) (\<lambda>r. fs_ret (r, requested # seen)) t)"

partial_function (option) enable_loop ::
  "path list \<Rightarrow> bool \<Rightarrow> path \<Rightarrow> string list \<Rightarrow> string list \<Rightarrow> bool \<times> change list \<Rightarrow> tree
   \<Rightarrow> ((unit_file_error + bool \<times> change list) \<times> tree) option" where
  "enable_loop dirs force config pending seen acc t =
     (case pending of
        [] \<Rightarrow> Some (Inr acc, t)
      | requested # rest \<Rightarrow>
          (case enable_step dirs force config requested seen t of
             (Inl e, t') \<Rightarrow> Some (Inl e, t')
           | (Inr ((carries, changes, also), seen'), t') \<Rightarrow>
               enable_loop dirs force config (rest @ also) seen'
                 (fst acc \<or> carries, snd acc @ changes) t'))"

definition enable_unit_files ::
  "path list \<Rightarrow> bool \<Rightarrow> path \<Rightarrow> string list \<Rightarrow> tree \<Rightarrow> ((unit_file_error + bool \<times> change list) \<times> tree) option" where
  "enable_unit_files dirs force config names t =
     (case create_dir_all config t of
        (Some e, t') \<Rightarrow> Some (Inl (Io e), t')
      | (None, t') \<Rightarrow> enable_loop dirs force config names [] (False, []) t')"

section \<open>Disabling\<close>

text \<open>The units to disable, with their sources: the named ones and what they bring along.\<close>

definition track_step ::
  "path list \<Rightarrow> tree \<Rightarrow> string \<Rightarrow> (string \<times> path) list \<Rightarrow> unit_file_error + (change list \<times> (string \<times> path) list \<times> string list)" where
  "track_step dirs t name tracked =
     (if \<not> valid_unit_file_name name then Inl (InvalidName name)
      else case lookup_unit_file t name dirs of
        None \<Rightarrow> Inl (NotFound name)
      | Some (candidate, _) \<Rightarrow>
          (case resolve_unit_path t [] candidate of
             R_Dangling \<Rightarrow> Inl (NotFound name)
           | R_Masked \<Rightarrow> Inr ([(''masked'', show_path candidate, [])], tracked, [])
           | Resolved source \<Rightarrow>
               if (name, source) \<in> set tracked then Inr ([], tracked, [])
               else Inr ([], (name, source) # tracked,
                      case read_file t source of Inl _ \<Rightarrow> [] | Inr s \<Rightarrow> words_of ''Also'' (install_info s))))"

partial_function (option) track_loop ::
  "path list \<Rightarrow> tree \<Rightarrow> string list \<Rightarrow> (string \<times> path) list \<Rightarrow> change list
   \<Rightarrow> (unit_file_error + (string \<times> path) list \<times> change list) option" where
  "track_loop dirs t pending tracked changes =
     (case pending of
        [] \<Rightarrow> Some (Inr (tracked, changes))
      | name # rest \<Rightarrow>
          (case track_step dirs t name tracked of
             Inl e \<Rightarrow> Some (Inl e)
           | Inr (reported, tracked', also) \<Rightarrow> track_loop dirs t (rest @ also) tracked' (changes @ reported)))"

definition relation_extensions :: "string set" where
  "relation_extensions = {''wants'', ''requires'', ''upholds''}"

definition file_extension :: "string \<Rightarrow> string option" where
  "file_extension name =
     (case str_rfind (CHR ''.'') name of
        None \<Rightarrow> None
      | Some i \<Rightarrow> if i = 0 then None else Some (drop (Suc i) name))"

definition is_relation_dir :: "string \<Rightarrow> bool" where
  "is_relation_dir name =
     (case file_extension name of Some e \<Rightarrow> e \<in> relation_extensions | None \<Rightarrow> False)"

text \<open>The links below a control directory: those in relationship directories and the direct ones.\<close>

definition relationship_links :: "tree \<Rightarrow> path \<Rightarrow> path list" where
  "relationship_links t dir =
     concat (map (\<lambda>name. if lstat t (dir @ [name]) = Some Dir \<and> is_relation_dir name
                         then filter (is_symlink t) (map (\<lambda>c. dir @ [name, c]) (children t (dir @ [name])))
                         else []) (children t dir))"

definition direct_links :: "tree \<Rightarrow> path \<Rightarrow> path list" where
  "direct_links t dir = filter (is_symlink t) (map (\<lambda>name. dir @ [name]) (children t dir))"

definition link_tracked :: "tree \<Rightarrow> (string \<times> path) list \<Rightarrow> path \<Rightarrow> bool" where
  "link_tracked t tracked p =
     (case read_link t p of
        None \<Rightarrow> False
      | Some l \<Rightarrow>
          (let target = absolute_target p l
           in list_ex (\<lambda>(name, source). target = source \<or> leaf target = Some name \<or> leaf p = Some name) tracked))"

fun remove_empty_parents :: "nat \<Rightarrow> path \<Rightarrow> path \<Rightarrow> tree \<Rightarrow> tree" where
  "remove_empty_parents 0 rt p t = t"
| "remove_empty_parents (Suc n) rt p t =
     (if p = rt \<or> \<not> under p rt then t
      else case remove_dir p t of
        (None, t') \<Rightarrow> remove_empty_parents n rt (butlast p) t'
      | (Some _, t') \<Rightarrow> t')"

definition disable_link :: "path \<Rightarrow> (string \<times> path) list \<Rightarrow> path \<Rightarrow> change list fsm" where
  "disable_link config tracked p t =
     (if read_link t p = None then (Inl (Io Io_Other), t)
      else if \<not> link_tracked t tracked p then (Inr [], t)
      else case remove_file p t of
        (Some e, t') \<Rightarrow> (Inl (Io e), t')
      | (None, t') \<Rightarrow> (Inr [unlinked p], remove_empty_parents (length p) config (butlast p) t'))"

definition disable_links :: "path \<Rightarrow> (string \<times> path) list \<Rightarrow> change list fsm" where
  "disable_links config tracked t =
     (case read_dir t config of
        Inl Io_NotFound \<Rightarrow> (Inr [], t)
      | Inl e \<Rightarrow> (Inl (Io e), t)
      | Inr _ \<Rightarrow> fs_each (disable_link config tracked)
                  (sort (relationship_links t config) @ sort (direct_links t config)) t)"

definition disable_unit_files ::
  "path list \<Rightarrow> path \<Rightarrow> string list \<Rightarrow> tree \<Rightarrow> ((unit_file_error + change list) \<times> tree) option" where
  "disable_unit_files dirs config names t =
     map_option (\<lambda>r. case r of
         Inl e \<Rightarrow> (Inl e, t)
       | Inr (tracked, changes) \<Rightarrow> fs_bind (disable_links config tracked) (\<lambda>reported. fs_ret (changes @ reported)) t)
       (track_loop dirs t names [] [])"

section \<open>Presets\<close>

datatype preset_mode = Full | EnableOnly | DisableOnly

definition preset_mode_parse :: "string \<Rightarrow> preset_mode option" where
  "preset_mode_parse v =
     (if v = [] \<or> v = ''full'' then Some Full
      else if v = ''enable-only'' then Some EnableOnly
      else if v = ''disable-only'' then Some DisableOnly
      else None)"

datatype preset_action = Preset_Enable | Preset_Disable | Preset_Ignore

record preset_rule =
  pr_action :: preset_action
  pr_pattern :: string
  pr_instances :: "string list"

definition split_template :: "string \<Rightarrow> (string \<times> string) option" where
  "split_template s =
     (case List.find (\<lambda>i. drop i s \<noteq> [] \<and> starts_with (drop i s) ''@.'') [0..<length s] of
        None \<Rightarrow> None
      | Some i \<Rightarrow> Some (take i s, drop (i + 2) s))"

definition preset_rule_matches :: "preset_rule \<Rightarrow> string \<Rightarrow> bool" where
  "preset_rule_matches rule name \<longleftrightarrow>
     matches_no_escape (pr_pattern rule) name
     \<or> (pr_instances rule \<noteq> []
        \<and> (case (split_template (pr_pattern rule), split_once (CHR ''@'') name) of
             (Some (template, suff), Some (pre, rest)) \<Rightarrow>
               pre = template
               \<and> (case strip_suffix rest (''.'' @ suff) of
                    Some inst \<Rightarrow> inst \<in> set (pr_instances rule)
                  | None \<Rightarrow> False)
           | _ \<Rightarrow> False))"

definition preset_action_for :: "string \<Rightarrow> preset_rule list \<Rightarrow> preset_action" where
  "preset_action_for name rules =
     (case List.find (\<lambda>r. preset_rule_matches r name) rules of Some r \<Rightarrow> pr_action r | None \<Rightarrow> Preset_Enable)"

definition preset_line :: "string \<Rightarrow> preset_rule list" where
  "preset_line line =
     (let line = trim line
      in if line = [] \<or> is_comment line then []
         else case split_whitespace line of
           action # pattern # instances \<Rightarrow>
             (let rule = (\<lambda>a. [\<lparr> pr_action = a, pr_pattern = pattern, pr_instances = instances \<rparr>])
              in if action = ''enable'' then rule Preset_Enable
                 else if action = ''disable'' then rule Preset_Disable
                 else if action = ''ignore'' then rule Preset_Ignore
                 else [])
         | _ \<Rightarrow> [])"

definition parse_preset :: "string \<Rightarrow> preset_rule list" where
  "parse_preset contents = concat (map preset_line (str_lines contents))"

text \<open>A file of an earlier directory hides files of the same name in later ones; files apply in the order of their names.\<close>

definition insert_new :: "string \<Rightarrow> 'a \<Rightarrow> (string \<times> 'a) list \<Rightarrow> (string \<times> 'a) list" where
  "insert_new k v m = (if k \<in> set (map fst m) then m else insort_key fst (k, v) m)"

definition preset_files_in :: "tree \<Rightarrow> path \<Rightarrow> (string \<times> path) list \<Rightarrow> unit_file_error + (string \<times> path) list" where
  "preset_files_in t dir m =
     (case read_dir t dir of
        Inl Io_NotFound \<Rightarrow> Inr m
      | Inl e \<Rightarrow> Inl (Io e)
      | Inr names \<Rightarrow>
          Inr (fold (\<lambda>name m. if lstat t (dir @ [name]) \<noteq> Some Dir \<and> file_extension name = Some ''preset''
                              then insert_new name (dir @ [name]) m else m) names m))"

fun preset_files :: "tree \<Rightarrow> path list \<Rightarrow> (string \<times> path) list \<Rightarrow> unit_file_error + (string \<times> path) list" where
  "preset_files t [] m = Inr m"
| "preset_files t (dir # dirs) m =
     (case preset_files_in t dir m of Inl e \<Rightarrow> Inl e | Inr m' \<Rightarrow> preset_files t dirs m')"

fun rules_of_files :: "tree \<Rightarrow> path list \<Rightarrow> unit_file_error + preset_rule list" where
  "rules_of_files t [] = Inr []"
| "rules_of_files t (p # ps) =
     (case read_file t p of
        Inl e \<Rightarrow> Inl (Io e)
      | Inr s \<Rightarrow> (case rules_of_files t ps of Inl e \<Rightarrow> Inl e | Inr rs \<Rightarrow> Inr (parse_preset s @ rs)))"

definition read_preset_rules :: "tree \<Rightarrow> path list \<Rightarrow> unit_file_error + preset_rule list" where
  "read_preset_rules t dirs =
     (case preset_files t dirs [] of Inl e \<Rightarrow> Inl e | Inr m \<Rightarrow> rules_of_files t (map snd m))"

definition visible_names_in :: "tree \<Rightarrow> path \<Rightarrow> string list \<Rightarrow> unit_file_error + string list" where
  "visible_names_in t dir acc =
     (case read_dir t dir of
        Inl Io_NotFound \<Rightarrow> Inr acc
      | Inl e \<Rightarrow> Inl (Io e)
      | Inr names \<Rightarrow>
          Inr (fold (\<lambda>name acc. if lstat t (dir @ [name]) \<noteq> Some Dir \<and> valid_unit_file_name name \<and> name \<notin> set acc
                               then insort name acc else acc) names acc))"

fun visible_unit_file_names :: "tree \<Rightarrow> path list \<Rightarrow> string list \<Rightarrow> unit_file_error + string list" where
  "visible_unit_file_names t [] acc = Inr acc"
| "visible_unit_file_names t (dir # dirs) acc =
     (case visible_names_in t dir acc of Inl e \<Rightarrow> Inl e | Inr acc' \<Rightarrow> visible_unit_file_names t dirs acc')"

record preset_selection =
  sel_enable :: "string list"
  sel_disable :: "string list"
  carries_enable :: bool
  carries_disable :: bool

definition push_unique :: "string list \<Rightarrow> string \<Rightarrow> string list" where
  "push_unique names name = (if name \<in> set names then names else names @ [name])"

definition select_one ::
  "path list \<Rightarrow> preset_rule list \<Rightarrow> tree \<Rightarrow> string \<Rightarrow> preset_selection \<Rightarrow> unit_file_error + preset_selection" where
  "select_one dirs rules t name sel =
     (if \<not> valid_unit_file_name name then Inl (InvalidName name)
      else case lookup_unit_file t name dirs of
        None \<Rightarrow> Inl (NotFound name)
      | Some (candidate, _) \<Rightarrow>
          (case resolve_unit_path t [] candidate of
             R_Masked \<Rightarrow> Inl (UnitMasked candidate)
           | R_Dangling \<Rightarrow> Inl (UnresolvableAlias name)
           | Resolved source \<Rightarrow>
               (case leaf source of
                  None \<Rightarrow> Inl (InvalidName name)
                | Some canonical \<Rightarrow>
                    if canonical \<noteq> name then Inr sel
                    else case read_file t source of
                      Inl e \<Rightarrow> Inl (Io e)
                    | Inr s \<Rightarrow>
                        (let info = install_info s \<noteq> []
                         in Inr (case preset_action_for name rules of
                              Preset_Enable \<Rightarrow> sel\<lparr> carries_enable := carries_enable sel \<or> info,
                                                  sel_enable := push_unique (sel_enable sel) name \<rparr>
                            | Preset_Disable \<Rightarrow> sel\<lparr> carries_disable := carries_disable sel \<or> info,
                                                   sel_disable := push_unique (sel_disable sel) name \<rparr>
                            | Preset_Ignore \<Rightarrow> sel)))))"

fun select_preset_units ::
  "path list \<Rightarrow> preset_rule list \<Rightarrow> tree \<Rightarrow> string list \<Rightarrow> preset_selection \<Rightarrow> unit_file_error + preset_selection" where
  "select_preset_units dirs rules t [] sel = Inr sel"
| "select_preset_units dirs rules t (name # names) sel =
     (case select_one dirs rules t name sel of
        Inl e \<Rightarrow> Inl e
      | Inr sel' \<Rightarrow> select_preset_units dirs rules t names sel')"

definition empty_selection :: preset_selection where
  "empty_selection = \<lparr> sel_enable = [], sel_disable = [], carries_enable = False, carries_disable = False \<rparr>"

definition preset_carries :: "preset_mode \<Rightarrow> preset_selection \<Rightarrow> bool" where
  "preset_carries mode sel =
     (case mode of
        Full \<Rightarrow> carries_enable sel \<or> carries_disable sel
      | EnableOnly \<Rightarrow> carries_enable sel
      | DisableOnly \<Rightarrow> carries_disable sel)"

definition preset_disable ::
  "preset_mode \<Rightarrow> path list \<Rightarrow> path \<Rightarrow> string list \<Rightarrow> tree \<Rightarrow> ((unit_file_error + change list) \<times> tree) option" where
  "preset_disable mode dirs config names t =
     (if mode = EnableOnly then Some (Inr [], t) else disable_unit_files dirs config names t)"

definition preset_enable ::
  "preset_mode \<Rightarrow> path list \<Rightarrow> bool \<Rightarrow> path \<Rightarrow> string list \<Rightarrow> tree \<Rightarrow> ((unit_file_error + bool \<times> change list) \<times> tree) option" where
  "preset_enable mode dirs force config names t =
     (if mode = DisableOnly then Some (Inr (False, []), t) else enable_unit_files dirs force config names t)"

definition apply_selection ::
  "preset_mode \<Rightarrow> bool \<Rightarrow> path \<Rightarrow> path list \<Rightarrow> preset_selection \<Rightarrow> tree
   \<Rightarrow> ((unit_file_error + bool \<times> change list) \<times> tree) option" where
  "apply_selection mode force config dirs sel t =
     Option.bind (preset_disable mode dirs config (sel_disable sel) t) (\<lambda>r.
       case r of
         (Inl e, t') \<Rightarrow> Some (Inl e, t')
       | (Inr c1, t') \<Rightarrow>
           Option.bind (preset_enable mode dirs force config (sel_enable sel) t') (\<lambda>r.
             case r of
               (Inl e, t'') \<Rightarrow> Some (Inl e, t'')
             | (Inr (_, c2), t'') \<Rightarrow> Some (Inr (preset_carries mode sel, c1 @ c2), t'')))"

definition preset_unit_files ::
  "preset_mode \<Rightarrow> bool \<Rightarrow> path \<Rightarrow> path list \<Rightarrow> path list \<Rightarrow> string list \<Rightarrow> tree
   \<Rightarrow> ((unit_file_error + bool \<times> change list) \<times> tree) option" where
  "preset_unit_files mode force config dirs preset_dirs names t =
     (case read_preset_rules t preset_dirs of
        Inl e \<Rightarrow> Some (Inl e, t)
      | Inr rules \<Rightarrow>
          (case select_preset_units dirs rules t names empty_selection of
             Inl e \<Rightarrow> Some (Inl e, t)
           | Inr sel \<Rightarrow> apply_selection mode force config dirs sel t))"

definition preset_all_unit_files ::
  "preset_mode \<Rightarrow> bool \<Rightarrow> path \<Rightarrow> path list \<Rightarrow> path list \<Rightarrow> tree \<Rightarrow> ((unit_file_error + change list) \<times> tree) option" where
  "preset_all_unit_files mode force config dirs preset_dirs t =
     (case visible_unit_file_names t dirs [] of
        Inl e \<Rightarrow> Some (Inl e, t)
      | Inr names \<Rightarrow>
          map_option (\<lambda>(r, t'). (case r of Inl e \<Rightarrow> Inl e | Inr (_, c) \<Rightarrow> Inr c, t'))
            (preset_unit_files mode force config dirs preset_dirs names t))"

section \<open>Links and dependencies\<close>

definition link_one :: "path list \<Rightarrow> bool \<Rightarrow> path \<Rightarrow> string \<Rightarrow> change list fsm" where
  "link_one dirs force config requested t =
     (if \<not> starts_with requested ''/'' then (Inl (InvalidName requested), t)
      else case requested_path dirs requested t of
        Inl e \<Rightarrow> (Inl e, t)
      | Inr (name, source) \<Rightarrow>
          if is_in_unit_search_path source dirs then (Inr [], t)
          else create_install_symlink dirs force (pjoin config name) source t)"

definition link_unit_files :: "path list \<Rightarrow> bool \<Rightarrow> path \<Rightarrow> string list \<Rightarrow> change list fsm" where
  "link_unit_files dirs force config names =
     fs_bind (fs_io (create_dir_all config)) (\<lambda>_. fs_each (link_one dirs force config) names)"

definition dependency_path :: "path list \<Rightarrow> tree \<Rightarrow> string \<Rightarrow> unit_file_error + path" where
  "dependency_path dirs t name =
     (if starts_with name ''/'' then
        (case lstat t (path_of name) of
           None \<Rightarrow> Inl (NotFound name)
         | Some Dir \<Rightarrow> Inl (NotFound name)
         | Some _ \<Rightarrow> Inr (path_of name))
      else if \<not> valid_unit_file_name name then Inl (InvalidName name)
      else case lookup_unit_file t name dirs of
        None \<Rightarrow> Inl (NotFound name)
      | Some (p, _) \<Rightarrow> Inr p)"

definition valid_leaf :: "path \<Rightarrow> string option" where
  "valid_leaf p = (case leaf p of Some n \<Rightarrow> if valid_unit_file_name n then Some n else None | None \<Rightarrow> None)"

definition resolve_dependency_unit_file :: "path list \<Rightarrow> tree \<Rightarrow> string \<Rightarrow> unit_file_error + (string \<times> path)" where
  "resolve_dependency_unit_file dirs t name =
     (case dependency_path dirs t name of
        Inl e \<Rightarrow> Inl e
      | Inr p \<Rightarrow>
          (case valid_leaf p of
             None \<Rightarrow> Inl (InvalidName name)
           | Some own \<Rightarrow>
               (case resolve_unit_path t [] p of
                  R_Masked \<Rightarrow> Inl (UnitMasked p)
                | R_Dangling \<Rightarrow> Inl (if is_symlink t p then UnresolvableAlias name else NotFound name)
                | Resolved source \<Rightarrow>
                    (case lstat t source of
                       Some (Reg _) \<Rightarrow>
                         (case valid_leaf source of
                            None \<Rightarrow> Inl (InvalidName name)
                          | Some n \<Rightarrow> Inr (if starts_with name ''/'' then own else n, source))
                     | _ \<Rightarrow> Inl (NotFound name)))))"

fun resolve_dependencies :: "path list \<Rightarrow> tree \<Rightarrow> string list \<Rightarrow> unit_file_error + (string \<times> path) list" where
  "resolve_dependencies dirs t [] = Inr []"
| "resolve_dependencies dirs t (name # names) =
     (case resolve_dependency_unit_file dirs t name of
        Inl e \<Rightarrow> Inl e
      | Inr x \<Rightarrow> (case resolve_dependencies dirs t names of Inl e \<Rightarrow> Inl e | Inr xs \<Rightarrow> Inr (x # xs)))"

definition add_dependency_link ::
  "path list \<Rightarrow> bool \<Rightarrow> path \<Rightarrow> string \<Rightarrow> string \<times> path \<Rightarrow> change list fsm" where
  "add_dependency_link dirs force config rel_dir unit_source =
     (let (name, source) = unit_source
      in fs_bind (if is_in_unit_search_path source dirs then fs_ret []
                  else create_install_symlink dirs force (pjoin config name) source) (\<lambda>c1.
         fs_bind (create_install_symlink dirs True (pjoin (pjoin config rel_dir) name) source) (\<lambda>c2.
         fs_ret (c1 @ c2))))"

definition add_dependency_unit_files ::
  "path list \<Rightarrow> bool \<Rightarrow> bool \<Rightarrow> path \<Rightarrow> string list \<Rightarrow> string \<Rightarrow> change list fsm" where
  "add_dependency_unit_files dirs requires force config names target t =
     (case resolve_dependency_unit_file dirs t target of
        Inl e \<Rightarrow> (Inl e, t)
      | Inr (target_name, _) \<Rightarrow>
          (case resolve_dependencies dirs t names of
             Inl e \<Rightarrow> (Inl e, t)
           | Inr units \<Rightarrow>
               fs_each (add_dependency_link dirs force config
                 (target_name @ (if requires then ''.requires'' else ''.wants''))) units t))"

section \<open>The default target\<close>

definition set_default_link :: "bool \<Rightarrow> path \<Rightarrow> path \<Rightarrow> change list fsm" where
  "set_default_link force config source t =
     (let destination = pjoin config ''default.target'';
          link = fs_bind (fs_io (make_symlink (Abs source) destination)) (\<lambda>_. fs_ret [symlinked destination source])
      in if lstat t destination = None then link t
         else if force then fs_bind (fs_io (remove_file destination)) (\<lambda>_. link) t
         else if read_link t destination = Some (Abs source) then (Inr [], t)
         else (Inl (UnitExists destination (read_link t destination)), t))"

definition set_default_target_in_search ::
  "path list \<Rightarrow> path \<Rightarrow> path \<Rightarrow> bool \<Rightarrow> string \<Rightarrow> change list fsm" where
  "set_default_target_in_search dirs config rt force name t =
     (if \<not> valid_unit_file_name name \<or> \<not> ends_with name ''.target'' \<or> name = ''default.target''
      then (Inl (InvalidName name), t)
      else case lookup_unit_file t name dirs of
        None \<Rightarrow> (Inl (NotFound name), t)
      | Some (source, _) \<Rightarrow>
          (case resolve_unit_path t rt source of
             Resolved _ \<Rightarrow>
               fs_bind (fs_io (create_dir_all config)) (\<lambda>_. set_default_link force config source) t
           | _ \<Rightarrow> (Inl (NotFound name), t)))"

definition rooted_unit_search_dirs :: "path \<Rightarrow> path list" where
  "rooted_unit_search_dirs rt =
     map (\<lambda>s. rt @ path_of s)
       [''etc/systemd/system.control'', ''run/systemd/system.control'', ''run/systemd/transient'',
        ''run/systemd/generator.early'', ''etc/systemd/system'', ''etc/systemd/system.attached'',
        ''run/systemd/system'', ''run/systemd/system.attached'', ''run/systemd/generator'',
        ''usr/local/lib/systemd/system'', ''usr/lib/systemd/system'', ''lib/systemd/system'',
        ''run/systemd/generator.late'']"

definition set_root_default_target :: "path \<Rightarrow> bool \<Rightarrow> string \<Rightarrow> change list fsm" where
  "set_root_default_target rt force name =
     set_default_target_in_search (rooted_unit_search_dirs rt) (rt @ path_of ''etc/systemd/system'') rt force name"

definition query_root_default_target :: "path \<Rightarrow> tree \<Rightarrow> unit_file_error + string" where
  "query_root_default_target rt t =
     (case lookup_unit_file t ''default.target'' (rooted_unit_search_dirs rt) of
        None \<Rightarrow> Inl (NotFound ''default.target'')
      | Some (candidate, _) \<Rightarrow>
          (case resolve_unit_path t rt candidate of
             R_Masked \<Rightarrow> Inl DefaultTargetMasked
           | R_Dangling \<Rightarrow> Inl (NotFound ''default.target'')
           | Resolved p \<Rightarrow> (case leaf p of Some n \<Rightarrow> Inr n | None \<Rightarrow> Inl (NotFound ''default.target''))))"

section \<open>The state of a unit file\<close>

datatype enable_state =
  Enabled | EnabledRuntime | Linked | LinkedRuntime | Alias | Masked_File | MaskedRuntime | Static | Indirect
| Disabled | Bad | Generated | Transient

fun enable_state_str :: "enable_state \<Rightarrow> string" where
  "enable_state_str Enabled = ''enabled''"
| "enable_state_str EnabledRuntime = ''enabled-runtime''"
| "enable_state_str Linked = ''linked''"
| "enable_state_str LinkedRuntime = ''linked-runtime''"
| "enable_state_str Alias = ''alias''"
| "enable_state_str Masked_File = ''masked''"
| "enable_state_str MaskedRuntime = ''masked-runtime''"
| "enable_state_str Static = ''static''"
| "enable_state_str Indirect = ''indirect''"
| "enable_state_str Disabled = ''disabled''"
| "enable_state_str Bad = ''bad''"
| "enable_state_str Generated = ''generated''"
| "enable_state_str Transient = ''transient''"

definition is_enabled_in :: "tree \<Rightarrow> string \<Rightarrow> path \<Rightarrow> bool" where
  "is_enabled_in t name base =
     (case read_dir t base of
        Inl _ \<Rightarrow> False
      | Inr entries \<Rightarrow>
          list_ex (\<lambda>d. (ends_with d ''.wants'' \<or> ends_with d ''.requires'') \<and> is_dir t (base @ [d])
                       \<and> lstat t (pjoin (base @ [d]) name) \<noteq> None) entries)"

definition install_keys :: "string \<Rightarrow> string list" where
  "install_keys contents =
     map re_key (filter (\<lambda>e. re_section e = ''Install'' \<and> trim (re_value e) \<noteq> []) (parse_unit_text contents))"

definition install_state :: "string \<Rightarrow> enable_state" where
  "install_state contents =
     (let keys = install_keys contents
      in if keys = [] then Static
         else if list_ex (\<lambda>k. k \<in> {''WantedBy'', ''RequiredBy'', ''UpheldBy'', ''Alias''}) keys then Disabled
         else if ''Also'' \<in> set keys then Indirect
         else Static)"

definition state_from_install_section :: "tree \<Rightarrow> path \<Rightarrow> unit_file_error + enable_state" where
  "state_from_install_section t p =
     (case read_file t p of
        Inl Io_NotFound \<Rightarrow> Inr Bad
      | Inl e \<Rightarrow> Inl (Io e)
      | Inr contents \<Rightarrow> Inr (install_state contents))"

definition relative_to :: "path \<Rightarrow> path \<Rightarrow> path option" where
  "relative_to p rt = (if under p rt then Some (drop (length rt) p) else None)"

definition is_runtime_path :: "path \<Rightarrow> path \<Rightarrow> bool" where
  "is_runtime_path p rt = (case relative_to p rt of Some r \<Rightarrow> under r [''run''] | None \<Rightarrow> False)"

definition is_generator_path :: "path \<Rightarrow> path \<Rightarrow> bool" where
  "is_generator_path p rt =
     (case relative_to p rt of
        Some r \<Rightarrow> r \<in> {[''run'', ''systemd'', ''generator.early''], [''run'', ''systemd'', ''generator''],
                      [''run'', ''systemd'', ''generator.late'']}
      | None \<Rightarrow> False)"

definition is_transient_path :: "path \<Rightarrow> path \<Rightarrow> bool" where
  "is_transient_path p rt = (relative_to p rt = Some [''run'', ''systemd'', ''transient''])"

definition state_for_unit_file ::
  "tree \<Rightarrow> path \<Rightarrow> path list \<Rightarrow> string \<Rightarrow> path \<Rightarrow> path \<Rightarrow> unit_file_error + enable_state" where
  "state_for_unit_file t rt dirs name candidate source_dir =
     (case resolve_unit_path t rt candidate of
        R_Masked \<Rightarrow> Inr (if is_runtime_path source_dir rt then MaskedRuntime else Masked_File)
      | R_Dangling \<Rightarrow> Inr Bad
      | Resolved p \<Rightarrow>
          if candidate \<noteq> p \<and> is_in_unit_search_path p dirs \<and> (case leaf p of Some n \<Rightarrow> n \<noteq> name | None \<Rightarrow> False)
          then Inr Alias
          else if candidate \<noteq> p \<and> \<not> is_in_unit_search_path p dirs
          then Inr (if is_runtime_path source_dir rt then LinkedRuntime else Linked)
          else if is_generator_path source_dir rt then Inr Generated
          else if is_transient_path source_dir rt then Inr Transient
          else if is_enabled_in t name (rt @ path_of ''etc/systemd/system'') then Inr Enabled
          else if is_enabled_in t name (rt @ path_of ''run/systemd/system'') then Inr EnabledRuntime
          else state_from_install_section t p)"

definition query_root_enable_state_checked :: "tree \<Rightarrow> path \<Rightarrow> string \<Rightarrow> unit_file_error + enable_state" where
  "query_root_enable_state_checked t rt name =
     (if \<not> valid_unit_file_name name then Inl (InvalidName name)
      else
        (let dirs = rooted_unit_search_dirs rt
         in case lookup_unit_file t name dirs of
              None \<Rightarrow> Inl (NotFound name)
            | Some (candidate, source_dir) \<Rightarrow> state_for_unit_file t rt dirs name candidate source_dir))"

text \<open>The unchecked query of \<open>rustctl\<close>: control directories first, then the relationship directories.\<close>

definition link_state :: "tree \<Rightarrow> path \<Rightarrow> string \<Rightarrow> enable_state \<Rightarrow> enable_state \<Rightarrow> enable_state option" where
  "link_state t dir name masked linked =
     (case read_link t (pjoin dir name) of
        Some (Abs p) \<Rightarrow> Some (if Abs p = null_link then masked else linked)
      | _ \<Rightarrow> None)"

definition query_root_enable_state :: "tree \<Rightarrow> path \<Rightarrow> string \<Rightarrow> enable_state" where
  "query_root_enable_state t rt name =
     (let etc = rt @ path_of ''etc/systemd/system'';
          run = rt @ path_of ''run/systemd/system'';
          dirs = [etc, run, rt @ path_of ''usr/lib/systemd/system'', rt @ path_of ''lib/systemd/system'']
      in case link_state t etc name Masked_File Linked of
           Some s \<Rightarrow> s
         | None \<Rightarrow>
             (case link_state t run name MaskedRuntime LinkedRuntime of
                Some s \<Rightarrow> s
              | None \<Rightarrow>
                  if is_enabled_in t name etc then Enabled
                  else if is_enabled_in t name run then EnabledRuntime
                  else case lookup_unit_file t name dirs of
                    None \<Rightarrow> Disabled
                  | Some (p, _) \<Rightarrow> (case read_file t p of Inl _ \<Rightarrow> Bad | Inr s \<Rightarrow> install_state s)))"

definition add_candidates :: "tree \<Rightarrow> path \<Rightarrow> (string \<times> path \<times> path) list \<Rightarrow> unit_file_error + (string \<times> path \<times> path) list" where
  "add_candidates t dir m =
     (case read_dir t dir of
        Inl Io_NotFound \<Rightarrow> Inr m
      | Inl e \<Rightarrow> Inl (Io e)
      | Inr names \<Rightarrow>
          Inr (fold (\<lambda>name m. if lstat t (dir @ [name]) \<noteq> Some Dir \<and> valid_unit_file_name name
                              then insert_new name (dir @ [name], dir) m else m) names m))"

fun unit_file_candidates ::
  "tree \<Rightarrow> path list \<Rightarrow> (string \<times> path \<times> path) list \<Rightarrow> unit_file_error + (string \<times> path \<times> path) list" where
  "unit_file_candidates t [] m = Inr m"
| "unit_file_candidates t (dir # dirs) m =
     (case add_candidates t dir m of Inl e \<Rightarrow> Inl e | Inr m' \<Rightarrow> unit_file_candidates t dirs m')"

fun unit_file_states ::
  "tree \<Rightarrow> path \<Rightarrow> path list \<Rightarrow> (string \<times> path \<times> path) list \<Rightarrow> unit_file_error + (path \<times> enable_state) list" where
  "unit_file_states t rt dirs [] = Inr []"
| "unit_file_states t rt dirs ((name, p, source_dir) # cs) =
     (case state_for_unit_file t rt dirs name p source_dir of
        Inl e \<Rightarrow> Inl e
      | Inr s \<Rightarrow> (case unit_file_states t rt dirs cs of Inl e \<Rightarrow> Inl e | Inr xs \<Rightarrow> Inr ((p, s) # xs)))"

definition list_root_unit_files :: "tree \<Rightarrow> path \<Rightarrow> unit_file_error + (path \<times> enable_state) list" where
  "list_root_unit_files t rt =
     (let dirs = rooted_unit_search_dirs rt
      in case unit_file_candidates t dirs [] of Inl e \<Rightarrow> Inl e | Inr cs \<Rightarrow> unit_file_states t rt dirs cs)"

end
