(* ===== verification/EnableFacts.thy ===== *)
theory EnableFacts
  imports EnableState
begin

text \<open>
  Properties of the installation of unit files: the loops over units that bring others along end, what
  enabling and disabling leave in the control directory, and masks.
\<close>

section \<open>Trees\<close>

definition clean :: "path \<Rightarrow> bool" where
  "clean p \<longleftrightarrow> (\<forall>c \<in> set p. c \<noteq> [] \<and> c \<noteq> ''.'' \<and> c \<noteq> ''..'')"

lemma clean_Nil [simp]: "clean []"
  by (simp add: clean_def)

lemma clean_append [simp]: "clean (p @ q) \<longleftrightarrow> clean p \<and> clean q"
  by (auto simp: clean_def)

lemma clean_Cons: "clean (c # p) \<longleftrightarrow> (c \<noteq> [] \<and> c \<noteq> ''.'' \<and> c \<noteq> ''..'') \<and> clean p"
  by (simp add: clean_def)

lemma clean_butlast [simp]: "clean p \<Longrightarrow> clean (butlast p)"
  unfolding clean_def using in_set_butlastD by metis

lemma norm_clean [simp]: "clean p \<Longrightarrow> norm_path p = p"
proof -
  have "simplify_components acc cs = acc @ cs" if "clean cs" for acc cs
    using that
  proof (induction acc cs rule: simplify_components.induct)
    case (2 acc c cs)
    then show ?case by (simp add: clean_Cons)
  qed simp
  then show "clean p \<Longrightarrow> norm_path p = p" by (simp add: norm_path_def)
qed

lemma clean_norm [simp]: "clean (norm_path p)"
proof -
  have "clean (simplify_components acc cs)" if "clean acc" for acc cs
    using that
  proof (induction acc cs rule: simplify_components.induct)
    case (2 acc c cs)
    show ?case
    proof (cases "c = [] \<or> c = ''.''")
      case True
      then show ?thesis using 2(1) [OF True] 2(4) by simp
    next
      case nd: False
      show ?thesis
      proof (cases "c = ''..''")
        case True
        then show ?thesis using 2(2) [OF nd True] 2(4) by simp
      next
        case False
        then have "clean (acc @ [c])" using nd 2(4) by (simp add: clean_Cons)
        then show ?thesis using 2(3) [OF nd False] nd False by simp
      qed
    qed
  qed simp
  then show ?thesis by (simp add: norm_path_def)
qed

lemma lstat_put:
  "lstat (put p n t) q = (case lstat t q of Some x \<Rightarrow> Some x | None \<Rightarrow> if norm_path q = norm_path p then Some n else None)"
  by (simp add: lstat_def put_def map_add_def split: option.split)

lemma map_of_filter_key: "map_of (filter (\<lambda>(q, _). q \<noteq> k) t) x = (if x = k then None else map_of t x)"
  by (induction t) auto

lemma lstat_delete:
  "lstat (delete p t) q = (if norm_path q = norm_path p \<and> norm_path q \<noteq> [] then None else lstat t q)"
  by (simp add: lstat_def delete_def map_of_filter_key)

section \<open>What operations maintain\<close>

text \<open>A relation between the tree before and after; what each step maintains, a sequence of steps does.\<close>

definition maintains :: "(tree \<Rightarrow> tree \<Rightarrow> bool) \<Rightarrow> 'a fsm \<Rightarrow> bool" where
  "maintains R m \<longleftrightarrow> (\<forall>t. R t (snd (m t)))"

lemma maintains_if: "(b \<Longrightarrow> maintains R x) \<Longrightarrow> (\<not> b \<Longrightarrow> maintains R y) \<Longrightarrow> maintains R (if b then x else y)"
  by simp

lemma fs_bind_InrE:
  assumes "fs_bind m f t = (Inr x, t')"
  obtains y t1 where "m t = (Inr y, t1)" "f y t1 = (Inr x, t')"
  using assms by (auto simp: fs_bind_def split: prod.splits sum.splits)

lemma relation_words_rel: "w \<in> set (relation_words install) \<Longrightarrow> fst w \<in> {''wants'', ''requires'', ''upholds''}"
proof -
  assume "w \<in> set (relation_words install)"
  then obtain k v where "w \<in> set (case relationship k of Some rel \<Rightarrow> map (Pair rel) (split_whitespace v) | None \<Rightarrow> [])"
    unfolding relation_words_def by auto
  then have "relationship k = Some (fst w)" by (cases "relationship k") auto
  then show ?thesis unfolding relationship_def
    by (cases "k = ''WantedBy''"; cases "k = ''RequiredBy''"; cases "k = ''UpheldBy''") simp_all
qed

lemma requested_path_valid: "requested_path dirs requested t = Inr (name, source) \<Longrightarrow> valid_unit_file_name name"
  by (auto simp: requested_path_def Let_def split: option.splits if_splits node.splits resolved.splits)

lemma requested_name_valid: "requested_name dirs name t = Inr source \<Longrightarrow> valid_unit_file_name name"
  by (auto simp: requested_name_def split: if_splits)

locale steady =
  fixes R :: "tree \<Rightarrow> tree \<Rightarrow> bool"
  assumes refl: "R t t"
    and trans: "R a b \<Longrightarrow> R b c \<Longrightarrow> R a c"
begin

lemma ret: "maintains R (fs_ret x)"
  by (simp add: maintains_def fs_ret_def refl)

lemma fail: "maintains R (fs_fail e)"
  by (simp add: maintains_def fs_fail_def refl)

lemma read_only: "maintains R (fs_read_only g)"
  by (simp add: maintains_def fs_read_only_def refl)

lemma bind:
  assumes m: "maintains R m" and f: "\<And>x. maintains R (f x)"
  shows "maintains R (fs_bind m f)"
  unfolding maintains_def
proof
  fix t
  obtain r t' where mt: "m t = (r, t')" by (cases "m t")
  have "R t t'" using m mt by (metis maintains_def snd_conv)
  moreover have "R t' (snd (f x t'))" for x using f by (simp add: maintains_def)
  ultimately show "R t (snd (fs_bind m f t))"
    using trans by (cases r) (auto simp: fs_bind_def mt)
qed

lemma each: "(\<And>x. x \<in> set xs \<Longrightarrow> maintains R (f x)) \<Longrightarrow> maintains R (fs_each f xs)"
  by (induction xs) (auto intro!: bind ret)

lemma io:
  assumes "\<And>t. R t (snd (f t))" shows "maintains R (fs_io f)"
  unfolding maintains_def
proof
  fix t
  show "R t (snd (fs_io f t))"
    using assms [of t] by (cases "f t"; cases "fst (f t)") (auto simp: fs_io_def)
qed

lemma create:
  assumes dirs: "\<And>t. R t (snd (create_dir_all (butlast p) t))"
    and link: "\<And>t. R t (snd (make_symlink (Abs source) p t))"
    and gone: "\<And>t. force \<Longrightarrow> maintains R (replace_symlink p source)"
  shows "maintains R (create_install_symlink dirs force p source)"
  unfolding create_install_symlink_def
proof (rule bind)
  show "maintains R (fs_io (create_dir_all (butlast p)))" by (rule io [OF dirs])
  fix x :: unit
  show "maintains R (\<lambda>t. case make_symlink (Abs source) p t of
      (None, t') \<Rightarrow> (Inr [symlinked p source], t')
    | (Some e, t') \<Rightarrow>
        if e \<noteq> Io_AlreadyExists then (Inl (Io e), t')
        else (let target = read_link t' p
              in if (case target of Some l \<Rightarrow> symlink_targets_equivalent p l source dirs | None \<Rightarrow> False)
                 then (Inr [], t')
                 else if force \<and> target \<noteq> None then replace_symlink p source t'
                 else (Inl (UnitExists p target), t')))"
    (is "maintains R ?m")
    unfolding maintains_def
  proof
    fix t
    obtain r t' where mt: "make_symlink (Abs source) p t = (r, t')" by (cases "make_symlink (Abs source) p t")
    have l: "R t t'" using link [of t] mt by simp
    have "R t (snd (replace_symlink p source t'))" if force
      using trans [OF l] gone [OF that] by (simp add: maintains_def)
    then show "R t (snd (?m t))" using l by (cases r) (simp_all add: mt Let_def)
  qed
qed

lemma unit:
  assumes direct: "\<And>source. maintains R (create_install_symlink dirs force (pjoin config name) source)"
    and al: "\<And>source al. valid_unit_file_name al \<Longrightarrow> maintains R (create_install_symlink dirs force (pjoin config al) source)"
    and rel: "\<And>source rel target. valid_unit_file_name target \<Longrightarrow> rel \<in> {''wants'', ''requires'', ''upholds''}
      \<Longrightarrow> maintains R (create_install_symlink dirs True (pjoin (pjoin config (target @ ''.'' @ rel)) name) source)"
  shows "maintains R (enable_unit dirs force config name source outside)"
proof -
  have a: "maintains R (install_alias dirs force config ls w)" for ls w
    unfolding install_alias_def by (intro maintains_if fail) (simp add: al)
  have r: "maintains R (install_relation dirs config source name w)" if "w \<in> set (relation_words install)" for w install
    unfolding install_relation_def case_prod_unfold Let_def
    by (intro maintains_if fail rel [OF _ relation_words_rel [OF that]]) simp
  show ?thesis
    unfolding enable_unit_def read_contents_def Let_def
    by (intro bind read_only maintains_if ret each direct a r)
qed

lemma step:
  assumes "\<And>name source outside. valid_unit_file_name name \<Longrightarrow> name \<notin> set seen
    \<Longrightarrow> maintains R (enable_unit dirs force config name source outside)"
  shows "maintains R (enable_step dirs force config requested seen)"
proof -
  have u: "R t (snd (fs_bind (enable_unit dirs force config name source outside) (\<lambda>r. fs_ret (r, ns)) t))"
    if "valid_unit_file_name name" "name \<notin> set seen" for t name source outside ns
  proof -
    have "maintains R (fs_bind (enable_unit dirs force config name source outside) (\<lambda>r. fs_ret (r, ns)))"
      by (intro bind ret assms that)
    then show ?thesis by (simp add: maintains_def)
  qed
  show ?thesis
    unfolding maintains_def
  proof
    fix t
    show "R t (snd (enable_step dirs force config requested seen t))"
    proof (cases "starts_with requested ''/''")
      case True
      then show ?thesis
        using u requested_path_valid [of dirs requested t]
        by (auto simp: enable_step_def refl split: sum.split)
    next
      case False
      then show ?thesis
        using u requested_name_valid [of dirs requested t]
        by (auto simp: enable_step_def refl split: sum.split)
    qed
  qed
qed

end

section \<open>The loops end\<close>

text \<open>The texts of the regular files; no operation adds one.\<close>

definition texts :: "tree \<Rightarrow> string set" where
  "texts t = {s. \<exists>p. (p, Reg s) \<in> set t}"

definition fewer_texts :: "tree \<Rightarrow> tree \<Rightarrow> bool" where
  "fewer_texts t t' \<longleftrightarrow> texts t' \<subseteq> texts t"

interpretation tx: steady fewer_texts
  by unfold_locales (auto simp: fewer_texts_def)

lemma finite_texts [simp]: "finite (texts t)"
proof -
  have "texts t \<subseteq> (\<lambda>x. case snd x of Reg s \<Rightarrow> s | _ \<Rightarrow> []) ` set t"
    by (force simp: texts_def image_iff)
  then show ?thesis using finite_subset by blast
qed

lemma texts_put [simp]: "texts (put p n t) = (case n of Reg s \<Rightarrow> insert s (texts t) | _ \<Rightarrow> texts t)"
  by (auto simp: texts_def put_def split: node.split)

lemma texts_delete: "texts (delete p t) \<subseteq> texts t"
  by (auto simp: texts_def delete_def)

lemma texts_mkdirs: "texts (snd (mkdirs pre cs t)) = texts t"
  by (induction pre cs t rule: mkdirs.induct) (auto split: option.split node.split)

lemma texts_ops:
  "fewer_texts t (snd (create_dir_all p t))" "fewer_texts t (snd (make_symlink l p t))"
  "fewer_texts t (snd (remove_file p t))"
  unfolding fewer_texts_def create_dir_all_def make_symlink_def remove_file_def
  using texts_delete [of p t] by (simp_all add: texts_mkdirs split: option.split node.split)

lemma texts_create: "maintains fewer_texts (create_install_symlink dirs force p source)"
proof (rule tx.create)
  show "maintains fewer_texts (replace_symlink p source)"
    unfolding replace_symlink_def by (intro tx.bind tx.io tx.ret texts_ops)
qed (rule texts_ops)+

lemma texts_enable_step: "maintains fewer_texts (enable_step dirs force config requested seen)"
  by (intro tx.step tx.unit texts_create)

text \<open>What a turn of the loop adds comes from the text of some file, and at most one name is new.\<close>

definition brought :: "tree \<Rightarrow> string set" where
  "brought t = (\<Union>s \<in> texts t. set (words_of ''Also'' (install_info s)))"

lemma read_file_text: "read_file t p = Inr s \<Longrightarrow> s \<in> texts t"
proof -
  assume "read_file t p = Inr s"
  then obtain q where "lstat t q = Some (Reg s)"
    by (auto simp: read_file_def split: option.splits node.splits)
  then have "(norm_path q, Reg s) \<in> set t" by (auto simp: lstat_def split: if_splits dest: map_of_SomeD)
  then show ?thesis by (auto simp: texts_def)
qed

lemma enable_unit_also:
  assumes "enable_unit dirs force config name source outside t = (Inr (c, ch, also), t')"
  shows "set also \<subseteq> brought t"
proof -
  obtain contents t1 where c: "read_contents source t = (Inr contents, t1)"
    and rest: "(let install = install_info contents; destination = pjoin config name;
            link_source = (if outside then destination else source)
        in if install = [] then fs_ret (False, [], [])
           else
             fs_bind (if outside then create_install_symlink dirs force destination source else fs_ret []) (\<lambda>c1.
             fs_bind (fs_each (install_alias dirs force config link_source) (words_of ''Alias'' install)) (\<lambda>c2.
             fs_bind (fs_each (install_relation dirs config source name) (relation_words install)) (\<lambda>c3.
             fs_ret (True, c1 @ c2 @ c3, words_of ''Also'' install))))) t1 = (Inr (c, ch, also), t')"
    using assms unfolding enable_unit_def by (elim fs_bind_InrE)
  have "contents \<in> texts t"
    using c read_file_text by (auto simp: read_contents_def fs_read_only_def split: sum.splits)
  moreover have "also = [] \<or> also = words_of ''Also'' (install_info contents)"
    using rest unfolding Let_def by (cases "install_info contents = []") (auto elim!: fs_bind_InrE simp: fs_ret_def)
  ultimately show ?thesis by (auto simp: brought_def)
qed

definition names_of :: "string \<Rightarrow> string set" where
  "names_of requested = insert requested (set_option (leaf (path_of requested)))"

lemma finite_names_of [simp]: "finite (names_of r)"
  by (cases "leaf (path_of r)") (simp_all add: names_of_def)

lemma finite_brought [simp]: "finite (brought t)"
  by (simp add: brought_def)

lemma enable_step_result:
  assumes "enable_step dirs force config requested seen t = (Inr ((c, ch, al), seen'), t')"
  shows "al = [] \<and> seen' = seen
    \<or> (\<exists>name \<in> names_of requested. name \<notin> set seen \<and> seen' = name # seen \<and> set al \<subseteq> brought t)"
proof -
  have u: "seen' = name # seen \<and> set al \<subseteq> brought t"
    if "fs_bind (enable_unit dirs force config name source outside) (\<lambda>r. fs_ret (r, name # seen)) t
        = (Inr ((c, ch, al), seen'), t')" for name source outside
    using that enable_unit_also by (elim fs_bind_InrE) (auto simp: fs_ret_def)
  show ?thesis
  proof (cases "starts_with requested ''/''")
    case True
    then obtain name source where r: "requested_path dirs requested t = Inr (name, source)"
      using assms by (auto simp: enable_step_def split: sum.splits prod.splits)
    then have n: "name \<in> names_of requested"
      by (auto simp: requested_path_def names_of_def Let_def split: option.splits if_splits node.splits resolved.splits)
    show ?thesis
    proof (cases "name \<in> set seen")
      case True
      then show ?thesis using assms r \<open>starts_with requested ''/''\<close> by (simp add: enable_step_def)
    next
      case False
      then show ?thesis using assms r \<open>starts_with requested ''/''\<close> u n by (simp add: enable_step_def) blast
    qed
  next
    case ns: False
    show ?thesis
    proof (cases "requested \<in> set seen")
      case True
      then show ?thesis using assms ns by (simp add: enable_step_def)
    next
      case False
      then obtain source where "requested_name dirs requested t = Inr source"
        using assms ns by (auto simp: enable_step_def split: sum.splits)
      then show ?thesis using assms ns False u [of requested source False] by (auto simp: enable_step_def names_of_def)
    qed
  qed
qed

lemma brought_mono: "fewer_texts t t' \<Longrightarrow> brought t' \<subseteq> brought t"
  by (auto simp: fewer_texts_def brought_def)

lemma enable_loop_ends:
  assumes "finite B" "brought t \<subseteq> B" "set pending \<subseteq> B"
  shows "\<exists>r. enable_loop dirs force config pending seen acc t = Some r"
  using assms(2,3)
proof (induction "(card ((\<Union>r \<in> B. names_of r) - set seen), length pending)" arbitrary: pending seen acc t
    rule: wf_induct_rule [OF wf_lex_prod [OF wf_less_than wf_less_than]])
  case (1 pending seen acc t)
  let ?F = "\<Union>r \<in> B. names_of r"
  have fin: "finite ?F" using assms(1) by simp
  show ?case
  proof (cases pending)
    case Nil
    then show ?thesis by (subst enable_loop.simps) simp
  next
    case (Cons requested rest)
    obtain r t' where st: "enable_step dirs force config requested seen t = (r, t')"
      by (cases "enable_step dirs force config requested seen t")
    show ?thesis
    proof (cases r)
      case (Inl e)
      then show ?thesis using Cons st by (subst enable_loop.simps) simp
    next
      case (Inr x)
      obtain c ch al seen' where x: "x = ((c, ch, al), seen')" by (cases x) auto
      have bt: "brought t' \<subseteq> B"
        using texts_enable_step brought_mono st 1(2) by (metis maintains_def order_trans snd_conv)
      note res = enable_step_result [OF st [unfolded Inr x]]
      then have pend: "set (rest @ al) \<subseteq> B" using 1(2,3) Cons by auto
      have "((card (?F - set seen'), length (rest @ al)), (card (?F - set seen), length pending))
          \<in> less_than <*lex*> less_than"
      proof (cases "al = [] \<and> seen' = seen")
        case True
        then show ?thesis using Cons by simp
      next
        case False
        then obtain name where n: "name \<in> names_of requested" "name \<notin> set seen" "seen' = name # seen" using res by auto
        then have "name \<in> ?F - set seen" using 1(3) Cons by auto
        then have "card (?F - set seen') < card (?F - set seen)"
          using fin n(3) by (intro psubset_card_mono) auto
        then show ?thesis by simp
      qed
      from 1(1) [OF this bt pend] show ?thesis using Cons st Inr x by (subst enable_loop.simps) simp
    qed
  qed
qed

lemma track_step_result:
  assumes "track_step dirs t name tracked = Inr (rep, tracked', al)"
  shows "al = [] \<and> tracked' = tracked
    \<or> (\<exists>source. resolve_unit_path t [] (fst (the (lookup_unit_file t name dirs))) = Resolved source
         \<and> (name, source) \<notin> set tracked \<and> tracked' = (name, source) # tracked \<and> set al \<subseteq> brought t)"
  using assms read_file_text
  by (auto simp: track_step_def brought_def split: if_splits option.splits prod.splits resolved.splits sum.splits)

lemma track_loop_ends:
  assumes "finite B" "brought t \<subseteq> B" "set pending \<subseteq> B"
  shows "\<exists>r. track_loop dirs t pending tracked changes = Some r"
  using assms(3)
proof (induction "(card ((\<lambda>n. (n, case resolve_unit_path t [] (fst (the (lookup_unit_file t n dirs))) of
        Resolved s \<Rightarrow> s | _ \<Rightarrow> [])) ` B - set tracked), length pending)" arbitrary: pending tracked changes
    rule: wf_induct_rule [OF wf_lex_prod [OF wf_less_than wf_less_than]])
  case (1 pending tracked changes)
  let ?f = "\<lambda>n. (n, case resolve_unit_path t [] (fst (the (lookup_unit_file t n dirs))) of Resolved s \<Rightarrow> s | _ \<Rightarrow> [])"
  show ?case
  proof (cases pending)
    case Nil
    then show ?thesis by (subst track_loop.simps) simp
  next
    case (Cons name rest)
    show ?thesis
    proof (cases "track_step dirs t name tracked")
      case (Inl e)
      then show ?thesis using Cons by (subst track_loop.simps) simp
    next
      case (Inr x)
      obtain rep tracked' al where x: "x = (rep, tracked', al)" by (cases x) auto
      note res = track_step_result [OF Inr [unfolded x]]
      then have pend: "set (rest @ al) \<subseteq> B" using 1(2) assms(2) Cons by auto
      have "((card (?f ` B - set tracked'), length (rest @ al)), (card (?f ` B - set tracked), length pending))
          \<in> less_than <*lex*> less_than"
      proof (cases "al = [] \<and> tracked' = tracked")
        case True
        then show ?thesis using Cons by simp
      next
        case False
        then obtain source where s: "resolve_unit_path t [] (fst (the (lookup_unit_file t name dirs))) = Resolved source"
          "(name, source) \<notin> set tracked" "tracked' = (name, source) # tracked" using res by auto
        have "(name, source) \<in> ?f ` B" using s(1) 1(2) Cons by force
        then have "card (?f ` B - set tracked') < card (?f ` B - set tracked)"
          using assms(1) s(2,3) by (intro psubset_card_mono) auto
        then show ?thesis by simp
      qed
      from 1(1) [OF this pend] show ?thesis using Cons Inr x by (subst track_loop.simps) simp
    qed
  qed
qed

text \<open>
  C36: Enabling and disabling unit files always ends, although a unit can bring along others through
  \<open>Also=\<close> and these can name the first again: the loops over the units to handle return a result for
  every tree and every list of names.  So does applying presets.
\<close>

theorem enabling_terminates:
  "(\<exists>r. enable_unit_files dirs force config names t = Some r)
   \<and> (\<exists>r. disable_unit_files dirs config names t = Some r)
   \<and> (\<exists>r. preset_unit_files mode force config dirs preset_dirs names t = Some r)"
proof -
  have e: "\<exists>r. enable_unit_files dirs force config ns t = Some r" for ns t
  proof (cases "create_dir_all config t")
    case (Pair e t')
    have "\<exists>r. enable_loop dirs force config ns [] (False, []) t' = Some r"
      by (rule enable_loop_ends [of "brought t' \<union> set ns"]) auto
    then show ?thesis using Pair by (cases e) (simp_all add: enable_unit_files_def)
  qed
  have d: "\<exists>r. disable_unit_files dirs config ns t = Some r" for ns t
  proof -
    have "\<exists>r. track_loop dirs t ns [] [] = Some r"
      by (rule track_loop_ends [of "brought t \<union> set ns"]) auto
    then show ?thesis by (auto simp: disable_unit_files_def)
  qed
  have a: "\<exists>r. apply_selection mode force config dirs sel t = Some r" for sel
  proof -
    obtain r t' where "preset_disable mode dirs config (sel_disable sel) t = Some (r, t')"
      using d unfolding preset_disable_def by (cases "mode = EnableOnly") force+
    moreover obtain r' where "preset_enable mode dirs force config (sel_enable sel) t' = Some r'"
      using e unfolding preset_enable_def by (cases "mode = DisableOnly") force+
    ultimately show ?thesis unfolding apply_selection_def by (auto split: sum.split prod.split)
  qed
  then have "\<exists>r. preset_unit_files mode force config dirs preset_dirs names t = Some r"
    unfolding preset_unit_files_def by (auto split: sum.split)
  then show ?thesis using e d by blast
qed

section \<open>Well-formed trees and names\<close>

definition tree_ok :: "tree \<Rightarrow> bool" where
  "tree_ok t \<longleftrightarrow> distinct (map fst t) \<and> (\<forall>p \<in> fst ` set t. p \<noteq> [] \<and> clean p \<and> lstat t (butlast p) = Some Dir)"

lemma lstat_Nil [simp]: "lstat t [] = Some Dir"
  by (simp add: lstat_def)

lemma lstat_key: "lstat t p = Some n \<Longrightarrow> clean p \<Longrightarrow> p \<noteq> [] \<Longrightarrow> (p, n) \<in> set t"
  by (auto simp: lstat_def dest: map_of_SomeD split: if_splits)

lemma lstat_parent:
  assumes "tree_ok t" "lstat t (p @ [c]) = Some n" "clean (p @ [c])"
  shows "lstat t p = Some Dir"
proof -
  have "(p @ [c], n) \<in> set t" using lstat_key assms by blast
  then have "p @ [c] \<in> fst ` set t" by force
  then have "lstat t (butlast (p @ [c])) = Some Dir" using assms(1) unfolding tree_ok_def by blast
  then show ?thesis by simp
qed

lemma lstat_prefix: "tree_ok t \<Longrightarrow> lstat t (p @ q) = Some Dir \<Longrightarrow> clean (p @ q) \<Longrightarrow> lstat t p = Some Dir"
proof (induction q rule: rev_induct)
  case (snoc c q)
  then show ?case using lstat_parent [of t "p @ q" c Dir] by simp
qed simp

lemma create_dir_all_id:
  assumes "tree_ok t" "lstat t p = Some Dir" "clean p"
  shows "create_dir_all p t = (None, t)"
proof -
  have "mkdirs pre cs t = (None, t)" if "pre @ cs = p" for pre cs
    using that
  proof (induction cs arbitrary: pre)
    case (Cons c cs)
    then have "lstat t (pre @ [c]) = Some Dir" using lstat_prefix [of t "pre @ [c]" cs] assms by simp
    then show ?case using Cons by simp
  qed simp
  then show ?thesis using assms(3) by (simp add: create_dir_all_def)
qed

lemma str_rfind_split: "str_rfind c s = Some i \<Longrightarrow> s = take i s @ c # drop (Suc i) s"
proof -
  assume "str_rfind c s = Some i"
  then obtain j where j: "position (\<lambda>x. x = c) (rev s) = Some j" "i = length s - Suc j"
    by (auto simp: str_rfind_def str_find_def)
  then have l: "j < length s" and "rev s ! j = c" using position_Some [of "\<lambda>x. x = c" "rev s" j] by auto
  then have "s ! i = c" using j(2) by (simp add: rev_nth)
  then show ?thesis using id_take_nth_drop [of i s] j(2) l by simp
qed

lemma valid_name:
  assumes "valid_unit_file_name name"
  shows "path_of name = [name]" "clean [name]" "\<not> starts_with name ''/''" "CHR ''/'' \<notin> set name" "length name > 3"
proof -
  obtain i where i: "str_rfind (CHR ''.'') name = Some i" and ne: "take i name \<noteq> []"
    and suff: "drop (Suc i) name \<in> {''service'', ''socket'', ''timer'', ''path'', ''mount'', ''automount'',
                     ''swap'', ''target'', ''slice'', ''scope'', ''device''}"
    and pre: "list_all (\<lambda>c. is_ascii_alnum c
                     \<or> c \<in> {CHR '':'', CHR ''-'', CHR ''_'', CHR ''.'', CHR 0x5C, CHR ''@''}) (take i name)"
    using assms by (auto simp: valid_unit_file_name_def Let_def split: option.splits)
  define a b where "a = take i name" and "b = drop (Suc i) name"
  have n: "name = a @ CHR ''.'' # b" using str_rfind_split [OF i] by (simp add: a_def b_def)
  have "\<not> is_ascii_alnum (CHR ''/'')"
    by (simp add: is_ascii_alnum_def is_ascii_alpha_def is_digit_def is_upper_def is_lower_def)
  then have "CHR ''/'' \<notin> set a" using pre unfolding a_def list_all_iff by force
  moreover have "CHR ''/'' \<notin> set b" "length b > 2" using suff unfolding b_def [symmetric] by auto
  ultimately show slash: "CHR ''/'' \<notin> set name" and len: "length name > 3" using n by auto
  have "split_on (\<lambda>c. c = CHR ''/'') name = [name]" by (rule split_on_free) (use slash in auto)
  moreover show "clean [name]" using len by (auto simp: clean_def)
  ultimately show "path_of name = [name]" by (simp add: path_of_def clean_def)
  show "\<not> starts_with name ''/''" using slash len by (cases name) (auto simp: starts_with_def)
qed

lemma pjoin_valid: "valid_unit_file_name name \<Longrightarrow> pjoin p name = p @ [name]"
  using valid_name by (simp add: pjoin_def)

section \<open>Masks\<close>

definition mask_entry :: "path \<Rightarrow> string \<Rightarrow> path \<times> node" where
  "mask_entry config name = (config @ [name], Link null_link)"

lemma mask_one_absent:
  assumes "valid_unit_file_name name" "clean config" "lstat t config = Some Dir" "lstat t (config @ [name]) = None"
  shows "\<exists>ch. mask_one config name t = (Inr ch, t @ [mask_entry config name])"
proof -
  have "clean (config @ [name])" using assms valid_name by simp
  then have n: "norm_path (config @ [name]) = config @ [name]" by simp
  have "make_symlink null_link (config @ [name]) t = (None, t @ [mask_entry config name])"
    using assms(3,4) by (simp add: make_symlink_def n put_def mask_entry_def)
  then show ?thesis
    using assms(4) by (simp add: mask_one_def assms(1) pjoin_valid fs_bind_def fs_io_def fs_ret_def)
qed

lemma lstat_snoc_other:
  "lstat t p \<noteq> None \<or> norm_path p \<noteq> fst x \<Longrightarrow> lstat (t @ [x]) p = lstat t p"
  by (cases x; cases "norm_path p = []") (auto simp: lstat_def map_add_def split: option.split)

lemma mask_each:
  assumes "distinct names" "\<forall>n \<in> set names. valid_unit_file_name n \<and> lstat t (config @ [n]) = None"
    "clean config" "lstat t config = Some Dir"
  shows "\<exists>ch. fs_each (mask_one config) names t = (Inr ch, t @ map (mask_entry config) names)"
  using assms
proof (induction names arbitrary: t)
  case (Cons n ns)
  obtain ch where m: "mask_one config n t = (Inr ch, t @ [mask_entry config n])"
    using mask_one_absent Cons.prems by fastforce
  have "lstat (t @ [mask_entry config n]) (config @ [k]) = None" if "k \<in> set ns" for k
  proof -
    have k: "clean (config @ [k])" "k \<noteq> n" "lstat t (config @ [k]) = None" using that Cons.prems valid_name by auto
    then show ?thesis using lstat_snoc_other [of t "config @ [k]" "mask_entry config n"] by (simp add: mask_entry_def)
  qed
  moreover have "lstat (t @ [mask_entry config n]) config = Some Dir"
    using Cons.prems(4) lstat_snoc_other [of t config "mask_entry config n"] by simp
  ultimately obtain ch' where "fs_each (mask_one config) ns (t @ [mask_entry config n])
      = (Inr ch', (t @ [mask_entry config n]) @ map (mask_entry config) ns)"
    using Cons.IH [of "t @ [mask_entry config n]"] Cons.prems by auto
  then show ?case using m by (simp add: fs_bind_def fs_ret_def)
qed (simp add: fs_ret_def)

lemma unmask_each:
  assumes "distinct names" "\<forall>n \<in> set names. valid_unit_file_name n \<and> lstat t (config @ [n]) = None" "clean config"
  shows "\<exists>ch. fs_each (unmask_one config) names (t @ map (mask_entry config) names) = (Inr ch, t)"
  using assms
proof (induction names)
  case (Cons n ns)
  let ?t = "t @ map (mask_entry config) (n # ns)"
  have v: "valid_unit_file_name n" "lstat t (config @ [n]) = None" "n \<notin> set ns" using Cons.prems by auto
  have c: "clean (config @ [n])" using valid_name [OF v(1)] Cons.prems by simp
  then have nn: "norm_path (config @ [n]) = config @ [n]" by simp
  have none: "map_of t (config @ [n]) = None" using v(2) nn by (simp add: lstat_def)
  then have l: "lstat ?t (config @ [n]) = Some (Link null_link)"
    by (simp add: lstat_def nn map_add_def mask_entry_def)
  have keys: "filter (\<lambda>(q, _). q \<noteq> config @ [n]) t = t"
    using none by (force simp: map_of_eq_None_iff filter_id_conv)
  have "filter (\<lambda>(q, _). q \<noteq> config @ [n]) (map (mask_entry config) ns) = map (mask_entry config) ns"
    using v(3) by (auto simp: filter_id_conv mask_entry_def)
  then have d: "delete (config @ [n]) ?t = t @ map (mask_entry config) ns"
    using keys by (simp add: delete_def nn mask_entry_def)
  have "unmask_one config n ?t = (Inr [unlinked (config @ [n])], t @ map (mask_entry config) ns)"
    using l d by (simp add: unmask_one_def v(1) pjoin_valid read_link_def fs_bind_def fs_io_def remove_file_def fs_ret_def)
  moreover obtain ch where "fs_each (unmask_one config) ns (t @ map (mask_entry config) ns) = (Inr ch, t)"
    using Cons by auto
  ultimately show ?case by (simp add: fs_bind_def fs_ret_def)
qed (simp add: fs_ret_def)

text \<open>
  Masking is undone by unmasking.  Masking units without a file of their own in the control
  directory succeeds and makes each of them masked; unmasking them afterwards gives back the tree,
  whatever else it holds.
\<close>

theorem mask_round_trip:
  assumes "tree_ok t" "clean config" "lstat t config = Some Dir" "distinct names"
    and "\<forall>n \<in> set names. valid_unit_file_name n \<and> lstat t (config @ [n]) = None"
  shows "\<exists>ch ch' t'. mask_unit_files config names t = (Inr ch, t')
    \<and> (\<forall>n \<in> set names. resolve_unit_path t' [] (config @ [n]) = R_Masked)
    \<and> unmask_unit_files config names t' = (Inr ch', t)"
proof -
  let ?t = "t @ map (mask_entry config) names"
  obtain ch where "fs_each (mask_one config) names t = (Inr ch, ?t)" using mask_each assms by blast
  then have m: "mask_unit_files config names t = (Inr ch, ?t)"
    using create_dir_all_id [OF assms(1,3,2)] by (simp add: mask_unit_files_def fs_bind_def fs_io_def)
  have "resolve_unit_path ?t [] (config @ [n]) = R_Masked" if n: "n \<in> set names" for n
  proof -
    have c: "clean (config @ [n])" using valid_name n assms by simp
    have "lstat t (config @ [n]) = None" using n assms(5) by blast
    then have "map_of t (config @ [n]) = None" using c by (simp add: lstat_def)
    moreover have "map_of (map (mask_entry config) names) (config @ [n]) = Some (Link null_link)"
      using n by (induction names) (auto simp: mask_entry_def)
    ultimately have "lstat ?t (config @ [n]) = Some (Link null_link)"
      using c by (simp add: lstat_def map_add_def)
    then show ?thesis by (simp add: resolve_unit_path_def MAX_SYMLINK_DEPTH_def null_link_def eval_nat_numeral)
  qed
  then show ?thesis using m unmask_each [OF assms(4,5,2)] unfolding unmask_unit_files_def by blast
qed

theorem mask_round_trip_witness:
  "\<exists>ch ch' t'. mask_unit_files [''etc''] [''a.service''] [([''etc''], Dir)] = (Inr ch, t')
    \<and> (\<forall>n \<in> set [''a.service'']. resolve_unit_path t' [] ([''etc''] @ [n]) = R_Masked)
    \<and> unmask_unit_files [''etc''] [''a.service''] t' = (Inr ch', [([''etc''], Dir)])"
proof (rule mask_round_trip)
  show "\<forall>n \<in> set [''a.service'']. valid_unit_file_name n \<and> lstat [([''etc''], Dir)] ([''etc''] @ [n]) = None"
    by (simp add: valid_unit_file_name_def utf8_Cons str_rfind_def str_find_def is_ascii_alnum_def is_ascii_alpha_def
        is_digit_def is_upper_def is_lower_def lstat_def norm_path_def)
qed (simp_all add: tree_ok_def clean_def lstat_def norm_path_def)

section \<open>Disabling\<close>

lemma children_iff:
  assumes "tree_ok t" "clean p"
  shows "c \<in> set (children t p) \<longleftrightarrow> clean [c] \<and> lstat t (p @ [c]) \<noteq> None"
proof
  assume "c \<in> set (children t p)"
  then obtain q where q: "q \<in> fst ` set t" "q \<noteq> []" "butlast q = p" "c = last q"
    using assms(2) by (auto simp: children_def)
  then have "q = p @ [c]" by (metis append_butlast_last_id)
  moreover have "clean q" using q(1) assms(1) unfolding tree_ok_def by blast
  ultimately show "clean [c] \<and> lstat t (p @ [c]) \<noteq> None"
    using q(1) by (auto simp: lstat_def map_of_eq_None_iff)
next
  assume c: "clean [c] \<and> lstat t (p @ [c]) \<noteq> None"
  then obtain n where "lstat t (p @ [c]) = Some n" by blast
  then have "(p @ [c], n) \<in> set t" by (rule lstat_key) (use assms(2) c in simp_all)
  then have "p @ [c] \<in> fst ` set t" by (rule image_eqI [rotated]) simp
  then have "p @ [c] \<in> set (filter (\<lambda>q. q \<noteq> [] \<and> butlast q = norm_path p) (map fst t))"
    unfolding norm_clean [OF assms(2)] by simp
  then have "last (p @ [c]) \<in> last ` set (filter (\<lambda>q. q \<noteq> [] \<and> butlast q = norm_path p) (map fst t))"
    by (rule imageI)
  then show "c \<in> set (children t p)" by (simp add: children_def)
qed

lemma distinct_children: "tree_ok t \<Longrightarrow> distinct (children t p)"
proof -
  assume "tree_ok t"
  then have "distinct (filter (\<lambda>q. q \<noteq> [] \<and> butlast q = norm_path p) (map fst t))" by (simp add: tree_ok_def)
  moreover have "inj_on last (set (filter (\<lambda>q. q \<noteq> [] \<and> butlast q = norm_path p) (map fst t)))"
  proof (rule inj_onI)
    fix x y assume "x \<in> set (filter (\<lambda>q. q \<noteq> [] \<and> butlast q = norm_path p) (map fst t))"
      "y \<in> set (filter (\<lambda>q. q \<noteq> [] \<and> butlast q = norm_path p) (map fst t))" "last x = last y"
    then have "x \<noteq> []" "y \<noteq> []" "butlast x = butlast y" "last x = last y" by auto
    then show "x = y" by (metis append_butlast_last_id)
  qed
  ultimately show ?thesis by (simp add: children_def distinct_map)
qed

text \<open>The links disabling looks at: those of the control directory and of its relationship directories.\<close>

definition control_link :: "tree \<Rightarrow> path \<Rightarrow> path \<Rightarrow> bool" where
  "control_link t config p \<longleftrightarrow> clean p \<and> is_symlink t p
     \<and> ((\<exists>n. p = config @ [n]) \<or> (\<exists>d c. p = config @ [d, c] \<and> is_relation_dir d))"

lemma is_symlink_lstat: "is_symlink t p \<Longrightarrow> lstat t p \<noteq> None"
  by (auto simp: is_symlink_def read_link_def split: option.splits)

lemma set_control_links:
  assumes "tree_ok t" "clean config"
  shows "set (relationship_links t config) \<union> set (direct_links t config) = {p. control_link t config p}"
proof -
  have d: "p \<in> set (direct_links t config) \<longleftrightarrow> (\<exists>n. p = config @ [n]) \<and> clean p \<and> is_symlink t p" for p
    using children_iff [OF assms] is_symlink_lstat assms(2) by (fastforce simp: direct_links_def)
  have r: "p \<in> set (relationship_links t config) \<longleftrightarrow>
      (\<exists>d c. p = config @ [d, c] \<and> is_relation_dir d) \<and> clean p \<and> is_symlink t p" for p
  proof
    assume "p \<in> set (relationship_links t config)"
    then obtain d c where "d \<in> set (children t config)" "is_relation_dir d"
      "c \<in> set (children t (config @ [d]))" "p = config @ [d, c]" "is_symlink t p"
      by (auto simp: relationship_links_def split: if_splits)
    moreover have "clean [d]" using calculation(1) children_iff [OF assms] by blast
    moreover have "clean [c]" using calculation children_iff [OF assms(1), of "config @ [d]"] assms(2) by simp
    ultimately show "(\<exists>d c. p = config @ [d, c] \<and> is_relation_dir d) \<and> clean p \<and> is_symlink t p"
      using assms(2) by (auto simp: clean_def)
  next
    assume a: "(\<exists>d c. p = config @ [d, c] \<and> is_relation_dir d) \<and> clean p \<and> is_symlink t p"
    then obtain d c where p: "p = config @ [d, c]" "is_relation_dir d" by blast
    have cl: "clean [d]" "clean [c]" "clean ((config @ [d]) @ [c])" using a p by (auto simp: clean_def)
    have "lstat t ((config @ [d]) @ [c]) \<noteq> None" using is_symlink_lstat a p by simp
    then have dir: "lstat t (config @ [d]) = Some Dir" using lstat_parent [OF assms(1)] cl by blast
    then have "d \<in> set (children t config)" using children_iff [OF assms] cl by simp
    moreover have "c \<in> set (children t (config @ [d]))"
      using children_iff [OF assms(1), of "config @ [d]" c] cl is_symlink_lstat a p by simp
    ultimately show "p \<in> set (relationship_links t config)"
      using a p dir unfolding relationship_links_def by fastforce
  qed
  show ?thesis unfolding control_link_def using d r by blast
qed

lemma distinct_control_links:
  assumes "tree_ok t" "clean config"
  shows "distinct (sort (relationship_links t config) @ sort (direct_links t config))"
proof -
  have "distinct (direct_links t config)"
    using distinct_children [OF assms(1)] by (simp add: direct_links_def distinct_map inj_on_def)
  moreover have "distinct (concat (map (\<lambda>name. if lstat t (config @ [name]) = Some Dir \<and> is_relation_dir name
       then filter (is_symlink t) (map (\<lambda>c. config @ [name, c]) (children t (config @ [name]))) else []) ns))"
    if "distinct ns" for ns
    using that
  proof (induction ns)
    case (Cons n ns)
    then show ?case using distinct_children [OF assms(1)] by (auto simp: distinct_map inj_on_def)
  qed simp
  then have "distinct (relationship_links t config)"
    unfolding relationship_links_def using distinct_children [OF assms(1)] by blast
  moreover have "set (relationship_links t config) \<inter> set (direct_links t config) = {}"
    by (auto simp: relationship_links_def direct_links_def split: if_splits)
  ultimately show ?thesis by simp
qed

lemma remove_dir_frame: "lstat t q \<noteq> Some Dir \<Longrightarrow> lstat (snd (remove_dir p t)) q = lstat t q"
proof -
  assume q: "lstat t q \<noteq> Some Dir"
  have "norm_path q \<noteq> norm_path p" if "lstat t p = Some Dir" using q that by (auto simp: lstat_def split: if_splits)
  then show ?thesis by (auto simp: remove_dir_def lstat_delete split: option.split node.split)
qed

lemma remove_empty_parents_frame:
  "lstat t q \<noteq> Some Dir \<Longrightarrow> lstat (remove_empty_parents n rt p t) q = lstat t q"
proof (induction n rt p t rule: remove_empty_parents.induct)
  case (2 n rt p t)
  obtain r t' where r: "remove_dir p t = (r, t')" by (cases "remove_dir p t")
  have l: "lstat t' q = lstat t q" using remove_dir_frame [OF 2(2), of p] r by simp
  show ?case
  proof (cases "p = rt \<or> \<not> under p rt")
    case False
    then show ?thesis using 2(1) [OF False r [symmetric]] l 2(2) r by (cases r) auto
  qed auto
qed simp

lemma disable_link_ok:
  assumes "is_symlink t p" "clean p" "p \<noteq> []"
  shows "\<exists>ch t'. disable_link config tracked p t = (Inr ch, t')
    \<and> (\<forall>q. lstat t q \<noteq> Some Dir \<longrightarrow>
         lstat t' q = (if norm_path q = p \<and> link_tracked t tracked p then None else lstat t q))"
proof (cases "link_tracked t tracked p")
  case False
  then show ?thesis using assms(1) by (auto simp: disable_link_def is_symlink_def)
next
  case True
  obtain l where l: "lstat t p = Some (Link l)"
    using assms(1) by (auto simp: is_symlink_def read_link_def split: option.splits node.splits)
  have "read_link t p \<noteq> None" using assms(1) by (simp add: is_symlink_def)
  then have d: "disable_link config tracked p t
      = (Inr [unlinked p], remove_empty_parents (length p) config (butlast p) (delete p t))"
    using True by (simp add: disable_link_def remove_file_def l)
  have "lstat (remove_empty_parents (length p) config (butlast p) (delete p t)) q
      = (if norm_path q = p then None else lstat t q)" if "lstat t q \<noteq> Some Dir" for q
  proof -
    have n: "norm_path p = p" using assms(2) by simp
    have e: "lstat (delete p t) q = (if norm_path q = p then None else lstat t q)"
      using assms(3) unfolding lstat_delete n by auto
    then show ?thesis using remove_empty_parents_frame [of "delete p t" q] that by (metis option.distinct(1))
  qed
  then show ?thesis using d True by auto
qed

lemma link_tracked_cong: "lstat t p = lstat t' p \<Longrightarrow> link_tracked t tracked p = link_tracked t' tracked p"
  by (simp add: link_tracked_def read_link_def)

lemma is_symlink_cong: "lstat t p = lstat t' p \<Longrightarrow> is_symlink t p = is_symlink t' p"
  by (simp add: is_symlink_def read_link_def)

lemma is_symlink_not_dir: "is_symlink t p \<Longrightarrow> lstat t p \<noteq> Some Dir"
  by (auto simp: is_symlink_def read_link_def)

lemma disable_each:
  assumes "distinct ps" "\<forall>p \<in> set ps. is_symlink t p \<and> clean p \<and> p \<noteq> []"
  shows "\<exists>ch t'. fs_each (disable_link config tracked) ps t = (Inr ch, t')
    \<and> (\<forall>q. lstat t q \<noteq> Some Dir \<longrightarrow>
         lstat t' q = (if norm_path q \<in> set ps \<and> link_tracked t tracked (norm_path q) then None else lstat t q))"
  using assms
proof (induction ps arbitrary: t)
  case Nil
  then show ?case by (simp add: fs_ret_def)
next
  case (Cons p ps)
  have pp: "is_symlink t p" "clean p" "p \<noteq> []" using Cons.prems by auto
  obtain ch t1 where d: "disable_link config tracked p t = (Inr ch, t1)"
    and f: "\<And>q. lstat t q \<noteq> Some Dir \<Longrightarrow> lstat t1 q = (if norm_path q = p \<and> link_tracked t tracked p then None else lstat t q)"
    using disable_link_ok [OF pp] by blast
  have same: "lstat t1 q = lstat t q" if "q \<in> set ps" for q
    using f [of q] that Cons.prems is_symlink_not_dir by auto
  then have "\<forall>q \<in> set ps. is_symlink t1 q \<and> clean q \<and> q \<noteq> []"
    using Cons.prems(2) is_symlink_cong [OF same] by simp
  moreover have "distinct ps" using Cons.prems(1) by simp
  ultimately obtain ch' t2 where e: "fs_each (disable_link config tracked) ps t1 = (Inr ch', t2)"
    and g: "\<And>q. lstat t1 q \<noteq> Some Dir \<Longrightarrow>
       lstat t2 q = (if norm_path q \<in> set ps \<and> link_tracked t1 tracked (norm_path q) then None else lstat t1 q)"
    using Cons.IH [of t1] by blast
  have "lstat t2 q = (if norm_path q \<in> set (p # ps) \<and> link_tracked t tracked (norm_path q) then None else lstat t q)"
    if q: "lstat t q \<noteq> Some Dir" for q
  proof -
    have q1: "lstat t1 q \<noteq> Some Dir" using f [OF q] q by auto
    have "link_tracked t1 tracked (norm_path q) = link_tracked t tracked (norm_path q)" if "norm_path q \<in> set ps"
      using link_tracked_cong [OF same [OF that]] .
    then show ?thesis using g [OF q1] f [OF q] by auto
  qed
  then show ?case using d e by (auto simp: fs_bind_def fs_ret_def)
qed

lemma disable_links_ok:
  assumes "tree_ok t" "clean config" "lstat t config = Some Dir"
  shows "\<exists>ch t'. disable_links config tracked t = (Inr ch, t')
    \<and> (\<forall>p. clean p \<longrightarrow> lstat t p \<noteq> Some Dir \<longrightarrow>
         lstat t' p = (if control_link t config p \<and> link_tracked t tracked p then None else lstat t p))"
proof -
  let ?ps = "sort (relationship_links t config) @ sort (direct_links t config)"
  have s: "set ?ps = {p. control_link t config p}" using set_control_links [OF assms(1,2)] by simp
  then have "\<forall>p \<in> set ?ps. is_symlink t p \<and> clean p \<and> p \<noteq> []" by (auto simp: control_link_def)
  from disable_each [OF distinct_control_links [OF assms(1,2)] this, of config tracked]
  obtain ch t' where e: "fs_each (disable_link config tracked) ?ps t = (Inr ch, t')"
    and f: "\<And>q. lstat t q \<noteq> Some Dir \<Longrightarrow>
      lstat t' q = (if norm_path q \<in> set ?ps \<and> link_tracked t tracked (norm_path q) then None else lstat t q)" by blast
  have "disable_links config tracked t = (Inr ch, t')"
    using e assms(3) by (simp add: disable_links_def read_dir_def)
  moreover have "lstat t' p = (if control_link t config p \<and> link_tracked t tracked p then None else lstat t p)"
    if "clean p" "lstat t p \<noteq> Some Dir" for p
    using f [OF that(2)] unfolding norm_clean [OF that(1)] s by simp
  ultimately show ?thesis by blast
qed

text \<open>A unit of the list is masked or tracked with its file.\<close>

definition masked_unit :: "tree \<Rightarrow> path list \<Rightarrow> string \<Rightarrow> bool" where
  "masked_unit t dirs name =
     (case lookup_unit_file t name dirs of
        Some (candidate, _) \<Rightarrow> resolve_unit_path t [] candidate = R_Masked
      | None \<Rightarrow> False)"

definition unit_source :: "tree \<Rightarrow> path list \<Rightarrow> string \<Rightarrow> path \<Rightarrow> bool" where
  "unit_source t dirs name source =
     (case lookup_unit_file t name dirs of
        Some (candidate, _) \<Rightarrow> resolve_unit_path t [] candidate = Resolved source
      | None \<Rightarrow> False)"

text \<open>The units an \<open>Also=\<close> chain reaches from the named ones.\<close>

definition brings :: "tree \<Rightarrow> path \<Rightarrow> string list" where
  "brings t source = (case read_file t source of Inl _ \<Rightarrow> [] | Inr s \<Rightarrow> words_of ''Also'' (install_info s))"

inductive reached :: "tree \<Rightarrow> path list \<Rightarrow> string list \<Rightarrow> string \<Rightarrow> bool"
  for t dirs names where
  reached_named: "n \<in> set names \<Longrightarrow> reached t dirs names n"
| reached_brought: "reached t dirs names m \<Longrightarrow> unit_source t dirs m source \<Longrightarrow> n \<in> set (brings t source)
    \<Longrightarrow> reached t dirs names n"

definition handled :: "tree \<Rightarrow> path list \<Rightarrow> string list \<Rightarrow> (string \<times> path) list \<Rightarrow> string \<Rightarrow> bool" where
  "handled t dirs pending tracked n \<longleftrightarrow> n \<in> set pending \<or> masked_unit t dirs n \<or> n \<in> fst ` set tracked"

definition tracking :: "tree \<Rightarrow> path list \<Rightarrow> string list \<Rightarrow> string list \<Rightarrow> (string \<times> path) list \<Rightarrow> bool" where
  "tracking t dirs names pending tracked \<longleftrightarrow>
     (\<forall>n \<in> set pending. reached t dirs names n)
     \<and> (\<forall>n \<in> set names. handled t dirs pending tracked n)
     \<and> (\<forall>(n, source) \<in> set tracked. reached t dirs names n \<and> unit_source t dirs n source
          \<and> (\<forall>m \<in> set (brings t source). handled t dirs pending tracked m))"

lemma tracking_step:
  assumes "tracking t dirs names (name # rest) tracked"
    and "track_step dirs t name tracked = Inr (rep, tracked', al)"
  shows "tracking t dirs names (rest @ al) tracked'"
proof -
  have r: "reached t dirs names name" using assms(1) by (simp add: tracking_def)
  have step: "masked_unit t dirs name \<and> tracked' = tracked \<and> al = []
    \<or> (\<exists>source. unit_source t dirs name source
        \<and> ((name, source) \<in> set tracked \<and> tracked' = tracked \<and> al = []
            \<or> tracked' = (name, source) # tracked \<and> al = brings t source))"
    using assms(2)
    by (auto simp: track_step_def masked_unit_def unit_source_def brings_def
        split: if_splits option.splits prod.splits resolved.splits)
  then have h: "handled t dirs (rest @ al) tracked' n" if "handled t dirs (name # rest) tracked n" for n
    using that by (force simp: handled_def)
  have "\<forall>n \<in> set (rest @ al). reached t dirs names n"
    using step assms(1) reached_brought [OF r] by (auto simp: tracking_def)
  moreover have "reached t dirs names n \<and> unit_source t dirs n source
      \<and> (\<forall>m \<in> set (brings t source). handled t dirs (rest @ al) tracked' m)" if n: "(n, source) \<in> set tracked'" for n source
  proof (cases "(n, source) \<in> set tracked")
    case True
    then show ?thesis using assms(1) h by (auto simp: tracking_def)
  next
    case False
    then have "n = name" "unit_source t dirs n source" "al = brings t source" using step n by auto
    then show ?thesis using r by (auto simp: handled_def)
  qed
  ultimately show ?thesis using assms(1) h by (auto simp: tracking_def)
qed

lemma track_loop_tracks:
  assumes "track_loop dirs t pending tracked ch = Some r" "r = Inr (tracked', ch')" "tracking t dirs names pending tracked"
  shows "tracking t dirs names [] tracked'"
  using assms
proof (induction rule: track_loop.raw_induct [rotated, consumes 1, case_names step])
  case (step loop dirs t pending tracked ch r)
  show ?case
  proof (cases pending)
    case Nil
    then show ?thesis using step(2-4) by simp
  next
    case (Cons name rest)
    then obtain rep tracked1 al where st: "track_step dirs t name tracked = Inr (rep, tracked1, al)"
      and l: "loop dirs t (rest @ al) tracked1 (ch @ rep) = Some r"
      using step(2,3) by (auto split: sum.splits prod.splits)
    show ?thesis using step(1) [OF l step(3)] tracking_step [OF _ st] step(4) Cons by blast
  qed
qed

lemma tracking_all:
  assumes "tracking t dirs names [] tracked"
  shows "set tracked = {(n, source). reached t dirs names n \<and> unit_source t dirs n source}"
proof -
  have cover: "masked_unit t dirs n \<or> n \<in> fst ` set tracked" if "reached t dirs names n" for n
    using that
  proof (induction rule: reached.induct)
    case (reached_named n)
    then show ?case using assms by (auto simp: tracking_def handled_def)
  next
    case (reached_brought m source n)
    then have "\<not> masked_unit t dirs m" by (auto simp: masked_unit_def unit_source_def split: option.splits)
    then obtain s where s: "(m, s) \<in> set tracked" using reached_brought(4) by auto
    then have "unit_source t dirs m s" using assms by (auto simp: tracking_def)
    then have "s = source" using reached_brought(2) by (auto simp: unit_source_def split: option.splits)
    then show ?case using s reached_brought(3) assms by (auto simp: tracking_def handled_def)
  qed
  have apart: "\<not> (masked_unit t dirs n \<and> unit_source t dirs n s)" for n s
    by (auto simp: masked_unit_def unit_source_def split: option.splits)
  have same: "s = s'" if "unit_source t dirs n s" "unit_source t dirs n s'" for n s s'
    using that by (auto simp: unit_source_def split: option.splits)
  have "(n, s) \<in> set tracked" if n: "reached t dirs names n" "unit_source t dirs n s" for n s
  proof -
    obtain s' where s': "(n, s') \<in> set tracked" using cover [OF n(1)] apart n(2) by auto
    then have "unit_source t dirs n s'" using assms by (auto simp: tracking_def)
    then show ?thesis using s' same [OF n(2)] by blast
  qed
  moreover have "reached t dirs names n \<and> unit_source t dirs n s" if "(n, s) \<in> set tracked" for n s
    using that assms by (auto simp: tracking_def)
  ultimately show ?thesis by auto
qed

lemma tracking_start: "tracking t dirs names names []"
  unfolding tracking_def handled_def by (simp add: reached_named)

text \<open>
  C35: Disabling ends. When it fails in the collection of the units nothing has changed.  Otherwise,
  for the units the \<open>Also=\<close> chain reaches from the named ones, with the files they resolve to, the
  links that go are exactly the symbolic links directly in the control directory and in its
  relationship directories whose target is one of these files, or whose own name or target name is
  one of these units; every other link and every regular file is as before.
\<close>

theorem disable_exact:
  assumes "tree_ok t" "clean config" "lstat t config = Some Dir"
  shows "\<exists>r t'. disable_unit_files dirs config names t = Some (r, t')
    \<and> (case r of
         Inl _ \<Rightarrow> t' = t
       | Inr _ \<Rightarrow> (\<exists>tracked. set tracked = {(n, source). reached t dirs names n \<and> unit_source t dirs n source}
           \<and> (\<forall>p. clean p \<and> lstat t p \<noteq> Some Dir \<longrightarrow>
                lstat t' p = (if control_link t config p \<and> link_tracked t tracked p then None else lstat t p))))"
proof -
  have "\<exists>r. track_loop dirs t names [] [] = Some r" by (rule track_loop_ends [of "brought t \<union> set names"]) auto
  then obtain r where r: "track_loop dirs t names [] [] = Some r" by blast
  show ?thesis
  proof (cases r)
    case (Inl e)
    then show ?thesis using r by (simp add: disable_unit_files_def)
  next
    case (Inr x)
    obtain tracked ch where x: "r = Inr (tracked, ch)" using Inr by (metis prod.exhaust)
    have s: "set tracked = {(n, source). reached t dirs names n \<and> unit_source t dirs n source}"
      by (rule tracking_all) (rule track_loop_tracks [OF r x tracking_start])
    obtain ch' t' where "disable_links config tracked t = (Inr ch', t')"
      and f: "\<forall>p. clean p \<longrightarrow> lstat t p \<noteq> Some Dir \<longrightarrow>
         lstat t' p = (if control_link t config p \<and> link_tracked t tracked p then None else lstat t p)"
      using disable_links_ok [OF assms] by blast
    then have "disable_unit_files dirs config names t = Some (Inr (ch @ ch'), t')"
      using r x by (simp add: disable_unit_files_def fs_bind_def fs_ret_def)
    moreover have "\<forall>p. clean p \<and> lstat t p \<noteq> Some Dir \<longrightarrow>
         lstat t' p = (if control_link t config p \<and> link_tracked t tracked p then None else lstat t p)" using f by blast
    ultimately show ?thesis using s by (intro exI conjI) (assumption, simp, blast)
  qed
qed

text \<open>A control directory in which \<open>a.service\<close> is wanted by \<open>m.target\<close>.\<close>

definition enabled_tree :: tree where
  "enabled_tree =
     [([''etc''], Dir), ([''etc'', ''m.target.wants''], Dir),
      ([''etc'', ''m.target.wants'', ''a.service''], Link (Abs [''lib'', ''a.service''])),
      ([''lib''], Dir), ([''lib'', ''a.service''], Reg [])]"

theorem disable_exact_witness:
  "\<exists>r t'. disable_unit_files [[''lib'']] [''etc''] [''a.service''] enabled_tree = Some (r, t')
    \<and> (case r of
         Inl _ \<Rightarrow> t' = enabled_tree
       | Inr _ \<Rightarrow> (\<exists>tracked. set tracked = {(n, source). reached enabled_tree [[''lib'']] [''a.service''] n
               \<and> unit_source enabled_tree [[''lib'']] n source}
           \<and> (\<forall>p. clean p \<and> lstat enabled_tree p \<noteq> Some Dir \<longrightarrow>
                lstat t' p = (if control_link enabled_tree [''etc''] p \<and> link_tracked enabled_tree tracked p then None
                  else lstat enabled_tree p))))"
  by (rule disable_exact) (simp_all add: enabled_tree_def tree_ok_def clean_def lstat_def norm_path_def)

section \<open>Installing\<close>

text \<open>A link that stays what it is.\<close>

definition keeps :: "path \<Rightarrow> tree \<Rightarrow> tree \<Rightarrow> bool" where
  "keeps p t t' \<longleftrightarrow> (\<forall>l. read_link t p = Some l \<longrightarrow> read_link t' p = Some l)"

interpretation kp: steady "keeps p" for p
  by unfold_locales (auto simp: keeps_def)

lemma keeps_lstat: "(lstat t p \<noteq> None \<Longrightarrow> lstat t' p = lstat t p) \<Longrightarrow> keeps p t t'"
  unfolding keeps_def read_link_def by (cases "lstat t p") simp_all

lemma keeps_put: "keeps p t (put q n t)"
  by (rule keeps_lstat, cases "lstat t p") (simp_all add: lstat_put)

lemma keeps_mkdirs: "keeps p t (snd (mkdirs pre cs t))"
proof (induction pre cs t rule: mkdirs.induct)
  case (2 pre c cs t)
  show ?case
  proof (cases "lstat t (pre @ [c])")
    case None
    then show ?thesis using kp.trans [OF keeps_put 2(1) [OF None]] by simp
  next
    case (Some n)
    then show ?thesis using 2(2) [OF Some] by (cases n) (simp_all add: kp.refl)
  qed
qed (simp add: kp.refl)

lemma keeps_ops:
  "keeps p t (snd (create_dir_all q t))" "keeps p t (snd (make_symlink l q t))"
  unfolding create_dir_all_def make_symlink_def
  by (simp_all add: keeps_mkdirs keeps_put kp.refl split: option.split node.split)

lemma keeps_remove: "norm_path p \<noteq> norm_path q \<Longrightarrow> keeps p t (snd (remove_file q t))"
  unfolding remove_file_def
  by (simp add: kp.refl keeps_lstat lstat_delete split: option.split node.split)

lemma keeps_create:
  assumes "norm_path p \<noteq> norm_path q"
  shows "maintains (keeps p) (create_install_symlink dirs force q source)"
proof (rule kp.create)
  show "maintains (keeps p) (replace_symlink q source)"
    unfolding replace_symlink_def by (intro kp.bind kp.io kp.ret keeps_ops keeps_remove assms)
qed (rule keeps_ops)+

text \<open>What a created link is worth: it stands and leads to the source or to a copy on the search path.\<close>

definition installed :: "path list \<Rightarrow> tree \<Rightarrow> path \<Rightarrow> path \<Rightarrow> bool" where
  "installed dirs t p source \<longleftrightarrow> (\<exists>l. read_link t p = Some l \<and> symlink_targets_equivalent p l source dirs)"

lemma installed_keeps: "installed dirs t p source \<Longrightarrow> keeps p t t' \<Longrightarrow> installed dirs t' p source"
  by (auto simp: installed_def keeps_def)

lemma make_symlink_installs:
  assumes "make_symlink (Abs source) p t = (None, t')"
  shows "installed dirs t' p source"
proof -
  have n: "lstat t p = None" and t': "t' = put p (Link (Abs source)) t"
    using assms by (auto simp: make_symlink_def split: if_splits option.splits node.splits)
  have "read_link t' p = Some (Abs source)" using n by (simp add: t' read_link_def lstat_put)
  then show ?thesis by (simp add: installed_def symlink_targets_equivalent_def absolute_target_def)
qed

lemma create_installs:
  assumes "create_install_symlink dirs force p source t = (Inr ch, t')"
  shows "installed dirs t' p source"
proof -
  obtain t1 where c: "(case make_symlink (Abs source) p t1 of
         (None, t') \<Rightarrow> (Inr [symlinked p source], t')
       | (Some e, t') \<Rightarrow>
           if e \<noteq> Io_AlreadyExists then (Inl (Io e), t')
           else
             (let target = read_link t' p
              in if (case target of Some l \<Rightarrow> symlink_targets_equivalent p l source dirs | None \<Rightarrow> False)
                 then (Inr [], t')
                 else if force \<and> target \<noteq> None then replace_symlink p source t'
                 else (Inl (UnitExists p target), t'))) = (Inr ch, t')"
    using assms unfolding create_install_symlink_def by (elim fs_bind_InrE) blast
  obtain r t2 where m: "make_symlink (Abs source) p t1 = (r, t2)" by (cases "make_symlink (Abs source) p t1")
  have rep: "installed dirs t' p source" if "replace_symlink p source t2 = (Inr ch, t')"
    using that unfolding replace_symlink_def
    by (elim fs_bind_InrE) (auto simp: fs_io_def fs_ret_def split: prod.splits option.splits intro: make_symlink_installs)
  show ?thesis
  proof (cases r)
    case None
    then show ?thesis using c m make_symlink_installs by simp
  next
    case (Some e)
    then show ?thesis using c rep by (auto simp: m Let_def installed_def split: if_splits option.splits)
  qed
qed

lemma each_installs:
  assumes "fs_each f ws t = (Inr ch, t')"
    and "\<And>w t ch t'. w \<in> set ws \<Longrightarrow> f w t = (Inr ch, t') \<Longrightarrow> installed dirs t' (d w) source"
    and "\<And>v w. v \<in> set ws \<Longrightarrow> w \<in> set ws \<Longrightarrow> d v \<noteq> d w \<Longrightarrow> maintains (keeps (d v)) (f w)"
    and "w \<in> set ws"
  shows "installed dirs t' (d w) source"
  using assms
proof (induction ws arbitrary: t ch w)
  case (Cons v ws)
  obtain ch1 t1 ch2 where f: "f v t = (Inr ch1, t1)" and e: "fs_each f ws t1 = (Inr ch2, t')"
    using Cons.prems(1) by (auto elim!: fs_bind_InrE simp: fs_ret_def)
  show ?case
  proof (cases "\<exists>x \<in> set ws. d x = d w")
    case True
    then obtain x where x: "x \<in> set ws" "d x = d w" by blast
    have "installed dirs t' (d x) source" by (rule Cons.IH [OF e]) (use Cons.prems x in auto)
    then show ?thesis using x by simp
  next
    case False
    then have "w = v" using Cons.prems(4) by auto
    have "maintains (keeps (d w)) (fs_each f ws)"
      by (rule kp.each) (use False Cons.prems in auto)
    then have "keeps (d w) t1 t'" unfolding maintains_def using e by (metis snd_conv)
    then show ?thesis using installed_keeps Cons.prems(2) [OF _ f] \<open>w = v\<close> by simp
  qed
qed simp

lemma clean_long: "length c > 3 \<Longrightarrow> clean [c]"
  by (auto simp: clean_def)

lemma each_ran:
  "fs_each f ws t = (Inr ch, t') \<Longrightarrow> w \<in> set ws \<Longrightarrow> \<exists>t ch t'. f w t = (Inr ch, t')"
  by (induction ws arbitrary: t ch) (auto elim!: fs_bind_InrE simp: fs_ret_def)

lemma pjoin_relation:
  assumes "valid_unit_file_name target" "valid_unit_file_name name" "rel \<in> {''wants'', ''requires'', ''upholds''}"
  shows "pjoin (pjoin config (target @ ''.'' @ rel)) name = config @ [target @ ''.'' @ rel, name]"
    "clean [target @ ''.'' @ rel, name]"
proof -
  have s: "CHR ''/'' \<notin> set (target @ ''.'' @ rel)" using valid_name(4) [OF assms(1)] assms(3) by auto
  have l: "length (target @ ''.'' @ rel) > 3" using valid_name(5) [OF assms(1)] by simp
  then have c: "clean [target @ ''.'' @ rel]" using clean_long by blast
  have "split_on (\<lambda>c. c = CHR ''/'') (target @ ''.'' @ rel) = [target @ ''.'' @ rel]"
    by (rule split_on_free) (use s in auto)
  then have "path_of (target @ ''.'' @ rel) = [target @ ''.'' @ rel]" using c by (simp add: path_of_def clean_def)
  moreover have "\<not> starts_with (target @ ''.'' @ rel) ''/''" 
    using s by (cases target) (auto simp: starts_with_def)
  ultimately have "pjoin config (target @ ''.'' @ rel) = config @ [target @ ''.'' @ rel]" by (simp add: pjoin_def)
  then show "pjoin (pjoin config (target @ ''.'' @ rel)) name = config @ [target @ ''.'' @ rel, name]"
    using pjoin_valid [OF assms(2)] by simp
  show "clean [target @ ''.'' @ rel, name]" using c valid_name(2) [OF assms(2)] by (simp add: clean_Cons)
qed

lemma relations_install:
  assumes "clean config" "valid_unit_file_name name"
    and "fs_each (install_relation dirs config source name) (relation_words install) t = (Inr ch, t')"
    and "(rel, target) \<in> set (relation_words install)"
  shows "installed dirs t' (config @ [target @ ''.'' @ rel, name]) source"
proof -
  let ?d = "\<lambda>w. config @ [snd w @ ''.'' @ fst w, name]"
  have dest: "pjoin (pjoin config (snd w @ ''.'' @ fst w)) name = ?d w" "clean (?d w)"
    if "w \<in> set (relation_words install)" "valid_unit_file_name (snd w)" for w
    using pjoin_relation [OF that(2) assms(2) relation_words_rel [OF that(1)]] assms(1) by simp_all
  have valid: "valid_unit_file_name (snd w)" if w: "w \<in> set (relation_words install)" for w
    using each_ran [OF assms(3) w]
    by (auto simp: install_relation_def case_prod_unfold Let_def fs_fail_def split: if_splits)
  have "installed dirs t' (?d (rel, target)) source"
  proof (rule each_installs [OF assms(3) _ _ assms(4)])
    fix w t ch t1
    assume w: "w \<in> set (relation_words install)" "install_relation dirs config source name w t = (Inr ch, t1)"
    have v: "valid_unit_file_name (snd w)" by (rule valid [OF w(1)])
    then have "create_install_symlink dirs True (?d w) source t = (Inr ch, t1)"
      using w(2) dest(1) [OF w(1) v] by (simp add: install_relation_def case_prod_unfold Let_def)
    then show "installed dirs t1 (?d w) source" by (rule create_installs)
  next
    fix v w
    assume vw: "v \<in> set (relation_words install)" "w \<in> set (relation_words install)" "?d v \<noteq> ?d w"
    show "maintains (keeps (?d v)) (install_relation dirs config source name w)"
      unfolding install_relation_def case_prod_unfold Let_def
      using vw dest [OF vw(1) valid [OF vw(1)]] dest [OF vw(2) valid [OF vw(2)]]
      by (intro maintains_if kp.fail keeps_create) simp
  qed
  then show ?thesis by simp
qed

lemma unit_installs:
  assumes "enable_unit dirs force config name source outside t = (Inr r, t')" "clean config" "valid_unit_file_name name"
    and "read_file t source = Inr s" "(rel, target) \<in> set (relation_words (install_info s))"
  shows "installed dirs t' (config @ [target @ ''.'' @ rel, name]) source"
proof -
  have "install_info s \<noteq> []" using assms(5) by (auto simp: relation_words_def)
  then obtain t1 ch where "fs_each (install_relation dirs config source name) (relation_words (install_info s)) t1 = (Inr ch, t')"
    using assms(1,4) unfolding enable_unit_def
    by (elim fs_bind_InrE) (auto simp: read_contents_def fs_read_only_def Let_def fs_ret_def elim!: fs_bind_InrE)
  then show ?thesis using relations_install assms(2,3,5) by blast
qed

lemma step_keeps:
  assumes "clean config" "clean [x, name]" "name \<in> set seen"
  shows "maintains (keeps (config @ [x, name])) (enable_step dirs force config requested seen)"
proof (rule kp.step)
  fix m source outside
  assume m: "valid_unit_file_name m" "m \<notin> set seen"
  have n: "norm_path (config @ [x, name]) = config @ [x, name]" using assms(1,2) by simp
  have direct: "norm_path (config @ [x, name]) \<noteq> norm_path (pjoin config a)" if "valid_unit_file_name a" for a
    using n pjoin_valid [OF that] valid_name(2) [OF that] assms(1) by simp
  have rel: "norm_path (config @ [x, name]) \<noteq> norm_path (pjoin (pjoin config (target @ ''.'' @ rel)) m)"
    if "valid_unit_file_name target" "rel \<in> {''wants'', ''requires'', ''upholds''}" for target rel
    using n pjoin_relation [OF that(1) m(1) that(2)] assms(1,3) m(2) by auto
  show "maintains (keeps (config @ [x, name])) (enable_unit dirs force config m source outside)"
    by (intro kp.unit keeps_create direct rel m(1))
qed

lemma step_seen: "enable_step dirs force config requested seen t = (Inr (r, seen'), t') \<Longrightarrow> set seen \<subseteq> set seen'"
  by (auto simp: enable_step_def fs_ret_def split: if_splits sum.splits prod.splits elim!: fs_bind_InrE)

lemma loop_keeps:
  assumes "enable_loop dirs force config pending seen acc t = Some (r, t')"
    and "clean config" "clean [x, name]" "name \<in> set seen"
  shows "keeps (config @ [x, name]) t t'"
proof -
  have "keeps (config @ [x, name]) t (snd rt)" if "enable_loop dirs force config pending seen acc t = Some rt" for rt
    using that assms(2-4)
  proof (induction rule: enable_loop.raw_induct [rotated, consumes 1, case_names step])
    case (step loop dirs force config pending seen acc t rt)
    show ?case
    proof (cases pending)
      case Nil
      then show ?thesis using step(2) by (auto simp: kp.refl)
    next
      case (Cons requested rest)
      obtain e t1 where st: "enable_step dirs force config requested seen t = (e, t1)"
        by (cases "enable_step dirs force config requested seen t")
      have k: "keeps (config @ [x, name]) t t1"
        using step_keeps [OF step(3-5)] st unfolding maintains_def by (metis snd_conv)
      show ?thesis
      proof (cases e)
        case (Inl err)
        then show ?thesis using step(2) Cons st k by auto
      next
        case (Inr y)
        obtain carries ch al seen' where y: "y = ((carries, ch, al), seen')" by (metis prod.exhaust)
        have "loop dirs force config (rest @ al) seen' (fst acc \<or> carries, snd acc @ ch) t1 = Some rt"
          using step(2) Cons st Inr y by simp
        moreover have "name \<in> set seen'" using step_seen st Inr y step(5) by blast
        ultimately show ?thesis using kp.trans [OF k] step(1) step(3,4) by blast
      qed
    qed
  qed
  then show ?thesis using assms(1) by fastforce
qed

text \<open>
  C34: When enabling succeeds, every target of \<open>WantedBy=\<close>, \<open>RequiredBy=\<close> and \<open>UpheldBy=\<close> in the
  \<open>[Install]\<close> section of a unit that a turn of the loop handles has its link to the unit in the control
  directory at the end, whatever the later turns install and replace: the link \<open>TARGET.wants/NAME\<close>
  (\<open>.requires\<close>, \<open>.upholds\<close>) stands and leads to the unit's file, or to a file of the same name on the
  search path.
\<close>

theorem enable_installs:
  assumes "clean config" "n \<notin> set seen" "requested_name dirs n t = Inr source" "read_file t source = Inr s"
    and "enable_loop dirs force config (n # rest) seen acc t = Some (Inr r, t')"
    and "(rel, target) \<in> set (relation_words (install_info s))"
  shows "\<exists>l. read_link t' (config @ [target @ ''.'' @ rel, n]) = Some l
    \<and> symlink_targets_equivalent (config @ [target @ ''.'' @ rel, n]) l source dirs"
proof -
  have v: "valid_unit_file_name n" by (rule requested_name_valid [OF assms(3)])
  have "\<not> starts_with n ''/''" by (rule valid_name(3) [OF v])
  then have st: "enable_step dirs force config n seen t
      = fs_bind (enable_unit dirs force config n source False) (\<lambda>r. fs_ret (r, n # seen)) t"
    using assms(2,3) by (simp add: enable_step_def)
  obtain carries ch al seen' t1 where e: "enable_step dirs force config n seen t = (Inr ((carries, ch, al), seen'), t1)"
    and l: "enable_loop dirs force config (rest @ al) seen' (fst acc \<or> carries, snd acc @ ch) t1 = Some (Inr r, t')"
    using assms(5) enable_loop.simps [of dirs force config "n # rest"]
    by (auto split: prod.splits sum.splits)
  have seen': "n \<in> set seen'" and u: "enable_unit dirs force config n source False t = (Inr (carries, ch, al), t1)"
    using e unfolding st by (auto elim!: fs_bind_InrE simp: fs_ret_def)
  have i: "installed dirs t1 (config @ [target @ ''.'' @ rel, n]) source"
    by (rule unit_installs [OF u assms(1) v assms(4,6)])
  have "length (target @ ''.'' @ rel) > 3" using relation_words_rel [OF assms(6)] by auto
  then have c: "clean [target @ ''.'' @ rel, n]" using clean_long [of "target @ ''.'' @ rel"] valid_name(2) [OF v] by (simp add: clean_Cons)
  show ?thesis using installed_keeps [OF i loop_keeps [OF l assms(1) c seen']] by (simp add: installed_def)
qed

definition unit_body :: string where
  "unit_body = concat (map print_entry [(''Install'', ''WantedBy'', ''m.target'')])"

definition disabled_tree :: tree where
  "disabled_tree = [([''etc''], Dir), ([''lib''], Dir), ([''lib'', ''a.service''], Reg unit_body)]"

lemma install_info_body: "install_info unit_body = [(''WantedBy'', ''m.target'')]"
proof -
  have "map entry_of (parse_unit_text unit_body) = [(''Install'', ''WantedBy'', ''m.target'')]"
    unfolding unit_body_def parse_unit_text_def
    by (rule parse_printed) (simp add: printable_def trim_def trim_start_def trim_end_def is_ws_def ends_with_def)
  then obtain e where e: "parse_unit_text unit_body = [e]" "entry_of e = (''Install'', ''WantedBy'', ''m.target'')" by auto
  then have "re_section e = ''Install''" "re_key e = ''WantedBy''" "re_value e = ''m.target''" by (simp_all add: entry_of_def)
  then show ?thesis by (simp add: install_info_def e(1) trim_def trim_start_def trim_end_def is_ws_def)
qed

lemma demo_names: "valid_unit_file_name ''a.service''" "valid_unit_file_name ''m.target''"
  by (simp_all add: valid_unit_file_name_def utf8_Cons str_rfind_def str_find_def is_ascii_alnum_def is_ascii_alpha_def
      is_digit_def is_upper_def is_lower_def)

lemma demo_clean: "norm_path [''lib'', ''a.service''] = [''lib'', ''a.service'']" "norm_path [''etc''] = [''etc'']"
  "norm_path [''etc'', ''m.target.wants''] = [''etc'', ''m.target.wants'']"
  "norm_path [''etc'', ''m.target.wants'', ''a.service''] = [''etc'', ''m.target.wants'', ''a.service'']"
  by (simp_all add: clean_def)

lemma demo_requested: "requested_name [[''lib'']] ''a.service'' disabled_tree = Inr [''lib'', ''a.service'']"
  "read_file disabled_tree [''lib'', ''a.service''] = Inr unit_body"
proof -
  have l: "lstat disabled_tree [''lib'', ''a.service''] = Some (Reg unit_body)"
    by (simp add: lstat_def demo_clean disabled_tree_def)
  show "requested_name [[''lib'']] ''a.service'' disabled_tree = Inr [''lib'', ''a.service'']"
    by (simp add: requested_name_def demo_names pjoin_valid l resolve_unit_path_def MAX_SYMLINK_DEPTH_def eval_nat_numeral)
  show "read_file disabled_tree [''lib'', ''a.service''] = Inr unit_body"
    by (simp add: read_file_def l eval_nat_numeral)
qed

lemma demo_create:
  "\<exists>ch t'. create_install_symlink dirs force [''etc'', ''m.target.wants'', ''a.service''] source disabled_tree = (Inr ch, t')"
  by (simp add: create_install_symlink_def fs_bind_def fs_io_def create_dir_all_def demo_clean make_symlink_def
      lstat_put lstat_def disabled_tree_def put_def)

lemma demo_relation: "relation_words (install_info unit_body) = [(''wants'', ''m.target'')]"
  by (simp add: install_info_body relation_words_def relationship_def split_whitespace_def is_ws_def)

lemma demo_loop:
  "\<exists>r t'. enable_loop [[''lib'']] False [''etc''] [''a.service''] [] (False, []) disabled_tree = Some (Inr r, t')"
proof -
  obtain ch t' where c: "create_install_symlink [[''lib'']] True [''etc'', ''m.target.wants'', ''a.service''] [''lib'', ''a.service''] disabled_tree
      = (Inr ch, t')" using demo_create by blast
  have p: "pjoin (pjoin [''etc''] ''m.target.wants'') ''a.service'' = [''etc'', ''m.target.wants'', ''a.service'']"
    using pjoin_relation(1) [OF demo_names(2,1), of "''wants''" "[''etc'']"] by simp
  have w: "words_of ''Alias'' (install_info unit_body) = []" "words_of ''Also'' (install_info unit_body) = []"
    by (simp_all add: words_of_def install_info_body)
  have "enable_unit [[''lib'']] False [''etc''] ''a.service'' [''lib'', ''a.service''] False disabled_tree
      = (Inr (True, ch, []), t')"
    by (simp add: enable_unit_def read_contents_def fs_read_only_def demo_requested fs_bind_def Let_def w demo_relation
        install_relation_def demo_names p c fs_ret_def) (simp add: install_info_body)
  then have "enable_step [[''lib'']] False [''etc''] ''a.service'' [] disabled_tree = (Inr ((True, ch, []), [''a.service'']), t')"
    by (simp add: enable_step_def starts_with_def demo_requested fs_bind_def fs_ret_def)
  then have "enable_loop [[''lib'']] False [''etc''] [''a.service''] [] (False, []) disabled_tree = Some (Inr (True, ch), t')"
    by (simp add: enable_loop.simps)
  then show ?thesis by blast
qed

theorem enable_installs_witness:
  "\<exists>r t' l. enable_loop [[''lib'']] False [''etc''] [''a.service''] [] (False, []) disabled_tree = Some (Inr r, t')
    \<and> read_link t' [''etc'', ''m.target.wants'', ''a.service''] = Some l
    \<and> symlink_targets_equivalent [''etc'', ''m.target.wants'', ''a.service''] l [''lib'', ''a.service''] [[''lib'']]"
proof -
  obtain r t' where l: "enable_loop [[''lib'']] False [''etc''] [''a.service''] [] (False, []) disabled_tree = Some (Inr r, t')"
    using demo_loop by blast
  have w: "(''wants'', ''m.target'') \<in> set (relation_words (install_info unit_body))" by (simp add: demo_relation)
  have c: "clean [''etc'']" and n: "''a.service'' \<notin> set []" by (simp_all add: clean_def)
  show ?thesis using enable_installs [OF c n demo_requested l w] l by simp
qed

end
