(* ===== verification/Journal.thy ===== *)
theory Journal
  imports RustStr "HOL-Library.AList"
begin

text \<open>
  The journal daemon, \<open>src/src/journal\<close>: entries and the ring that retains them, the parser of datagrams,
  the stdout stream server with its rate limit, the sink that persists entries before it shows them, and
  the vacuum of archived files.

  A \<open>str\<close> is the list of the bytes of its UTF-8 encoding in this theory, so that the validity checks of
  the source are exact; a \<open>char\<close> stands for a byte.  The fields of an entry are a hash map, an association
  list whose order means nothing.  Clocks, credentials, the bytes that arrive and the answers of the C
  layer are arguments.  \<open>usize\<close> has 64 bits.  An arithmetic overflow in an index or a slice with its end
  before its start is the result \<open>Panicked\<close>: the release profile aborts the process on a panic.
\<close>

section \<open>Entries\<close>

type_synonym fields = "(string \<times> string) list"

record journal_entry =
  je_realtime_usec :: nat
  je_seqnum :: nat
  je_fields :: fields

definition is_hexdigit :: "char \<Rightarrow> bool" where
  "is_hexdigit c \<longleftrightarrow> is_digit c \<or> (let n = of_char c :: nat in 65 \<le> n \<and> n \<le> 70 \<or> 97 \<le> n \<and> n \<le> 102)"

fun id128_loop :: "string \<Rightarrow> string \<Rightarrow> string option" where
  "id128_loop acc [] = Some acc"
| "id128_loop acc (ch # s) =
     (if ch = CHR ''-'' \<or> is_ascii_ws ch then id128_loop acc s
      else if \<not> is_hexdigit ch \<or> 32 \<le> length acc then None
      else id128_loop (acc @ [to_lower ch]) s)"

definition normalize_id128 :: "string \<Rightarrow> string option" where
  "normalize_id128 v =
     (case id128_loop [] v of
        Some acc \<Rightarrow> if length acc = 32 then Some acc else None
      | None \<Rightarrow> None)"

definition current_boot_id :: "string option \<Rightarrow> string option" where
  "current_boot_id raw = (case raw of Some s \<Rightarrow> normalize_id128 s | None \<Rightarrow> None)"

text \<open>The sequence counter of the process, the clock and the boot identifier.\<close>

record journal_env =
  jv_seq :: nat
  jv_now :: "nat \<Rightarrow> nat"
  jv_boot :: "string option"

definition entry_new :: "fields \<Rightarrow> journal_env \<Rightarrow> journal_entry \<times> journal_env" where
  "entry_new fs env =
     (let fs = (if map_of fs ''_BOOT_ID'' \<noteq> None then fs
                    else case current_boot_id (jv_boot env) of
                      Some boot_id \<Rightarrow> AList.update ''_BOOT_ID'' boot_id fs
                    | None \<Rightarrow> fs)
      in (\<lparr> je_realtime_usec = jv_now env (jv_seq env), je_seqnum = jv_seq env, je_fields = fs \<rparr>,
          env\<lparr> jv_seq := (jv_seq env + 1) mod 2 ^ 64 \<rparr>))"

definition entry_message :: "string \<Rightarrow> nat \<Rightarrow> string \<Rightarrow> journal_env \<Rightarrow> journal_entry \<times> journal_env" where
  "entry_message unit prio msg =
     entry_new (let fs = AList.update ''PRIORITY'' (show_nat prio) (AList.update ''MESSAGE'' msg [])
                in if unit \<noteq> [] then AList.update ''_SYSTEMD_UNIT'' unit fs else fs)"

text \<open>\<open>str::from_utf8\<close>: the well-formed byte sequences.\<close>

abbreviation cont_byte :: "nat \<Rightarrow> bool" where "cont_byte b \<equiv> 128 \<le> b \<and> b < 192"

fun utf8_valid :: "nat list \<Rightarrow> bool" where
  "utf8_valid [] = True"
| "utf8_valid (a # rest) =
     (if a < 128 then utf8_valid rest
      else case rest of
        [] \<Rightarrow> False
      | b # r1 \<Rightarrow>
          if 194 \<le> a \<and> a < 224 then cont_byte b \<and> utf8_valid r1
          else case r1 of
            [] \<Rightarrow> False
          | c # r2 \<Rightarrow>
              if 224 \<le> a \<and> a < 240 then
                cont_byte b \<and> (a = 224 \<longrightarrow> 160 \<le> b) \<and> (a = 237 \<longrightarrow> b < 160) \<and> cont_byte c \<and> utf8_valid r2
              else case r2 of
                [] \<Rightarrow> False
              | d # r3 \<Rightarrow>
                  240 \<le> a \<and> a < 245 \<and> cont_byte b \<and> (a = 240 \<longrightarrow> 144 \<le> b) \<and> (a = 244 \<longrightarrow> b < 144)
                  \<and> cont_byte c \<and> cont_byte d \<and> utf8_valid r3)"

definition valid_str :: "string \<Rightarrow> bool" where
  "valid_str s = utf8_valid (map of_char s)"

definition text_field :: "string \<Rightarrow> journal_entry \<Rightarrow> string" where
  "text_field key e =
     (case map_of (je_fields e) key of Some v \<Rightarrow> if valid_str v then v else [] | None \<Rightarrow> [])"

definition message_str :: "journal_entry \<Rightarrow> string" where
  "message_str = text_field ''MESSAGE''"

definition entry_priority :: "journal_entry \<Rightarrow> nat" where
  "entry_priority e =
     (case map_of (je_fields e) ''PRIORITY'' of
        Some v \<Rightarrow> (if valid_str v then case parse_uint 255 v of Some n \<Rightarrow> n | None \<Rightarrow> 6 else 6)
      | None \<Rightarrow> 6)"

definition entry_unit :: "journal_entry \<Rightarrow> string" where
  "entry_unit = text_field ''_SYSTEMD_UNIT''"

definition pid_str :: "journal_entry \<Rightarrow> string" where
  "pid_str = text_field ''_PID''"

definition priority_name :: "nat \<Rightarrow> string" where
  "priority_name p =
     (if p < 8 then [''emerg'', ''alert'', ''crit'', ''err'', ''warning'', ''notice'', ''info'', ''debug''] ! p
      else ''unknown'')"

section \<open>The ring\<close>

record entry_ring =
  er_capacity :: nat
  er_entries :: "journal_entry list"
  er_head :: nat
  er_total :: nat

definition ring_new :: "nat \<Rightarrow> entry_ring" where
  "ring_new capacity = \<lparr> er_capacity = max capacity 1, er_entries = [], er_head = 0, er_total = 0 \<rparr>"

definition ring_push :: "journal_entry \<Rightarrow> entry_ring \<Rightarrow> entry_ring" where
  "ring_push e r =
     (let r = (if length (er_entries r) < er_capacity r then r\<lparr> er_entries := er_entries r @ [e] \<rparr>
               else r\<lparr> er_entries := (er_entries r)[er_head r := e] \<rparr>)
      in r\<lparr> er_head := (er_head r + 1) mod er_capacity r, er_total := er_total r + 1 \<rparr>)"

definition drain_since :: "nat \<Rightarrow> entry_ring \<Rightarrow> journal_entry list" where
  "drain_since after_seqnum r =
     (let len = length (er_entries r);
          ordered = (if er_total r \<le> er_capacity r then er_entries r
                     else map (\<lambda>i. er_entries r ! ((er_head r + i) mod er_capacity r)) [0..<len])
      in if len = 0 then [] else filter (\<lambda>e. after_seqnum < je_seqnum e) ordered)"

definition ring_len :: "entry_ring \<Rightarrow> nat" where
  "ring_len r = length (er_entries r)"

section \<open>Datagrams\<close>

definition valid_field_name :: "string \<Rightarrow> bool" where
  "valid_field_name key \<longleftrightarrow>
     key \<noteq> [] \<and> length key \<le> 64 \<and> \<not> is_digit (hd key)
     \<and> list_all (\<lambda>c. is_upper c \<or> is_digit c \<or> c = CHR ''_'') key"

definition add_field :: "string \<Rightarrow> string \<Rightarrow> fields \<Rightarrow> fields" where
  "add_field key v fs =
     (if \<not> valid_field_name key \<or> starts_with key ''_'' then fs else AList.update key v fs)"

definition from_le_bytes :: "string \<Rightarrow> nat" where
  "from_le_bytes bs = foldr (\<lambda>b n. of_char b + 256 * n) bs 0"

datatype 'a parsed = Panicked | Rejected | Parsed 'a

function parse_fields :: "string \<Rightarrow> nat \<Rightarrow> fields \<Rightarrow> fields parsed" where
  "parse_fields buf pos fs =
     (if pos < length buf then
        (let line_end = (case position (\<lambda>b. b = CHR 0x0A) (drop pos buf) of Some n \<Rightarrow> pos + n | None \<Rightarrow> length buf);
             line = take (line_end - pos) (drop pos buf);
             pos = line_end + 1
         in if line = [] then parse_fields buf pos fs
            else case position (\<lambda>b. b = CHR ''='') line of
              Some eq \<Rightarrow>
                if \<not> valid_str (take eq line) then Rejected
                else parse_fields buf pos (add_field (to_ascii_uppercase (take eq line)) (drop (eq + 1) line) fs)
            | None \<Rightarrow>
                if \<not> valid_str line then Rejected
                else if length buf < pos + 8 then Parsed fs
                else
                  (let len = from_le_bytes (take 8 (drop pos buf));
                       pos = pos + 8
                   in if 2 ^ 64 \<le> pos + len then Panicked
                      else if length buf < pos + len then Parsed fs
                      else parse_fields buf (pos + len + 1)
                             (add_field (to_ascii_uppercase line) (take len (drop pos buf)) fs)))
      else Parsed fs)"
  by pat_completeness auto

termination
proof (relation "measure (\<lambda>(buf, pos, fs). length buf - pos)", goal_cases)
  case 1
  then show ?case by simp
qed (auto split: option.splits)

declare parse_fields.simps [simp del]

record peer_cred =
  pc_pid :: int
  pc_uid :: nat
  pc_gid :: nat

definition show_int :: "int \<Rightarrow> string" where
  "show_int i = (if i < 0 then CHR ''-'' # show_nat (nat (- i)) else show_nat (nat i))"

definition peer_fields :: "peer_cred \<Rightarrow> fields \<Rightarrow> fields" where
  "peer_fields peer fs =
     AList.update ''_GID'' (show_nat (pc_gid peer))
       (AList.update ''_UID'' (show_nat (pc_uid peer))
         (AList.update ''_PID'' (show_int (pc_pid peer)) fs))"

definition parse_datagram_with_peer ::
  "string \<Rightarrow> peer_cred option \<Rightarrow> journal_env \<Rightarrow> (journal_entry \<times> journal_env) parsed" where
  "parse_datagram_with_peer buf peer env =
     (case parse_fields buf 0 [] of
        Panicked \<Rightarrow> Panicked
      | Rejected \<Rightarrow> Rejected
      | Parsed fs \<Rightarrow>
          if fs = [] then Rejected
          else Parsed (entry_new (AList.update ''_TRANSPORT'' ''journal''
                 (case peer of Some p \<Rightarrow> peer_fields p fs | None \<Rightarrow> fs)) env))"

definition peer_of :: "peer_cred \<Rightarrow> peer_cred option" where
  "peer_of c = (if 0 < pc_pid c \<and> pc_uid c \<noteq> u32_max then Some c else None)"

section \<open>The writer and the sink\<close>

datatype writer_error = Key_Nul | Append_Failed int | Quarantine_Failed int | Retry_Failed int

text \<open>The answers of the C layer to one append: the code of the call, whether the damaged file could be
  replaced, and the code of the second call.\<close>

record append_answer =
  aa_rc :: int
  aa_replaced :: bool
  aa_retry :: int

record journal_writer =
  jw_bytes_written :: nat

definition corruption_errnos :: "int list" where
  "corruption_errnos = [5, 74, 61, 93, 112, 116, 22]"

definition is_corruption_errno :: "int \<Rightarrow> bool" where
  "is_corruption_errno errno \<longleftrightarrow> errno \<in> set corruption_errnos"

definition writer_append ::
  "append_answer \<Rightarrow> journal_entry \<Rightarrow> journal_writer \<Rightarrow> (writer_error + unit) \<times> journal_writer" where
  "writer_append a e w =
     (let estimate = 64 + length (je_fields e) * 16
      in if list_ex (\<lambda>(k, _). CHR 0x00 \<in> set k) (je_fields e) then (Inl Key_Nul, w)
         else if 0 \<le> aa_rc a then (Inr (), w\<lparr> jw_bytes_written := jw_bytes_written w + estimate \<rparr>)
         else if \<not> is_corruption_errno (- aa_rc a) then (Inl (Append_Failed (- aa_rc a)), w)
         else if \<not> aa_replaced a then (Inl (Quarantine_Failed (- aa_rc a)), w)
         else if aa_retry a < 0 then (Inl (Retry_Failed (- aa_retry a)), w\<lparr> jw_bytes_written := 0 \<rparr>)
         else (Inr (), w\<lparr> jw_bytes_written := estimate \<rparr>))"

datatype sink_failure = Writer_Closed | Append_Error writer_error

text \<open>The writer slot is absent for an in-memory sink and empty after the shutdown; \<open>js_disk\<close> is what the
  writer has accepted.\<close>

record journal_sink =
  js_ring :: entry_ring
  js_writer :: "journal_writer option option"
  js_failure :: "sink_failure option"
  js_disk :: "journal_entry list"

definition sink_in_memory :: "entry_ring \<Rightarrow> journal_sink" where
  "sink_in_memory r = \<lparr> js_ring = r, js_writer = None, js_failure = None, js_disk = [] \<rparr>"

definition sink_with_writer :: "entry_ring \<Rightarrow> journal_writer \<Rightarrow> journal_sink" where
  "sink_with_writer r w = \<lparr> js_ring = r, js_writer = Some (Some w), js_failure = None, js_disk = [] \<rparr>"

definition record_failure :: "sink_failure \<Rightarrow> journal_sink \<Rightarrow> journal_sink" where
  "record_failure f s = (if js_failure s = None then s\<lparr> js_failure := Some f \<rparr> else s)"

definition sink_record :: "append_answer \<Rightarrow> journal_entry \<Rightarrow> journal_sink \<Rightarrow> journal_sink" where
  "sink_record a e s =
     (if js_failure s \<noteq> None then s
      else case js_writer s of
        None \<Rightarrow> s\<lparr> js_ring := ring_push e (js_ring s) \<rparr>
      | Some None \<Rightarrow> record_failure Writer_Closed s
      | Some (Some w) \<Rightarrow>
          (case writer_append a e w of
             (Inl err, w') \<Rightarrow> record_failure (Append_Error err) (s\<lparr> js_writer := Some (Some w') \<rparr>)
           | (Inr _, w') \<Rightarrow> s\<lparr> js_writer := Some (Some w'), js_disk := js_disk s @ [e],
                               js_ring := ring_push e (js_ring s) \<rparr>))"

definition sink_shutdown :: "journal_sink \<Rightarrow> journal_sink" where
  "sink_shutdown s = (case js_writer s of Some (Some _) \<Rightarrow> s\<lparr> js_writer := Some None \<rparr> | _ \<Rightarrow> s)"

text \<open>The receiver: the datagrams that wait, each with its credentials, until the socket is empty.  A
  panic is the result \<open>None\<close>.\<close>

fun receiver_on_io ::
  "(nat \<Rightarrow> append_answer) \<Rightarrow> (string \<times> peer_cred) list \<Rightarrow> journal_env \<times> journal_sink
   \<Rightarrow> (journal_env \<times> journal_sink) option" where
  "receiver_on_io ans [] st = Some st"
| "receiver_on_io ans ((buf, cred) # rest) (env, s) =
     (if buf = [] then Some (env, s)
      else case parse_datagram_with_peer buf (peer_of cred) env of
        Panicked \<Rightarrow> None
      | Rejected \<Rightarrow> receiver_on_io ans rest (env, s)
      | Parsed (e, env') \<Rightarrow> receiver_on_io ans rest (env', sink_record (ans (je_seqnum e)) e s))"

section \<open>The stdout stream\<close>

definition MAX_HEADER_LINE_BYTES :: nat where "MAX_HEADER_LINE_BYTES = 4 * 1024"
definition MAX_MESSAGE_LINE_BYTES :: nat where "MAX_MESSAGE_LINE_BYTES = 64 * 1024"
definition MAX_MESSAGES_PER_CONNECTION :: nat where "MAX_MESSAGES_PER_CONNECTION = 100000"
definition DEFAULT_LOG_RATE_LIMIT_INTERVAL :: nat where "DEFAULT_LOG_RATE_LIMIT_INTERVAL = 30000000"
definition DEFAULT_LOG_RATE_LIMIT_BURST :: nat where "DEFAULT_LOG_RATE_LIMIT_BURST = 10000"

text \<open>\<open>peer_authorized\<close>; \<open>euid\<close> is the user of the daemon.\<close>

definition peer_authorized :: "nat \<Rightarrow> peer_cred \<Rightarrow> bool" where
  "peer_authorized euid peer \<longleftrightarrow> pc_uid peer = 0 \<or> pc_uid peer = euid"

text \<open>Intervals and instants are microseconds.\<close>

record log_rate_limiter =
  rl_interval :: nat
  rl_burst :: nat
  rl_tokens :: nat
  rl_window_start :: nat

definition nonzero_or :: "nat \<Rightarrow> nat option \<Rightarrow> nat" where
  "nonzero_or d v = (case v of Some n \<Rightarrow> if n = 0 then d else n | None \<Rightarrow> d)"

definition from_unit_settings :: "nat \<Rightarrow> nat option \<Rightarrow> nat option \<Rightarrow> log_rate_limiter" where
  "from_unit_settings now interval burst =
     (let interval = nonzero_or DEFAULT_LOG_RATE_LIMIT_INTERVAL interval;
          burst = nonzero_or DEFAULT_LOG_RATE_LIMIT_BURST burst
      in \<lparr> rl_interval = interval, rl_burst = burst, rl_tokens = burst, rl_window_start = now \<rparr>)"

definition limiter_allow :: "nat \<Rightarrow> log_rate_limiter \<Rightarrow> bool \<times> log_rate_limiter" where
  "limiter_allow now l =
     (let l = (if rl_interval l \<le> now - rl_window_start l then l\<lparr> rl_window_start := now, rl_tokens := rl_burst l \<rparr>
               else l)
      in if rl_tokens l = 0 then (False, l) else (True, l\<lparr> rl_tokens := rl_tokens l - 1 \<rparr>))"

text \<open>One line of at most \<open>limit\<close> bytes with its end, and the rest of the stream; \<open>None\<close> ends the
  connection.\<close>

definition read_bounded_line :: "nat \<Rightarrow> string \<Rightarrow> (string \<times> string) option" where
  "read_bounded_line limit s =
     (let n = (case position (\<lambda>b. b = CHR 0x0A) (take (limit + 1) s) of
                 Some i \<Rightarrow> i + 1
               | None \<Rightarrow> length (take (limit + 1) s));
          buf = take n s;
          line = (if buf \<noteq> [] \<and> last buf = CHR 0x0A then
                    (let b = butlast buf in if b \<noteq> [] \<and> last b = CHR 0x0D then butlast b else b)
                  else buf)
      in if n = 0 \<or> limit < n \<or> \<not> valid_str line then None else Some (line, drop n s))"

fun read_header_lines :: "nat \<Rightarrow> string \<Rightarrow> (string list \<times> string) option" where
  "read_header_lines 0 s = Some ([], s)"
| "read_header_lines (Suc n) s =
     (case read_bounded_line MAX_HEADER_LINE_BYTES s of
        None \<Rightarrow> None
      | Some (l, s') \<Rightarrow> map_option (\<lambda>(ls, r). (l # ls, r)) (read_header_lines n s'))"

definition apply_extra :: "string \<Rightarrow> nat option \<times> nat option \<Rightarrow> nat option \<times> nat option" where
  "apply_extra extra st =
     (case split_once (CHR ''='') extra of
        None \<Rightarrow> st
      | Some (key, v) \<Rightarrow>
          if key = ''RUSTD_LOG_RATE_INTERVAL_USEC'' then
            (case parse_u64 v of Some usec \<Rightarrow> (Some usec, snd st) | None \<Rightarrow> st)
          else if key = ''RUSTD_LOG_RATE_BURST'' then
            (case parse_u32 v of Some n \<Rightarrow> (fst st, Some n) | None \<Rightarrow> st)
          else st)"

definition stdout_fields :: "string \<Rightarrow> nat \<Rightarrow> string \<Rightarrow> peer_cred \<Rightarrow> string \<Rightarrow> fields" where
  "stdout_fields identifier prio trusted_unit peer line =
     (let fs = AList.update ''PRIORITY'' (show_nat prio) (AList.update ''MESSAGE'' line []);
          fs = (if identifier \<noteq> [] then AList.update ''SYSLOG_IDENTIFIER'' identifier fs else fs);
          fs = (if trusted_unit \<noteq> [] then
                  AList.update ''_RUSTD_UNIT'' trusted_unit (AList.update ''_SYSTEMD_UNIT'' trusted_unit fs)
                else fs)
      in AList.update ''_TRANSPORT'' ''stdout'' (peer_fields peer fs))"

text \<open>The loop over the messages of a connection: the fields of the entries it records.  \<open>now\<close> gives the
  instant at which the limiter is asked for the line that starts with so many lines left.\<close>

fun serve_lines ::
  "nat \<Rightarrow> (nat \<Rightarrow> nat) \<Rightarrow> (string \<Rightarrow> fields) \<Rightarrow> log_rate_limiter \<Rightarrow> string \<Rightarrow> fields list" where
  "serve_lines 0 now mk l s = []"
| "serve_lines (Suc n) now mk l s =
     (case read_bounded_line MAX_MESSAGE_LINE_BYTES s of
        None \<Rightarrow> []
      | Some (line, s') \<Rightarrow>
          if line = [] then serve_lines n now mk l s'
          else
            (case limiter_allow (now n) l of
               (False, l') \<Rightarrow> serve_lines n now mk l' s'
             | (True, l') \<Rightarrow> mk line # serve_lines n now mk l' s'))"

definition serve_connection ::
  "nat \<Rightarrow> peer_cred \<Rightarrow> nat \<Rightarrow> (nat \<Rightarrow> nat) \<Rightarrow> string \<Rightarrow> fields list" where
  "serve_connection euid peer start now s =
     (case read_header_lines 7 s of
        Some ([identifier, unit_name, priority_line, _, _, _, extra_count_line], s1) \<Rightarrow>
          (let extra_count = min (case parse_u64 extra_count_line of Some n \<Rightarrow> n | None \<Rightarrow> 0) 32
           in case read_header_lines extra_count s1 of
                None \<Rightarrow> []
              | Some (extras, s2) \<Rightarrow>
                  (let (interval, burst) = fold apply_extra extras (None, None);
                       limiter = from_unit_settings start interval burst;
                       prio = (case parse_uint 255 priority_line of Some n \<Rightarrow> n | None \<Rightarrow> 6);
                       trusted_unit = (if peer_authorized euid peer then unit_name else [])
                   in serve_lines MAX_MESSAGES_PER_CONNECTION now (stdout_fields identifier prio trusted_unit peer)
                        limiter s2))
      | _ \<Rightarrow> [])"

text \<open>The header the manager writes on the stream of a service.\<close>

definition service_stream_header ::
  "string \<Rightarrow> string \<Rightarrow> nat \<Rightarrow> nat option \<Rightarrow> nat option \<Rightarrow> string" where
  "service_stream_header identifier unit_name prio rate_interval rate_burst =
     (let interval = nonzero_or DEFAULT_LOG_RATE_LIMIT_INTERVAL rate_interval;
          burst = nonzero_or DEFAULT_LOG_RATE_LIMIT_BURST rate_burst;
          nl = [CHR 0x0A]
      in identifier @ nl @ unit_name @ nl @ show_nat prio @ nl @ ''0'' @ nl @ ''0'' @ nl @ nl @ ''2'' @ nl
         @ ''RUSTD_LOG_RATE_INTERVAL_USEC='' @ show_nat (min interval u64_max) @ nl
         @ ''RUSTD_LOG_RATE_BURST='' @ show_nat burst @ nl)"

section \<open>Archived files\<close>

record archive =
  ar_name :: string
  ar_mtime :: nat
  ar_size :: nat

definition DEFAULT_MAX_FILE_SIZE :: nat where "DEFAULT_MAX_FILE_SIZE = 128 * 1024 * 1024"
definition DEFAULT_MAX_USE :: nat where "DEFAULT_MAX_USE = 4 * 1024 * 1024 * 1024"

definition needs_rotation :: "nat \<Rightarrow> journal_writer \<Rightarrow> bool" where
  "needs_rotation max_file_size w \<longleftrightarrow> \<not> jw_bytes_written w < max_file_size"

definition collect_archives :: "archive list \<Rightarrow> archive list" where
  "collect_archives = filter (\<lambda>f. starts_with (ar_name f) ''archive-'' \<and> ends_with (ar_name f) ''.journal'')"

definition total_size :: "archive list \<Rightarrow> nat" where
  "total_size fs = sum_list (map ar_size fs)"

text \<open>The files the loop removes, in order.\<close>

fun vacuum_loop :: "nat \<Rightarrow> nat \<Rightarrow> nat \<Rightarrow> nat \<Rightarrow> archive list \<Rightarrow> archive list" where
  "vacuum_loop now max_use retention used [] = []"
| "vacuum_loop now max_use retention used (f # fs) =
     (if max_use < used \<or> (0 < retention \<and> retention < now - ar_mtime f)
      then f # vacuum_loop now max_use retention (used - ar_size f) fs
      else [])"

definition vacuum :: "nat \<Rightarrow> nat \<Rightarrow> nat \<Rightarrow> archive list \<Rightarrow> archive list" where
  "vacuum now max_use retention fs =
     (let archives = sort_key ar_mtime (collect_archives fs)
      in vacuum_loop now max_use retention (total_size archives) archives)"

end
