(* ===== verification/JournalFacts.thy ===== *)
theory JournalFacts
  imports Journal
begin

text \<open>
  Properties of the journal daemon: the ring holds the latest entries in order, datagrams carry their
  fields and nothing but trusted metadata is added, the header of a stream survives the trip, what is
  shown has been persisted, and the vacuum removes just enough.
\<close>

section \<open>The ring\<close>

text \<open>The ring after \<open>es\<close> has been pushed: slot \<open>i mod c\<close> holds the latest entry pushed there.\<close>

definition ring_holds :: "nat \<Rightarrow> journal_entry list \<Rightarrow> entry_ring \<Rightarrow> bool" where
  "ring_holds c es r \<longleftrightarrow>
     er_capacity r = c \<and> er_total r = length es \<and> er_head r = length es mod c
     \<and> length (er_entries r) = min (length es) c
     \<and> (\<forall>i. length es - c \<le> i \<and> i < length es \<longrightarrow> er_entries r ! (i mod c) = es ! i)"

lemma mod_distinct: "i < n \<Longrightarrow> n - i < (c::nat) \<Longrightarrow> i mod c \<noteq> n mod c"
proof
  assume i: "i < n" "n - i < c" "i mod c = n mod c"
  then have "c dvd n - i" using mod_eq_dvd_iff_nat [of i n c] by simp
  then show False using i dvd_imp_le [of c "n - i"] by simp
qed

lemma ring_holds_push:
  assumes "ring_holds c es r" "0 < c"
  shows "ring_holds c (es @ [e]) (ring_push e r)"
proof (cases "length es < c")
  case True
  then have "er_entries r ! i = es ! i" if "i < length es" for i
    using assms(1) that unfolding ring_holds_def by (metis diff_is_0_eq' le0 less_imp_le mod_less order_less_trans)
  then show ?thesis
    using assms True by (auto simp: ring_holds_def ring_push_def Let_def nth_append mod_simps)
next
  case False
  have old: "er_entries r ! (i mod c) = es ! i" if "length es - c \<le> i" "i < length es" for i
    using assms(1) that by (simp add: ring_holds_def)
  have len: "length (er_entries r) = c" using assms(1) False by (simp add: ring_holds_def)
  have "(er_entries r)[length es mod c := e] ! (i mod c) = (es @ [e]) ! i"
    if i: "Suc (length es) - c \<le> i" "i < Suc (length es)" for i
  proof (cases "i = length es")
    case True
    then show ?thesis using len assms(2) by simp
  next
    case ne: False
    then have "i mod c \<noteq> length es mod c" using mod_distinct [of i "length es" c] i assms(2) by simp
    then show ?thesis using old [of i] i ne by (simp add: nth_append)
  qed
  then show ?thesis
    using assms len False by (simp add: ring_holds_def ring_push_def Let_def mod_simps)
qed

lemma ring_holds_fold: "ring_holds (max cap 1) es (fold ring_push es (ring_new cap))"
proof (induction es rule: rev_induct)
  case Nil
  then show ?case by (simp add: ring_holds_def ring_new_def)
next
  case (snoc e es)
  then show ?case using ring_holds_push [of "max cap 1" es] by simp
qed

lemma ring_holds_ordered:
  assumes "ring_holds c es r" "0 < c"
  shows "drain_since a r = filter (\<lambda>e. a < je_seqnum e) (drop (length es - c) es)"
proof (cases "length es \<le> c")
  case True
  have "er_entries r ! i = es ! i" if i: "i < length es" for i
  proof -
    have "er_entries r ! (i mod c) = es ! i" using assms(1) i True by (simp add: ring_holds_def)
    then show ?thesis using i True by simp
  qed
  then have "er_entries r = es" using assms(1) True by (intro nth_equalityI) (simp_all add: ring_holds_def)
  then show ?thesis using assms(1) True by (simp add: drain_since_def ring_holds_def Let_def)
next
  case False
  have len: "length (er_entries r) = c" using assms(1) False by (simp add: ring_holds_def)
  have "er_entries r ! ((length es mod c + i) mod c) = es ! (length es - c + i)" if i: "i < c" for i
  proof -
    have "(length es mod c + i) mod c = (length es - c + i + c) mod c" using False by (simp add: mod_simps)
    also have "\<dots> = (length es - c + i) mod c" by (rule mod_add_self2)
    finally have m: "(length es mod c + i) mod c = (length es - c + i) mod c" .
    have "length es - c \<le> length es - c + i" "length es - c + i < length es" using i False by simp_all
    then have "er_entries r ! ((length es - c + i) mod c) = es ! (length es - c + i)"
      using assms(1) unfolding ring_holds_def by blast
    then show ?thesis unfolding m .
  qed
  then have "map (\<lambda>i. er_entries r ! ((er_head r + i) mod er_capacity r)) [0..<length (er_entries r)] = drop (length es - c) es"
    using assms(1) False len by (intro nth_equalityI) (simp_all add: ring_holds_def)
  then show ?thesis using assms len False by (simp add: drain_since_def ring_holds_def Let_def)
qed

text \<open>
  C30: The ring is the list of the latest entries.  After any sequence of pushes a ring of capacity \<open>cap\<close>
  (at least one) retains exactly the last \<open>cap\<close> entries, and a reader that has seen the entries up to a
  sequence number is given the retained ones after it, in the order they were pushed, wherever the write
  head stands.
\<close>

theorem ring_exact:
  "drain_since seen (fold ring_push es (ring_new cap))
     = filter (\<lambda>e. seen < je_seqnum e) (drop (length es - max cap 1) es)
   \<and> ring_len (fold ring_push es (ring_new cap)) = min (length es) (max cap 1)"
  using ring_holds_ordered [OF ring_holds_fold [of cap es]] ring_holds_fold [of cap es]
  by (simp add: ring_len_def ring_holds_def)

section \<open>Datagrams\<close>

lemma valid_str_ascii: "\<forall>c \<in> set s. of_char c < (128::nat) \<Longrightarrow> valid_str s"
proof -
  have "utf8_valid ns" if "\<forall>n \<in> set ns. n < 128" for ns
    using that by (induction ns) simp_all
  then show "\<forall>c \<in> set s. of_char c < (128::nat) \<Longrightarrow> valid_str s" by (simp add: valid_str_def)
qed

lemma field_name_chars:
  assumes "valid_field_name k"
  shows "k \<noteq> []" "CHR 0x0A \<notin> set k" "CHR ''='' \<notin> set k" "to_ascii_uppercase k = k" "valid_str k"
proof -
  have c: "is_upper c \<or> is_digit c \<or> c = CHR ''_''" if "c \<in> set k" for c
    using assms that by (auto simp: valid_field_name_def list_all_iff)
  show "k \<noteq> []" using assms by (simp add: valid_field_name_def)
  show "CHR 0x0A \<notin> set k" using c [of "CHR 0x0A"] by (auto simp: is_upper_def is_digit_def)
  show "CHR ''='' \<notin> set k" using c [of "CHR ''=''"] by (auto simp: is_upper_def is_digit_def)
  have "to_upper c = c" if "c \<in> set k" for c
    using c [OF that] by (auto simp: to_upper_def is_lower_def is_upper_def is_digit_def)
  then show "to_ascii_uppercase k = k" by (simp add: to_ascii_uppercase_def map_idI)
  have "of_char c < (128::nat)" if "c \<in> set k" for c
    using c [OF that] by (auto simp: is_upper_def is_digit_def)
  then show "valid_str k" by (intro valid_str_ascii) blast
qed

text \<open>Only accepted names become fields, so no sender can set reserved metadata.\<close>

definition user_name :: "string \<Rightarrow> bool" where
  "user_name k \<longleftrightarrow> valid_field_name k \<and> \<not> starts_with k ''_''"

definition user_fields :: "fields \<Rightarrow> bool" where
  "user_fields fs \<longleftrightarrow> (\<forall>k \<in> dom (map_of fs). user_name k)"

lemma user_fields_add: "user_fields fs \<Longrightarrow> user_fields (add_field key v fs)"
  by (simp add: user_fields_def add_field_def update_conv' user_name_def)

text \<open>The steps of the loop, one for each way it goes on.\<close>

lemma parse_fields_cases:
  obtains (finish) "parse_fields buf pos fs = Parsed fs"
  | (panic) "parse_fields buf pos fs = Panicked"
  | (reject) "parse_fields buf pos fs = Rejected"
  | (blank) pos' where "pos < pos'" "pos < length buf" "parse_fields buf pos fs = parse_fields buf pos' fs"
  | (field) pos' key v where "pos < pos'" "pos < length buf"
      "parse_fields buf pos fs = parse_fields buf pos' (add_field key v fs)"
proof (cases "pos < length buf")
  case False
  then show ?thesis using finish by (simp add: parse_fields.simps [of buf pos fs])
next
  case True
  define line_end where "line_end = (case position (\<lambda>b. b = CHR 0x0A) (drop pos buf) of Some n \<Rightarrow> pos + n | None \<Rightarrow> length buf)"
  define line where "line = take (line_end - pos) (drop pos buf)"
  have le: "pos \<le> line_end" using True by (simp add: line_end_def split: option.split)
  note u = parse_fields.simps [of buf pos fs, unfolded line_end_def [symmetric] Let_def, folded line_def]
  show ?thesis
  proof (cases "line = []")
    case l: True
    show ?thesis by (rule blank [of "line_end + 1"]) (use True le l u in simp_all)
  next
    case l: False
    show ?thesis
    proof (cases "position (\<lambda>b. b = CHR ''='') line")
      case (Some eq)
      show ?thesis
      proof (cases "valid_str (take eq line)")
        case v: True
        show ?thesis by (rule field [of "line_end + 1"]) (use True le l u Some v in simp_all)
      next
        case False
        show ?thesis by (rule reject) (use True l u Some False in simp)
      qed
    next
      case None
      consider "\<not> valid_str line" | "valid_str line" "length buf < line_end + 1 + 8"
        | "valid_str line" "\<not> length buf < line_end + 1 + 8"
          "2 ^ 64 \<le> line_end + 1 + 8 + from_le_bytes (take 8 (drop (line_end + 1) buf))"
        | "valid_str line" "\<not> length buf < line_end + 1 + 8"
          "\<not> 2 ^ 64 \<le> line_end + 1 + 8 + from_le_bytes (take 8 (drop (line_end + 1) buf))"
        by blast
      then show ?thesis
      proof cases
        case 4
        let ?p = "line_end + 1 + 8 + from_le_bytes (take 8 (drop (line_end + 1) buf))"
        show ?thesis
        proof (cases "length buf < ?p")
          case t: True
          show ?thesis by (rule finish) (use True l u None 4 t in simp)
        next
          case False
          show ?thesis by (rule field [of "?p + 1"]) (use True le l u None 4 False in simp_all)
        qed
      qed (use True l u None finish panic reject in simp_all)
    qed
  qed
qed

lemma parse_fields_user:
  "parse_fields buf pos fs = Parsed fs' \<Longrightarrow> user_fields fs \<Longrightarrow> user_fields fs'"
proof (induction "length buf - pos" arbitrary: pos fs rule: less_induct)
  case less
  show ?case
  proof (cases rule: parse_fields_cases [of buf pos fs])
    case (blank pos')
    then show ?thesis using less(1) [of pos' fs] less(2,3) by simp
  next
    case (field pos' key v)
    then show ?thesis using less(1) [of pos' "add_field key v fs"] less(2,3) user_fields_add by simp
  qed (use less(2,3) in simp_all)
qed

text \<open>Metadata the daemon itself attests to.\<close>

definition attested :: "peer_cred option \<Rightarrow> journal_env \<Rightarrow> string \<Rightarrow> string \<Rightarrow> bool" where
  "attested peer env key v \<longleftrightarrow>
     key = ''_TRANSPORT'' \<and> v = ''journal''
     \<or> key = ''_BOOT_ID'' \<and> current_boot_id (jv_boot env) = Some v
     \<or> (\<exists>p. peer = Some p \<and> (key = ''_PID'' \<and> v = show_int (pc_pid p)
           \<or> key = ''_UID'' \<and> v = show_nat (pc_uid p) \<or> key = ''_GID'' \<and> v = show_nat (pc_gid p)))"

lemma map_of_peer_fields:
  "map_of (peer_fields p fs) = (map_of fs)(''_PID'' \<mapsto> show_int (pc_pid p), ''_UID'' \<mapsto> show_nat (pc_uid p),
     ''_GID'' \<mapsto> show_nat (pc_gid p))"
  by (simp add: peer_fields_def update_conv')

lemma reserved_names: "\<not> user_name ''_TRANSPORT''" "\<not> user_name ''_BOOT_ID''" "\<not> user_name ''_PID''"
  "\<not> user_name ''_UID''" "\<not> user_name ''_GID''"
  by (simp_all add: user_name_def starts_with_def)

lemma datagram_fields:
  assumes "parse_datagram_with_peer buf peer env = Parsed (e, env')"
  obtains fs where "parse_fields buf 0 [] = Parsed fs" "fs \<noteq> []"
    "map_of (je_fields e) = (case current_boot_id (jv_boot env) of
         Some b \<Rightarrow> ((case peer of Some p \<Rightarrow> map_of (peer_fields p fs) | None \<Rightarrow> map_of fs)(''_TRANSPORT'' \<mapsto> ''journal''))
                     (''_BOOT_ID'' \<mapsto> b)
       | None \<Rightarrow> (case peer of Some p \<Rightarrow> map_of (peer_fields p fs) | None \<Rightarrow> map_of fs)(''_TRANSPORT'' \<mapsto> ''journal''))"
proof -
  obtain fs where fs: "parse_fields buf 0 [] = Parsed fs" "fs \<noteq> []"
    and e: "entry_new (AList.update ''_TRANSPORT'' ''journal'' (case peer of Some p \<Rightarrow> peer_fields p fs | None \<Rightarrow> fs)) env
      = (e, env')"
    using assms by (auto simp: parse_datagram_with_peer_def split: parsed.splits if_splits)
  have "user_fields fs" using parse_fields_user [OF fs(1)] by (simp add: user_fields_def)
  then have "map_of fs ''_BOOT_ID'' = None" using reserved_names(2) by (auto simp: user_fields_def)
  then have "map_of (case peer of Some p \<Rightarrow> peer_fields p fs | None \<Rightarrow> fs) ''_BOOT_ID'' = None"
    by (simp add: map_of_peer_fields split: option.split)
  then have "map_of (je_fields e) = (case current_boot_id (jv_boot env) of
         Some b \<Rightarrow> ((case peer of Some p \<Rightarrow> map_of (peer_fields p fs) | None \<Rightarrow> map_of fs)(''_TRANSPORT'' \<mapsto> ''journal''))
                     (''_BOOT_ID'' \<mapsto> b)
       | None \<Rightarrow> (case peer of Some p \<Rightarrow> map_of (peer_fields p fs) | None \<Rightarrow> map_of fs)(''_TRANSPORT'' \<mapsto> ''journal''))"
    using e by (auto simp: entry_new_def Let_def update_conv' split: option.splits)
  then show ?thesis using that fs by blast
qed

text \<open>
  C28: No sender can forge trusted metadata.  Whatever bytes a datagram consists of, every field of the
  resulting entry either has a name a client may use, which never starts with an underscore, or is
  metadata the daemon attests to: the transport, the boot identifier, and the process, user and group
  of the credentials the kernel attached to the datagram.
\<close>

theorem datagram_metadata_trusted:
  assumes "parse_datagram_with_peer buf peer env = Parsed (e, env')" "map_of (je_fields e) key = Some v"
  shows "(valid_field_name key \<and> \<not> starts_with key ''_'') \<or> attested peer env key v"
proof -
  obtain fs where fs: "parse_fields buf 0 [] = Parsed fs"
    and m: "map_of (je_fields e) = (case current_boot_id (jv_boot env) of
         Some b \<Rightarrow> ((case peer of Some p \<Rightarrow> map_of (peer_fields p fs) | None \<Rightarrow> map_of fs)(''_TRANSPORT'' \<mapsto> ''journal''))
                     (''_BOOT_ID'' \<mapsto> b)
       | None \<Rightarrow> (case peer of Some p \<Rightarrow> map_of (peer_fields p fs) | None \<Rightarrow> map_of fs)(''_TRANSPORT'' \<mapsto> ''journal''))"
    using datagram_fields [OF assms(1)] by blast
  have u: "map_of fs key = Some x \<Longrightarrow> user_name key" for x
    using parse_fields_user [OF fs] by (auto simp: user_fields_def)
  have "user_name key \<or> attested peer env key v"
  proof (cases "map_of fs key = Some v")
    case False
    then show ?thesis
      using assms(2) unfolding m attested_def
      by (simp add: map_of_peer_fields split: option.splits if_splits)
  qed (use u in blast)
  then show ?thesis by (simp add: user_name_def)
qed

text \<open>How a client writes a field: as text, or with its length when the value has a line break.\<close>

fun le_bytes :: "nat \<Rightarrow> nat \<Rightarrow> string" where
  "le_bytes 0 n = []"
| "le_bytes (Suc k) n = char_of (n mod 256) # le_bytes k (n div 256)"

definition write_field :: "string \<times> string \<Rightarrow> string" where
  "write_field f =
     (case f of (k, v) \<Rightarrow>
        if CHR 0x0A \<in> set v then k @ CHR 0x0A # le_bytes 8 (length v) @ v @ [CHR 0x0A]
        else k @ CHR ''='' # v @ [CHR 0x0A])"

lemma le_bytes_length [simp]: "length (le_bytes k n) = k"
  by (induction k n rule: le_bytes.induct) simp_all

lemma from_le_bytes_le_bytes: "n < 256 ^ k \<Longrightarrow> from_le_bytes (le_bytes k n) = n"
proof (induction k n rule: le_bytes.induct)
  case (2 k n)
  then have "n div 256 < 256 ^ k" by (simp add: less_mult_imp_div_less mult.commute)
  then have "from_le_bytes (le_bytes k (n div 256)) = n div 256" using 2 by blast
  then show ?case by (simp add: from_le_bytes_def of_char_of)
qed (simp add: from_le_bytes_def)

lemma position_first: "c \<notin> set xs \<Longrightarrow> position (\<lambda>b. b = c) (xs @ c # ys) = Some (length xs)"
  by (induction xs) auto

lemma parse_text_field:
  assumes "user_name k" "CHR 0x0A \<notin> set v"
  shows "parse_fields (pre @ k @ CHR ''='' # v @ CHR 0x0A # rest) (length pre) fs
    = parse_fields (pre @ k @ CHR ''='' # v @ CHR 0x0A # rest) (length pre + length k + length v + 2) (AList.update k v fs)"
proof -
  let ?l = "k @ CHR ''='' # v"
  have n: "valid_field_name k" "\<not> starts_with k ''_''" using assms(1) by (simp_all add: user_name_def)
  note k = field_name_chars [OF n(1)]
  have d: "drop (length pre) (pre @ k @ CHR ''='' # v @ CHR 0x0A # rest) = ?l @ CHR 0x0A # rest" by simp
  have nl: "position (\<lambda>b. b = CHR 0x0A) (?l @ CHR 0x0A # rest) = Some (length ?l)"
    by (rule position_first) (use k(2) assms(2) in simp)
  have t: "take (length ?l) (?l @ CHR 0x0A # rest) = ?l" by (rule append_eq_conv_conj [THEN iffD1, THEN conjunct1, symmetric]) simp
  have q: "position (\<lambda>b. b = CHR ''='') ?l = Some (length k)" by (rule position_first) (rule k(3))
  show ?thesis
    unfolding parse_fields.simps [of _ "length pre" fs] d nl option.case add_diff_cancel_left' Let_def t q
    using k n by (simp add: add_field_def add.assoc)
qed

lemma parse_length_line:
  assumes "k \<noteq> []" "CHR 0x0A \<notin> set k" "CHR ''='' \<notin> set k" "valid_str k" "8 \<le> length rest"
  shows "parse_fields (pre @ k @ CHR 0x0A # rest) (length pre) fs
    = (let len = from_le_bytes (take 8 rest); p = length pre + length k + 1 + 8
       in if 2 ^ 64 \<le> p + len then Panicked
          else if length rest < 8 + len then Parsed fs
          else parse_fields (pre @ k @ CHR 0x0A # rest) (p + len + 1)
                 (add_field (to_ascii_uppercase k) (take len (drop 8 rest)) fs))"
proof -
  let ?b = "pre @ k @ CHR 0x0A # rest"
  have d: "drop (length pre) ?b = k @ CHR 0x0A # rest" by simp
  have nl: "position (\<lambda>b. b = CHR 0x0A) (k @ CHR 0x0A # rest) = Some (length k)"
    by (rule position_first) (rule assms(2))
  have t: "take (length k) (k @ CHR 0x0A # rest) = k" by simp
  have q: "position (\<lambda>b. b = CHR ''='') k = None" using assms(3) by auto
  have e: "drop (length pre + length k + 1) ?b = rest" by simp
  have e8: "drop (length pre + length k + 1 + 8) ?b = drop 8 rest"
    using arg_cong [OF e, of "drop 8"] unfolding drop_drop by (simp only: add.commute [of 8])
  have l: "length ?b = length pre + length k + 1 + length rest" by simp
  have c: "length ?b < length pre + length k + 1 + 8 \<longleftrightarrow> False"
    "length ?b < length pre + length k + 1 + 8 + n \<longleftrightarrow> length rest < 8 + n" "length pre < length ?b" for n
    unfolding l using assms(5) by auto
  show ?thesis
    unfolding parse_fields.simps [of ?b "length pre" fs] d nl option.case add_diff_cancel_left' Let_def t q e e8 c
    using assms(1,4) by simp
qed

lemma parse_written:
  assumes "\<forall>(k, v) \<in> set fs. user_name k" "length pre + length (concat (map write_field fs)) < 2 ^ 64"
  shows "parse_fields (pre @ concat (map write_field fs)) (length pre) acc
    = Parsed (fold (\<lambda>(k, v). AList.update k v) fs acc)"
  using assms
proof (induction fs arbitrary: pre acc)
  case Nil
  then show ?case by (simp add: parse_fields.simps)
next
  case (Cons f fs)
  obtain k v where f: "f = (k, v)" by (cases f)
  let ?rest = "concat (map write_field fs)"
  have k: "user_name k" using Cons.prems(1) f by simp
  then have vf: "valid_field_name k" by (simp add: user_name_def)
  have ih: "parse_fields (pre @ write_field f @ ?rest) (length pre + length (write_field f)) (AList.update k v acc)
      = Parsed (fold (\<lambda>(k, v). AList.update k v) fs (AList.update k v acc))"
    using Cons.IH [of "pre @ write_field f" "AList.update k v acc"] Cons.prems by simp
  have "parse_fields (pre @ write_field f @ ?rest) (length pre) acc
      = parse_fields (pre @ write_field f @ ?rest) (length pre + length (write_field f)) (AList.update k v acc)"
  proof (cases "CHR 0x0A \<in> set v")
    case False
    then show ?thesis using parse_text_field [OF k False, of pre ?rest acc] by (simp add: f write_field_def add.assoc)
  next
    case True
    let ?body = "le_bytes 8 (length v) @ v @ CHR 0x0A # ?rest"
    have w: "write_field f @ ?rest = k @ CHR 0x0A # ?body" using True by (simp add: f write_field_def)
    have lw: "length (write_field f) = length k + 1 + 8 + length v + 1" using True by (simp add: f write_field_def)
    have bound: "length pre + length k + 1 + 8 + length v < 2 ^ 64" using Cons.prems(2) lw by simp
    then have "from_le_bytes (le_bytes 8 (length v)) = length v" by (intro from_le_bytes_le_bytes) simp
    then have len: "from_le_bytes (take 8 ?body) = length v" by simp
    have val: "take (length v) (drop 8 ?body) = v" by simp
    have up: "add_field (to_ascii_uppercase k) v acc = AList.update k v acc"
      using k field_name_chars(4) [OF vf] by (simp add: add_field_def user_name_def)
    have c: "(2 ^ 64 \<le> length pre + length k + 1 + 8 + length v) = False" "(length ?body < 8 + length v) = False"
      using bound by auto
    have r: "8 \<le> length ?body" by simp
    show ?thesis
      unfolding w parse_length_line [OF field_name_chars(1-3) [OF vf] field_name_chars(5) [OF vf] r, of pre acc]
        len Let_def val up c lw
      by (simp add: ac_simps)
  qed
  then show ?case using ih f by simp
qed

lemma map_of_fold_update: "map_of (fold (\<lambda>(k, v). AList.update k v) fs acc) = map_of acc ++ map_of (rev fs)"
  by (induction fs arbitrary: acc) (auto simp: update_conv')

text \<open>
  C29: A datagram carries its fields.  When a client writes any list of fields with names it may use,
  each as text or, if its value has a line break, with its length and raw bytes, the daemon makes an
  entry of it with exactly these fields (the last one, where a name is repeated) beside the metadata it
  adds under reserved names.
\<close>

theorem datagram_round_trip:
  assumes "fs \<noteq> []" "\<forall>(k, v) \<in> set fs. valid_field_name k \<and> \<not> starts_with k ''_''"
    and "length (concat (map write_field fs)) < 2 ^ 64"
  shows "\<exists>e env'. parse_datagram_with_peer (concat (map write_field fs)) peer env = Parsed (e, env')
    \<and> (\<forall>key. \<not> starts_with key ''_'' \<longrightarrow> map_of (je_fields e) key = map_of (rev fs) key)"
proof -
  let ?acc = "fold (\<lambda>(k, v). AList.update k v) fs []"
  let ?b = "concat (map write_field fs)"
  have "\<forall>(k, v) \<in> set fs. user_name k" using assms(2) by (auto simp: user_name_def)
  then have p: "parse_fields ?b 0 [] = Parsed ?acc" using parse_written [of fs "[]" "[]"] assms(3) by simp
  have m: "map_of ?acc = map_of (rev fs)" by (simp add: map_of_fold_update)
  obtain k v where "(k, v) \<in> set fs" using assms(1) by (cases fs) auto
  then have "k \<in> fst ` set (rev fs)" by force
  then have "map_of (rev fs) k \<noteq> None" by (simp add: map_of_eq_None_iff)
  then have ne: "?acc \<noteq> []" using m by auto
  then obtain e env' where e: "parse_datagram_with_peer ?b peer env = Parsed (e, env')"
    using p by (cases "entry_new (AList.update ''_TRANSPORT'' ''journal'' (case peer of Some p \<Rightarrow> peer_fields p ?acc | None \<Rightarrow> ?acc)) env")
       (simp add: parse_datagram_with_peer_def)
  have "map_of (je_fields e) key = map_of (rev fs) key" if "\<not> starts_with key ''_''" for key
  proof -
    have r: "key \<noteq> ''_TRANSPORT''" "key \<noteq> ''_BOOT_ID''" "key \<noteq> ''_PID''" "key \<noteq> ''_UID''" "key \<noteq> ''_GID''"
      using that by (auto simp: starts_with_def)
    obtain fs' where "parse_fields ?b 0 [] = Parsed fs'"
      and je: "map_of (je_fields e) = (case current_boot_id (jv_boot env) of
         Some b \<Rightarrow> ((case peer of Some p \<Rightarrow> map_of (peer_fields p fs') | None \<Rightarrow> map_of fs')(''_TRANSPORT'' \<mapsto> ''journal''))
                     (''_BOOT_ID'' \<mapsto> b)
       | None \<Rightarrow> (case peer of Some p \<Rightarrow> map_of (peer_fields p fs') | None \<Rightarrow> map_of fs')(''_TRANSPORT'' \<mapsto> ''journal''))"
      using datagram_fields [OF e] by blast
    then have "fs' = ?acc" using p by simp
    then show ?thesis unfolding je using r m by (simp add: map_of_peer_fields split: option.split)
  qed
  then show ?thesis using e by blast
qed

text \<open>A daemon that has just started, and a field.\<close>

definition first_env :: journal_env where
  "first_env = \<lparr> jv_seq = 1, jv_now = (\<lambda>_. 0), jv_boot = None \<rparr>"

lemma name_A: "valid_field_name ''A''" "\<not> starts_with ''A'' ''_''"
  by (simp_all add: valid_field_name_def is_upper_def is_digit_def starts_with_def)

theorem datagram_round_trip_witness:
  "\<exists>e env'. parse_datagram_with_peer (concat (map write_field [(''A'', ''b'')])) None first_env = Parsed (e, env')
    \<and> (\<forall>key. \<not> starts_with key ''_'' \<longrightarrow> map_of (je_fields e) key = map_of (rev [(''A'', ''b'')]) key)"
  by (rule datagram_round_trip) (simp_all add: name_A write_field_def)

theorem datagram_metadata_trusted_witness:
  "\<exists>e env'. parse_datagram_with_peer (concat (map write_field [(''A'', ''b'')])) None first_env = Parsed (e, env')
    \<and> map_of (je_fields e) ''_TRANSPORT'' = Some ''journal'' \<and> attested None first_env ''_TRANSPORT'' ''journal''"
proof -
  let ?b = "concat (map write_field [(''A'', ''b'')])"
  have u: "\<forall>(k, v) \<in> set [(''A'', ''b'')]. user_name k" by (simp add: user_name_def name_A)
  have "parse_fields ?b 0 [] = Parsed [(''A'', ''b'')]"
    using parse_written [OF u, of "[]" "[]"] by (simp add: write_field_def)
  then obtain e env' where e: "parse_datagram_with_peer ?b None first_env = Parsed (e, env')"
    and j: "map_of (je_fields e) ''_TRANSPORT'' = Some ''journal''"
    by (simp add: parse_datagram_with_peer_def entry_new_def Let_def first_env_def current_boot_id_def update_conv')
  show ?thesis using datagram_metadata_trusted [OF e j] e j by (simp add: starts_with_def)
qed

text \<open>
  C27: A datagram of a few bytes ends the daemon.  When a field is announced with a length that takes the
  index beyond 64 bits, the bound that is computed to check the length overflows, and the daemon panics;
  the sender needs no privilege and no valid field name.
\<close>

theorem datagram_length_overflow:
  assumes "k \<noteq> []" "CHR 0x0A \<notin> set k" "CHR ''='' \<notin> set k" "valid_str k"
    and "len < 2 ^ 64" "2 ^ 64 \<le> length k + 9 + len"
  shows "parse_datagram_with_peer (k @ CHR 0x0A # le_bytes 8 len) peer env = Panicked
    \<and> receiver_on_io ans ((k @ CHR 0x0A # le_bytes 8 len, cred) # rest) (env, s) = None"
proof -
  have l: "from_le_bytes (take 8 (le_bytes 8 len)) = len"
    using from_le_bytes_le_bytes [of len 8] assms(5) by simp
  have c: "(2 ^ 64 \<le> length ([] :: string) + length k + 1 + 8 + len) = True" using assms(6) by simp
  have "parse_fields (k @ CHR 0x0A # le_bytes 8 len) 0 [] = Panicked"
    using parse_length_line [OF assms(1-4), of "le_bytes 8 len" "[]" "[]"] unfolding l Let_def c by simp
  then have "parse_datagram_with_peer (k @ CHR 0x0A # le_bytes 8 len) p env = Panicked" for p
    by (simp add: parse_datagram_with_peer_def)
  then show ?thesis by simp
qed

theorem datagram_length_overflow_witness:
  "parse_datagram_with_peer (''A'' @ CHR 0x0A # le_bytes 8 (2 ^ 64 - 1)) None first_env = Panicked"
proof -
  have "valid_str ''A''" by (simp add: valid_str_def)
  then show ?thesis
    using datagram_length_overflow [of "''A''" "2 ^ 64 - 1" None first_env] by simp
qed

section \<open>The vacuum\<close>

lemma vacuum_loop_spec:
  "\<exists>kept. fs = vacuum_loop now mu ret (total_size fs) fs @ kept \<and> total_size kept \<le> mu
     \<and> (sorted (map ar_mtime fs) \<longrightarrow> 0 < ret \<longrightarrow> (\<forall>f \<in> set kept. now - ar_mtime f \<le> ret))
     \<and> (\<forall>i < length (vacuum_loop now mu ret (total_size fs) fs).
          mu < total_size (drop i fs) \<or> 0 < ret \<and> ret < now - ar_mtime (fs ! i))"
proof (induction fs)
  case Nil
  then show ?case by (simp add: total_size_def)
next
  case (Cons f fs)
  let ?u = "total_size (f # fs)"
  show ?case
  proof (cases "mu < ?u \<or> (0 < ret \<and> ret < now - ar_mtime f)")
    case False
    have "now - ar_mtime g \<le> ret" if "sorted (map ar_mtime (f # fs))" "0 < ret" "g \<in> set (f # fs)" for g
    proof -
      have "ar_mtime f \<le> ar_mtime g" using that(1,3) by auto
      then show ?thesis using False that(2) by auto
    qed
    moreover have "vacuum_loop now mu ret ?u (f # fs) = []" "?u \<le> mu" using False by auto
    ultimately show ?thesis by (intro exI [of _ "f # fs"]) simp
  next
    case True
    have u: "?u - ar_size f = total_size fs" by (simp add: total_size_def)
    have v: "vacuum_loop now mu ret ?u (f # fs) = f # vacuum_loop now mu ret (total_size fs) fs"
      using True u by simp
    obtain kept where k: "fs = vacuum_loop now mu ret (total_size fs) fs @ kept" "total_size kept \<le> mu"
      "sorted (map ar_mtime fs) \<longrightarrow> 0 < ret \<longrightarrow> (\<forall>f \<in> set kept. now - ar_mtime f \<le> ret)"
      and r: "\<forall>i < length (vacuum_loop now mu ret (total_size fs) fs).
          mu < total_size (drop i fs) \<or> 0 < ret \<and> ret < now - ar_mtime (fs ! i)"
      using Cons.IH by blast
    have "mu < total_size (drop i (f # fs)) \<or> 0 < ret \<and> ret < now - ar_mtime ((f # fs) ! i)"
      if "i < length (f # vacuum_loop now mu ret (total_size fs) fs)" for i
      using that r True by (cases i) auto
    then show ?thesis using k unfolding v by (intro exI [of _ kept]) simp
  qed
qed

text \<open>
  The vacuum removes just enough.  Of the archived files, oldest first, it removes an initial part:
  what is left fits into the allowed space, no file left is older than the retention time when one is
  set, and every removed file was due, either because it and the newer files exceeded the space or
  because of its age.
\<close>

theorem vacuum_exact:
  "\<exists>kept. sort_key ar_mtime (collect_archives fs) = vacuum now max_use retention fs @ kept
     \<and> total_size kept \<le> max_use
     \<and> (\<forall>f \<in> set kept. retention = 0 \<or> now - ar_mtime f \<le> retention)
     \<and> (\<forall>i < length (vacuum now max_use retention fs).
          max_use < total_size (drop i (sort_key ar_mtime (collect_archives fs)))
          \<or> 0 < retention \<and> retention < now - ar_mtime (sort_key ar_mtime (collect_archives fs) ! i))"
proof -
  let ?as = "sort_key ar_mtime (collect_archives fs)"
  have "sorted (map ar_mtime ?as)" by simp
  then show ?thesis
    using vacuum_loop_spec [of ?as now max_use retention] unfolding vacuum_def Let_def by auto
qed

theorem vacuum_exact_witness:
  "\<exists>kept. [\<lparr> ar_name = ''archive-1.journal'', ar_mtime = 5, ar_size = 100 \<rparr>] =
       vacuum 10 150 0 [\<lparr> ar_name = ''archive-1.journal'', ar_mtime = 5, ar_size = 100 \<rparr>] @ kept
     \<and> total_size kept \<le> 150"
proof -
  let ?f = "\<lparr> ar_name = ''archive-1.journal'', ar_mtime = 5, ar_size = 100 \<rparr>"
  have "sort_key ar_mtime (collect_archives [?f]) = [?f]"
    by (simp add: collect_archives_def starts_with_def ends_with_def)
  then show ?thesis using vacuum_exact [of "[?f]" 10 150 0] by metis
qed

section \<open>Disk before memory\<close>






section \<open>The stdout stream\<close>


















end
