(* ===== verification/DynamicUser.thy ===== *)
theory DynamicUser
  imports RustStr
begin

text \<open>
  The allocation of user identifiers for \<open>DynamicUser=\<close>, \<open>src/src/dynamic_user.rs\<close>.  The lock files are a
  set of names in the allocation directory; whether the directory can be prepared and a new file opened
  are answers of the operating system.
\<close>

definition DYNAMIC_UID_MIN :: nat where "DYNAMIC_UID_MIN = 61184"
definition DYNAMIC_UID_MAX :: nat where "DYNAMIC_UID_MAX = 65519"

definition dynamic_uid_dir :: "(string \<Rightarrow> string option) \<Rightarrow> string" where
  "dynamic_uid_dir var =
     (case var ''RUSTD_DYNAMIC_UID_DIR'' of
        Some d \<Rightarrow> d
      | None \<Rightarrow> (case var ''SYSTEMD_DYNAMIC_UID_DIR'' of Some d \<Rightarrow> d | None \<Rightarrow> ''/run/rustd/dynamic-uid''))"

record dynamic_user =
  du_uid :: nat
  du_name :: string
  du_lock :: string

datatype dynamic_user_error = Dir_Failed | Open_Failed | Exhausted string | Out_Of_Range nat
  | Lock_Missing | Lock_Not_Regular | Lock_Accessible

text \<open>The answers: is the directory created and private, and can a file that does not exist be created.\<close>

record lock_os =
  lo_dir_ok :: bool
  lo_open_ok :: "string \<Rightarrow> bool"

definition lock_name :: "nat \<Rightarrow> string \<Rightarrow> string" where
  "lock_name uid service_name = show_nat uid @ ''-'' @ service_name"

fun allocate_loop ::
  "lock_os \<Rightarrow> string \<Rightarrow> nat list \<Rightarrow> string list \<Rightarrow> (dynamic_user_error + dynamic_user) \<times> string list" where
  "allocate_loop os service_name [] locks = (Inl (Exhausted service_name), locks)"
| "allocate_loop os service_name (uid # uids) locks =
     (let name = lock_name uid service_name
      in if name \<in> set locks then allocate_loop os service_name uids locks
         else if \<not> lo_open_ok os name then (Inl Open_Failed, locks)
         else (Inr \<lparr> du_uid = uid, du_name = service_name, du_lock = name \<rparr>, name # locks))"

definition allocate_in :: "lock_os \<Rightarrow> string \<Rightarrow> string list \<Rightarrow> (dynamic_user_error + dynamic_user) \<times> string list" where
  "allocate_in os service_name locks =
     (if \<not> lo_dir_ok os then (Inl Dir_Failed, locks)
      else allocate_loop os service_name [DYNAMIC_UID_MIN..<DYNAMIC_UID_MAX + 1] locks)"

text \<open>The metadata of a lock file: is it a regular file, and its mode.\<close>

definition adopt :: "(string \<Rightarrow> (bool \<times> nat) option) \<Rightarrow> string \<Rightarrow> nat \<Rightarrow> dynamic_user_error + dynamic_user" where
  "adopt metadata service_name uid =
     (if \<not> (DYNAMIC_UID_MIN \<le> uid \<and> uid \<le> DYNAMIC_UID_MAX) then Inl (Out_Of_Range uid)
      else case metadata (lock_name uid service_name) of
        None \<Rightarrow> Inl Lock_Missing
      | Some (regular, mode) \<Rightarrow>
          if \<not> regular then Inl Lock_Not_Regular
          else if mode mod 64 \<noteq> 0 then Inl Lock_Accessible
          else Inr \<lparr> du_uid = uid, du_name = service_name, du_lock = lock_name uid service_name \<rparr>)"

definition gid :: "dynamic_user \<Rightarrow> nat" where
  "gid u = du_uid u"

definition drop_user :: "dynamic_user \<Rightarrow> string list \<Rightarrow> string list" where
  "drop_user u locks = filter (\<lambda>l. l \<noteq> du_lock u) locks"

section \<open>What the locks exclude\<close>

lemma takeWhile_digits: "\<forall>c \<in> set a. is_digit c \<Longrightarrow> takeWhile is_digit (a @ ''-'' @ s) = a"
  by (induction a) (simp_all add: is_digit_def)

lemma lock_name_eq: "lock_name u a = lock_name v b \<longleftrightarrow> u = v \<and> a = b"
proof
  assume l: "lock_name u a = lock_name v b"
  then have "takeWhile is_digit (lock_name u a) = takeWhile is_digit (lock_name v b)" by simp
  then have "show_nat u = show_nat v"
    unfolding lock_name_def using takeWhile_digits show_nat_digits by metis
  then show "u = v \<and> a = b" using l show_nat_inj by (simp add: lock_name_def)
qed (simp add: lock_name_def)

text \<open>
  C26: Two services can be given the same user.  A lock file carries the name of the service beside the
  identifier, so the locks of other services exclude nothing: whatever locks other services hold, a
  service that holds none is given the first identifier of the range, so every service that runs with
  one dynamic user gets the very same identifier.
\<close>

theorem dynamic_users_collide:
  assumes "lo_dir_ok os" "\<forall>n. lo_open_ok os n"
    and "\<forall>l \<in> set locks. \<exists>uid other. l = lock_name uid other \<and> other \<noteq> service_name"
  shows "\<exists>u locks'. allocate_in os service_name locks = (Inr u, locks') \<and> du_uid u = DYNAMIC_UID_MIN
    \<and> locks' = lock_name DYNAMIC_UID_MIN service_name # locks"
proof -
  have "lock_name DYNAMIC_UID_MIN service_name \<notin> set locks" using assms(3) lock_name_eq by metis
  moreover have "[DYNAMIC_UID_MIN..<DYNAMIC_UID_MAX + 1] = DYNAMIC_UID_MIN # [Suc DYNAMIC_UID_MIN..<DYNAMIC_UID_MAX + 1]"
    by (rule upt_conv_Cons) (simp add: DYNAMIC_UID_MIN_def DYNAMIC_UID_MAX_def)
  ultimately show ?thesis using assms(1,2) by (simp add: allocate_in_def Let_def)
qed

theorem dynamic_users_collide_witness:
  "\<exists>u v l1 l2. allocate_in \<lparr> lo_dir_ok = True, lo_open_ok = (\<lambda>_. True) \<rparr> ''a'' [] = (Inr u, l1)
    \<and> allocate_in \<lparr> lo_dir_ok = True, lo_open_ok = (\<lambda>_. True) \<rparr> ''b'' l1 = (Inr v, l2)
    \<and> du_uid u = du_uid v"
proof -
  let ?os = "\<lparr> lo_dir_ok = True, lo_open_ok = (\<lambda>_. True) \<rparr>"
  obtain u where u: "allocate_in ?os ''a'' [] = (Inr u, [lock_name DYNAMIC_UID_MIN ''a''])" "du_uid u = DYNAMIC_UID_MIN"
    using dynamic_users_collide [of ?os "[]" "''a''"] by auto
  have "\<forall>l \<in> set [lock_name DYNAMIC_UID_MIN ''a'']. \<exists>uid other. l = lock_name uid other \<and> other \<noteq> ''b''" by auto
  then obtain v l2 where "allocate_in ?os ''b'' [lock_name DYNAMIC_UID_MIN ''a''] = (Inr v, l2)" "du_uid v = DYNAMIC_UID_MIN"
    using dynamic_users_collide [of ?os "[lock_name DYNAMIC_UID_MIN ''a'']" "''b''"] by auto
  then show ?thesis using u by metis
qed

end
