(* ===== verification/Spec2Isabelle.thy ===== *)
theory Spec2Isabelle
  imports JobSched Deps Duration ClientFacts UnitFile LoaderFacts EnableFacts JournalFacts DynamicUser
begin

text \<open>
  Verification of rustd, an init system and service manager with its journal daemon.

  \<^bold>\<open>The program.\<close>  The manager (\<open>src/src/manager.rs\<close>) keeps a table of unit records and a queue of jobs
  (\<open>job.rs\<close>).  Clients reach it over a control socket (\<open>ipc.rs\<close>, \<open>ipc_server.rs\<close>) and over D-Bus
  (\<open>dbus/\<close>); both only place jobs and requests, which a round of the main loop picks up.  A start resolves
  the dependencies of a unit (\<open>deps.rs\<close>) and runs its service (\<open>service.rs\<close>): commands, notifications
  (\<open>notify.rs\<close>), exits, kill policy (\<open>kill_context.rs\<close>), timeouts and restarts (\<open>restart.rs\<close>).  Units come
  from the loader (\<open>unit/loader.rs\<close>), which reads unit files and drop-ins, expands specifiers and fills one
  section record per kind of unit.  Installing units (\<open>unit/enable_state.rs\<close>) edits the link farms in the
  control directories the loader reads.  The journal daemon (\<open>journal/\<close>) takes the output of services.

  \<^bold>\<open>Theories.\<close>
  \<^item> \<open>Prelude\<close>, \<open>RustStr\<close>: bounded integers, ordered maps and sets, iterators, and the parts of \<open>str\<close> and
    number parsing the program uses; the locales \<open>finite_map_ops\<close> and \<open>invariant_system\<close>.
  \<^item> \<open>Units\<close>, \<open>Job\<close>, \<open>JobSched\<close>: unit states, and the job registry and queue.  \<open>JobSched\<close> shows the queue
    invariant, the exact ordering graph, that a job handed out has no live predecessor, that the queue
    makes progress unless \<open>After=\<close> has a cycle, and that the signals of a job form a well-formed stream.
  \<^item> \<open>Deps\<close>: the resolver.  The start order is correct, complete and closed, and its failure is
    characterised.
  \<^item> \<open>Duration\<close>, \<open>UnitSection\<close>, \<open>ExecCommand\<close>, \<open>Rlimits\<close>, \<open>ResourceControl\<close>, \<open>ServiceSection\<close>, \<open>UnitKinds\<close>:
    the values and sections of unit files, one apply function per section, with round trips and bounds.
  \<^item> \<open>UnitFile\<close>: the tokeniser, specifiers and the escaping of paths (\<open>unit/ini.rs\<close>, \<open>unit/specifier.rs\<close>).
  \<^item> \<open>Loader\<close>, \<open>LoaderFacts\<close>: the loader; which file wins, what dependency directories add, the order of
    drop-ins, automounts and slices.
  \<^item> \<open>Glob\<close>, \<open>FileTree\<close>, \<open>EnableState\<close>, \<open>EnableFacts\<close>: the matcher (\<open>glob.rs\<close>) with its language, a file tree,
    and the installation of unit files: the loops over \<open>Also=\<close> end, enabling leaves the links it promises,
    disabling removes exactly the links of the units it reaches, and masks can be undone.
  \<^item> \<open>World\<close>, \<open>KillRestart\<close>, \<open>Service\<close>, \<open>ServiceRuns\<close>: the operating system as a log of effects with answers,
    the kill policy and the restart decisions, and the state machine of a service with its invariant.
  \<^item> \<open>Notify\<close>: the notification server; early messages are kept and delivered to their unit.
  \<^item> \<open>Manager\<close>, \<open>ManagerRuns\<close>, \<open>ManagerFacts\<close>: the handlers of the manager and the rounds of its loop.  Every
    handler is a sequence of primitive steps, the invariant is proved for these, and so holds for any
    interleaving of rounds and clients; the manager refines the job system and the service records.
  \<^item> \<open>Clients\<close>, \<open>ClientFacts\<close>: the control socket and the job methods of D-Bus; framing and authorisation.
  \<^item> \<open>Journal\<close>, \<open>JournalFacts\<close>: the journal daemon: ring, datagrams, streams, sink and vacuum.
  \<^item> \<open>DynamicUser\<close>: the allocation of user identifiers (\<open>dynamic_user.rs\<close>).

  \<^bold>\<open>State and errors.\<close>  A struct is a record, an enum a datatype, a handler a function from a state to a
  state; \<open>Result\<close> is a sum with the error on the left, and a panic is a value of its own.  A hash map is a
  partial function, and where the code iterates over one the order is an argument.  Effects on the
  operating system are appended to a log and their outcome is an answer that may depend on the log.

  \<^bold>\<open>Bounds and fuel.\<close>  \<open>resolve\<close> carries fuel, and one unit of fuel for each unit that can be reached is
  shown to be enough.  The loops that follow \<open>Also=\<close> are partial functions that are shown to return.
  \<open>resolve_links\<close> and \<open>follow\<close> are bounded by the forty links the source and the kernel allow, and the
  message loop of a stream by the limit of the source.  Fixed-width integers are natural numbers with
  their bounds; additions saturate, are checked or overflow as in the source.  Strings have characters up
  to U+00FF, in \<open>Journal\<close> they are byte lists; an \<open>f64\<close> is a fraction rounded to 53 bits.

  \<^bold>\<open>Not modelled.\<close>  Event sources, sockets, timers, mounts, control groups and sandboxing are system calls
  with no state of their own; the job scorer is floating-point learning whose result is arbitrary here.
  Transport and properties of D-Bus are served by a library outside the sources.  Re-execution,
  set-property requests and reloading of unit files are left out of the manager; revert and the listing of
  links out of the installation.  Boot, the device and login managers and the command-line tools are
  separate programs.  A link to a directory on the way to an entry is not followed in \<open>FileTree\<close>.
\<close>

end
